(* ===== verification/Go_Prelude.thy ===== *)
theory Go_Prelude
  imports Main "HOL-Library.State_Monad" "HOL-Library.Sublist"
begin

text \<open>
  The vocabulary every component shares: Go's error values and their wrapping, the result type of
  fallible functions, the \<^verbatim>\<open>strings\<close> and \<^verbatim>\<open>strconv\<close> functions the repository calls, the state
  monad in which effectful code is written, and the generic lemmas on lists and maps that the
  component proofs use.
\<close>

section \<open>Hint collections\<close>

named_theorems go_defs \<open>definitions of one-line helpers, unfolded when a program is evaluated\<close>
named_theorems mem_simps \<open>how an operation on the pool's memory changes each component\<close>

section \<open>Errors\<close>

text \<open>
  \<^verbatim>\<open>errors.New\<close> sentinels are constructors of their own; \<open>ErrMsg\<close> is any other leaf error;
  \<open>Wrap pre e post\<close> is \<^verbatim>\<open>fmt.Errorf("pre%wpost", e)\<close>.
\<close>

datatype goerr =
    ErrCapacityExhausted
  | ErrPoolClosed
  | ErrMsg string
  | Wrap string goerr string

text \<open>Line numbers refer to \<^verbatim>\<open>internal/pool/errors.go\<close>: the two sentinel texts.\<close>

primrec err_text :: "goerr \<Rightarrow> string" where
  "err_text ErrCapacityExhausted = ''capacity_exhausted: all sentries busy and pending queue full''"
| "err_text ErrPoolClosed = ''pool_closed: pool is shutting down''"
| "err_text (ErrMsg s) = s"
| "err_text (Wrap pre e post) = pre @ err_text e @ post"

text \<open>\<^verbatim>\<open>errors.Is\<close>: the error itself or one it wraps.\<close>

primrec errors_is :: "goerr \<Rightarrow> goerr \<Rightarrow> bool" where
  "errors_is ErrCapacityExhausted t = (t = ErrCapacityExhausted)"
| "errors_is ErrPoolClosed t = (t = ErrPoolClosed)"
| "errors_is (ErrMsg s) t = (t = ErrMsg s)"
| "errors_is (Wrap pre e post) t = (t = Wrap pre e post \<or> errors_is e t)"

lemma errors_is_refl [simp]: "errors_is e e"
  by (cases e) auto

type_synonym 'a result = "goerr + 'a"

section \<open>The state monad\<close>

text \<open>
  Code that touches memory or the outside world is written in the state monad of
  \<^theory_text>\<open>HOL-Library.State_Monad\<close>; a Go error return is a value of type \<open>goerr option\<close> or
  \<open>'a result\<close>, and each \<^verbatim>\<open>if err != nil\<close> of the source is a \<open>case\<close>.
\<close>

abbreviation ret :: "'a \<Rightarrow> ('s, 'a) state" where
  "ret \<equiv> State_Monad.return"

definition gets :: "('s \<Rightarrow> 'a) \<Rightarrow> ('s, 'a) state" where
  "gets f = State (\<lambda>s. (f s, s))"

definition modify :: "('s \<Rightarrow> 's) \<Rightarrow> ('s, unit) state" where
  "modify f = State (\<lambda>s. ((), f s))"

definition stateful :: "('s \<Rightarrow> 'a \<times> 's) \<Rightarrow> ('s, 'a) state" where
  "stateful f = State f"

lemma run_gets [simp]: "run_state (gets f) s = (f s, s)"
  by (simp add: gets_def)

lemma run_modify [simp]: "run_state (modify f) s = ((), f s)"
  by (simp add: modify_def)

lemma run_stateful [simp]: "run_state (stateful f) s = f s"
  by (simp add: stateful_def)

text \<open>A Hoare triple for the monad: from \<open>P\<close>, running \<open>m\<close> ends in \<open>Q\<close> of its result.\<close>

definition triple :: "('s \<Rightarrow> bool) \<Rightarrow> ('s, 'a) state \<Rightarrow> ('a \<Rightarrow> 's \<Rightarrow> bool) \<Rightarrow> bool" where
  "triple P m Q \<longleftrightarrow> (\<forall>s. P s \<longrightarrow> (case run_state m s of (a, s') \<Rightarrow> Q a s'))"

lemma tripleI: "(\<And>s a s'. P s \<Longrightarrow> run_state m s = (a, s') \<Longrightarrow> Q a s') \<Longrightarrow> triple P m Q"
  by (auto simp: triple_def)

lemma tripleD: "triple P m Q \<Longrightarrow> P s \<Longrightarrow> run_state m s = (a, s') \<Longrightarrow> Q a s'"
  by (auto simp: triple_def)

lemma triple_return [intro]: "(\<And>s. P s \<Longrightarrow> Q a s) \<Longrightarrow> triple P (ret a) Q"
  by (simp add: triple_def)

lemma triple_bind:
  "triple P m R \<Longrightarrow> (\<And>a. triple (R a) (f a) Q) \<Longrightarrow> triple P (m \<bind> f) Q"
  by (fastforce simp: triple_def split: prod.splits)

lemma triple_conseq:
  "triple P m Q \<Longrightarrow> (\<And>s. P' s \<Longrightarrow> P s) \<Longrightarrow> (\<And>a s. Q a s \<Longrightarrow> Q' a s) \<Longrightarrow> triple P' m Q'"
  by (fastforce simp: triple_def split: prod.splits)

section \<open>Strings\<close>

text \<open>Go strings are byte sequences: lists of characters. Indexing counts bytes.\<close>

definition has_prefix :: "string \<Rightarrow> string \<Rightarrow> bool" where
  "has_prefix s p = (take (length p) s = p)"

definition has_suffix :: "string \<Rightarrow> string \<Rightarrow> bool" where
  "has_suffix s p = (length p \<le> length s \<and> drop (length s - length p) s = p)"

fun str_contains :: "string \<Rightarrow> string \<Rightarrow> bool" where
  "str_contains [] sub = (sub = [])"
| "str_contains (c # s) sub = (has_prefix (c # s) sub \<or> str_contains s sub)"

text \<open>\<^verbatim>\<open>strings.ReplaceAll\<close> with a one-byte old and new text.\<close>

definition replace_byte :: "char \<Rightarrow> char \<Rightarrow> string \<Rightarrow> string" where
  "replace_byte old new = map (\<lambda>c. if c = old then new else c)"

fun str_join :: "string list \<Rightarrow> string \<Rightarrow> string" where
  "str_join [] sep = []"
| "str_join [x] sep = x"
| "str_join (x # y # xs) sep = x @ sep @ str_join (y # xs) sep"

text \<open>\<^verbatim>\<open>strings.Index\<close> of a one-byte pattern: the position, or nothing where Go returns -1.\<close>

fun index_byte :: "string \<Rightarrow> char \<Rightarrow> nat option" where
  "index_byte [] c = None"
| "index_byte (x # xs) c = (if x = c then Some 0 else map_option Suc (index_byte xs c))"

lemma has_prefix_iff: "has_prefix s p \<longleftrightarrow> (\<exists>r. s = p @ r)"
  unfolding has_prefix_def by (metis append_eq_conv_conj append_take_drop_id)

lemma has_prefix_append [simp]: "has_prefix (p @ r) p"
  by (simp add: has_prefix_def)

lemma has_suffix_iff: "has_suffix s p \<longleftrightarrow> (\<exists>r. s = r @ p)"
proof
  assume "has_suffix s p"
  then show "\<exists>r. s = r @ p"
    unfolding has_suffix_def by (metis append_take_drop_id)
qed (auto simp: has_suffix_def)

lemma length_replace_byte [simp]: "length (replace_byte a b s) = length s"
  by (simp add: replace_byte_def)

lemma replace_byte_append [simp]:
  "replace_byte a b (s @ t) = replace_byte a b s @ replace_byte a b t"
  by (simp add: replace_byte_def)

lemma replace_byte_gone: "a \<noteq> b \<Longrightarrow> a \<notin> set (replace_byte a b s)"
  by (auto simp: replace_byte_def)

lemma index_byte_split:
  "index_byte s c = Some i \<Longrightarrow> s = take i s @ c # drop (Suc i) s \<and> c \<notin> set (take i s)"
  by (induction s arbitrary: i) (auto split: if_splits)

lemma index_byte_append [simp]:
  "c \<notin> set s \<Longrightarrow> index_byte (s @ c # t) c = Some (length s)"
  by (induction s) auto

lemma index_byte_None: "index_byte s c = None \<longleftrightarrow> c \<notin> set s"
  by (induction s) auto

subsection \<open>Decimal numerals\<close>

definition digit_char :: "nat \<Rightarrow> char" where
  "digit_char d = ''0123456789'' ! d"

fun nat_str :: "nat \<Rightarrow> string" where
  "nat_str n = (if n < 10 then [digit_char n] else nat_str (n div 10) @ [digit_char (n mod 10)])"

declare nat_str.simps [simp del]

text \<open>\<^verbatim>\<open>strconv.Itoa\<close>, \<^verbatim>\<open>strconv.FormatInt\<close> in base 10 and the \<^verbatim>\<open>%d\<close> verb.\<close>

definition itoa :: "int \<Rightarrow> string" where
  "itoa i = (if i < 0 then CHR ''-'' # nat_str (nat (- i)) else nat_str (nat i))"

definition str_nat :: "string \<Rightarrow> nat" where
  "str_nat = foldl (\<lambda>n c. 10 * n + (of_char c - 48)) 0"

lemma digit_char_value: "d < 10 \<Longrightarrow> (of_char (digit_char d) :: nat) = 48 + d"
  by (auto simp: digit_char_def numeral_eq_Suc less_Suc_eq)

lemma digit_char_set: "d < 10 \<Longrightarrow> digit_char d \<in> set ''0123456789''"
  unfolding digit_char_def by (rule nth_mem) simp

lemma str_nat_nat_str: "str_nat (nat_str n) = n"
proof (induction n rule: nat_str.induct)
  case (1 n)
  show ?case
  proof (cases "n < 10")
    case True
    then show ?thesis
      by (simp add: nat_str.simps [of n] str_nat_def digit_char_value)
  next
    case False
    with 1 have "str_nat (nat_str (n div 10)) = n div 10" by simp
    with False show ?thesis
      by (simp add: nat_str.simps [of n] str_nat_def digit_char_value)
  qed
qed

lemma nat_str_inject [simp]: "nat_str m = nat_str n \<longleftrightarrow> m = n"
  by (metis str_nat_nat_str)

lemma nat_str_not_Nil [simp]: "nat_str n \<noteq> []"
  by (subst nat_str.simps) simp

lemma nat_str_chars: "(\<And>d. d < 10 \<Longrightarrow> digit_char d \<in> D) \<Longrightarrow> set (nat_str n) \<subseteq> D"
proof (induction n rule: nat_str.induct)
  case (1 n)
  then show ?case
    by (cases "n < 10") (simp_all add: nat_str.simps [of n])
qed

lemma set_nat_str: "set (nat_str n) \<subseteq> set ''0123456789''"
  by (rule nat_str_chars) (rule digit_char_set)

section \<open>Lists and counts\<close>

text \<open>Goroutines are a list of program points; the invariants count those of a kind.\<close>

definition count_if :: "('a \<Rightarrow> bool) \<Rightarrow> 'a list \<Rightarrow> nat" where
  "count_if P xs = length (filter P xs)"

lemma count_if_simps [simp]:
  "count_if P [] = 0"
  "count_if P (x # xs) = (if P x then Suc (count_if P xs) else count_if P xs)"
  "count_if P (xs @ ys) = count_if P xs + count_if P ys"
  by (auto simp: count_if_def)

lemma count_if_update:
  "i < length xs \<Longrightarrow>
     count_if P (xs[i := y]) + (if P (xs ! i) then 1 else 0) = count_if P xs + (if P y then 1 else 0)"
proof (induction xs arbitrary: i)
  case (Cons x xs)
  then show ?case by (cases i) auto
qed simp

lemma count_if_pos: "i < length xs \<Longrightarrow> P (xs ! i) \<Longrightarrow> 0 < count_if P xs"
  unfolding count_if_def by (meson filter_empty_conv length_greater_0_conv nth_mem)

lemma count_if_zero: "count_if P xs = 0 \<longleftrightarrow> (\<forall>x \<in> set xs. \<not> P x)"
  by (auto simp: count_if_def filter_empty_conv)

lemma count_if_cong: "(\<And>x. x \<in> set xs \<Longrightarrow> P x = Q x) \<Longrightarrow> count_if P xs = count_if Q xs"
  unfolding count_if_def by (metis filter_cong)

lemma count_if_mono: "(\<And>x. x \<in> set xs \<Longrightarrow> P x \<Longrightarrow> Q x) \<Longrightarrow> count_if P xs \<le> count_if Q xs"
  by (induction xs) (auto simp: le_SucI)

end
