(* ===== verification/Go_Path.thy ===== *)
theory Go_Path
  imports Go_Prelude
begin

text \<open>
  The functions of Go's \<^verbatim>\<open>path/filepath\<close> that the repository uses, on Unix paths: \<^verbatim>\<open>Clean\<close>,
  \<^verbatim>\<open>Join\<close>, \<^verbatim>\<open>Dir\<close>, \<^verbatim>\<open>Base\<close> and \<^verbatim>\<open>Abs\<close>. A path is cut at its slashes and the elements are put
  on a stack, which is the documented lexical behaviour. The lemmas characterise the byte prefix
  test on two cleaned paths by a prefix test on their elements.
\<close>

section \<open>Definitions\<close>

fun split_slash :: "string \<Rightarrow> string list" where
  "split_slash [] = [[]]"
| "split_slash (c # s) =
     (if c = CHR ''/'' then [] # split_slash s
      else (case split_slash s of [] \<Rightarrow> [[c]] | x # xs \<Rightarrow> (c # x) # xs))"

text \<open>One element of the path against the stack of elements kept so far (innermost first).\<close>

definition clean_push :: "bool \<Rightarrow> string list \<Rightarrow> string \<Rightarrow> string list" where
  "clean_push rooted st x =
     (if x = [] \<or> x = ''.'' then st
      else if x = ''..'' then
        (case st of
           [] \<Rightarrow> if rooted then [] else [''..'']
         | t # st' \<Rightarrow> if t = ''..'' then ''..'' # st else st')
      else x # st)"

definition is_abs :: "string \<Rightarrow> bool" where
  "is_abs p = has_prefix p ''/''"

definition clean_elems :: "string \<Rightarrow> string list" where
  "clean_elems p = rev (foldl (clean_push (is_abs p)) [] (split_slash p))"

definition path_clean :: "string \<Rightarrow> string" where
  "path_clean p =
     (if is_abs p then ''/'' @ str_join (clean_elems p) ''/''
      else if clean_elems p = [] then ''.''
      else str_join (clean_elems p) ''/'')"

definition path_join :: "string list \<Rightarrow> string" where
  "path_join ps =
     (case dropWhile (\<lambda>p. p = []) ps of [] \<Rightarrow> [] | qs \<Rightarrow> path_clean (str_join qs ''/''))"

definition path_dir :: "string \<Rightarrow> string" where
  "path_dir p = path_clean (rev (dropWhile (\<lambda>c. c \<noteq> CHR ''/'') (rev p)))"

text \<open>\<^verbatim>\<open>filepath.Abs\<close>; \<open>wd\<close> is what \<^verbatim>\<open>os.Getwd\<close> answers.\<close>

definition path_abs :: "string result \<Rightarrow> string \<Rightarrow> string result" where
  "path_abs wd p =
     (if is_abs p then Inr (path_clean p)
      else (case wd of Inl e \<Rightarrow> Inl e | Inr d \<Rightarrow> Inr (path_join [d, p])))"

section \<open>Elements of a path\<close>

definition good_elem :: "string \<Rightarrow> bool" where
  "good_elem x \<longleftrightarrow> x \<noteq> [] \<and> CHR ''/'' \<notin> set x \<and> x \<noteq> ''.''"

lemma split_slash_not_Nil [simp]: "split_slash s \<noteq> []"
  by (induction s) (auto split: list.splits)

lemma split_slash_no_slash: "x \<in> set (split_slash s) \<Longrightarrow> CHR ''/'' \<notin> set x"
  by (induction s arbitrary: x) (auto split: list.splits if_splits)

lemma split_slash_elem: "CHR ''/'' \<notin> set x \<Longrightarrow> split_slash x = [x]"
  by (induction x) auto

lemma split_slash_append:
  "split_slash (s @ CHR ''/'' # t) = split_slash s @ split_slash t"
  by (induction s) (auto split: list.splits)

lemma split_slash_join:
  "(\<And>x. x \<in> set xs \<Longrightarrow> CHR ''/'' \<notin> set x) \<Longrightarrow> xs \<noteq> [] \<Longrightarrow> split_slash (str_join xs ''/'') = xs"
  by (induction xs "''/''" rule: str_join.induct)
     (auto simp: split_slash_elem split_slash_append)

lemma good_elemI: "x \<noteq> [] \<Longrightarrow> CHR ''/'' \<notin> set x \<Longrightarrow> x \<noteq> ''.'' \<Longrightarrow> good_elem x"
  by (simp add: good_elem_def)

lemma good_elem_dotdot [simp]: "good_elem ''..''"
  by (simp add: good_elem_def)

lemma clean_push_good:
  "\<forall>y \<in> set st. good_elem y \<Longrightarrow> CHR ''/'' \<notin> set x \<Longrightarrow> \<forall>y \<in> set (clean_push r st x). good_elem y"
  unfolding clean_push_def by (cases st) (auto intro: good_elemI simp del: list.set_intros)

lemma foldl_clean_push_good:
  "\<forall>y \<in> set st. good_elem y \<Longrightarrow> \<forall>x \<in> set xs. CHR ''/'' \<notin> set x \<Longrightarrow>
     \<forall>y \<in> set (foldl (clean_push r) st xs). good_elem y"
proof (induction xs arbitrary: st)
  case (Cons x xs)
  then have "\<forall>y \<in> set (clean_push r st x). good_elem y"
    by (intro clean_push_good) auto
  with Cons show ?case by simp
qed simp

lemma clean_elems_good: "x \<in> set (clean_elems p) \<Longrightarrow> good_elem x"
  unfolding clean_elems_def
  using foldl_clean_push_good [of "[]" "split_slash p"] split_slash_no_slash by simp

lemma clean_push_rooted: "''..'' \<notin> set st \<Longrightarrow> ''..'' \<notin> set (clean_push True st x)"
  by (auto simp: clean_push_def split: list.splits)

lemma foldl_clean_push_rooted:
  "''..'' \<notin> set st \<Longrightarrow> ''..'' \<notin> set (foldl (clean_push True) st xs)"
  by (induction xs arbitrary: st) (auto simp: clean_push_rooted)

text \<open>A cleaned absolute path has no parent references left.\<close>

lemma clean_elems_rooted: "is_abs p \<Longrightarrow> ''..'' \<notin> set (clean_elems p)"
  by (simp add: clean_elems_def foldl_clean_push_rooted)

lemma foldl_clean_push_id:
  "(\<And>x. x \<in> set xs \<Longrightarrow> good_elem x \<and> x \<noteq> ''..'') \<Longrightarrow> foldl (clean_push r) st xs = rev xs @ st"
proof (induction xs arbitrary: st)
  case (Cons x xs)
  then have "clean_push r st x = x # st"
    by (auto simp: clean_push_def good_elem_def)
  with Cons show ?case by simp
qed simp

section \<open>Cleaned paths as bytes\<close>

lemma is_abs_Cons [simp]: "is_abs (CHR ''/'' # s)"
  by (simp add: is_abs_def has_prefix_def)

lemma is_abs_clean [simp]: "is_abs p \<Longrightarrow> is_abs (path_clean p)"
  by (simp add: path_clean_def)

lemma clean_elems_of_abs:
  assumes "\<And>x. x \<in> set xs \<Longrightarrow> good_elem x \<and> x \<noteq> ''..''"
  shows "clean_elems (''/'' @ str_join xs ''/'') = xs"
proof (cases "xs = []")
  case True
  then show ?thesis by (simp add: clean_elems_def clean_push_def)
next
  case False
  then have "split_slash (str_join xs ''/'') = xs"
    using assms by (intro split_slash_join) (auto simp: good_elem_def)
  then have "clean_elems (''/'' @ str_join xs ''/'') = rev (foldl (clean_push True) [] ([] # xs))"
    by (simp add: clean_elems_def)
  also have "\<dots> = xs"
    using assms by (simp add: foldl_clean_push_id clean_push_def)
  finally show ?thesis .
qed

lemma clean_elems_clean: "is_abs p \<Longrightarrow> clean_elems (path_clean p) = clean_elems p"
  using clean_elems_of_abs [of "clean_elems p"] clean_elems_good clean_elems_rooted
  by (auto simp: path_clean_def)

lemma path_clean_idem: "is_abs p \<Longrightarrow> path_clean (path_clean p) = path_clean p"
  by (simp add: path_clean_def [of "path_clean p"] clean_elems_clean) (simp add: path_clean_def)

lemma path_clean_inject:
  "is_abs p \<Longrightarrow> is_abs q \<Longrightarrow> path_clean p = path_clean q \<longleftrightarrow> clean_elems p = clean_elems q"
  using clean_elems_clean by (metis path_clean_def)

lemma str_join_Cons: "xs \<noteq> [] \<Longrightarrow> str_join (x # xs) sep = x @ sep @ str_join xs sep"
  by (cases xs) auto

lemma slash_free_append_eq:
  assumes "CHR ''/'' \<notin> set a" and "CHR ''/'' \<notin> set b" and "a @ CHR ''/'' # s = b @ CHR ''/'' # t"
  shows "a = b \<and> s = t"
  using assms by (metis append_eq_append_conv index_byte_append list.inject option.inject)

lemma slash_free_append_not:
  "CHR ''/'' \<notin> set b \<Longrightarrow> a @ CHR ''/'' # s \<noteq> b"
  by auto

text \<open>
  A byte prefix that ends in a slash is a prefix of elements: the separator cannot fall inside
  an element.
\<close>

lemma str_join_prefix_imp:
  assumes "\<And>x. x \<in> set ds \<Longrightarrow> CHR ''/'' \<notin> set x" and "\<And>x. x \<in> set cs \<Longrightarrow> CHR ''/'' \<notin> set x"
    and "ds \<noteq> []" and "str_join cs ''/'' = str_join ds ''/'' @ ''/'' @ r"
  shows "\<exists>es. es \<noteq> [] \<and> cs = ds @ es"
  using assms
proof (induction ds arbitrary: cs)
  case (Cons d ds)
  note prems = Cons.prems
  obtain c cs' where cs: "cs = c # cs'" using prems(4) by (cases cs) auto
  have c: "CHR ''/'' \<notin> set c" and d: "CHR ''/'' \<notin> set d" using prems(1,2) cs by auto
  have head: "\<exists>t. str_join (d # ds) ''/'' @ ''/'' @ r = d @ CHR ''/'' # t"
    by (cases ds) (auto simp: str_join_Cons)
  have cs': "cs' \<noteq> []"
  proof
    assume "cs' = []"
    with prems(4) cs head obtain t where "d @ CHR ''/'' # t = c" by auto
    with slash_free_append_not [OF c] show False by blast
  qed
  have eq: "c @ CHR ''/'' # str_join cs' ''/'' = str_join (d # ds) ''/'' @ ''/'' @ r"
    using prems(4) cs cs' by (simp add: str_join_Cons)
  show ?case
  proof (cases ds)
    case Nil
    then have "c = d" using slash_free_append_eq [OF c d] eq by simp
    with cs cs' Nil show ?thesis by simp
  next
    case (Cons d' ds')
    then have "c = d \<and> str_join cs' ''/'' = str_join ds ''/'' @ ''/'' @ r"
      using slash_free_append_eq [OF c d] eq by (simp add: str_join_Cons)
    then show ?thesis
      using Cons.IH [of cs'] prems(1,2) cs \<open>ds = d' # ds'\<close> by simp
  qed
qed simp

lemma str_join_append:
  "ds \<noteq> [] \<Longrightarrow> es \<noteq> [] \<Longrightarrow> str_join (ds @ es) sep = str_join ds sep @ sep @ str_join es sep"
proof (induction ds)
  case (Cons d ds)
  then show ?case by (cases "ds = []") (simp_all add: str_join_Cons)
qed simp

text \<open>
  The test the code makes on two cleaned absolute paths, \<^verbatim>\<open>HasPrefix(abs, dir+"/")\<close>, holds exactly
  when the elements of the directory are a proper prefix of the path's, except that nothing is
  found under the root directory, whose cleaned text already ends in the slash.
\<close>

lemma clean_prefix_iff:
  assumes "is_abs p" and "is_abs d"
  shows "has_prefix (path_clean p) (path_clean d @ ''/'') \<longleftrightarrow>
           clean_elems d \<noteq> [] \<and> strict_prefix (clean_elems d) (clean_elems p)"
proof -
  let ?cs = "clean_elems p" and ?ds = "clean_elems d"
  have good: "\<And>x. x \<in> set ?cs \<Longrightarrow> good_elem x" "\<And>x. x \<in> set ?ds \<Longrightarrow> good_elem x"
    by (auto dest: clean_elems_good)
  have unfold: "has_prefix (path_clean p) (path_clean d @ ''/'') \<longleftrightarrow>
      (\<exists>r. str_join ?cs ''/'' = str_join ?ds ''/'' @ ''/'' @ r)"
    using assms by (simp add: has_prefix_iff path_clean_def)
  show ?thesis
  proof (cases "?ds = []")
    case True
    have "str_join ?cs ''/'' \<noteq> CHR ''/'' # r" for r
    proof (cases ?cs)
      case (Cons c cs)
      with good(1) [of c] show ?thesis
        by (cases c; cases cs) (auto simp: good_elem_def)
    qed simp
    with True unfold show ?thesis by simp
  next
    case False
    have "(\<exists>r. str_join ?cs ''/'' = str_join ?ds ''/'' @ ''/'' @ r) \<longleftrightarrow> (\<exists>es. es \<noteq> [] \<and> ?cs = ?ds @ es)"
      (is "?L \<longleftrightarrow> ?R")
    proof
      assume ?L
      then obtain r where "str_join ?cs ''/'' = str_join ?ds ''/'' @ ''/'' @ r" by blast
      with good False show ?R
        by (intro str_join_prefix_imp [of ?ds ?cs r]) (simp_all add: good_elem_def)
    next
      assume ?R
      then obtain es where "es \<noteq> []" and "?cs = ?ds @ es" by blast
      with str_join_append [OF False, of es "''/''"] show ?L by metis
    qed
    with unfold False show ?thesis by (metis prefix_def strict_prefix_def append_Nil2 same_append_eq)
  qed
qed

lemma path_abs_of_abs [simp]: "is_abs p \<Longrightarrow> path_abs wd p = Inr (path_clean p)"
  by (simp add: path_abs_def)

end
