(* ===== verification/Go_Quote.thy ===== *)
theory Go_Quote
  imports Go_Prelude
begin

text \<open>
  Go's quoted strings: \<^verbatim>\<open>strconv.Quote\<close>, which is what the \<^verbatim>\<open>%q\<close> verb of \<^verbatim>\<open>fmt\<close> prints, and the
  reader of such a literal (the escapes that Go, Python and JavaScript have in common). Bytes
  beyond ASCII are passed through, as \<^verbatim>\<open>Quote\<close> does for printable UTF-8 text.
\<close>

definition hex_digit :: "nat \<Rightarrow> char" where
  "hex_digit d = ''0123456789abcdef'' ! d"

text \<open>Two lower-case hexadecimal digits: \<^verbatim>\<open>%02x\<close> of a byte.\<close>

definition hex_byte :: "nat \<Rightarrow> string" where
  "hex_byte n = [hex_digit (n div 16 mod 16), hex_digit (n mod 16)]"

definition quote_char :: "char \<Rightarrow> string" where
  "quote_char c =
     (let n = (of_char c :: nat) in
      if c = CHR 0x22 \<or> c = CHR 0x5C then [CHR 0x5C, c]
      else if n = 7 then [CHR 0x5C, CHR ''a'']
      else if n = 8 then [CHR 0x5C, CHR ''b'']
      else if n = 12 then [CHR 0x5C, CHR ''f'']
      else if n = 10 then [CHR 0x5C, CHR ''n'']
      else if n = 13 then [CHR 0x5C, CHR ''r'']
      else if n = 9 then [CHR 0x5C, CHR ''t'']
      else if n = 11 then [CHR 0x5C, CHR ''v'']
      else if n < 32 \<or> n = 127 then [CHR 0x5C, CHR ''x''] @ hex_byte n
      else [c])"

definition go_quote :: "string \<Rightarrow> string" where
  "go_quote s = [CHR 0x22] @ concat (map quote_char s) @ [CHR 0x22]"

end
