(* ===== verification/Config.thy ===== *)
theory Config
  imports Go_Path Go_Quote "HOL-Library.AList"
begin

text \<open>
  \<^verbatim>\<open>internal/config/config.go\<close>: the configuration tree, its validation, the checkpoint allowlist
  and the flattening of templates into workloads. A Go map is an association list in the order
  the runtime happens to iterate it. Durations are nanoseconds. Field names keep the source's
  names behind a prefix per struct.
\<close>

section \<open>The configuration tree\<close>

record daemon_config =
  dc_Socket :: string
  dc_SocketMode :: string
  dc_SocketGroup :: string
  dc_PIDFile :: string
  dc_Workdir :: string
  dc_HarnessPath :: string
  dc_CacheDir :: string
  dc_LeaseTimeout :: int
  dc_CheckpointDirs :: "string list"

record runsc_config =
  rn_Path :: string
  rn_ExtraFlags :: "string list"

record network_config =
  nw_Mode :: string
  nw_PluginDir :: string
  nw_ConfigDir :: string
  nw_Bridge :: string
  nw_Subnet :: string

record cgroup_config =
  cg_BasePath :: string
  cg_Prefix :: string

record resource_class =
  rc_Name :: string
  rc_CPUMillis :: int
  rc_MemoryMB :: int

record pool_config =
  pc_ResourceClass :: string
  pc_PoolSize :: int
  pc_MaxPending :: int
  pc_PreRestore :: bool

record template =
  tm_Rootfs :: string
  tm_Checkpoint :: string
  tm_Pools :: "pool_config list"

record limits =
  lm_MaxRestoresPerSentry :: int
  lm_MaxSentryAge :: int
  lm_MaxRSSGrowthKB :: int
  lm_MaxOpenFDs :: int
  lm_IdleTimeout :: int

record config =
  cfg_Daemon :: daemon_config
  cfg_Runsc :: runsc_config
  cfg_Network :: network_config
  cfg_Cgroup :: cgroup_config
  cfg_ResourceClasses :: "resource_class list"
  cfg_Limits :: limits
  cfg_Templates :: "(string \<times> template) list"

record workload =
  wl_Rootfs :: string
  wl_Checkpoint :: string
  wl_PoolSize :: int
  wl_MaxPending :: int
  wl_PreRestore :: bool
  wl_ResourceClass :: string

section \<open>Defaults\<close>

definition second :: int where "second = 1000000000"
definition minute :: int where "minute = 60 * second"

definition DefaultLimits :: limits where
  "DefaultLimits = \<lparr>lm_MaxRestoresPerSentry = 100, lm_MaxSentryAge = 10 * minute,
     lm_MaxRSSGrowthKB = 200 * 1024, lm_MaxOpenFDs = 512, lm_IdleTimeout = 5 * minute\<rparr>"

text \<open>The configuration \<^verbatim>\<open>Load\<close> fills in before it decodes the file over it.\<close>

definition default_config :: config where
  "default_config = \<lparr>
     cfg_Daemon = \<lparr>
       dc_Socket = ''/run/gvisord/gvisord.sock'', dc_SocketMode = ''0600'', dc_SocketGroup = '''',
       dc_PIDFile = ''/run/gvisord/gvisord.pid'', dc_Workdir = ''/run/gvisord/sentries'',
       dc_HarnessPath = ''/var/gvisord/harness/gvisord-exec'', dc_CacheDir = ''/var/cache/gvisord'',
       dc_LeaseTimeout = 5 * minute, dc_CheckpointDirs = []\<rparr>,
     cfg_Runsc = \<lparr>rn_Path = ''/usr/local/bin/runsc'', rn_ExtraFlags = []\<rparr>,
     cfg_Network = \<lparr>nw_Mode = ''cni'', nw_PluginDir = ''/opt/cni/bin'', nw_ConfigDir = ''/etc/cni/net.d'',
       nw_Bridge = ''gvisord0'', nw_Subnet = ''10.88.0.0/16''\<rparr>,
     cfg_Cgroup = \<lparr>cg_BasePath = ''/sys/fs/cgroup'', cg_Prefix = ''gvisord''\<rparr>,
     cfg_ResourceClasses = [
       \<lparr>rc_Name = ''small'', rc_CPUMillis = 500, rc_MemoryMB = 512\<rparr>,
       \<lparr>rc_Name = ''medium'', rc_CPUMillis = 1000, rc_MemoryMB = 1024\<rparr>,
       \<lparr>rc_Name = ''large'', rc_CPUMillis = 2000, rc_MemoryMB = 4096\<rparr>],
     cfg_Limits = DefaultLimits,
     cfg_Templates = []\<rparr>"

section \<open>Operations\<close>

definition EffectiveMaxPending :: "pool_config \<Rightarrow> int" where
  "EffectiveMaxPending p =
     (if 0 < pc_MaxPending p then pc_MaxPending p
      else if 0 < pc_PoolSize p then pc_PoolSize p * 2
      else 2)"

definition hasResourceClass :: "config \<Rightarrow> string \<Rightarrow> bool" where
  "hasResourceClass c name = list_ex (\<lambda>rc. rc_Name rc = name) (cfg_ResourceClasses c)"

text \<open>The two nested loops of \<^verbatim>\<open>Validate\<close>; the first failing check returns.\<close>

fun validate_pools :: "config \<Rightarrow> string \<Rightarrow> pool_config list \<Rightarrow> goerr option" where
  "validate_pools c name [] = None"
| "validate_pools c name (p # ps) =
     (if pc_PoolSize p < 1 then
        Some (ErrMsg (''template '' @ go_quote name @ '' pool '' @ go_quote (pc_ResourceClass p)
          @ '': pool_size must be >= 1''))
      else if pc_ResourceClass p = '''' then
        Some (ErrMsg (''template '' @ go_quote name @ '': pool resource_class is required''))
      else if \<not> hasResourceClass c (pc_ResourceClass p) then
        Some (ErrMsg (''template '' @ go_quote name @ '': unknown resource_class ''
          @ go_quote (pc_ResourceClass p)))
      else validate_pools c name ps)"

fun validate_templates :: "config \<Rightarrow> (string \<times> template) list \<Rightarrow> goerr option" where
  "validate_templates c [] = None"
| "validate_templates c ((name, tmpl) # ts) =
     (if tm_Rootfs tmpl = '''' then
        Some (ErrMsg (''template '' @ go_quote name @ '': rootfs is required''))
      else if tm_Checkpoint tmpl = '''' then
        Some (ErrMsg (''template '' @ go_quote name @ '': checkpoint is required''))
      else if tm_Pools tmpl = [] then
        Some (ErrMsg (''template '' @ go_quote name @ '': at least one pool is required''))
      else
        (case validate_pools c name (tm_Pools tmpl) of
           Some e \<Rightarrow> Some e
         | None \<Rightarrow> validate_templates c ts))"

definition Validate :: "config \<Rightarrow> goerr option" where
  "Validate c =
     (if rn_Path (cfg_Runsc c) = '''' then Some (ErrMsg ''runsc.path is required'')
      else if cfg_Templates c = [] then Some (ErrMsg ''at least one template must be defined'')
      else
        (case validate_templates c (cfg_Templates c) of
           Some e \<Rightarrow> Some e
         | None \<Rightarrow>
             if nw_Mode (cfg_Network c) = ''cni'' then
               if nw_PluginDir (cfg_Network c) = '''' then
                 Some (ErrMsg ''network.plugin_dir is required when mode=cni'')
               else if nw_Subnet (cfg_Network c) = '''' then
                 Some (ErrMsg ''network.subnet is required when mode=cni'')
               else None
             else None))"

text \<open>The loop over \<^verbatim>\<open>checkpoint_dirs\<close>: a directory that cannot be made absolute is skipped.\<close>

fun under_some_dir :: "string result \<Rightarrow> string \<Rightarrow> string list \<Rightarrow> bool" where
  "under_some_dir wd p [] = False"
| "under_some_dir wd p (dir # dirs) =
     (case path_abs wd dir of
        Inl e \<Rightarrow> under_some_dir wd p dirs
      | Inr absDir \<Rightarrow>
          if has_prefix p (absDir @ ''/'') \<or> p = absDir then True
          else under_some_dir wd p dirs)"

definition ValidateCheckpointPath :: "config \<Rightarrow> string result \<Rightarrow> string \<Rightarrow> goerr option" where
  "ValidateCheckpointPath c wd path =
     (if dc_CheckpointDirs (cfg_Daemon c) = [] then None
      else
        (case path_abs wd path of
           Inl e \<Rightarrow> Some (Wrap ''resolving checkpoint path: '' e '''')
         | Inr ab \<Rightarrow>
             if under_some_dir wd ab (dc_CheckpointDirs (cfg_Daemon c)) then None
             else Some (ErrMsg (''checkpoint path '' @ go_quote path
                    @ '' is not under any allowed checkpoint_dirs''))))"

definition workload_of :: "template \<Rightarrow> pool_config \<Rightarrow> workload" where
  "workload_of tmpl p = \<lparr>wl_Rootfs = tm_Rootfs tmpl, wl_Checkpoint = tm_Checkpoint tmpl,
     wl_PoolSize = pc_PoolSize p, wl_MaxPending = EffectiveMaxPending p,
     wl_PreRestore = pc_PreRestore p, wl_ResourceClass = pc_ResourceClass p\<rparr>"

definition add_template :: "(string \<times> workload) list \<Rightarrow> string \<times> template \<Rightarrow> (string \<times> workload) list" where
  "add_template result nt =
     foldl (\<lambda>r p. AList.update (fst nt @ ''/'' @ pc_ResourceClass p) (workload_of (snd nt) p) r)
       result (tm_Pools (snd nt))"

definition Workloads :: "config \<Rightarrow> (string \<times> workload) list" where
  "Workloads c = foldl add_template [] (cfg_Templates c)"

section \<open>Facts about validation\<close>

definition pool_ok :: "config \<Rightarrow> pool_config \<Rightarrow> bool" where
  "pool_ok c p \<longleftrightarrow> 1 \<le> pc_PoolSize p \<and> pc_ResourceClass p \<noteq> '''' \<and>
     (\<exists>rc \<in> set (cfg_ResourceClasses c). rc_Name rc = pc_ResourceClass p)"

definition template_ok :: "config \<Rightarrow> template \<Rightarrow> bool" where
  "template_ok c t \<longleftrightarrow> tm_Rootfs t \<noteq> '''' \<and> tm_Checkpoint t \<noteq> '''' \<and> tm_Pools t \<noteq> [] \<and>
     (\<forall>p \<in> set (tm_Pools t). pool_ok c p)"

lemma validate_pools_None:
  "validate_pools c name ps = None \<longleftrightarrow> (\<forall>p \<in> set ps. pool_ok c p)"
  by (induction ps) (auto simp: pool_ok_def hasResourceClass_def list_ex_iff)

lemma validate_templates_None:
  "validate_templates c ts = None \<longleftrightarrow> (\<forall>nt \<in> set ts. template_ok c (snd nt))"
proof (induction ts)
  case (Cons nt ts)
  obtain name tmpl where nt: "nt = (name, tmpl)" by (cases nt)
  show ?case
    using Cons validate_pools_None [of c name "tm_Pools tmpl"]
    by (cases "validate_pools c name (tm_Pools tmpl)") (auto simp: nt template_ok_def)
qed simp

lemma EffectiveMaxPending_pos: "0 < EffectiveMaxPending p"
  by (simp add: EffectiveMaxPending_def)

lemma set_AList_update: "x \<in> set (AList.update k v al) \<Longrightarrow> x = (k, v) \<or> x \<in> set al"
  by (induction al) (auto split: if_splits)

lemma add_template_set:
  "x \<in> set (add_template r nt) \<Longrightarrow>
     x \<in> set r \<or> (\<exists>p \<in> set (tm_Pools (snd nt)). x = (fst nt @ ''/'' @ pc_ResourceClass p, workload_of (snd nt) p))"
proof -
  have "x \<in> set (foldl (\<lambda>r p. AList.update (f p) (g p) r) r ps) \<Longrightarrow>
      x \<in> set r \<or> (\<exists>p \<in> set ps. x = (f p, g p))" for f :: "pool_config \<Rightarrow> string" and g :: "pool_config \<Rightarrow> workload" and ps
    by (induction ps arbitrary: r) (auto dest: set_AList_update)
  then show "x \<in> set (add_template r nt) \<Longrightarrow> ?thesis"
    unfolding add_template_def by simp
qed

lemma Workloads_set:
  assumes "x \<in> set (Workloads c)"
  shows "\<exists>name tmpl p. (name, tmpl) \<in> set (cfg_Templates c) \<and> p \<in> set (tm_Pools tmpl) \<and>
           x = (name @ ''/'' @ pc_ResourceClass p, workload_of tmpl p)"
proof -
  have "x \<in> set (foldl add_template r ts) \<Longrightarrow> x \<in> set r \<or>
      (\<exists>nt \<in> set ts. \<exists>p \<in> set (tm_Pools (snd nt)).
         x = (fst nt @ ''/'' @ pc_ResourceClass p, workload_of (snd nt) p))" for r ts
  proof (induction ts arbitrary: r)
    case (Cons t ts)
    from Cons.IH [of "add_template r t"] Cons.prems add_template_set [of x r t] show ?case
      by (simp only: foldl_Cons list.set insert_iff bex_simps) blast
  qed simp
  from this [of "[]" "cfg_Templates c"] assms obtain nt p where
    "nt \<in> set (cfg_Templates c)" and "p \<in> set (tm_Pools (snd nt))"
    and "x = (fst nt @ ''/'' @ pc_ResourceClass p, workload_of (snd nt) p)"
    unfolding Workloads_def by auto
  then show ?thesis by (intro exI [of _ "fst nt"] exI [of _ "snd nt"] exI [of _ p]) simp
qed

section \<open>Facts about the checkpoint allowlist\<close>

definition dir_admits :: "string result \<Rightarrow> string \<Rightarrow> string \<Rightarrow> bool" where
  "dir_admits wd p dir \<longleftrightarrow>
     (\<exists>absDir. path_abs wd dir = Inr absDir \<and> (has_prefix p (absDir @ ''/'') \<or> p = absDir))"

lemma under_some_dir_iff: "under_some_dir wd p dirs \<longleftrightarrow> (\<exists>dir \<in> set dirs. dir_admits wd p dir)"
  by (induction dirs) (auto simp: dir_admits_def split: sum.splits)

lemma dir_admits_abs:
  assumes "is_abs path" and "is_abs dir"
  shows "dir_admits wd (path_clean path) dir \<longleftrightarrow>
           clean_elems path = clean_elems dir \<or>
           clean_elems dir \<noteq> [] \<and> strict_prefix (clean_elems dir) (clean_elems path)"
  using assms by (auto simp: dir_admits_def clean_prefix_iff path_clean_inject)

end
