(* ===== verification/Sentry.thy ===== *)
theory Sentry
  imports Config
begin

text \<open>
  \<^verbatim>\<open>internal/pool/sentry.go\<close> and \<^verbatim>\<open>sentry_linux.go\<close>: the sentry record, its three states, the
  snapshot reported by the API, the readings of \<^verbatim>\<open>/proc\<close> and the health check. A \<^verbatim>\<open>time.Time\<close>
  is a number of nanoseconds, or nothing for the zero time. What \<^verbatim>\<open>/proc\<close> and the clock answer is
  an argument of the functions that read them.
\<close>

section \<open>Data\<close>

datatype sstate = StateReady | StateRunning | StateDraining | StateUnknown int

primrec state_string :: "sstate \<Rightarrow> string" where
  "state_string StateReady = ''ready''"
| "state_string StateRunning = ''running''"
| "state_string StateDraining = ''draining''"
| "state_string (StateUnknown n) = ''unknown('' @ itoa n @ '')''"

type_synonym gtime = "int option"

record sentry =
  s_ID :: string
  s_PID :: int
  s_RootDir :: string
  s_BundleDir :: string
  s_State :: sstate
  s_Restores :: int
  s_Created :: gtime
  s_LastReset :: gtime
  s_LastUsed :: gtime
  s_BaseRSSKB :: int
  s_IP :: string
  s_NetnsPath :: string
  s_ResourceClass :: string
  s_LeaseID :: string

record sentry_info =
  si_ID :: string
  si_PID :: int
  si_State :: string
  si_Restores :: int
  si_AgeSec :: int
  si_IdleSec :: int
  si_RSSKB :: int
  si_FDs :: int
  si_IP :: string

section \<open>Clock and /proc\<close>

text \<open>\<^verbatim>\<open>time.Since\<close>; the distance to the zero time saturates at the largest duration.\<close>

definition since :: "int \<Rightarrow> gtime \<Rightarrow> int" where
  "since now t = (case t of None \<Rightarrow> 2 ^ 63 - 1 | Some t0 \<Rightarrow> now - t0)"

text \<open>Arithmetic of Go's \<^verbatim>\<open>int64\<close>: the result wraps, division truncates.\<close>

definition i64 :: "int \<Rightarrow> int" where
  "i64 x = (x + 2 ^ 63) mod 2 ^ 64 - 2 ^ 63"

definition go_quot :: "int \<Rightarrow> int \<Rightarrow> int" where
  "go_quot a b = sgn a * sgn b * (\<bar>a\<bar> div \<bar>b\<bar>)"

definition is_space :: "char \<Rightarrow> bool" where
  "is_space c = ((of_char c :: nat) \<in> set [9, 10, 11, 12, 13, 32])"

text \<open>\<^verbatim>\<open>strings.Fields\<close>: \<open>cur\<close> is the field being read, reversed.\<close>

fun str_fields_from :: "string \<Rightarrow> string \<Rightarrow> string list" where
  "str_fields_from cur [] = (if cur = [] then [] else [rev cur])"
| "str_fields_from cur (c # s) =
     (if is_space c then (if cur = [] then str_fields_from [] s else rev cur # str_fields_from [] s)
      else str_fields_from (c # cur) s)"

definition str_fields :: "string \<Rightarrow> string list" where
  "str_fields = str_fields_from []"

definition is_digit :: "char \<Rightarrow> bool" where
  "is_digit c = (48 \<le> (of_char c :: nat) \<and> (of_char c :: nat) \<le> 57)"

text \<open>\<^verbatim>\<open>strconv.ParseInt(s, 10, 64)\<close>: a sign, then digits, within the range of \<^verbatim>\<open>int64\<close>.\<close>

definition parse_int64 :: "string \<Rightarrow> int option" where
  "parse_int64 s =
     (let (neg, ds) = (case s of c # t \<Rightarrow> if c = CHR ''-'' then (True, t) else if c = CHR ''+'' then (False, t) else (False, s)
                               | [] \<Rightarrow> (False, []));
          n = (if neg then - int (str_nat ds) else int (str_nat ds))
      in if ds \<noteq> [] \<and> list_all is_digit ds \<and> - (2 ^ 63) \<le> n \<and> n < 2 ^ 63 then Some n else None)"

text \<open>
  \<open>statm\<close> is what reading \<^verbatim>\<open>/proc/<pid>/statm\<close> gave; \<open>entries\<close> how many names
  \<^verbatim>\<open>/proc/<pid>/fd\<close> holds, if it can be read.
\<close>

definition ReadRSSKB :: "int \<Rightarrow> string option \<Rightarrow> int" where
  "ReadRSSKB pagesize statm =
     (case statm of
        None \<Rightarrow> - 1
      | Some text \<Rightarrow>
          (case str_fields text of
             _ # f # _ \<Rightarrow>
               (case parse_int64 f of
                  None \<Rightarrow> - 1
                | Some pages \<Rightarrow> go_quot (i64 (pages * pagesize)) 1024)
           | _ \<Rightarrow> - 1))"

definition CountFDs :: "nat option \<Rightarrow> int" where
  "CountFDs entries = (case entries of None \<Rightarrow> - 1 | Some n \<Rightarrow> int n)"

text \<open>The two functions on platforms without \<^verbatim>\<open>/proc\<close> (\<^verbatim>\<open>sentry_stub.go\<close>).\<close>

definition stub_ReadRSSKB :: "int \<Rightarrow> int" where
  "stub_ReadRSSKB pid = - 1"

definition stub_CountFDs :: "int \<Rightarrow> int" where
  "stub_CountFDs pid = - 1"

section \<open>Snapshot and health check\<close>

definition Info :: "sentry \<Rightarrow> int \<Rightarrow> int \<Rightarrow> int \<Rightarrow> sentry_info" where
  "Info s now rss fds = \<lparr>si_ID = s_ID s, si_PID = s_PID s, si_State = state_string (s_State s),
     si_Restores = s_Restores s, si_AgeSec = since now (s_Created s),
     si_IdleSec = (if s_LastUsed s = None then 0 else since now (s_LastUsed s)),
     si_RSSKB = rss, si_FDs = fds, si_IP = s_IP s\<rparr>"

text \<open>The four errors of \<^verbatim>\<open>HealthCheck\<close>; their text only goes to the log.\<close>

datatype health_error =
    RestoreCount int int
  | AgeOver int int
  | RSSGrowth int int
  | FDCount int int

definition HealthCheck :: "sentry \<Rightarrow> int \<Rightarrow> int \<Rightarrow> int \<Rightarrow> limits \<Rightarrow> health_error option" where
  "HealthCheck s now rss fds lim =
     (if lm_MaxRestoresPerSentry lim \<le> s_Restores s
        then Some (RestoreCount (s_Restores s) (lm_MaxRestoresPerSentry lim))
      else if lm_MaxSentryAge lim < since now (s_Created s)
        then Some (AgeOver (since now (s_Created s)) (lm_MaxSentryAge lim))
      else if 0 < rss \<and> 0 < s_BaseRSSKB s \<and> lm_MaxRSSGrowthKB lim < rss - s_BaseRSSKB s
        then Some (RSSGrowth (rss - s_BaseRSSKB s) (lm_MaxRSSGrowthKB lim))
      else if lm_MaxOpenFDs lim < fds
        then Some (FDCount fds (lm_MaxOpenFDs lim))
      else None)"

lemma HealthCheck_None:
  "HealthCheck s now rss fds lim = None \<longleftrightarrow>
     s_Restores s < lm_MaxRestoresPerSentry lim \<and> since now (s_Created s) \<le> lm_MaxSentryAge lim \<and>
     (rss \<le> 0 \<or> s_BaseRSSKB s \<le> 0 \<or> rss - s_BaseRSSKB s \<le> lm_MaxRSSGrowthKB lim) \<and>
     fds \<le> lm_MaxOpenFDs lim"
  by (auto simp: HealthCheck_def)

text \<open>
  Without \<^verbatim>\<open>/proc\<close> the two figures are those of a process whose files cannot be read, and only the
  number of restores and the age retire a sentry.
\<close>

lemma stub_figures: "stub_ReadRSSKB pid = ReadRSSKB pagesize None" "stub_CountFDs pid = CountFDs None"
  by (simp_all add: stub_ReadRSSKB_def stub_CountFDs_def ReadRSSKB_def CountFDs_def)

lemma stub_HealthCheck:
  "0 \<le> lm_MaxOpenFDs lim \<Longrightarrow> HealthCheck s now (stub_ReadRSSKB pid) (stub_CountFDs pid) lim = None \<longleftrightarrow>
     s_Restores s < lm_MaxRestoresPerSentry lim \<and> since now (s_Created s) \<le> lm_MaxSentryAge lim"
  by (simp add: HealthCheck_None stub_ReadRSSKB_def stub_CountFDs_def)

end
