(* ===== verification/Lease_Table.thy ===== *)
theory Lease_Table
  imports Go_Prelude "HOL-Library.AList"
begin

text \<open>
  The contract of the manager's \<^verbatim>\<open>leases\<close> map (\<^verbatim>\<open>map[string]*lease\<close> of \<^verbatim>\<open>internal/pool/pool.go\<close>):
  what \<^verbatim>\<open>Execute\<close>, \<^verbatim>\<open>Run\<close> and \<^verbatim>\<open>Complete\<close> rely on, and what follows for a lease that is released.
  The model of the map is an association list.
\<close>

locale lease_table =
  fixes get :: "'t \<Rightarrow> 'k \<Rightarrow> 'v option" and put :: "'k \<Rightarrow> 'v \<Rightarrow> 't \<Rightarrow> 't" and del :: "'k \<Rightarrow> 't \<Rightarrow> 't"
    and entries :: "'t \<Rightarrow> nat"
  assumes get_put: "get (put k v t) k' = (if k' = k then Some v else get t k')"
    and get_del: "get (del k t) k' = (if k' = k then None else get t k')"
    and entries_put: "get t k = None \<Longrightarrow> entries (put k v t) = Suc (entries t)"
    and entries_del: "get t k = None \<Longrightarrow> entries (del k t) = entries t"
begin

lemma released: "get (del k t) k = None"
  by (simp add: get_del)

lemma released_stays: "get t k = None \<Longrightarrow> get (del k' t) k = None"
  by (simp add: get_del)

lemma other_put: "k' \<noteq> k \<Longrightarrow> get (put k v t) k' = get t k'"
  by (simp add: get_put)

lemma put_del: "get (del k (put k v t)) k' = get (del k t) k'"
  by (simp add: get_put get_del)

text \<open>Entering leases one after the other: the last value entered for each key wins.\<close>

lemma put_all:
  "get (foldl (\<lambda>t (k, v). put k v t) t kvs) k =
     (case map_of (rev kvs) k of None \<Rightarrow> get t k | Some v \<Rightarrow> Some v)"
proof (induction kvs rule: rev_induct)
  case (snoc kv kvs)
  then show ?case by (cases kv) (auto simp: get_put split: option.splits)
qed simp

end

definition lease_count :: "('k \<times> 'v) list \<Rightarrow> nat" where
  "lease_count = length"

lemma set_update_sub: "set (AList.update k v xs) \<subseteq> insert (k, v) (set xs)"
  by (induction xs) auto

lemma set_delete_sub: "set (AList.delete k xs) \<subseteq> set xs"
  by (induction xs) auto

lemma update_new: "map_of xs k = None \<Longrightarrow> AList.update k v xs = xs @ [(k, v)]"
  by (induction xs) (auto split: if_splits)

lemma delete_none: "map_of xs k = None \<Longrightarrow> AList.delete k xs = xs"
  by (simp add: map_of_eq_None_iff)

interpretation leases: lease_table map_of AList.update AList.delete lease_count
  by unfold_locales
     (auto simp: update_conv' delete_conv' lease_count_def update_new delete_none)

end
