(* ===== verification/Pool_Memory.thy ===== *)
theory Pool_Memory
  imports Sentry Lease_Table
begin

text \<open>
  The memory of one \<^verbatim>\<open>Pool\<close> of \<^verbatim>\<open>internal/pool/pool.go\<close> and its critical sections: each function
  here is what the source does between \<^verbatim>\<open>p.mu.Lock()\<close> and the matching unlock (or \<^verbatim>\<open>Wait\<close>), or
  between \<^verbatim>\<open>s.mu.Lock()\<close> and its unlock. Both the sequential operations and the interleaving
  machine are built from these functions.

  A \<^verbatim>\<open>*Sentry\<close> is a reference into \<open>p_heap\<close>. References are drawn from \<^verbatim>\<open>nextID\<close>, as the
  sentry IDs are, so the sentry with ID \<^verbatim>\<open><name>-<n>\<close> is the object at reference \<open>n\<close>. The
  condition variable is the queue of goroutines that wait (oldest first, as Go's notify list
  keeps them) and the list of those a signal has woken but that have not run yet.
\<close>

section \<open>The pool's memory\<close>

type_synonym ref = nat
type_synonym tid = nat

record pool =
  p_name :: string
  p_workload :: workload
  p_heap :: "ref \<Rightarrow> sentry option"
  p_sentries :: "ref list"
  p_pending :: int
  p_nextID :: nat
  p_stop :: bool
  p_closed :: bool
  p_cond :: "tid list"
  p_woken :: "tid list"
  p_TotalExecutions :: int
  p_TotalRestoreNs :: int
  p_TotalAcquireNs :: int
  p_recycleWg :: int

definition newPool :: "string \<Rightarrow> workload \<Rightarrow> pool" where
  "newPool name wl = \<lparr>p_name = name, p_workload = wl, p_heap = (\<lambda>_. None), p_sentries = [],
     p_pending = 0, p_nextID = 0, p_stop = False, p_closed = False, p_cond = [], p_woken = [],
     p_TotalExecutions = 0, p_TotalRestoreNs = 0, p_TotalAcquireNs = 0, p_recycleWg = 0\<rparr>"

definition safe_name :: "string \<Rightarrow> string" where
  "safe_name = replace_byte (CHR ''/'') (CHR ''-'')"

definition sentry_id :: "string \<Rightarrow> nat \<Rightarrow> string" where
  "sentry_id name n = safe_name name @ ''-'' @ nat_str n"

text \<open>\<^verbatim>\<open>nextID.Add(1)\<close>.\<close>

definition bump_id :: "pool \<Rightarrow> pool" where
  "bump_id p = p\<lparr>p_nextID := Suc (p_nextID p)\<rparr>"

definition store_sentry :: "ref \<Rightarrow> sentry \<Rightarrow> pool \<Rightarrow> pool" where
  "store_sentry r s p = p\<lparr>p_heap := (p_heap p)(r := Some s)\<rparr>"

definition upd_sentry :: "ref \<Rightarrow> (sentry \<Rightarrow> sentry) \<Rightarrow> pool \<Rightarrow> pool" where
  "upd_sentry r f p = p\<lparr>p_heap := (p_heap p)(r := map_option f (p_heap p r))\<rparr>"

definition sentry_state :: "pool \<Rightarrow> ref \<Rightarrow> sstate option" where
  "sentry_state p r = map_option s_State (p_heap p r)"

section \<open>The condition variable\<close>

definition cond_wait :: "tid \<Rightarrow> pool \<Rightarrow> pool" where
  "cond_wait t p = p\<lparr>p_cond := p_cond p @ [t]\<rparr>"

definition cond_signal :: "pool \<Rightarrow> pool" where
  "cond_signal p = (case p_cond p of [] \<Rightarrow> p | t # ts \<Rightarrow> p\<lparr>p_cond := ts, p_woken := p_woken p @ [t]\<rparr>)"

definition cond_broadcast :: "pool \<Rightarrow> pool" where
  "cond_broadcast p = p\<lparr>p_cond := [], p_woken := p_woken p @ p_cond p\<rparr>"

definition cond_resume :: "tid \<Rightarrow> pool \<Rightarrow> pool" where
  "cond_resume t p = p\<lparr>p_woken := remove1 t (p_woken p)\<rparr>"

section \<open>Acquire\<close>

text \<open>The scan of \<^verbatim>\<open>findReadyLocked\<close>: the first member in state ready.\<close>

fun find_ready :: "pool \<Rightarrow> ref list \<Rightarrow> ref option" where
  "find_ready p [] = None"
| "find_ready p (r # rs) = (if sentry_state p r = Some StateReady then Some r else find_ready p rs)"

definition mark_running :: "int \<Rightarrow> sentry \<Rightarrow> sentry" where
  "mark_running now s = s\<lparr>s_State := StateRunning, s_LastUsed := Some now\<rparr>"

definition findReadyLocked :: "int \<Rightarrow> pool \<Rightarrow> ref option \<times> pool" where
  "findReadyLocked now p =
     (case find_ready p (p_sentries p) of
        None \<Rightarrow> (None, p)
      | Some r \<Rightarrow> (Some r, upd_sentry r (mark_running now) p))"

definition max_pending :: "workload \<Rightarrow> int" where
  "max_pending wl = (if wl_MaxPending wl \<le> 0 then wl_PoolSize wl * 2 else wl_MaxPending wl)"

text \<open>
  The first critical section of \<^verbatim>\<open>acquire\<close>, up to the unlock or the first \<^verbatim>\<open>cond.Wait()\<close>: what the
  caller does next, and the memory it leaves. \<open>t\<close> is the calling goroutine.
\<close>

datatype acquired =
    AcqClosed
  | AcqGot ref
  | AcqSpawn
  | AcqFull
  | AcqFailed
  | AcqWait

definition acquire_enter :: "tid \<Rightarrow> int \<Rightarrow> pool \<Rightarrow> acquired \<times> pool" where
  "acquire_enter t now p =
     (if p_closed p then (AcqClosed, p)
      else
        (case findReadyLocked now p of
           (Some r, p') \<Rightarrow> (AcqGot r, p')
         | (None, _) \<Rightarrow>
             if p_sentries p = [] then (AcqSpawn, p\<lparr>p_pending := p_pending p + 1\<rparr>)
             else if max_pending (p_workload p) \<le> p_pending p then (AcqFull, p)
             else (AcqWait, cond_wait t (p\<lparr>p_pending := p_pending p + 1\<rparr>))))"

text \<open>One turn of the waiting loop, after a signal.\<close>

definition acquire_wake :: "tid \<Rightarrow> int \<Rightarrow> pool \<Rightarrow> acquired \<times> pool" where
  "acquire_wake t now p0 =
     (let p = cond_resume t p0 in
      if p_closed p then (AcqClosed, p\<lparr>p_pending := p_pending p - 1\<rparr>)
      else
        (case findReadyLocked now p of
           (Some r, p') \<Rightarrow> (AcqGot r, p'\<lparr>p_pending := p_pending p' - 1\<rparr>)
         | (None, _) \<Rightarrow> (AcqWait, cond_wait t p)))"

text \<open>
  The critical section after the on-demand spawn: \<open>spawned\<close> is the new sentry, or nothing when
  the spawn failed (\<open>AcqFailed\<close>). \<open>AcqClosed\<close> means the caller must clean the new sentry up.
\<close>

definition acquire_spawned :: "ref option \<Rightarrow> int \<Rightarrow> pool \<Rightarrow> acquired \<times> pool" where
  "acquire_spawned spawned now p0 =
     (let p = p0\<lparr>p_pending := p_pending p0 - 1\<rparr> in
      case spawned of
        None \<Rightarrow> (AcqFailed, p)
      | Some r \<Rightarrow>
          if p_closed p then (AcqClosed, p)
          else (AcqGot r, (upd_sentry r (mark_running now) p)\<lparr>p_sentries := p_sentries p @ [r]\<rparr>))"

section \<open>Release and recycle\<close>

definition release_mark :: "ref \<Rightarrow> pool \<Rightarrow> pool" where
  "release_mark r = upd_sentry r (\<lambda>s. s\<lparr>s_State := StateReady, s_LeaseID := ''''\<rparr>)"

definition drain_mark :: "ref \<Rightarrow> pool \<Rightarrow> pool" where
  "drain_mark r = upd_sentry r (\<lambda>s. s\<lparr>s_State := StateDraining, s_LeaseID := ''''\<rparr>)"

definition reset_mark :: "ref \<Rightarrow> int \<Rightarrow> pool \<Rightarrow> pool" where
  "reset_mark r now = upd_sentry r (\<lambda>s. s\<lparr>s_Restores := s_Restores s + 1, s_LastReset := Some now\<rparr>)"

definition ready_mark :: "ref \<Rightarrow> pool \<Rightarrow> pool" where
  "ready_mark r = upd_sentry r (\<lambda>s. s\<lparr>s_State := StateReady\<rparr>)"

definition lease_mark :: "ref \<Rightarrow> string \<Rightarrow> pool \<Rightarrow> pool" where
  "lease_mark r lid = upd_sentry r (\<lambda>s. s\<lparr>s_LeaseID := lid\<rparr>)"

text \<open>\<^verbatim>\<open>remove\<close> deletes the first member with the sentry's ID.\<close>

fun remove_by_id :: "pool \<Rightarrow> string option \<Rightarrow> ref list \<Rightarrow> ref list" where
  "remove_by_id p i [] = []"
| "remove_by_id p i (x # xs) =
     (if map_option s_ID (p_heap p x) = i then xs else x # remove_by_id p i xs)"

definition pool_remove :: "ref \<Rightarrow> pool \<Rightarrow> pool" where
  "pool_remove r p = p\<lparr>p_sentries := remove_by_id p (map_option s_ID (p_heap p r)) (p_sentries p)\<rparr>"

text \<open>\<^verbatim>\<open>refill\<close>: how many spawns to try, and the critical section that adds one new sentry.\<close>

definition refill_needed :: "pool \<Rightarrow> int" where
  "refill_needed p = wl_PoolSize (p_workload p) - int (length (p_sentries p))"

definition refill_add :: "ref \<Rightarrow> pool \<Rightarrow> bool \<times> pool" where
  "refill_add r p =
     (if p_closed p then (False, p)
      else (True, cond_signal (p\<lparr>p_sentries := p_sentries p @ [r]\<rparr>)))"

section \<open>Reaper and shutdown\<close>

definition sentry_idle :: "int \<Rightarrow> int \<Rightarrow> pool \<Rightarrow> ref \<Rightarrow> bool" where
  "sentry_idle idleTimeout now p r =
     (case p_heap p r of
        None \<Rightarrow> False
      | Some s \<Rightarrow> s_State s = StateReady \<and> idleTimeout < since now (s_LastUsed s))"

text \<open>One tick of \<^verbatim>\<open>reaper\<close> under the lock: the evicted sentries, and the pool without them.\<close>

definition reap :: "int \<Rightarrow> int \<Rightarrow> pool \<Rightarrow> ref list \<times> pool" where
  "reap idleTimeout now p =
     (filter (sentry_idle idleTimeout now p) (p_sentries p),
      p\<lparr>p_sentries := filter (\<lambda>r. \<not> sentry_idle idleTimeout now p r) (p_sentries p)\<rparr>)"

definition pool_close :: "pool \<Rightarrow> ref list \<times> pool" where
  "pool_close p = (p_sentries p, cond_broadcast (p\<lparr>p_closed := True, p_sentries := []\<rparr>))"

section \<open>What each critical section changes\<close>

lemma pool_frame [mem_simps]:
  "sentry_state (cond_wait t p) = sentry_state p"
  "sentry_state (cond_signal p) = sentry_state p"
  "sentry_state (cond_broadcast p) = sentry_state p"
  "sentry_state (cond_resume t p) = sentry_state p"
  "sentry_state (bump_id p) = sentry_state p"
  "sentry_state (pool_remove r p) = sentry_state p"
  "sentry_state (p\<lparr>p_pending := n\<rparr>) = sentry_state p"
  "sentry_state (p\<lparr>p_sentries := rs\<rparr>) = sentry_state p"
  "sentry_state (p\<lparr>p_closed := b\<rparr>) = sentry_state p"
  "sentry_state (p\<lparr>p_stop := b\<rparr>) = sentry_state p"
  "sentry_state (p\<lparr>p_recycleWg := n\<rparr>) = sentry_state p"
  "sentry_state (p\<lparr>p_TotalExecutions := n\<rparr>) = sentry_state p"
  "sentry_state (p\<lparr>p_TotalRestoreNs := n\<rparr>) = sentry_state p"
  "sentry_state (p\<lparr>p_TotalAcquireNs := n\<rparr>) = sentry_state p"
  by (auto simp: sentry_state_def cond_wait_def cond_signal_def cond_broadcast_def cond_resume_def
      bump_id_def pool_remove_def fun_eq_iff split: list.splits)

lemma cond_fields [mem_simps]:
  "p_heap (cond_wait t p) = p_heap p" "p_heap (cond_signal p) = p_heap p"
  "p_heap (cond_broadcast p) = p_heap p" "p_heap (cond_resume t p) = p_heap p"
  "p_sentries (cond_wait t p) = p_sentries p" "p_sentries (cond_signal p) = p_sentries p"
  "p_sentries (cond_broadcast p) = p_sentries p" "p_sentries (cond_resume t p) = p_sentries p"
  "p_pending (cond_wait t p) = p_pending p" "p_pending (cond_signal p) = p_pending p"
  "p_pending (cond_broadcast p) = p_pending p" "p_pending (cond_resume t p) = p_pending p"
  "p_nextID (cond_wait t p) = p_nextID p" "p_nextID (cond_signal p) = p_nextID p"
  "p_nextID (cond_broadcast p) = p_nextID p" "p_nextID (cond_resume t p) = p_nextID p"
  "p_closed (cond_wait t p) = p_closed p" "p_closed (cond_signal p) = p_closed p"
  "p_closed (cond_broadcast p) = p_closed p" "p_closed (cond_resume t p) = p_closed p"
  "p_name (cond_wait t p) = p_name p" "p_name (cond_signal p) = p_name p"
  "p_name (cond_broadcast p) = p_name p" "p_name (cond_resume t p) = p_name p"
  "p_workload (cond_wait t p) = p_workload p" "p_workload (cond_signal p) = p_workload p"
  "p_workload (cond_broadcast p) = p_workload p" "p_workload (cond_resume t p) = p_workload p"
  "p_recycleWg (cond_wait t p) = p_recycleWg p" "p_recycleWg (cond_signal p) = p_recycleWg p"
  "p_recycleWg (cond_broadcast p) = p_recycleWg p" "p_recycleWg (cond_resume t p) = p_recycleWg p"
  by (auto simp: cond_wait_def cond_signal_def cond_broadcast_def cond_resume_def split: list.splits)

lemma upd_sentry_fields [mem_simps]:
  "p_sentries (upd_sentry r f p) = p_sentries p" "p_pending (upd_sentry r f p) = p_pending p"
  "p_nextID (upd_sentry r f p) = p_nextID p" "p_closed (upd_sentry r f p) = p_closed p"
  "p_cond (upd_sentry r f p) = p_cond p" "p_woken (upd_sentry r f p) = p_woken p"
  "p_name (upd_sentry r f p) = p_name p" "p_workload (upd_sentry r f p) = p_workload p"
  "p_recycleWg (upd_sentry r f p) = p_recycleWg p"
  "p_heap (upd_sentry r f p) = (p_heap p)(r := map_option f (p_heap p r))"
  by (simp_all add: upd_sentry_def)

lemma sentry_state_upd:
  "sentry_state (upd_sentry r f p) r' =
     (if r' = r then map_option (\<lambda>s. s_State (f s)) (p_heap p r) else sentry_state p r')"
  by (simp add: sentry_state_def upd_sentry_def option.map_comp comp_def)

lemma find_ready_Some:
  "find_ready p rs = Some r \<Longrightarrow> r \<in> set rs \<and> sentry_state p r = Some StateReady"
  by (induction rs) (auto split: if_splits)

lemma find_ready_None:
  "find_ready p rs = None \<longleftrightarrow> (\<forall>r \<in> set rs. sentry_state p r \<noteq> Some StateReady)"
  by (induction rs) auto

lemma findReadyLocked_cases:
  obtains (none) "findReadyLocked now p = (None, p)" "\<forall>r \<in> set (p_sentries p). sentry_state p r \<noteq> Some StateReady"
  | (some) r where "findReadyLocked now p = (Some r, upd_sentry r (mark_running now) p)"
      "r \<in> set (p_sentries p)" "sentry_state p r = Some StateReady"
  by (cases "find_ready p (p_sentries p)")
     (auto simp: findReadyLocked_def find_ready_None dest: find_ready_Some)

lemma remove_by_id_eq:
  assumes "inj_on (\<lambda>x. map_option s_ID (p_heap p x)) (insert r (set xs))"
  shows "remove_by_id p (map_option s_ID (p_heap p r)) xs = remove1 r xs"
  using assms by (induction xs) (auto simp: inj_on_def)

lemma bump_fields [mem_simps]:
  "p_heap (bump_id p) = p_heap p" "p_sentries (bump_id p) = p_sentries p" "p_pending (bump_id p) = p_pending p"
  "p_closed (bump_id p) = p_closed p" "p_cond (bump_id p) = p_cond p" "p_woken (bump_id p) = p_woken p"
  "p_name (bump_id p) = p_name p" "p_workload (bump_id p) = p_workload p" "p_recycleWg (bump_id p) = p_recycleWg p"
  "p_nextID (bump_id p) = Suc (p_nextID p)"
  by (simp_all add: bump_id_def)

lemma marks_id [simp]:
  "s_ID (mark_running now s) = s_ID s" "s_State (mark_running now s) = StateRunning"
  by (simp_all add: mark_running_def)

lemma sentry_id_inject [simp]: "sentry_id name m = sentry_id name n \<longleftrightarrow> m = n"
  by (simp add: sentry_id_def)

section \<open>The outcomes of the critical sections of acquire\<close>

lemma acquire_enter_cases:
  obtains (closed) "acquire_enter t now p = (AcqClosed, p)" "p_closed p"
  | (got) r where "acquire_enter t now p = (AcqGot r, upd_sentry r (mark_running now) p)" "\<not> p_closed p"
      "r \<in> set (p_sentries p)" "sentry_state p r = Some StateReady"
  | (spawn) "acquire_enter t now p = (AcqSpawn, p\<lparr>p_pending := p_pending p + 1\<rparr>)" "\<not> p_closed p" "p_sentries p = []"
  | (full) "acquire_enter t now p = (AcqFull, p)" "\<not> p_closed p" "max_pending (p_workload p) \<le> p_pending p"
      "p_sentries p \<noteq> []" "\<forall>r \<in> set (p_sentries p). sentry_state p r \<noteq> Some StateReady"
  | (wait) "acquire_enter t now p = (AcqWait, cond_wait t (p\<lparr>p_pending := p_pending p + 1\<rparr>))" "\<not> p_closed p"
      "p_pending p < max_pending (p_workload p)"
      "p_sentries p \<noteq> []" "\<forall>r \<in> set (p_sentries p). sentry_state p r \<noteq> Some StateReady"
  by (rule findReadyLocked_cases [of now p]) (fastforce simp: acquire_enter_def not_le split: if_splits)+

lemma acquire_wake_cases:
  obtains (closed) "acquire_wake t now p = (AcqClosed, (cond_resume t p)\<lparr>p_pending := p_pending p - 1\<rparr>)" "p_closed p"
  | (got) r where "acquire_wake t now p =
        (AcqGot r, (upd_sentry r (mark_running now) (cond_resume t p))\<lparr>p_pending := p_pending p - 1\<rparr>)" "\<not> p_closed p"
      "r \<in> set (p_sentries p)" "sentry_state p r = Some StateReady"
  | (wait) "acquire_wake t now p = (AcqWait, cond_wait t (cond_resume t p))" "\<not> p_closed p"
      "\<forall>r \<in> set (p_sentries p). sentry_state p r \<noteq> Some StateReady"
proof (cases "p_closed p")
  case True
  then show thesis by (intro closed) (simp_all add: acquire_wake_def Let_def mem_simps)
next
  case False
  show thesis
  proof (rule findReadyLocked_cases [of now "cond_resume t p"], goal_cases)
    case 1
    with False show ?thesis by (intro wait) (simp_all add: acquire_wake_def Let_def mem_simps)
  next
    case (2 r)
    with False show ?thesis by (intro got [of r]) (simp_all add: acquire_wake_def Let_def mem_simps)
  qed
qed

lemma acquire_spawned_cases:
  obtains (closed) "acquire_spawned (Some r) now p = (AcqClosed, p\<lparr>p_pending := p_pending p - 1\<rparr>)" "p_closed p"
  | (got) "acquire_spawned (Some r) now p =
      (AcqGot r, (upd_sentry r (mark_running now) (p\<lparr>p_pending := p_pending p - 1\<rparr>))\<lparr>p_sentries := p_sentries p @ [r]\<rparr>)"
      "\<not> p_closed p"
  by (cases "p_closed p") (auto simp: acquire_spawned_def)

lemma state_upd_point:
  "p_heap p r \<noteq> None \<Longrightarrow> (\<And>s. s_State (f s) = st) \<Longrightarrow> sentry_state (upd_sentry r f p) = (sentry_state p)(r := Some st)"
  by (auto simp: fun_eq_iff sentry_state_upd)

lemma state_upd_same:
  "(\<And>s. s_State (f s) = s_State s) \<Longrightarrow> sentry_state (upd_sentry r f p) = sentry_state p"
  by (simp add: fun_eq_iff sentry_state_def upd_sentry_def option.map_comp comp_def)

lemma state_heap: "sentry_state p r = Some st \<Longrightarrow> p_heap p r \<noteq> None"
  by (auto simp: sentry_state_def)

end
