(* ===== verification/Transition.thy ===== *)
theory Transition
  imports Go_Prelude
begin

text \<open>
  Systems whose steps are partial functions of an action, as the interleaving machines of this
  development are: their reachable states, their runs, and the rule that an invariant of every
  step holds in every reachable state. The second locale is for invariants whose preservation
  needs an invariant that is already known.
\<close>

inductive reach :: "('s \<Rightarrow> bool) \<Rightarrow> ('a \<Rightarrow> 's \<Rightarrow> 's option) \<Rightarrow> 's \<Rightarrow> bool" for init and stp where
  init: "init s \<Longrightarrow> reach init stp s"
| step: "reach init stp s \<Longrightarrow> stp a s = Some s' \<Longrightarrow> reach init stp s'"

inductive_cases reachE: "reach init stp s"

fun run_all :: "('a \<Rightarrow> 's \<Rightarrow> 's option) \<Rightarrow> 'a list \<Rightarrow> 's \<Rightarrow> 's option" where
  "run_all stp [] s = Some s"
| "run_all stp (a # as) s = (case stp a s of None \<Rightarrow> None | Some s' \<Rightarrow> run_all stp as s')"

lemma reach_run: "reach init stp s \<Longrightarrow> run_all stp as s = Some s' \<Longrightarrow> reach init stp s'"
  by (induction as arbitrary: s) (auto split: option.splits intro: reach.step)

lemma run_all_append:
  "run_all stp (as @ bs) s = (case run_all stp as s of None \<Rightarrow> None | Some s' \<Rightarrow> run_all stp bs s')"
  by (induction as arbitrary: s) (auto split: option.splits)

lemma run_snoc:
  "run_all stp (as @ [a]) s \<noteq> None \<Longrightarrow>
     stp a (the (run_all stp as s)) = Some (the (run_all stp (as @ [a]) s))"
  by (auto simp: run_all_append split: option.splits)

locale invariant_system =
  fixes init :: "'s \<Rightarrow> bool" and stp :: "'a \<Rightarrow> 's \<Rightarrow> 's option" and I :: "'s \<Rightarrow> bool"
  assumes init_inv: "init s \<Longrightarrow> I s"
    and step_inv: "stp a s = Some s' \<Longrightarrow> I s \<Longrightarrow> I s'"
begin

lemma holds: "reach init stp s \<Longrightarrow> I s"
  by (induction rule: reach.induct) (auto intro: init_inv step_inv)

lemma run_holds: "I s \<Longrightarrow> run_all stp as s = Some s' \<Longrightarrow> I s'"
  by (induction as arbitrary: s) (auto split: option.splits intro: step_inv)

end

locale relative_invariant = base: invariant_system init stp I
  for init :: "'s \<Rightarrow> bool" and stp :: "'a \<Rightarrow> 's \<Rightarrow> 's option" and I :: "'s \<Rightarrow> bool" +
  fixes J :: "'s \<Rightarrow> bool"
  assumes init_more: "init s \<Longrightarrow> J s"
    and step_more: "stp a s = Some s' \<Longrightarrow> I s \<Longrightarrow> J s \<Longrightarrow> J s'"
begin

lemma both: "invariant_system init stp (\<lambda>s. I s \<and> J s)"
  by unfold_locales (auto intro: base.init_inv base.step_inv init_more step_more)

lemma holds_more: "reach init stp s \<Longrightarrow> J s"
  using invariant_system.holds [OF both] by blast

end

text \<open>A system whose steps are, seen through a function, steps of another one or none.\<close>

locale simulated =
  fixes init :: "'s \<Rightarrow> bool" and stp :: "'a \<Rightarrow> 's \<Rightarrow> 's option"
    and init' :: "'t \<Rightarrow> bool" and stp' :: "'b \<Rightarrow> 't \<Rightarrow> 't option" and abs :: "'t \<Rightarrow> 's"
  assumes init_abs: "init' t \<Longrightarrow> init (abs t)"
    and step_abs: "stp' b t = Some t' \<Longrightarrow> abs t' = abs t \<or> (\<exists>a. stp a (abs t) = Some (abs t'))"
begin

lemma reach_abs: "reach init' stp' t \<Longrightarrow> reach init stp (abs t)"
proof (induction rule: reach.induct)
  case (init s)
  then show ?case by (blast intro: reach.init init_abs)
next
  case (step t b t')
  from step_abs [OF step(2)] step.IH show ?case by (metis reach.step)
qed

end

end
