(* ===== verification/Pool_Machine.thy ===== *)
theory Pool_Machine
  imports Pool_Memory Transition
begin

text \<open>
  The goroutines of one pool and their interleavings. A goroutine is a program point of
  \<^verbatim>\<open>Pool.Execute\<close>, \<^verbatim>\<open>Manager.Complete\<close>, \<^verbatim>\<open>Pool.recycle\<close>, \<^verbatim>\<open>Pool.refill\<close>, the reaper or
  \<^verbatim>\<open>Pool.Shutdown\<close>; one step runs it from a lock to the matching unlock, over one atomic
  operation, or over one call to the outside world whose outcome is an input of the step. Any
  runnable goroutine may go next.
\<close>

section \<open>Program points\<close>

text \<open>
  \<open>X\<close>: \<^verbatim>\<open>Execute\<close> with its checkpoint argument; \<open>K\<close>: \<^verbatim>\<open>Complete\<close>; \<open>R\<close>: the recycle
  goroutine with \<^verbatim>\<open>refill\<close> inlined; \<open>Evict\<close>: the reaper after a tick; \<open>H\<close>: \<^verbatim>\<open>Shutdown\<close>.
\<close>

datatype xpc =
    XStart string
  | XSpawn string
  | XSpawnErr
  | XSpawned string ref
  | XCleanup ref
  | XWait string
  | XHave string ref
  | XRelease ref goerr
  | XSignal goerr
  | XLease ref
  | XInsert ref string
  | XDone "string result"

datatype kpc =
    KStart string
  | KAdd ref
  | KDone bool

datatype rpc =
    RStart ref
  | RKill ref
  | RReset ref
  | RHealth ref
  | RRestore ref
  | RReady ref
  | RSignal
  | RRemove ref
  | RClean ref
  | RRefill
  | RLoop nat
  | RAdd nat ref
  | RCleanNew ref
  | RExit
  | RDone

datatype hpc =
    HStop
  | HWait
  | HClose
  | HClean "ref list"
  | HDone

datatype pc = X xpc | K kpc | R rpc | H hpc | Evict "ref list" | EvictDone

text \<open>
  What the outside world answers in a step: the clock, whether the external call succeeds, the
  measured time of the acquire and of the restore, the random lease ID, the sentry a spawn built,
  the error.
\<close>

record input =
  i_now :: int
  i_ok :: bool
  i_acq :: int
  i_ns :: int
  i_lid :: string
  i_sentry :: sentry
  i_err :: goerr

section \<open>Steps\<close>

type_synonym leases = "(string \<times> ref) list"

text \<open>The result of a step: next program point, memory, lease table.\<close>

type_synonym 'c stepped = "('c \<times> pool \<times> leases) option"

text \<open>A sentry as a successful \<^verbatim>\<open>spawn\<close> returns it at reference \<open>r\<close>.\<close>

definition spawned_sentry :: "pool \<Rightarrow> ref \<Rightarrow> sentry \<Rightarrow> bool" where
  "spawned_sentry p r s \<longleftrightarrow> s_ID s = sentry_id (p_name p) r \<and> s_State s = StateReady \<and>
     s_LeaseID s = '''' \<and> s_Restores s = 0"

text \<open>\<^verbatim>\<open>spawn\<close> takes the next ID whatever happens afterwards.\<close>

definition spawn_step :: "input \<Rightarrow> (ref \<Rightarrow> 'c) \<Rightarrow> 'c \<Rightarrow> pool \<Rightarrow> leases \<Rightarrow> 'c stepped" where
  "spawn_step i ok fails p L =
     (let p' = bump_id p; r = p_nextID p' in
      if i_ok i then
        (if spawned_sentry p' r (i_sentry i) then Some (ok r, store_sentry r (i_sentry i) p', L)
         else None)
      else Some (fails, p', L))"

fun execute_step :: "tid \<Rightarrow> input \<Rightarrow> xpc \<Rightarrow> pool \<Rightarrow> leases \<Rightarrow> xpc stepped" where
  "execute_step t i (XStart c) p L =
     (case acquire_enter t (i_now i) p of
        (AcqClosed, p') \<Rightarrow> Some (XDone (Inl ErrPoolClosed), p', L)
      | (AcqGot r, p') \<Rightarrow> Some (XHave c r, p', L)
      | (AcqSpawn, p') \<Rightarrow> Some (XSpawn c, p', L)
      | (AcqFull, p') \<Rightarrow> Some (XDone (Inl ErrCapacityExhausted), p', L)
      | (AcqWait, p') \<Rightarrow> Some (XWait c, p', L)
      | (AcqFailed, p') \<Rightarrow> None)"
| "execute_step t i (XSpawn c) p L = spawn_step i (XSpawned c) XSpawnErr p L"
| "execute_step t i XSpawnErr p L =
     (case acquire_spawned None (i_now i) p of
        (_, p') \<Rightarrow> Some (XDone (Inl (Wrap ''on-demand spawn failed: '' (i_err i) '''')), p', L))"
| "execute_step t i (XSpawned c r) p L =
     (case acquire_spawned (Some r) (i_now i) p of
        (AcqGot r', p') \<Rightarrow> Some (XHave c r', p', L)
      | (_, p') \<Rightarrow> Some (XCleanup r, p', L))"
| "execute_step t i (XCleanup r) p L = Some (XDone (Inl ErrPoolClosed), p, L)"
| "execute_step t i (XWait c) p L =
     (if t \<in> set (p_woken p) then
        (case acquire_wake t (i_now i) p of
           (AcqClosed, p') \<Rightarrow> Some (XDone (Inl ErrPoolClosed), p', L)
         | (AcqGot r, p') \<Rightarrow> Some (XHave c r, p', L)
         | (_, p') \<Rightarrow> Some (XWait c, p', L))
      else None)"
| "execute_step t i (XHave c r) p0 L =
     (let p = p0\<lparr>p_TotalAcquireNs := p_TotalAcquireNs p0 + i_acq i\<rparr>;
          override = (c \<noteq> ''''); pre = wl_PreRestore (p_workload p) in
      if i_ok i then
        (if override \<and> pre then None
         else Some (XLease r, p\<lparr>p_TotalExecutions := p_TotalExecutions p + 1,
                p_TotalRestoreNs := p_TotalRestoreNs p + (if pre then 0 else i_ns i)\<rparr>, L))
      else if override \<or> \<not> pre then Some (XRelease r (i_err i), p, L)
      else None)"
| "execute_step t i (XRelease r e) p L = Some (XSignal e, release_mark r p, L)"
| "execute_step t i (XSignal e) p L = Some (XDone (Inl e), cond_signal p, L)"
| "execute_step t i (XLease r) p L = Some (XInsert r (i_lid i), lease_mark r (i_lid i) p, L)"
| "execute_step t i (XInsert r lid) p L = Some (XDone (Inr lid), p, AList.update lid r L)"
| "execute_step t i (XDone x) p L = None"

fun complete_step :: "kpc \<Rightarrow> pool \<Rightarrow> leases \<Rightarrow> kpc stepped" where
  "complete_step (KStart lid) p L =
     (case map_of L lid of
        None \<Rightarrow> Some (KDone False, p, L)
      | Some r \<Rightarrow> Some (KAdd r, p, AList.delete lid L))"
| "complete_step (KAdd r) p L = Some (KDone True, p\<lparr>p_recycleWg := p_recycleWg p + 1\<rparr>, L)"
| "complete_step (KDone b) p L = None"

fun recycle_step :: "bool \<Rightarrow> input \<Rightarrow> rpc \<Rightarrow> pool \<Rightarrow> leases \<Rightarrow> rpc stepped" where
  "recycle_step warm i (RStart r) p L = Some (RKill r, drain_mark r p, L)"
| "recycle_step warm i (RKill r) p L = Some (if warm then RReset r else RRemove r, p, L)"
| "recycle_step warm i (RReset r) p L =
     (if i_ok i then Some (RHealth r, reset_mark r (i_now i) p, L) else Some (RRemove r, p, L))"
| "recycle_step warm i (RHealth r) p L = Some (if i_ok i then RRestore r else RRemove r, p, L)"
| "recycle_step warm i (RRestore r) p L =
     (if i_ok i then Some (RReady r, p\<lparr>p_TotalRestoreNs := p_TotalRestoreNs p + i_ns i\<rparr>, L)
      else Some (RRemove r, p, L))"
| "recycle_step warm i (RReady r) p L = Some (RSignal, ready_mark r p, L)"
| "recycle_step warm i RSignal p L = Some (RExit, cond_signal p, L)"
| "recycle_step warm i (RRemove r) p L = Some (RClean r, pool_remove r p, L)"
| "recycle_step warm i (RClean r) p L = Some (RRefill, p, L)"
| "recycle_step warm i RRefill p L = Some (RLoop (nat (refill_needed p)), p, L)"
| "recycle_step warm i (RLoop 0) p L = Some (RExit, p, L)"
| "recycle_step warm i (RLoop (Suc n)) p L = spawn_step i (RAdd n) (RLoop n) p L"
| "recycle_step warm i (RAdd n r) p L =
     (case refill_add r p of
        (True, p') \<Rightarrow> Some (RLoop n, p', L)
      | (False, p') \<Rightarrow> Some (RCleanNew r, p', L))"
| "recycle_step warm i (RCleanNew r) p L = Some (RExit, p, L)"
| "recycle_step warm i RExit p L = Some (RDone, p\<lparr>p_recycleWg := p_recycleWg p - 1\<rparr>, L)"
| "recycle_step warm i RDone p L = None"

fun shutdown_step :: "hpc \<Rightarrow> pool \<Rightarrow> leases \<Rightarrow> hpc stepped" where
  "shutdown_step HStop p L =
     Some (if p_stop p then HDone else HWait, p\<lparr>p_stop := True\<rparr>, L)"
| "shutdown_step HWait p L = (if p_recycleWg p = 0 then Some (HClose, p, L) else None)"
| "shutdown_step HClose p L = (case pool_close p of (rs, p') \<Rightarrow> Some (HClean rs, p', L))"
| "shutdown_step (HClean rs) p L = Some (HDone, p, L)"
| "shutdown_step HDone p L = None"

text \<open>
  Any goroutine; the last component is the goroutines it starts: \<^verbatim>\<open>Complete\<close> starts the recycle
  of the sentry it released, after it has added to the wait group.
\<close>

definition started_by :: "kpc \<Rightarrow> pc list" where
  "started_by k = (case k of KAdd r \<Rightarrow> [R (RStart r)] | _ \<Rightarrow> [])"

fun thread_step :: "bool \<Rightarrow> tid \<Rightarrow> input \<Rightarrow> pc \<Rightarrow> pool \<Rightarrow> leases \<Rightarrow> (pc \<times> pool \<times> leases \<times> pc list) option" where
  "thread_step warm t i (X x) p L = map_option (\<lambda>(x', p', L'). (X x', p', L', [])) (execute_step t i x p L)"
| "thread_step warm t i (K k) p L = map_option (\<lambda>(k', p', L'). (K k', p', L', started_by k)) (complete_step k p L)"
| "thread_step warm t i (R r) p L = map_option (\<lambda>(r', p', L'). (R r', p', L', [])) (recycle_step warm i r p L)"
| "thread_step warm t i (H h) p L = map_option (\<lambda>(h', p', L'). (H h', p', L', [])) (shutdown_step h p L)"
| "thread_step warm t i (Evict rs) p L = Some (EvictDone, p, L, [])"
| "thread_step warm t i EvictDone p L = None"

section \<open>The system\<close>

text \<open>
  The memory, the manager's lease table restricted to this pool, and the goroutines. An action
  is a call arriving at the pool, a tick of the reaper, the lease loop of \<^verbatim>\<open>Manager.Shutdown\<close>,
  or one goroutine moving. A lease timer that fires is a \<open>CallComplete\<close> like any other.
\<close>

record sys =
  m_pool :: pool
  m_leases :: leases
  m_thr :: "pc list"

datatype action =
    Call string
  | CallComplete string
  | CallShutdown
  | ClearLeases
  | Tick int
  | Run tid input

text \<open>The two settings of the pool that are not in its memory.\<close>

record setting =
  set_warm :: bool
  set_idle :: int

fun fire :: "setting \<Rightarrow> action \<Rightarrow> sys \<Rightarrow> sys option" where
  "fire g (Call c) s = Some (s\<lparr>m_thr := m_thr s @ [X (XStart c)]\<rparr>)"
| "fire g (CallComplete lid) s = Some (s\<lparr>m_thr := m_thr s @ [K (KStart lid)]\<rparr>)"
| "fire g CallShutdown s = Some (s\<lparr>m_thr := m_thr s @ [H HStop]\<rparr>)"
| "fire g ClearLeases s = Some (s\<lparr>m_leases := []\<rparr>)"
| "fire g (Tick now) s =
     (if set_idle g \<le> 0 then None
      else (case reap (set_idle g) now (m_pool s) of
              (rs, p') \<Rightarrow> Some (s\<lparr>m_pool := p', m_thr := m_thr s @ [Evict rs]\<rparr>)))"
| "fire g (Run t i) s =
     (if t < length (m_thr s) then
        (case thread_step (set_warm g) t i (m_thr s ! t) (m_pool s) (m_leases s) of
           None \<Rightarrow> None
         | Some (c, p', L', new) \<Rightarrow>
             Some (s\<lparr>m_pool := p', m_leases := L', m_thr := (m_thr s)[t := c] @ new\<rparr>))
      else None)"

text \<open>
  After \<^verbatim>\<open>Start\<close>: the members are freshly spawned sentries, in the order of their IDs, nobody
  waits and nothing is leased. Failed spawns make \<^verbatim>\<open>Start\<close> fail, so no ID is skipped.
\<close>

definition started :: "string \<Rightarrow> workload \<Rightarrow> (nat \<Rightarrow> sentry) \<Rightarrow> pool" where
  "started name wl f =
     (let n = nat (wl_PoolSize wl) in
      (newPool name wl)\<lparr>p_nextID := n, p_sentries := [1..<Suc n],
         p_heap := (\<lambda>r. if 1 \<le> r \<and> r \<le> n then Some (f r) else None)\<rparr>)"

definition initial :: "sys \<Rightarrow> bool" where
  "initial s \<longleftrightarrow>
     (\<exists>name wl f. m_pool s = started name wl f \<and> m_leases s = [] \<and> m_thr s = [] \<and>
        (\<forall>r \<in> set (p_sentries (m_pool s)). spawned_sentry (m_pool s) r (f r)))"

abbreviation reachable :: "setting \<Rightarrow> sys \<Rightarrow> bool" where
  "reachable g \<equiv> reach initial (fire g)"

abbreviation run_actions :: "setting \<Rightarrow> action list \<Rightarrow> sys \<Rightarrow> sys option" where
  "run_actions g \<equiv> run_all (fire g)"

end
