(* ===== verification/Pool_Owner.thy ===== *)
theory Pool_Owner
  imports Pool_Machine "HOL-Library.Multiset"
begin

text \<open>
  Who holds a sentry. Every program point claims the sentries its goroutine has exclusive use of,
  with the state it expects them in; every lease claims its sentry as running. The invariant says
  that a sentry has at most one claim, that it is in the claimed state, and that a member of the
  pool that is ready for the next caller has no claim at all.
\<close>

section \<open>Claims\<close>

primrec claims_x :: "xpc \<Rightarrow> (ref \<times> sstate) list" where
  "claims_x (XStart c) = []"
| "claims_x (XSpawn c) = []"
| "claims_x XSpawnErr = []"
| "claims_x (XSpawned c r) = [(r, StateReady)]"
| "claims_x (XCleanup r) = [(r, StateReady)]"
| "claims_x (XWait c) = []"
| "claims_x (XHave c r) = [(r, StateRunning)]"
| "claims_x (XRelease r e) = [(r, StateRunning)]"
| "claims_x (XSignal e) = []"
| "claims_x (XLease r) = [(r, StateRunning)]"
| "claims_x (XInsert r lid) = [(r, StateRunning)]"
| "claims_x (XDone x) = []"

primrec claims_k :: "kpc \<Rightarrow> (ref \<times> sstate) list" where
  "claims_k (KStart lid) = []"
| "claims_k (KAdd r) = [(r, StateRunning)]"
| "claims_k (KDone b) = []"

primrec claims_r :: "rpc \<Rightarrow> (ref \<times> sstate) list" where
  "claims_r (RStart r) = [(r, StateRunning)]"
| "claims_r (RKill r) = [(r, StateDraining)]"
| "claims_r (RReset r) = [(r, StateDraining)]"
| "claims_r (RHealth r) = [(r, StateDraining)]"
| "claims_r (RRestore r) = [(r, StateDraining)]"
| "claims_r (RReady r) = [(r, StateDraining)]"
| "claims_r RSignal = []"
| "claims_r (RRemove r) = [(r, StateDraining)]"
| "claims_r (RClean r) = [(r, StateDraining)]"
| "claims_r RRefill = []"
| "claims_r (RLoop n) = []"
| "claims_r (RAdd n r) = [(r, StateReady)]"
| "claims_r (RCleanNew r) = [(r, StateReady)]"
| "claims_r RExit = []"
| "claims_r RDone = []"

primrec claims :: "pc \<Rightarrow> (ref \<times> sstate) list" where
  "claims (X x) = claims_x x"
| "claims (K k) = claims_k k"
| "claims (R r) = claims_r r"
| "claims (H h) = []"
| "claims (Evict rs) = map (\<lambda>r. (r, StateReady)) rs"
| "claims EvictDone = []"

definition claim_at :: "(ref \<times> sstate) list \<Rightarrow> ref \<Rightarrow> sstate multiset" where
  "claim_at cs r = mset (map snd (filter (\<lambda>c. fst c = r) cs))"

definition lease_claims :: "leases \<Rightarrow> (ref \<times> sstate) list" where
  "lease_claims L = map (\<lambda>e. (snd e, StateRunning)) L"

definition ledger :: "pc list \<Rightarrow> leases \<Rightarrow> ref \<Rightarrow> sstate multiset" where
  "ledger thr L r = (\<Sum>c\<leftarrow>thr. claim_at (claims c) r) + claim_at (lease_claims L) r"

definition claim_ok :: "pool \<Rightarrow> ref \<Rightarrow> sstate multiset \<Rightarrow> bool" where
  "claim_ok p r M \<longleftrightarrow> M = {#} \<or>
     (\<exists>st. M = {#st#} \<and> sentry_state p r = Some st \<and> (r \<in> set (p_sentries p) \<longrightarrow> st \<noteq> StateReady))"

definition own_inv :: "pool \<Rightarrow> leases \<Rightarrow> pc list \<Rightarrow> bool" where
  "own_inv p L thr \<longleftrightarrow> (\<forall>r. claim_ok p r (ledger thr L r))"

section \<open>Accounting\<close>

lemma claim_at_simps [simp]:
  "claim_at [] r = {#}"
  "claim_at ((x, st) # cs) r = (if x = r then add_mset st (claim_at cs r) else claim_at cs r)"
  "claim_at (cs @ ds) r = claim_at cs r + claim_at ds r"
  by (simp_all add: claim_at_def)

lemma claim_at_none: "\<forall>c \<in> set cs. fst c \<noteq> r \<Longrightarrow> claim_at cs r = {#}"
  by (induction cs) auto

lemma claim_at_evict: "distinct rs \<Longrightarrow> claim_at (map (\<lambda>r. (r, st)) rs) r = (if r \<in> set rs then {#st#} else {#})"
  by (induction rs) auto

lemma lease_claims_simps [simp]:
  "lease_claims [] = []" "lease_claims (e # L) = (snd e, StateRunning) # lease_claims L"
  by (simp_all add: lease_claims_def)

lemma lease_update_claims:
  "claim_at (lease_claims (AList.update lid r L)) x \<subseteq># claim_at (lease_claims L) x + claim_at [(r, StateRunning)] x"
proof (rule mset_subset_eqI)
  show "count (claim_at (lease_claims (AList.update lid r L)) x) a
      \<le> count (claim_at (lease_claims L) x + claim_at [(r, StateRunning)] x) a" for a
    by (induction L) auto
qed

lemma lease_delete_le: "claim_at (lease_claims (AList.delete lid L)) x \<subseteq># claim_at (lease_claims L) x"
proof (rule mset_subset_eqI)
  show "count (claim_at (lease_claims (AList.delete lid L)) x) a \<le> count (claim_at (lease_claims L) x) a" for a
    by (induction L) auto
qed

lemma lease_delete_claims:
  "map_of L lid = Some r \<Longrightarrow>
     claim_at (lease_claims (AList.delete lid L)) x + claim_at [(r, StateRunning)] x \<subseteq># claim_at (lease_claims L) x"
proof (induction L)
  case (Cons e L)
  with lease_delete_le [of lid L x] show ?case
    by (cases e) (auto split: if_splits)
qed simp

lemma sum_list_update_mset:
  "t < length xs \<Longrightarrow> (\<Sum>x\<leftarrow>xs[t := y]. f x) + f (xs ! t) = (\<Sum>x\<leftarrow>xs. f x) + (f y :: 'a multiset)"
proof (induction xs arbitrary: t)
  case (Cons x xs)
  then show ?case by (cases t) (simp_all add: ac_simps)
qed simp

lemma ledger_append: "ledger (thr @ new) L r = ledger thr L r + (\<Sum>c\<leftarrow>new. claim_at (claims c) r)"
  by (simp add: ledger_def ac_simps)

lemma ledger_update:
  "t < length thr \<Longrightarrow>
     ledger (thr[t := c]) L r + claim_at (claims (thr ! t)) r = ledger thr L r + claim_at (claims c) r"
  using sum_list_update_mset [of t thr "\<lambda>c. claim_at (claims c) r" c]
  by (simp add: ledger_def ac_simps)

lemma ledger_thread_le: "t < length thr \<Longrightarrow> claim_at (claims (thr ! t)) r \<subseteq># ledger thr L r"
  using ledger_update [of t thr "X XSpawnErr" L r] by simp (metis mset_subset_eq_add_right)

lemma ledger_lease_le: "claim_at (lease_claims L) r \<subseteq># ledger thr L r"
  by (simp add: ledger_def)

section \<open>Preservation at a set of references\<close>

lemma subset_single: "M \<subseteq># {#a#} \<longleftrightarrow> M = {#} \<or> M = {#a#}"
  by (cases M) (auto simp: insert_subset_eq_iff)

lemma claim_ok_mono: "claim_ok p r M \<Longrightarrow> M' \<subseteq># M \<Longrightarrow> claim_ok p r M'"
  by (auto simp: claim_ok_def subset_single)

lemma claim_ok_full: "claim_ok p r M \<Longrightarrow> N \<subseteq># M \<Longrightarrow> N \<noteq> {#} \<Longrightarrow> M = N"
  by (auto simp: claim_ok_def subset_single)

lemma own_unclaimed:
  assumes "own_inv p L thr" and "sentry_state p r = None \<or> r \<in> set (p_sentries p) \<and> sentry_state p r = Some StateReady"
  shows "ledger thr L r = {#}"
proof -
  from assms(1) have "claim_ok p r (ledger thr L r)" by (simp add: own_inv_def)
  with assms(2) show ?thesis by (auto simp: claim_ok_def)
qed

lemma own_claimed:
  assumes "own_inv p L thr" and "t < length thr" and "(r, st) \<in> set (claims (thr ! t))"
  shows "sentry_state p r = Some st \<and> (r \<in> set (p_sentries p) \<longrightarrow> st \<noteq> StateReady)"
proof -
  from assms(3) have "st \<in># claim_at (claims (thr ! t)) r" by (force simp: claim_at_def)
  with ledger_thread_le [OF assms(2)] have "st \<in># ledger thr L r" by (meson mset_subset_eqD)
  moreover from assms(1) have "claim_ok p r (ledger thr L r)" by (simp add: own_inv_def)
  ultimately show ?thesis by (auto simp: claim_ok_def)
qed

text \<open>A step that only hands claims on, between a goroutine, the lease table and a new goroutine.\<close>

lemma own_transfer:
  assumes inv: "own_inv p L thr" and t: "t < length thr"
    and bal: "\<And>r. claim_at (claims c) r + (\<Sum>c\<leftarrow>new. claim_at (claims c) r) + claim_at (lease_claims L') r
          \<subseteq># claim_at (claims (thr ! t)) r + claim_at (lease_claims L) r"
    and mem: "sentry_state p' = sentry_state p" "set (p_sentries p') \<subseteq> set (p_sentries p)"
  shows "own_inv p' L' (thr[t := c] @ new)"
  unfolding own_inv_def
proof
  fix r
  have "(\<Sum>c\<leftarrow>thr[t := c]. claim_at (claims c) r) + claim_at (claims (thr ! t)) r =
      (\<Sum>c\<leftarrow>thr. claim_at (claims c) r) + claim_at (claims c) r"
    by (rule sum_list_update_mset [OF t])
  then have "ledger (thr[t := c] @ new) L' r + claim_at (claims (thr ! t)) r =
      (\<Sum>c\<leftarrow>thr. claim_at (claims c) r) +
        (claim_at (claims c) r + (\<Sum>c\<leftarrow>new. claim_at (claims c) r) + claim_at (lease_claims L') r)"
    by (simp add: ledger_def ac_simps)
  also have "\<dots> \<subseteq># (\<Sum>c\<leftarrow>thr. claim_at (claims c) r) +
        (claim_at (claims (thr ! t)) r + claim_at (lease_claims L) r)"
    using bal by (rule subset_mset.add_left_mono)
  also have "\<dots> = ledger thr L r + claim_at (claims (thr ! t)) r"
    by (simp add: ledger_def ac_simps)
  finally have "ledger (thr[t := c] @ new) L' r \<subseteq># ledger thr L r" by simp
  moreover from inv mem have "claim_ok p' r (ledger thr L r)"
    by (auto simp: own_inv_def claim_ok_def)
  ultimately show "claim_ok p' r (ledger (thr[t := c] @ new) L' r)"
    by (rule claim_ok_mono [rotated])
qed

text \<open>A step that changes one sentry: the goroutine held it before, or nobody did.\<close>

lemma own_change:
  assumes inv: "own_inv p L thr" and t: "t < length thr"
    and off: "\<And>r. r \<noteq> r0 \<Longrightarrow> claim_at (claims (thr ! t)) r = {#} \<and> claim_at (claims c) r = {#} \<and>
          sentry_state p' r = sentry_state p r \<and> (r \<in> set (p_sentries p') \<longrightarrow> r \<in> set (p_sentries p))"
    and held: "claim_at (claims (thr ! t)) r0 \<noteq> {#} \<or> ledger thr L r0 = {#}"
    and at: "claim_ok p' r0 (claim_at (claims c) r0)"
  shows "own_inv p' L (thr[t := c])"
  unfolding own_inv_def
proof
  fix r
  have bal: "ledger (thr[t := c]) L r + claim_at (claims (thr ! t)) r = ledger thr L r + claim_at (claims c) r"
    by (rule ledger_update [OF t])
  from inv have ok: "claim_ok p r (ledger thr L r)" for r by (simp add: own_inv_def)
  show "claim_ok p' r (ledger (thr[t := c]) L r)"
  proof (cases "r = r0")
    case False
    with bal off [of r] ok [of r] show ?thesis by (auto simp: claim_ok_def)
  next
    case True
    have le: "claim_at (claims (thr ! t)) r0 \<subseteq># ledger thr L r0" by (rule ledger_thread_le [OF t])
    with held ok [of r0] have "ledger thr L r0 = claim_at (claims (thr ! t)) r0"
      by (metis claim_ok_full subset_mset.le_zero_eq)
    with bal True at show ?thesis by simp
  qed
qed

section \<open>The members\<close>

definition mem_inv :: "pool \<Rightarrow> bool" where
  "mem_inv p \<longleftrightarrow> distinct (p_sentries p) \<and> (\<forall>r \<in> set (p_sentries p). p_heap p r \<noteq> None) \<and>
     (\<forall>r s. p_heap p r = Some s \<longrightarrow> r \<le> p_nextID p \<and> s_ID s = sentry_id (p_name p) r)"

lemma mem_inv_upd:
  "mem_inv p \<Longrightarrow> (\<And>s. s_ID (f s) = s_ID s) \<Longrightarrow> mem_inv (upd_sentry r f p)"
  by (auto simp: mem_inv_def mem_simps)

lemma mem_inv_frame:
  assumes "mem_inv p" and "p_heap p' = p_heap p" and "p_name p' = p_name p" and "p_nextID p \<le> p_nextID p'"
    and "distinct (p_sentries p')" and "set (p_sentries p') \<subseteq> set (p_sentries p)"
  shows "mem_inv p'"
  using assms by (fastforce simp: mem_inv_def)

lemma mem_inv_add:
  "mem_inv p \<Longrightarrow> r \<notin> set (p_sentries p) \<Longrightarrow> p_heap p r \<noteq> None \<Longrightarrow> mem_inv (p\<lparr>p_sentries := p_sentries p @ [r]\<rparr>)"
  by (auto simp: mem_inv_def)

lemma pool_remove_eq: "mem_inv p \<Longrightarrow> p_heap p r \<noteq> None \<Longrightarrow> pool_remove r p = p\<lparr>p_sentries := remove1 r (p_sentries p)\<rparr>"
  unfolding pool_remove_def
  by (subst remove_by_id_eq) (force simp: mem_inv_def inj_on_def)+

lemma marks_mem:
  "mem_inv p \<Longrightarrow> mem_inv (release_mark r p)" "mem_inv p \<Longrightarrow> mem_inv (drain_mark r p)"
  "mem_inv p \<Longrightarrow> mem_inv (reset_mark r now p)" "mem_inv p \<Longrightarrow> mem_inv (ready_mark r p)"
  "mem_inv p \<Longrightarrow> mem_inv (lease_mark r lid p)" "mem_inv p \<Longrightarrow> mem_inv (upd_sentry r (mark_running now) p)"
  by (simp_all add: release_mark_def drain_mark_def reset_mark_def ready_mark_def lease_mark_def mem_inv_upd)

lemma bump_mem: "mem_inv p \<Longrightarrow> mem_inv (bump_id p)"
  by (auto simp: mem_inv_def mem_simps le_SucI)

lemma spawn_mem:
  "mem_inv p \<Longrightarrow> spawned_sentry (bump_id p) (Suc (p_nextID p)) s \<Longrightarrow>
     mem_inv (store_sentry (Suc (p_nextID p)) s (bump_id p))"
  by (auto simp: mem_inv_def spawned_sentry_def store_sentry_def bump_id_def le_SucI)

section \<open>Every step keeps ownership\<close>

definition pool_inv :: "pool \<Rightarrow> leases \<Rightarrow> pc list \<Rightarrow> bool" where
  "pool_inv p L thr \<longleftrightarrow> mem_inv p \<and> own_inv p L thr"

lemma inv_claim:
  "pool_inv p L thr \<Longrightarrow> t < length thr \<Longrightarrow> (r, st) \<in> set (claims (thr ! t)) \<Longrightarrow>
     sentry_state p r = Some st \<and> p_heap p r \<noteq> None \<and> (r \<in> set (p_sentries p) \<longrightarrow> st \<noteq> StateReady)"
  using own_claimed [of p L thr t r st] by (auto simp: pool_inv_def sentry_state_def)

lemma inv_fresh: "mem_inv p \<Longrightarrow> sentry_state p (Suc (p_nextID p)) = None"
  unfolding mem_inv_def sentry_state_def by (metis None_eq_map_option_iff Suc_n_not_le_n not_None_eq)

lemma inv_frame:
  assumes "pool_inv p L thr" and "t < length thr" and "claims c = claims (thr ! t)"
    and "mem_inv p'" and "sentry_state p' = sentry_state p" and "set (p_sentries p') \<subseteq> set (p_sentries p)"
  shows "pool_inv p' L (thr[t := c])"
  using own_transfer [of p L thr t c "[]" L p'] assms by (simp add: pool_inv_def)

lemma inv_mark:
  assumes "pool_inv p L thr" and "t < length thr" and "claims (thr ! t) = [(r, st)]" and "claims c = [(r, st')]"
    and "mem_inv p'" and "sentry_state p' = (sentry_state p)(r := Some st')" and "p_sentries p' = p_sentries p"
    and "r \<in> set (p_sentries p) \<Longrightarrow> st' \<noteq> StateReady"
  shows "pool_inv p' L (thr[t := c])"
  using own_change [of p L thr t r c p'] assms by (simp add: pool_inv_def claim_ok_def)

lemma inv_drop:
  assumes "pool_inv p L thr" and "t < length thr" and "claims (thr ! t) = [(r, st)]" and "claims c = []"
    and "mem_inv p'" and "\<And>x. x \<noteq> r \<Longrightarrow> sentry_state p' x = sentry_state p x" and "set (p_sentries p') \<subseteq> insert r (set (p_sentries p))"
  shows "pool_inv p' L (thr[t := c])"
proof -
  have "own_inv p' L (thr[t := c])"
    by (rule own_change [of p L thr t r]) (use assms in \<open>auto simp: pool_inv_def claim_ok_def\<close>)
  with assms show ?thesis by (simp add: pool_inv_def)
qed

lemma inv_drop_upd:
  assumes "pool_inv p L thr" and "t < length thr" and "claims (thr ! t) = [(r, st)]" and "claims c = []"
    and "\<And>s. s_ID (f s) = s_ID s"
  shows "pool_inv (upd_sentry r f p) L (thr[t := c])"
  by (rule inv_drop [OF assms(1-4)])
     (use assms in \<open>auto simp: pool_inv_def mem_inv_upd sentry_state_upd mem_simps\<close>)

lemma inv_grab:
  assumes "pool_inv p L thr" and "t < length thr" and "claims (thr ! t) = []" and "claims c = [(r, st')]"
    and "mem_inv p'" and "sentry_state p' = (sentry_state p)(r := Some st')" and "p_sentries p' = p_sentries p"
    and "sentry_state p r = None \<and> r \<notin> set (p_sentries p) \<or>
         r \<in> set (p_sentries p) \<and> sentry_state p r = Some StateReady \<and> st' \<noteq> StateReady"
  shows "pool_inv p' L (thr[t := c])"
proof -
  have "ledger thr L r = {#}" using assms own_unclaimed [of p L thr r] by (auto simp: pool_inv_def)
  then have "own_inv p' L (thr[t := c])"
    by (intro own_change [of p L thr t r]) (use assms in \<open>auto simp: pool_inv_def claim_ok_def\<close>)
  with assms show ?thesis by (simp add: pool_inv_def)
qed

lemma inv_acquire:
  assumes "pool_inv p L thr" and "t < length thr" and "claims (thr ! t) = []" and "claims c = [(r, StateRunning)]"
    and "r \<in> set (p_sentries p)" and "sentry_state p r = Some StateReady"
    and "p_heap p' = p_heap (upd_sentry r (mark_running now) p)" "p_sentries p' = p_sentries p"
    and "p_name p' = p_name p" "p_nextID p' = p_nextID p"
  shows "pool_inv p' L (thr[t := c])"
proof (rule inv_grab [OF assms(1-4)])
  have "mem_inv (upd_sentry r (mark_running now) p)"
    using assms(1) by (simp add: pool_inv_def marks_mem)
  then show "mem_inv p'" using assms(7-10) by (simp add: mem_inv_def mem_simps)
  have "sentry_state p' = sentry_state (upd_sentry r (mark_running now) p)"
    using assms(7) by (simp add: sentry_state_def fun_eq_iff)
  then show "sentry_state p' = (sentry_state p)(r := Some StateRunning)"
    using state_upd_point [of p r "mark_running now" StateRunning] state_heap [OF assms(6)] by simp
qed (use assms in auto)

lemma spawn_step_inv:
  assumes "spawn_step i ok fails p L = Some (x', p', L')" and "pool_inv p L thr" and "t < length thr"
    and "claims (thr ! t) = []" and "\<And>r. claims (C (ok r)) = [(r, StateReady)]" and "claims (C fails) = []"
  shows "pool_inv p' L' (thr[t := C x'])"
proof (cases "i_ok i")
  case True
  let ?r = "Suc (p_nextID p)" and ?s = "i_sentry i"
  from True assms(1) have eq: "x' = ok ?r" "L' = L" "p' = store_sentry ?r ?s (bump_id p)"
    and s: "spawned_sentry (bump_id p) ?r ?s"
    by (auto simp: spawn_step_def Let_def bump_id_def split: if_splits)
  from assms(2) have mem: "mem_inv p" by (simp add: pool_inv_def)
  have "pool_inv p' L (thr[t := C (ok ?r)])"
  proof (rule inv_grab [OF assms(2-4) assms(5)])
    show "mem_inv p'" using spawn_mem [OF mem s] eq by simp
    show "sentry_state p' = (sentry_state p)(?r := Some StateReady)"
      using s by (auto simp: eq sentry_state_def store_sentry_def bump_id_def spawned_sentry_def)
    show "p_sentries p' = p_sentries p" by (simp add: eq store_sentry_def bump_id_def)
    show "sentry_state p ?r = None \<and> ?r \<notin> set (p_sentries p) \<or>
        ?r \<in> set (p_sentries p) \<and> sentry_state p ?r = Some StateReady \<and> StateReady \<noteq> StateReady"
      using inv_fresh [OF mem] mem by (auto simp: mem_inv_def sentry_state_def)
  qed
  with eq show ?thesis by simp
next
  case False
  with assms(1) have eq: "x' = fails" "L' = L" "p' = bump_id p"
    by (auto simp: spawn_step_def Let_def)
  have "pool_inv (bump_id p) L (thr[t := C fails])"
    by (rule inv_frame [OF assms(2,3)])
       (use assms in \<open>auto simp: pool_inv_def mem_simps intro: bump_mem\<close>)
  with eq show ?thesis by simp
qed

lemma inv_pool_frame:
  assumes "pool_inv p L thr" and "t < length thr" and "claims c = claims (thr ! t)"
    and "p_heap p' = p_heap p" "p_name p' = p_name p" "p_nextID p' = p_nextID p" "p_sentries p' = p_sentries p"
  shows "pool_inv p' L (thr[t := c])"
proof (rule inv_frame [OF assms(1-3)])
  show "mem_inv p'" using assms by (simp add: pool_inv_def mem_inv_def)
  show "sentry_state p' = sentry_state p" using assms by (simp add: sentry_state_def fun_eq_iff)
qed (use assms in simp)

lemma inv_mark_upd:
  assumes "pool_inv p L thr" and "t < length thr" and "claims (thr ! t) = [(r, st)]" and "claims c = [(r, st')]"
    and "\<And>s. s_State (f s) = st'" and "\<And>s. s_ID (f s) = s_ID s" and "st' \<noteq> StateReady"
  shows "pool_inv (upd_sentry r f p) L (thr[t := c])"
proof (rule inv_mark [OF assms(1-4)])
  have "p_heap p r \<noteq> None" using inv_claim [OF assms(1,2), of r st] assms(3) by simp
  from state_upd_point [OF this, of f st', OF assms(5)]
  show "sentry_state (upd_sentry r f p) = (sentry_state p)(r := Some st')" .
qed (use assms in \<open>simp_all add: pool_inv_def mem_inv_upd mem_simps\<close>)

lemma inv_keep_upd:
  assumes "pool_inv p L thr" and "t < length thr" and "claims c = claims (thr ! t)"
    and "\<And>s. s_State (f s) = s_State s" and "\<And>s. s_ID (f s) = s_ID s"
  shows "pool_inv (upd_sentry r f p) L (thr[t := c])"
  by (rule inv_frame [OF assms(1-3)])
     (use assms in \<open>simp_all add: pool_inv_def mem_inv_upd mem_simps state_upd_same\<close>)

lemma execute_step_inv:
  assumes "execute_step t i x p L = Some (x', p', L')" and "pool_inv p L thr" and "t < length thr" and "thr ! t = X x"
  shows "pool_inv p' L' (thr[t := X x'])"
proof (cases x)
  case (XStart c)
  then have none: "claims (thr ! t) = []" using assms by simp
  show ?thesis
  proof (cases rule: acquire_enter_cases [of t "i_now i" p])
    case (got r)
    with XStart assms(1) have "x' = XHave c r" "L' = L" "p' = upd_sentry r (mark_running (i_now i)) p" by auto
    with inv_acquire [OF assms(2,3) none, of "X (XHave c r)" r p' "i_now i"] got show ?thesis by (simp add: mem_simps)
  qed (use XStart assms none in \<open>auto intro!: inv_pool_frame simp: mem_simps\<close>)
next
  case (XSpawn c)
  with assms show ?thesis
    by (intro spawn_step_inv [where C = X and ok = "XSpawned c" and fails = XSpawnErr and p = p and i = i]) auto
next
  case XSpawnErr
  with assms show ?thesis by (auto simp: acquire_spawned_def Let_def intro!: inv_pool_frame)
next
  case (XSpawned c r)
  with assms have claim: "claims (thr ! t) = [(r, StateReady)]" by simp
  with inv_claim [OF assms(2,3), of r StateReady] have r: "sentry_state p r = Some StateReady" "p_heap p r \<noteq> None" "r \<notin> set (p_sentries p)"
    by auto
  from assms(2) have mem: "mem_inv p" by (simp add: pool_inv_def)
  show ?thesis
  proof (cases rule: acquire_spawned_cases [of r "i_now i" p])
    case closed
    with XSpawned assms show ?thesis by (auto intro!: inv_pool_frame)
  next
    case got
    let ?p = "upd_sentry r (mark_running (i_now i)) (p\<lparr>p_pending := p_pending p - 1\<rparr>)"
    from got XSpawned assms(1) have eq: "x' = XHave c r" "L' = L" "p' = ?p\<lparr>p_sentries := p_sentries ?p @ [r]\<rparr>"
      by (auto simp: mem_simps)
    have "mem_inv (p\<lparr>p_pending := p_pending p - 1\<rparr>)" using mem by (simp add: mem_inv_def)
    then have m: "mem_inv p'" unfolding eq using r
      by (intro mem_inv_add marks_mem) (auto simp: mem_simps)
    have st: "sentry_state p' = (sentry_state p)(r := Some StateRunning)"
      unfolding eq using state_upd_point [of "p\<lparr>p_pending := p_pending p - 1\<rparr>" r "mark_running (i_now i)" StateRunning] r
      by (simp add: mem_simps)
    have "own_inv p' L (thr[t := X (XHave c r)])"
      by (rule own_change [of p L thr t r])
         (use assms claim r st in \<open>auto simp: pool_inv_def claim_ok_def eq mem_simps\<close>)
    with m eq show ?thesis by (simp add: pool_inv_def)
  qed
next
  case (XCleanup r)
  with assms have claim: "claims (thr ! t) = [(r, StateReady)]" by simp
  have "pool_inv p L (thr[t := X (XDone (Inl ErrPoolClosed))])"
    by (rule inv_drop [OF assms(2,3) claim]) (use assms(2) in \<open>auto simp: pool_inv_def\<close>)
  with XCleanup assms(1) show ?thesis by simp
next
  case (XWait c)
  then have none: "claims (thr ! t) = []" using assms by simp
  from XWait assms(1) have woken: "t \<in> set (p_woken p)" by (simp split: if_splits)
  show ?thesis
  proof (cases rule: acquire_wake_cases [of t "i_now i" p])
    case (got r)
    with XWait woken assms(1) have "x' = XHave c r" "L' = L"
      "p' = (upd_sentry r (mark_running (i_now i)) (cond_resume t p))\<lparr>p_pending := p_pending p - 1\<rparr>" by auto
    with inv_acquire [OF assms(2,3) none, of "X (XHave c r)" r p' "i_now i"] got show ?thesis by (simp add: mem_simps)
  qed (use XWait woken assms none in \<open>auto intro!: inv_pool_frame simp: mem_simps\<close>)
next
  case (XHave c r)
  with assms show ?thesis by (auto simp: Let_def intro!: inv_pool_frame split: if_splits)
next
  case (XRelease r e)
  with assms have claim: "claims (thr ! t) = [(r, StateRunning)]" by simp
  have "pool_inv (release_mark r p) L (thr[t := X (XSignal e)])"
    unfolding release_mark_def by (rule inv_drop_upd [OF assms(2,3) claim]) simp_all
  with XRelease assms(1) show ?thesis by simp
next
  case (XSignal e)
  with assms show ?thesis by (auto simp: mem_simps intro!: inv_pool_frame)
next
  case (XLease r)
  then have "pool_inv (lease_mark r (i_lid i) p) L (thr[t := X (XInsert r (i_lid i))])"
    unfolding lease_mark_def using assms(4) by (intro inv_keep_upd [OF assms(2,3)]) simp_all
  with XLease assms(1) show ?thesis by simp
next
  case (XInsert r lid)
  with assms have eq: "x' = XDone (Inr lid)" "L' = AList.update lid r L" "p' = p" by auto
  have "own_inv p L' (thr[t := X x'] @ [])"
    by (rule own_transfer [of p L thr])
       (use assms eq XInsert lease_update_claims [of lid r L] in \<open>auto simp: pool_inv_def ac_simps\<close>)
  with assms(2) eq show ?thesis by (simp add: pool_inv_def)
next
  case (XDone z)
  with assms show ?thesis by simp
qed

lemma complete_step_inv:
  assumes "complete_step k p L = Some (k', p', L')" and "pool_inv p L thr" and "t < length thr" and "thr ! t = K k"
  shows "pool_inv p' L' (thr[t := K k'] @ started_by k)"
proof (cases k)
  case (KStart lid)
  show ?thesis
  proof (cases "map_of L lid")
    case None
    with KStart assms show ?thesis by (auto simp: started_by_def intro!: inv_pool_frame)
  next
    case (Some r)
    with KStart assms(1) have eq: "k' = KAdd r" "L' = AList.delete lid L" "p' = p" by auto
    have "own_inv p L' (thr[t := K k'] @ [])"
      by (rule own_transfer [of p L thr])
         (use assms eq KStart lease_delete_claims [OF Some] in \<open>auto simp: pool_inv_def ac_simps split: if_splits\<close>)
    with assms(2) eq KStart show ?thesis by (simp add: pool_inv_def started_by_def)
  qed
next
  case (KAdd r)
  with assms(1) have eq: "k' = KDone True" "L' = L" "p' = p\<lparr>p_recycleWg := p_recycleWg p + 1\<rparr>" by auto
  have "own_inv p' L (thr[t := K k'] @ [R (RStart r)])"
    by (rule own_transfer [of p L thr])
       (use assms eq KAdd in \<open>auto simp: pool_inv_def mem_simps\<close>)
  with assms(2) eq KAdd show ?thesis by (simp add: pool_inv_def started_by_def mem_inv_def)
next
  case (KDone b)
  with assms show ?thesis by simp
qed

lemma recycle_step_inv:
  assumes "recycle_step warm i x p L = Some (x', p', L')" and "pool_inv p L thr" and "t < length thr" and "thr ! t = R x"
  shows "pool_inv p' L' (thr[t := R x'])"
proof (cases x)
  case (RStart r)
  with assms show ?thesis
    by (auto simp: drain_mark_def intro!: inv_mark_upd [where r = r])
next
  case (RKill r)
  with assms show ?thesis by (auto intro!: inv_pool_frame)
next
  case (RReset r)
  with assms show ?thesis by (auto simp: reset_mark_def intro!: inv_pool_frame inv_keep_upd split: if_splits)
next
  case (RHealth r)
  with assms show ?thesis by (auto intro!: inv_pool_frame)
next
  case (RRestore r)
  with assms show ?thesis by (auto intro!: inv_pool_frame split: if_splits)
next
  case (RReady r)
  with assms have claim: "claims (thr ! t) = [(r, StateDraining)]" by simp
  have "pool_inv (ready_mark r p) L (thr[t := R RSignal])"
    unfolding ready_mark_def by (rule inv_drop_upd [OF assms(2,3) claim]) simp_all
  with RReady assms(1) show ?thesis by simp
next
  case RSignal
  with assms show ?thesis by (auto simp: mem_simps intro!: inv_pool_frame)
next
  case (RRemove r)
  with assms have "(r, StateDraining) \<in> set (claims (thr ! t))" by simp
  then have "p_heap p r \<noteq> None" using inv_claim [OF assms(2,3)] by blast
  with assms(2) have eq: "pool_remove r p = p\<lparr>p_sentries := remove1 r (p_sentries p)\<rparr>"
    by (simp add: pool_remove_eq pool_inv_def)
  have "pool_inv (p\<lparr>p_sentries := remove1 r (p_sentries p)\<rparr>) L (thr[t := R (RClean r)])"
  proof (rule inv_frame [OF assms(2,3)])
    show "set (p_sentries (p\<lparr>p_sentries := remove1 r (p_sentries p)\<rparr>)) \<subseteq> set (p_sentries p)"
      by (simp add: set_remove1_subset)
    with assms(2) show "mem_inv (p\<lparr>p_sentries := remove1 r (p_sentries p)\<rparr>)"
      by (auto simp: pool_inv_def mem_inv_def)
  qed (use RRemove assms in \<open>auto simp: mem_simps\<close>)
  with RRemove assms(1) eq show ?thesis by simp
next
  case (RClean r)
  with assms have claim: "claims (thr ! t) = [(r, StateDraining)]" by simp
  have "pool_inv p L (thr[t := R RRefill])"
    by (rule inv_drop [OF assms(2,3) claim]) (use assms(2) in \<open>auto simp: pool_inv_def\<close>)
  with RClean assms(1) show ?thesis by simp
next
  case RRefill
  with assms show ?thesis by (auto intro!: inv_pool_frame)
next
  case (RLoop n)
  show ?thesis
  proof (cases n)
    case 0
    with RLoop assms show ?thesis by (auto intro!: inv_pool_frame)
  next
    case (Suc m)
    with RLoop assms show ?thesis
      by (intro spawn_step_inv [where C = R and ok = "RAdd m" and fails = "RLoop m" and p = p and i = i]) auto
  qed
next
  case (RAdd n r)
  with assms have claim: "claims (thr ! t) = [(r, StateReady)]" by simp
  with inv_claim [OF assms(2,3), of r StateReady] have r: "sentry_state p r = Some StateReady" "p_heap p r \<noteq> None" "r \<notin> set (p_sentries p)"
    by auto
  show ?thesis
  proof (cases "p_closed p")
    case True
    with RAdd assms show ?thesis by (auto simp: refill_add_def intro!: inv_pool_frame)
  next
    case False
    with RAdd assms(1) have eq: "x' = RLoop n" "L' = L" "p' = cond_signal (p\<lparr>p_sentries := p_sentries p @ [r]\<rparr>)"
      by (auto simp: refill_add_def)
    have "mem_inv (p\<lparr>p_sentries := p_sentries p @ [r]\<rparr>)"
      using assms(2) r by (intro mem_inv_add) (auto simp: pool_inv_def)
    then have "pool_inv p' L (thr[t := R (RLoop n)])" unfolding eq
      by (intro inv_drop [OF assms(2,3) claim]) (auto simp: mem_simps mem_inv_def)
    with eq show ?thesis by simp
  qed
next
  case (RCleanNew r)
  with assms have claim: "claims (thr ! t) = [(r, StateReady)]" by simp
  have "pool_inv p L (thr[t := R RExit])"
    by (rule inv_drop [OF assms(2,3) claim]) (use assms(2) in \<open>auto simp: pool_inv_def\<close>)
  with RCleanNew assms(1) show ?thesis by simp
next
  case RExit
  with assms show ?thesis by (auto intro!: inv_pool_frame)
next
  case RDone
  with assms show ?thesis by simp
qed

lemma shutdown_step_inv:
  assumes "shutdown_step h p L = Some (h', p', L')" and "pool_inv p L thr" and "t < length thr" and "thr ! t = H h"
  shows "pool_inv p' L' (thr[t := H h'])"
proof (cases h)
  case HClose
  have "pool_inv (snd (pool_close p)) L (thr[t := H (HClean (p_sentries p))])"
    by (rule inv_frame [OF assms(2,3)])
       (use assms HClose in \<open>auto simp: pool_close_def pool_inv_def mem_inv_def mem_simps\<close>)
  with HClose assms(1) show ?thesis by (simp add: pool_close_def)
qed (use assms in \<open>auto intro!: inv_pool_frame split: if_splits\<close>)

lemma thread_step_inv:
  assumes "thread_step warm t i (thr ! t) p L = Some (c, p', L', new)" and "pool_inv p L thr" and "t < length thr"
  shows "pool_inv p' L' (thr[t := c] @ new)"
proof (cases "thr ! t")
  case (X x)
  with assms execute_step_inv show ?thesis by fastforce
next
  case (K k)
  with assms complete_step_inv show ?thesis by fastforce
next
  case (R r)
  with assms recycle_step_inv show ?thesis by fastforce
next
  case (H h)
  with assms shutdown_step_inv show ?thesis by fastforce
next
  case (Evict rs)
  with assms have "own_inv p L (thr[t := EvictDone] @ [])"
    by (intro own_transfer [of p L thr]) (auto simp: pool_inv_def)
  with Evict assms show ?thesis by (auto simp: pool_inv_def)
next
  case EvictDone
  with assms show ?thesis by simp
qed

section \<open>Reachable states\<close>

definition sys_inv :: "sys \<Rightarrow> bool" where
  "sys_inv s \<longleftrightarrow> pool_inv (m_pool s) (m_leases s) (m_thr s)"

lemma inv_append:
  assumes "pool_inv p L thr" and "claims c = []"
  shows "pool_inv p L (thr @ [c])"
  using assms by (simp add: pool_inv_def own_inv_def ledger_append)

lemma inv_drop_leases:
  assumes "pool_inv p L thr"
  shows "pool_inv p [] thr"
proof -
  have "ledger thr [] r \<subseteq># ledger thr L r" for r by (simp add: ledger_def)
  with assms show ?thesis unfolding pool_inv_def own_inv_def by (blast intro: claim_ok_mono)
qed

lemma inv_tick:
  assumes "pool_inv p L thr" and "reap idle now p = (rs, p')"
  shows "pool_inv p' L (thr @ [Evict rs])"
proof -
  from assms(2) have rs: "rs = filter (sentry_idle idle now p) (p_sentries p)"
    and p': "p' = p\<lparr>p_sentries := filter (\<lambda>r. \<not> sentry_idle idle now p r) (p_sentries p)\<rparr>"
    by (simp_all add: reap_def)
  have ready: "sentry_state p r = Some StateReady" if "r \<in> set rs" for r
    using that by (auto simp: rs sentry_idle_def sentry_state_def split: option.splits)
  from assms(1) have mem: "mem_inv p" and own: "own_inv p L thr" by (simp_all add: pool_inv_def)
  have "claim_ok p' r (ledger (thr @ [Evict rs]) L r)" for r
  proof (cases "r \<in> set rs")
    case True
    then have "r \<in> set (p_sentries p)" by (simp add: rs)
    with ready [OF True] own have "ledger thr L r = {#}" by (intro own_unclaimed) auto
    moreover have "distinct rs" using mem by (simp add: rs mem_inv_def)
    ultimately show ?thesis
      using True ready [OF True] by (auto simp: ledger_append claim_at_evict claim_ok_def p' rs mem_simps)
  next
    case False
    have "claim_at (claims (Evict rs)) r = {#}" using False by (auto intro!: claim_at_none)
    moreover have "claim_ok p r (ledger thr L r)" using own by (simp add: own_inv_def)
    ultimately show ?thesis by (auto simp: ledger_append claim_ok_def p' mem_simps)
  qed
  moreover have "mem_inv p'" using mem by (auto simp: p' mem_inv_def)
  ultimately show ?thesis by (simp add: pool_inv_def own_inv_def)
qed

lemma fire_inv: "fire g a s = Some s' \<Longrightarrow> sys_inv s \<Longrightarrow> sys_inv s'"
proof (cases a)
  case (Run t i)
  assume "fire g a s = Some s'" and "sys_inv s"
  with Run show ?thesis by (auto simp: sys_inv_def intro: thread_step_inv split: if_splits option.splits)
next
  case (Tick now)
  assume "fire g a s = Some s'" and "sys_inv s"
  with Tick show ?thesis by (auto simp: sys_inv_def intro: inv_tick split: if_splits prod.splits)
qed (auto simp: sys_inv_def intro!: inv_append intro: inv_drop_leases)

lemma initial_inv:
  assumes "initial s"
  shows "sys_inv s"
proof -
  from assms obtain name wl f where s: "m_pool s = started name wl f" "m_leases s = []" "m_thr s = []"
    and f: "\<forall>r \<in> set (p_sentries (m_pool s)). spawned_sentry (m_pool s) r (f r)"
    by (auto simp: initial_def)
  have "mem_inv (m_pool s)"
    using f by (auto simp: mem_inv_def s started_def Let_def newPool_def spawned_sentry_def split: if_splits)
  then show ?thesis by (simp add: sys_inv_def pool_inv_def own_inv_def s ledger_def claim_ok_def)
qed

interpretation ownership: invariant_system initial "fire g" sys_inv for g
  by unfold_locales (fact initial_inv fire_inv)+

end
