(* ===== verification/Pool_Wait.thy ===== *)
theory Pool_Wait
  imports Pool_Owner
begin

text \<open>
  Waiting: the pending counter, the condition variable, the bound of the queue, the wait group
  and the guarantee that no wake-up is lost. Each invariant relates a counter of the code to the
  number of goroutines at the program points that account for it.
\<close>

section \<open>The invariants\<close>

definition is_wait :: "pc \<Rightarrow> bool" where
  "is_wait c = (case c of X (XWait _) \<Rightarrow> True | _ \<Rightarrow> False)"

definition is_spawning :: "pc \<Rightarrow> bool" where
  "is_spawning c = (case c of X (XSpawn _) \<Rightarrow> True | X XSpawnErr \<Rightarrow> True | X (XSpawned _ _) \<Rightarrow> True | _ \<Rightarrow> False)"

text \<open>A goroutine that has made a sentry ready and has not yet signalled it.\<close>

definition is_signalling :: "pc \<Rightarrow> bool" where
  "is_signalling c = (case c of X (XSignal _) \<Rightarrow> True | R RSignal \<Rightarrow> True | _ \<Rightarrow> False)"

definition is_recycling :: "pc \<Rightarrow> bool" where
  "is_recycling c = (case c of R r \<Rightarrow> r \<noteq> RDone | _ \<Rightarrow> False)"

definition avail :: "pool \<Rightarrow> nat" where
  "avail p = count_if (\<lambda>r. sentry_state p r = Some StateReady) (p_sentries p)"

definition pending_inv :: "pool \<Rightarrow> pc list \<Rightarrow> bool" where
  "pending_inv p thr \<longleftrightarrow> p_pending p = int (count_if is_wait thr + count_if is_spawning thr)"

definition cond_inv :: "pool \<Rightarrow> pc list \<Rightarrow> bool" where
  "cond_inv p thr \<longleftrightarrow> distinct (p_cond p @ p_woken p) \<and>
     set (p_cond p @ p_woken p) = {t. t < length thr \<and> is_wait (thr ! t)}"

definition queue_inv :: "pool \<Rightarrow> pc list \<Rightarrow> bool" where
  "queue_inv p thr \<longleftrightarrow> int (count_if is_wait thr) \<le> max 0 (max_pending (p_workload p))"

definition closed_inv :: "pool \<Rightarrow> bool" where
  "closed_inv p \<longleftrightarrow> (p_closed p \<longrightarrow> p_sentries p = [])"

definition wg_inv :: "pool \<Rightarrow> pc list \<Rightarrow> bool" where
  "wg_inv p thr \<longleftrightarrow> p_recycleWg p = int (count_if is_recycling thr)"

definition wake_inv :: "pool \<Rightarrow> pc list \<Rightarrow> bool" where
  "wake_inv p thr \<longleftrightarrow>
     (p_closed p \<or> p_cond p = [] \<or> avail p \<le> length (p_woken p) + count_if is_signalling thr)"

lemmas kinds = is_wait_def is_spawning_def is_signalling_def is_recycling_def

lemma kinds_new [simp]:
  "\<not> is_wait (X (XStart c))" "\<not> is_spawning (X (XStart c))" "\<not> is_signalling (X (XStart c))" "\<not> is_recycling (X (XStart c))"
  "\<not> is_wait (K k)" "\<not> is_spawning (K k)" "\<not> is_signalling (K k)" "\<not> is_recycling (K k)"
  "\<not> is_wait (H h)" "\<not> is_spawning (H h)" "\<not> is_signalling (H h)" "\<not> is_recycling (H h)"
  "\<not> is_wait (Evict rs)" "\<not> is_spawning (Evict rs)" "\<not> is_signalling (Evict rs)" "\<not> is_recycling (Evict rs)"
  "\<not> is_wait EvictDone" "\<not> is_spawning EvictDone" "\<not> is_signalling EvictDone" "\<not> is_recycling EvictDone"
  "\<not> is_wait (R r)" "\<not> is_spawning (R r)" "\<not> is_recycling (X x)"
  by (simp_all add: kinds)

section \<open>The fields each step changes\<close>

text \<open>Only a step of a goroutine that recycles or completes touches the wait group.\<close>

lemma spawn_step_pool:
  assumes "spawn_step i ok fails p L = Some (x', p', L')"
  shows "p_pending p' = p_pending p" "p_cond p' = p_cond p" "p_woken p' = p_woken p" "p_closed p' = p_closed p"
    "p_workload p' = p_workload p" "p_recycleWg p' = p_recycleWg p" "p_sentries p' = p_sentries p"
    "\<And>r. r \<le> p_nextID p \<Longrightarrow> p_heap p' r = p_heap p r"
    "x' = ok (p_nextID p') \<or> x' = fails"
  using assms by (auto simp: spawn_step_def Let_def store_sentry_def mem_simps split: if_splits)

lemma execute_step_wg:
  "execute_step t i x p L = Some (x', p', L') \<Longrightarrow> p_recycleWg p' = p_recycleWg p"
proof (cases x)
  case (XStart c)
  then show "execute_step t i x p L = Some (x', p', L') \<Longrightarrow> ?thesis"
    by (cases rule: acquire_enter_cases [of t "i_now i" p]) (auto simp: mem_simps)
next
  case (XSpawn c)
  then show "execute_step t i x p L = Some (x', p', L') \<Longrightarrow> ?thesis" by (auto dest: spawn_step_pool)
next
  case (XSpawned c r)
  then show "execute_step t i x p L = Some (x', p', L') \<Longrightarrow> ?thesis"
    by (cases rule: acquire_spawned_cases [of r "i_now i" p]) (auto simp: mem_simps)
next
  case (XWait c)
  then show "execute_step t i x p L = Some (x', p', L') \<Longrightarrow> ?thesis"
    by (cases rule: acquire_wake_cases [of t "i_now i" p]) (auto simp: mem_simps split: if_splits)
qed (auto simp: acquire_spawned_def Let_def release_mark_def lease_mark_def mem_simps split: if_splits)

section \<open>How many members are available\<close>

lemma avail_none: "\<forall>r \<in> set (p_sentries p). sentry_state p r \<noteq> Some StateReady \<Longrightarrow> avail p = 0"
  by (simp add: avail_def count_if_zero)

lemma avail_cong: "p_sentries p' = p_sentries p \<Longrightarrow> sentry_state p' = sentry_state p \<Longrightarrow> avail p' = avail p"
  by (simp add: avail_def)

lemma count_if_le_off:
  "distinct xs \<Longrightarrow> (\<And>x. x \<in> set xs \<Longrightarrow> x \<noteq> r \<Longrightarrow> P x \<Longrightarrow> Q x) \<Longrightarrow>
     count_if P xs \<le> count_if Q xs + (if P r \<and> \<not> Q r then 1 else 0)"
proof (induction xs)
  case (Cons x xs)
  show ?case
  proof (cases "x = r")
    case True
    with Cons.prems have "count_if P xs \<le> count_if Q xs" by (intro count_if_mono) auto
    with True show ?thesis by auto
  next
    case False
    have "P x \<Longrightarrow> Q x" using Cons.prems(2) [of x] False by simp
    moreover have "count_if P xs \<le> count_if Q xs + (if P r \<and> \<not> Q r then 1 else 0)"
      using Cons.IH Cons.prems by simp
    ultimately show ?thesis by (auto split: if_splits)
  qed
qed simp

lemma avail_upd_le:
  "mem_inv p \<Longrightarrow> avail (upd_sentry r f p) \<le> avail p + 1"
proof -
  assume "mem_inv p"
  then have "distinct (p_sentries p)" by (simp add: mem_inv_def)
  then have "count_if (\<lambda>x. sentry_state (upd_sentry r f p) x = Some StateReady) (p_sentries p)
      \<le> count_if (\<lambda>x. sentry_state p x = Some StateReady) (p_sentries p) +
        (if sentry_state (upd_sentry r f p) r = Some StateReady \<and> sentry_state p r \<noteq> Some StateReady then 1 else 0)"
    by (rule count_if_le_off) (simp add: sentry_state_upd)
  then show ?thesis by (simp add: avail_def mem_simps split: if_splits)
qed

lemma avail_upd_not_ready:
  assumes "\<And>s. s_State (f s) \<noteq> StateReady"
  shows "avail (upd_sentry r f p) \<le> avail p"
  using assms by (auto simp: avail_def mem_simps sentry_state_upd intro!: count_if_mono)

lemma avail_take:
  assumes "r \<in> set (p_sentries p)" and "sentry_state p r = Some StateReady" and "\<And>s. s_State (f s) \<noteq> StateReady"
  shows "avail (upd_sentry r f p) < avail p"
proof -
  have "count_if (\<lambda>x. sentry_state (upd_sentry r f p) x = Some StateReady) xs
      < count_if (\<lambda>x. sentry_state p x = Some StateReady) xs" if "r \<in> set xs" for xs
    using that
  proof (induction xs)
    case (Cons x xs)
    have le: "count_if (\<lambda>x. sentry_state (upd_sentry r f p) x = Some StateReady) xs
        \<le> count_if (\<lambda>x. sentry_state p x = Some StateReady) xs"
      using assms(3) by (auto simp: sentry_state_upd intro!: count_if_mono)
    show ?case
    proof (cases "x = r")
      case True
      with le assms(2,3) show ?thesis by (auto simp: sentry_state_upd)
    next
      case False
      with Cons show ?thesis by (auto simp: sentry_state_upd)
    qed
  qed simp
  with assms(1) show ?thesis by (simp add: avail_def mem_simps)
qed

lemma avail_remove: "avail (pool_remove r p) \<le> avail p"
proof -
  have "count_if P (remove_by_id p i xs) \<le> count_if P xs" for P i xs
    by (induction xs) auto
  then show ?thesis by (simp add: avail_def mem_simps) (simp add: pool_remove_def)
qed

lemma avail_filter: "avail (p\<lparr>p_sentries := filter Q (p_sentries p)\<rparr>) \<le> avail p"
proof -
  have "count_if P (filter Q xs) \<le> count_if P xs" for P and xs :: "nat list"
    by (induction xs) auto
  then show ?thesis by (simp add: avail_def mem_simps)
qed

lemma avail_append:
  "avail (p\<lparr>p_sentries := p_sentries p @ [r]\<rparr>) = avail p + (if sentry_state p r = Some StateReady then 1 else 0)"
  by (simp add: avail_def mem_simps)

section \<open>One goroutine moves: what to check\<close>

lemma pending_move:
  assumes "pending_inv p thr" and "t < length thr"
    and "p_pending p' + (if is_wait (thr ! t) then 1 else 0) + (if is_spawning (thr ! t) then 1 else 0) =
         p_pending p + (if is_wait c then 1 else 0) + (if is_spawning c then 1 else 0)"
  shows "pending_inv p' (thr[t := c])"
  using assms(1,3) count_if_update [OF assms(2), of is_wait c] count_if_update [OF assms(2), of is_spawning c]
  by (auto simp: pending_inv_def split: if_splits)

lemma wait_set_update:
  "t < length thr \<Longrightarrow> {u. u < length (thr[t := c]) \<and> is_wait (thr[t := c] ! u)} =
     (if is_wait c then insert t {u. u < length thr \<and> is_wait (thr ! u)} else {u. u < length thr \<and> is_wait (thr ! u)} - {t})"
  by (auto simp: nth_list_update split: if_splits)

lemma cond_keep:
  assumes "cond_inv p thr" and "t < length thr" and "is_wait c = is_wait (thr ! t)"
    and "distinct (p_cond p' @ p_woken p')" and "set (p_cond p' @ p_woken p') = set (p_cond p @ p_woken p)"
  shows "cond_inv p' (thr[t := c])"
proof -
  have "{u. u < length (thr[t := c]) \<and> is_wait (thr[t := c] ! u)} = {u. u < length thr \<and> is_wait (thr ! u)}"
    unfolding wait_set_update [OF assms(2)] using assms(2,3) by auto
  with assms show ?thesis unfolding cond_inv_def by simp
qed

lemma cond_enter:
  assumes "cond_inv p thr" and "t < length thr" and "is_wait c" and "\<not> is_wait (thr ! t)"
    and "p_cond p' = p_cond p @ [t]" and "p_woken p' = p_woken p"
  shows "cond_inv p' (thr[t := c])"
  unfolding cond_inv_def wait_set_update [OF assms(2)]
  using assms by (auto simp: cond_inv_def)

lemma cond_leave:
  assumes "cond_inv p thr" and "t < length thr" and "\<not> is_wait c" and "t \<in> set (p_woken p)"
    and "p_cond p' = p_cond p" and "p_woken p' = remove1 t (p_woken p)"
  shows "cond_inv p' (thr[t := c])"
  unfolding cond_inv_def wait_set_update [OF assms(2)]
  using assms by (auto simp: cond_inv_def)

lemma cond_again:
  assumes "cond_inv p thr" and "t < length thr" and "is_wait c" and "t \<in> set (p_woken p)"
    and "p_cond p' = p_cond p @ [t]" and "p_woken p' = remove1 t (p_woken p)"
  shows "cond_inv p' (thr[t := c])"
  unfolding cond_inv_def wait_set_update [OF assms(2)]
  using assms by (auto simp: cond_inv_def)

lemma queue_move:
  assumes "queue_inv p thr" and "pending_inv p thr" and "t < length thr" and "p_workload p' = p_workload p"
    and "is_wait c \<Longrightarrow> is_wait (thr ! t) \<or> p_pending p < max_pending (p_workload p)"
  shows "queue_inv p' (thr[t := c])"
  using assms(1,2,4,5) count_if_update [OF assms(3), of is_wait c]
  by (auto simp: queue_inv_def pending_inv_def split: if_splits)

lemma wake_move:
  assumes "wake_inv p thr" and "t < length thr"
    and "p_closed p' \<or> p_cond p' = [] \<or> avail p' = 0 \<or>
         \<not> p_closed p \<and> p_cond p \<noteq> [] \<and>
         avail p' + length (p_woken p) + (if is_signalling (thr ! t) then 1 else 0) \<le>
         avail p + length (p_woken p') + (if is_signalling c then 1 else 0)"
  shows "wake_inv p' (thr[t := c])"
  using assms(1,3) count_if_update [OF assms(2), of is_signalling c]
  by (auto simp: wake_inv_def split: if_splits)

definition wait_inv :: "pool \<Rightarrow> pc list \<Rightarrow> bool" where
  "wait_inv p thr \<longleftrightarrow> pending_inv p thr \<and> cond_inv p thr \<and> queue_inv p thr \<and> closed_inv p \<and> wake_inv p thr"

lemma wait_closed: "wait_inv p thr \<Longrightarrow> p_closed p \<Longrightarrow> p_sentries p = []"
  by (simp add: wait_inv_def closed_inv_def)

lemma wait_cond: "wait_inv p thr \<Longrightarrow> cond_inv p thr"
  by (simp add: wait_inv_def)

lemma wait_move:
  assumes "wait_inv p thr" and "t < length thr"
    and "p_pending p' + (if is_wait (thr ! t) then 1 else 0) + (if is_spawning (thr ! t) then 1 else 0) =
         p_pending p + (if is_wait c then 1 else 0) + (if is_spawning c then 1 else 0)"
    and "cond_inv p' (thr[t := c])"
    and "p_workload p' = p_workload p"
    and "is_wait c \<Longrightarrow> is_wait (thr ! t) \<or> p_pending p < max_pending (p_workload p)"
    and "p_closed p' \<Longrightarrow> p_sentries p' = []"
    and "p_closed p' \<or> p_cond p' = [] \<or> avail p' = 0 \<or>
         \<not> p_closed p \<and> p_cond p \<noteq> [] \<and>
         avail p' + length (p_woken p) + (if is_signalling (thr ! t) then 1 else 0) \<le>
         avail p + length (p_woken p') + (if is_signalling c then 1 else 0)"
  shows "wait_inv p' (thr[t := c])"
  unfolding wait_inv_def
proof (intro conjI)
  from assms(1) have inv: "pending_inv p thr" "queue_inv p thr" "wake_inv p thr" by (simp_all add: wait_inv_def)
  show "pending_inv p' (thr[t := c])" by (rule pending_move [OF inv(1) assms(2,3)])
  show "queue_inv p' (thr[t := c])" by (rule queue_move [OF inv(2,1) assms(2,5)]) (rule assms(6))
  show "wake_inv p' (thr[t := c])" by (rule wake_move [OF inv(3) assms(2,8)])
  show "closed_inv p'" using assms(7) by (simp add: closed_inv_def)
qed (rule assms(4))

text \<open>A step that leaves the counters alone.\<close>

lemma wait_frame:
  assumes "wait_inv p thr" and "t < length thr"
    and "is_wait c = is_wait (thr ! t)" "is_spawning c = is_spawning (thr ! t)" "is_signalling (thr ! t) \<Longrightarrow> is_signalling c"
    and "p_pending p' = p_pending p" "p_cond p' = p_cond p" "p_woken p' = p_woken p"
    and "p_closed p' = p_closed p" "p_workload p' = p_workload p"
    and "p_closed p \<Longrightarrow> p_sentries p' = []"
    and "avail p' + (if is_signalling (thr ! t) then 1 else 0) \<le> avail p + (if is_signalling c then 1 else 0)"
  shows "wait_inv p' (thr[t := c])"
proof (rule wait_move [OF assms(1,2)])
  show "cond_inv p' (thr[t := c])"
    by (rule cond_keep [OF wait_cond [OF assms(1)] assms(2,3)])
       (use wait_cond [OF assms(1)] assms(7,8) in \<open>simp_all add: cond_inv_def\<close>)
qed (use assms in auto)

lemma wait_same:
  "wait_inv p thr \<Longrightarrow> t < length thr \<Longrightarrow> is_wait c = is_wait (thr ! t) \<Longrightarrow>
     is_spawning c = is_spawning (thr ! t) \<Longrightarrow> is_signalling c = is_signalling (thr ! t) \<Longrightarrow> wait_inv p (thr[t := c])"
  by (rule wait_frame) (auto dest: wait_closed)

text \<open>Signalling: the oldest waiter is woken, if there is one.\<close>

lemma signal_cond:
  assumes "cond_inv p thr"
  shows "distinct (p_cond (cond_signal p) @ p_woken (cond_signal p)) \<and>
     set (p_cond (cond_signal p) @ p_woken (cond_signal p)) = set (p_cond p @ p_woken p)"
proof -
  from assms have "distinct (p_cond p @ p_woken p)" by (simp add: cond_inv_def)
  then show ?thesis by (cases "p_cond p") (auto simp: cond_signal_def)
qed

lemma signal_woken:
  "p_cond (cond_signal p) = [] \<or> p_cond p \<noteq> [] \<and> length (p_woken (cond_signal p)) = Suc (length (p_woken p))"
  by (simp add: cond_signal_def split: list.splits)

lemma avail_signal [simp]: "avail (cond_signal p) = avail p"
  by (rule avail_cong) (simp_all add: mem_simps)

lemma wait_signal:
  assumes "wait_inv p thr" and "t < length thr" and "is_wait c = is_wait (thr ! t)"
    and "is_spawning c = is_spawning (thr ! t)"
    and "p_pending q = p_pending p" "p_cond q = p_cond p" "p_woken q = p_woken p" "p_closed q = p_closed p"
    and "p_workload q = p_workload p" "p_closed p \<Longrightarrow> p_sentries q = []"
    and "avail q + (if is_signalling (thr ! t) then 1 else 0) \<le> avail p + (if is_signalling c then 1 else 0) + 1"
  shows "wait_inv (cond_signal q) (thr[t := c])"
proof (rule wait_move [OF assms(1,2)])
  have q: "cond_inv q thr" using wait_cond [OF assms(1)] assms by (simp add: cond_inv_def)
  show "cond_inv (cond_signal q) (thr[t := c])"
    by (rule cond_keep [OF q assms(2,3)]) (use signal_cond [OF q] in auto)
  show "p_closed (cond_signal q) \<or> p_cond (cond_signal q) = [] \<or> avail (cond_signal q) = 0 \<or>
      \<not> p_closed p \<and> p_cond p \<noteq> [] \<and>
      avail (cond_signal q) + length (p_woken p) + (if is_signalling (thr ! t) then 1 else 0) \<le>
      avail p + length (p_woken (cond_signal q)) + (if is_signalling c then 1 else 0)"
  proof (cases "p_cond (cond_signal q) = [] \<or> p_closed p")
    case True
    with assms(8) show ?thesis by (auto simp: mem_simps)
  next
    case False
    with signal_woken [of q] have "p_cond q \<noteq> []" "length (p_woken (cond_signal q)) = Suc (length (p_woken q))" by auto
    with False assms(6,7,11) show ?thesis by simp
  qed
qed (use assms(3-6,8-10) in \<open>simp_all add: mem_simps\<close>)

lemma spawn_step_avail:
  assumes "spawn_step i ok fails p L = Some (x', p', L')" and "mem_inv p"
  shows "avail p' = avail p"
proof -
  have "sentry_state p' r = sentry_state p r" if "r \<in> set (p_sentries p)" for r
    using that spawn_step_pool(8) [OF assms(1), of r] assms(2)
    by (force simp: mem_inv_def sentry_state_def)
  then show ?thesis
    unfolding avail_def spawn_step_pool(7) [OF assms(1)] by (intro count_if_cong) simp
qed

lemma execute_step_wait:
  assumes "execute_step t i x p L = Some (x', p', L')" and "pool_inv p L thr" and "wait_inv p thr"
    and "t < length thr" and "thr ! t = X x"
  shows "wait_inv p' (thr[t := X x'])"
proof (cases x)
  case (XStart c)
  show ?thesis
  proof (cases rule: acquire_enter_cases [of t "i_now i" p])
    case closed
    with XStart assms(1) have "x' = XDone (Inl ErrPoolClosed)" "p' = p" by auto
    with XStart assms(5) wait_same [OF assms(3,4), of "X x'"] show ?thesis by (simp add: kinds)
  next
    case (got r)
    with XStart assms(1) have eq: "x' = XHave c r" "p' = upd_sentry r (mark_running (i_now i)) p" by auto
    show ?thesis unfolding eq
      by (rule wait_frame [OF assms(3,4)])
         (use got XStart assms(5) in \<open>auto simp: kinds mem_simps intro: avail_upd_not_ready\<close>)
  next
    case spawn
    with XStart assms(1) have eq: "x' = XSpawn c" "p' = p\<lparr>p_pending := p_pending p + 1\<rparr>" by auto
    show ?thesis
    proof (rule wait_move [OF assms(3,4)])
      show "cond_inv p' (thr[t := X x'])"
        by (rule cond_keep [OF wait_cond [OF assms(3)] assms(4)])
           (use wait_cond [OF assms(3)] assms(5) XStart in \<open>auto simp: eq kinds cond_inv_def\<close>)
      show "p_closed p' \<or> p_cond p' = [] \<or> avail p' = 0 \<or> \<not> p_closed p \<and> p_cond p \<noteq> [] \<and>
        avail p' + length (p_woken p) + (if is_signalling (thr ! t) then 1 else 0) \<le>
        avail p + length (p_woken p') + (if is_signalling (X x') then 1 else 0)"
        using avail_none [of p'] spawn by (simp add: eq)
    qed (use assms(5) XStart spawn in \<open>auto simp: eq kinds\<close>)
  next
    case full
    with XStart assms(1) have "x' = XDone (Inl ErrCapacityExhausted)" "p' = p" by auto
    with XStart assms(5) wait_same [OF assms(3,4), of "X x'"] show ?thesis by (simp add: kinds)
  next
    case wait
    with XStart assms(1) have eq: "x' = XWait c" "p' = cond_wait t (p\<lparr>p_pending := p_pending p + 1\<rparr>)" by auto
    show ?thesis
    proof (rule wait_move [OF assms(3,4)])
      show "cond_inv p' (thr[t := X x'])"
        by (rule cond_enter [OF wait_cond [OF assms(3)] assms(4)])
           (use assms(5) XStart in \<open>auto simp: eq kinds cond_wait_def\<close>)
      show "p_closed p' \<or> p_cond p' = [] \<or> avail p' = 0 \<or> \<not> p_closed p \<and> p_cond p \<noteq> [] \<and>
        avail p' + length (p_woken p) + (if is_signalling (thr ! t) then 1 else 0) \<le>
        avail p + length (p_woken p') + (if is_signalling (X x') then 1 else 0)"
        using avail_none [of p'] wait by (simp add: eq mem_simps)
    qed (use assms(5) XStart wait in \<open>auto simp: eq kinds mem_simps\<close>)
  qed
next
  case (XSpawn c)
  with assms(1) have sp: "spawn_step i (XSpawned c) XSpawnErr p L = Some (x', p', L')" by simp
  from assms(2) have "mem_inv p" by (simp add: pool_inv_def)
  note facts = spawn_step_pool [OF sp] spawn_step_avail [OF sp this]
  show ?thesis
    by (rule wait_frame [OF assms(3,4)])
       (use facts wait_closed [OF assms(3)] assms(5) XSpawn in \<open>auto simp: kinds\<close>)
next
  case XSpawnErr
  with assms(1) have eq: "\<not> is_wait (X x')" "\<not> is_spawning (X x')" "\<not> is_signalling (X x')" "p' = p\<lparr>p_pending := p_pending p - 1\<rparr>"
    by (auto simp: acquire_spawned_def Let_def kinds)
  have a: "avail p' = avail p" by (rule avail_cong) (simp_all add: eq mem_simps)
  show ?thesis
  proof (rule wait_move [OF assms(3,4)])
    show "cond_inv p' (thr[t := X x'])"
      by (rule cond_keep [OF wait_cond [OF assms(3)] assms(4)])
         (use wait_cond [OF assms(3)] assms(5) XSpawnErr eq in \<open>auto simp: kinds cond_inv_def\<close>)
  qed (use assms(5) XSpawnErr a eq wait_closed [OF assms(3)] in \<open>auto simp: kinds\<close>)
next
  case (XSpawned c r)
  have claim: "(r, StateReady) \<in> set (claims (thr ! t))" using XSpawned assms(5) by simp
  show ?thesis
  proof (cases rule: acquire_spawned_cases [of r "i_now i" p])
    case closed
    with XSpawned assms(1) have eq: "x' = XCleanup r" "p' = p\<lparr>p_pending := p_pending p - 1\<rparr>" by auto
    show ?thesis
    proof (rule wait_move [OF assms(3,4)])
      show "cond_inv p' (thr[t := X x'])"
        by (rule cond_keep [OF wait_cond [OF assms(3)] assms(4)])
           (use wait_cond [OF assms(3)] assms(5) XSpawned in \<open>auto simp: eq kinds cond_inv_def\<close>)
    qed (use assms(5) XSpawned closed eq wait_closed [OF assms(3)] in \<open>auto simp: kinds\<close>)
  next
    case got
    let ?q = "upd_sentry r (mark_running (i_now i)) (p\<lparr>p_pending := p_pending p - 1\<rparr>)"
    from got XSpawned assms(1) have eq: "x' = XHave c r" "p' = ?q\<lparr>p_sentries := p_sentries ?q @ [r]\<rparr>"
      by (auto simp: mem_simps)
    have "avail ?q \<le> avail (p\<lparr>p_pending := p_pending p - 1\<rparr>)" by (rule avail_upd_not_ready) simp
    also have "\<dots> = avail p" by (rule avail_cong) (simp_all add: mem_simps)
    finally have "avail p' \<le> avail p"
      unfolding eq by (subst avail_append) (simp add: sentry_state_upd option.map_comp comp_def)
    then show ?thesis
      by (intro wait_move [OF assms(3,4)] cond_keep [OF wait_cond [OF assms(3)] assms(4)])
         (use assms(5) XSpawned got eq wait_cond [OF assms(3)] in \<open>auto simp: kinds mem_simps cond_inv_def\<close>)
  qed
next
  case (XCleanup r)
  with assms show ?thesis by (auto intro!: wait_same simp: kinds)
next
  case (XWait c)
  then have none: "t \<in> set (p_woken p)" using assms(1) by (simp split: if_splits)
  then have pos: "0 < length (p_woken p)" and len: "length (remove1 t (p_woken p)) = length (p_woken p) - 1"
    by (auto simp: length_remove1)
  show ?thesis
  proof (cases rule: acquire_wake_cases [of t "i_now i" p])
    case closed
    with XWait none assms(1) have eq: "x' = XDone (Inl ErrPoolClosed)" "p' = (cond_resume t p)\<lparr>p_pending := p_pending p - 1\<rparr>"
      by auto
    show ?thesis
      by (intro wait_move [OF assms(3,4)] cond_leave [OF wait_cond [OF assms(3)] assms(4)])
         (use assms(5) XWait none closed eq wait_closed [OF assms(3)] in \<open>auto simp: kinds cond_resume_def\<close>)
  next
    case (got r)
    let ?q = "upd_sentry r (mark_running (i_now i)) (cond_resume t p)"
    from got XWait none assms(1) have eq: "x' = XHave c r" "p' = ?q\<lparr>p_pending := p_pending p - 1\<rparr>" by auto
    have "avail p' = avail ?q" by (rule avail_cong) (simp_all add: eq mem_simps)
    also have "avail ?q < avail (cond_resume t p)" by (rule avail_take) (use got in \<open>simp_all add: mem_simps\<close>)
    also have "avail (cond_resume t p) = avail p" by (rule avail_cong) (simp_all add: mem_simps)
    finally have a: "avail p' < avail p" .
    have w: "p_woken p' = remove1 t (p_woken p)" "p_cond p' = p_cond p"
      by (simp_all add: eq mem_simps) (simp_all add: cond_resume_def)
    from assms(3) have "wake_inv p thr" by (simp add: wait_inv_def)
    show ?thesis
    proof (rule wait_move [OF assms(3,4)])
      show "cond_inv p' (thr[t := X x'])"
        by (rule cond_leave [OF wait_cond [OF assms(3)] assms(4) _ none]) (simp_all add: eq(1) kinds w)
      show "p_closed p' \<or> p_cond p' = [] \<or> avail p' = 0 \<or> \<not> p_closed p \<and> p_cond p \<noteq> [] \<and>
        avail p' + length (p_woken p) + (if is_signalling (thr ! t) then 1 else 0) \<le>
        avail p + length (p_woken p') + (if is_signalling (X x') then 1 else 0)"
        using a pos got assms(5) XWait len unfolding w by (auto simp: eq(1) kinds)
    qed (use assms(5) XWait got in \<open>auto simp: eq kinds mem_simps\<close>)
  next
    case wait
    with XWait none assms(1) have eq: "x' = XWait c" "p' = cond_wait t (cond_resume t p)" by auto
    show ?thesis
    proof (rule wait_move [OF assms(3,4)])
      show "cond_inv p' (thr[t := X x'])"
        by (rule cond_again [OF wait_cond [OF assms(3)] assms(4) _ none])
           (simp_all add: eq kinds cond_wait_def cond_resume_def)
      show "p_closed p' \<or> p_cond p' = [] \<or> avail p' = 0 \<or> \<not> p_closed p \<and> p_cond p \<noteq> [] \<and>
        avail p' + length (p_woken p) + (if is_signalling (thr ! t) then 1 else 0) \<le>
        avail p + length (p_woken p') + (if is_signalling (X x') then 1 else 0)"
        using avail_none [of p'] wait by (simp add: eq mem_simps)
    qed (use assms(5) XWait wait in \<open>auto simp: eq kinds mem_simps\<close>)
  qed
next
  case (XHave c r)
  with assms(1) obtain n m k where p': "p' = p\<lparr>p_TotalAcquireNs := k, p_TotalExecutions := n, p_TotalRestoreNs := m\<rparr>" and x': "x' = XLease r \<or> (\<exists>e. x' = XRelease r e)"
    by (cases p) (auto simp: Let_def split: if_splits)
  have a: "avail p' = avail p" by (rule avail_cong) (simp_all add: p' sentry_state_def fun_eq_iff)
  show ?thesis
    by (rule wait_frame [OF assms(3,4)]) (use a x' p' assms(5) XHave wait_closed [OF assms(3)] in \<open>auto simp: kinds\<close>)
next
  case (XRelease r e)
  with assms(1) have eq: "x' = XSignal e" "p' = release_mark r p" by auto
  have "mem_inv p" using assms(2) by (simp add: pool_inv_def)
  then have "avail p' \<le> avail p + 1" unfolding eq release_mark_def by (rule avail_upd_le)
  then show ?thesis
    by (intro wait_frame [OF assms(3,4)])
       (use eq assms(5) XRelease wait_closed [OF assms(3)] in \<open>auto simp: kinds release_mark_def mem_simps\<close>)
next
  case (XSignal e)
  with assms(1) have eq: "x' = XDone (Inl e)" "p' = cond_signal p" by auto
  show ?thesis unfolding eq
    by (rule wait_signal [OF assms(3,4)]) (use assms(5) XSignal wait_closed [OF assms(3)] in \<open>auto simp: kinds\<close>)
next
  case (XLease r)
  with assms(1) have eq: "x' = XInsert r (i_lid i)" "p' = lease_mark r (i_lid i) p" by auto
  have "avail p' = avail p"
    unfolding eq lease_mark_def by (rule avail_cong) (simp_all add: mem_simps state_upd_same)
  then show ?thesis
    by (intro wait_frame [OF assms(3,4)])
       (use eq assms(5) XLease wait_closed [OF assms(3)] in \<open>auto simp: kinds lease_mark_def mem_simps\<close>)
next
  case (XInsert r lid)
  with assms show ?thesis by (auto intro!: wait_same simp: kinds)
next
  case (XDone z)
  with assms show ?thesis by simp
qed


lemma complete_step_wait:
  assumes "complete_step k p L = Some (k', p', L')" and "wait_inv p thr" and "t < length thr" and "thr ! t = K k"
  shows "wait_inv p' (thr[t := K k'])"
proof (rule wait_frame [OF assms(2,3)])
  show "avail p' + (if is_signalling (thr ! t) then 1 else 0) \<le> avail p + (if is_signalling (K k') then 1 else 0)"
    using assms(1,4) by (cases k) (auto split: option.splits intro!: eq_refl avail_cong simp: mem_simps)
qed (use assms(1,4) wait_closed [OF assms(2)] in \<open>(cases k; auto split: option.splits)+\<close>)

lemma recycle_step_wait:
  assumes "recycle_step warm i r p L = Some (r', p', L')" and "pool_inv p L thr" and "wait_inv p thr"
    and "t < length thr" and "thr ! t = R r"
  shows "wait_inv p' (thr[t := R r'])"
proof (cases r)
  case (RStart x)
  with assms(1) have eq: "r' = RKill x" "p' = drain_mark x p" by auto
  show ?thesis
    by (rule wait_frame [OF assms(3,4)])
       (use eq assms(5) RStart wait_closed [OF assms(3)] in \<open>auto simp: kinds drain_mark_def mem_simps intro: avail_upd_not_ready\<close>)
next
  case (RKill x)
  with assms(1) have eq: "r' = RReset x \<or> r' = RRemove x" "p' = p" by (auto split: if_splits)
  then show ?thesis using wait_same [OF assms(3,4), of "R r'"] assms(5) RKill by (auto simp: kinds)
next
  case (RReset x)
  show ?thesis
  proof (cases "i_ok i")
    case True
    with assms(1) RReset have eq: "r' = RHealth x" "p' = reset_mark x (i_now i) p" by auto
    have "avail p' = avail p" unfolding eq reset_mark_def by (rule avail_cong) (simp_all add: mem_simps state_upd_same)
    then show ?thesis
      by (intro wait_frame [OF assms(3,4)])
         (use eq assms(5) RReset wait_closed [OF assms(3)] in \<open>auto simp: kinds reset_mark_def mem_simps\<close>)
  next
    case False
    with assms(1) RReset have "r' = RRemove x" "p' = p" by auto
    then show ?thesis using wait_same [OF assms(3,4), of "R r'"] assms(5) RReset by (auto simp: kinds)
  qed
next
  case (RHealth x)
  with assms(1) have eq: "r' = RRestore x \<or> r' = RRemove x" "p' = p" by (auto split: if_splits)
  then show ?thesis using wait_same [OF assms(3,4), of "R r'"] assms(5) RHealth by (auto simp: kinds)
next
  case (RRestore x)
  with assms(1) obtain n where eq: "r' = RReady x \<or> r' = RRemove x" "p' = p\<lparr>p_TotalRestoreNs := n\<rparr>"
    by (cases p) (auto split: if_splits)
  have "avail p' = avail p" by (rule avail_cong) (simp_all add: eq mem_simps)
  then show ?thesis
    by (intro wait_frame [OF assms(3,4)]) (use eq assms(5) RRestore wait_closed [OF assms(3)] in \<open>auto simp: kinds\<close>)
next
  case (RReady x)
  with assms(1) have eq: "r' = RSignal" "p' = ready_mark x p" by auto
  have "mem_inv p" using assms(2) by (simp add: pool_inv_def)
  then have "avail p' \<le> avail p + 1" unfolding eq ready_mark_def by (rule avail_upd_le)
  then show ?thesis
    by (intro wait_frame [OF assms(3,4)])
       (use eq assms(5) RReady wait_closed [OF assms(3)] in \<open>auto simp: kinds ready_mark_def mem_simps\<close>)
next
  case RSignal
  with assms(1) have eq: "r' = RExit" "p' = cond_signal p" by auto
  show ?thesis unfolding eq
    by (rule wait_signal [OF assms(3,4)]) (use assms(5) RSignal wait_closed [OF assms(3)] in \<open>auto simp: kinds\<close>)
next
  case (RRemove x)
  with assms(1) have eq: "r' = RClean x" "p' = pool_remove x p" by auto
  have "avail p' \<le> avail p" unfolding eq by (rule avail_remove)
  then show ?thesis
    by (intro wait_frame [OF assms(3,4)])
       (use eq assms(5) RRemove wait_closed [OF assms(3)] in \<open>auto simp: kinds pool_remove_def\<close>)
next
  case (RClean x)
  with assms(1) wait_same [OF assms(3,4), of "R r'"] assms(5) show ?thesis by (auto simp: kinds)
next
  case RRefill
  with assms(1) wait_same [OF assms(3,4), of "R r'"] assms(5) show ?thesis by (auto simp: kinds)
next
  case (RLoop n)
  show ?thesis
  proof (cases n)
    case 0
    with RLoop assms(1) wait_same [OF assms(3,4), of "R r'"] assms(5) show ?thesis by (auto simp: kinds)
  next
    case (Suc m)
    with RLoop assms(1) have sp: "spawn_step i (RAdd m) (RLoop m) p L = Some (r', p', L')" by simp
    from assms(2) have "mem_inv p" by (simp add: pool_inv_def)
    note facts = spawn_step_pool [OF sp] spawn_step_avail [OF sp this]
    show ?thesis
      by (rule wait_frame [OF assms(3,4)])
         (use facts wait_closed [OF assms(3)] assms(5) RLoop Suc in \<open>auto simp: kinds\<close>)
  qed
next
  case (RAdd n x)
  show ?thesis
  proof (cases "p_closed p")
    case True
    with RAdd assms(1) wait_same [OF assms(3,4), of "R r'"] assms(5) show ?thesis
      by (auto simp: kinds refill_add_def)
  next
    case False
    with RAdd assms(1) have eq: "r' = RLoop n" "p' = cond_signal (p\<lparr>p_sentries := p_sentries p @ [x]\<rparr>)"
      by (auto simp: refill_add_def)
    show ?thesis unfolding eq
      by (rule wait_signal [OF assms(3,4)])
         (use assms(5) RAdd False in \<open>auto simp: kinds avail_def sentry_state_def\<close>)
  qed
next
  case (RCleanNew x)
  with assms(1) wait_same [OF assms(3,4), of "R r'"] assms(5) show ?thesis by (auto simp: kinds)
next
  case RExit
  with assms(1) have eq: "r' = RDone" "p' = p\<lparr>p_recycleWg := p_recycleWg p - 1\<rparr>" by auto
  have "avail p' = avail p" by (rule avail_cong) (simp_all add: eq mem_simps)
  then show ?thesis
    by (intro wait_frame [OF assms(3,4)]) (use eq assms(5) RExit wait_closed [OF assms(3)] in \<open>auto simp: kinds\<close>)
next
  case RDone
  with assms(1) show ?thesis by simp
qed

lemma broadcast_cond:
  assumes "cond_inv p thr"
  shows "distinct (p_cond (cond_broadcast p) @ p_woken (cond_broadcast p)) \<and>
     set (p_cond (cond_broadcast p) @ p_woken (cond_broadcast p)) = set (p_cond p @ p_woken p)"
proof -
  from assms have "distinct (p_cond p @ p_woken p)" by (simp add: cond_inv_def)
  then show ?thesis by (auto simp: cond_broadcast_def)
qed

lemma shutdown_step_wait:
  assumes "shutdown_step h p L = Some (h', p', L')" and "wait_inv p thr" and "t < length thr" and "thr ! t = H h"
  shows "wait_inv p' (thr[t := H h'])"
proof (cases "h = HClose")
  case True
  let ?q = "p\<lparr>p_closed := True, p_sentries := []\<rparr>"
  from True assms(1) have eq: "p' = cond_broadcast ?q" by (auto simp: pool_close_def)
  have q: "cond_inv ?q thr" using wait_cond [OF assms(2)] by (simp add: cond_inv_def)
  have "cond_inv p' (thr[t := H h'])" unfolding eq
    by (rule cond_keep [OF q assms(3)]) (use broadcast_cond [OF q] assms(4) in auto)
  then show ?thesis
    by (intro wait_move [OF assms(2,3)]) (use assms(4) in \<open>simp_all add: eq mem_simps\<close>)
next
  case False
  with assms(1) obtain b where p': "p' = p\<lparr>p_stop := b\<rparr>" by (cases h; cases p) (auto split: if_splits)
  have "avail p' = avail p" by (rule avail_cong) (simp_all add: p' mem_simps)
  then show ?thesis
    by (intro wait_frame [OF assms(2,3)]) (use p' assms(4) wait_closed [OF assms(2)] in auto)
qed


section \<open>The wait group\<close>

lemma wg_move:
  assumes "wg_inv p thr" and "t < length thr"
    and "p_recycleWg p' + (if is_recycling (thr ! t) then 1 else 0) = p_recycleWg p + (if is_recycling c then 1 else 0)"
  shows "wg_inv p' (thr[t := c])"
  using assms(1,3) count_if_update [OF assms(2), of is_recycling c] by (auto simp: wg_inv_def split: if_splits)

lemma recycle_step_wg:
  "recycle_step warm i r p L = Some (r', p', L') \<Longrightarrow>
     p_recycleWg p' + (if is_recycling (R r) then 1 else 0) = p_recycleWg p + (if is_recycling (R r') then 1 else 0)"
proof (cases r)
  case (RLoop n)
  then show "recycle_step warm i r p L = Some (r', p', L') \<Longrightarrow> ?thesis"
    by (cases n) (auto simp: kinds dest: spawn_step_pool)
qed (auto simp: kinds drain_mark_def reset_mark_def ready_mark_def pool_remove_def refill_add_def mem_simps split: if_splits)

lemma shutdown_step_wg: "shutdown_step h p L = Some (h', p', L') \<Longrightarrow> p_recycleWg p' = p_recycleWg p"
  by (cases h) (auto simp: pool_close_def mem_simps split: if_splits)

lemma complete_step_wg:
  "complete_step k p L = Some (k', p', L') \<Longrightarrow>
     p_recycleWg p' = p_recycleWg p + int (count_if is_recycling (started_by k))"
  by (cases k) (auto simp: started_by_def kinds split: option.splits)

section \<open>Reachable states\<close>

lemma wait_start:
  assumes "wait_inv p thr" and "\<And>c. c \<in> set new \<Longrightarrow> \<not> is_wait c \<and> \<not> is_spawning c \<and> \<not> is_signalling c"
  shows "wait_inv p (thr @ new)"
proof -
  have zero: "count_if is_wait new = 0" "count_if is_spawning new = 0" "count_if is_signalling new = 0"
    using assms(2) by (auto simp: count_if_zero)
  have "{t. t < length (thr @ new) \<and> is_wait ((thr @ new) ! t)} = {t. t < length thr \<and> is_wait (thr ! t)}"
    using assms(2) by (auto simp: nth_append) (metis add_diff_inverse_nat nat_add_left_cancel_less nth_mem)
  with assms(1) zero show ?thesis
    by (simp add: wait_inv_def pending_inv_def cond_inv_def queue_inv_def wake_inv_def)
qed

definition live_inv :: "sys \<Rightarrow> bool" where
  "live_inv s \<longleftrightarrow> wait_inv (m_pool s) (m_thr s) \<and> wg_inv (m_pool s) (m_thr s)"

lemma thread_step_live:
  assumes "thread_step warm t i (thr ! t) p L = Some (c, p', L', new)" and "pool_inv p L thr" and "t < length thr"
    and "wait_inv p thr" and "wg_inv p thr"
  shows "wait_inv p' (thr[t := c] @ new) \<and> wg_inv p' (thr[t := c] @ new)"
proof (cases "thr ! t")
  case (X x)
  with assms(1) obtain x' where x': "c = X x'" "new = []" "execute_step t i x p L = Some (x', p', L')" by auto
  have "wg_inv p' (thr[t := c])"
    by (rule wg_move [OF assms(5,3)]) (use execute_step_wg [OF x'(3)] X x' in simp)
  with execute_step_wait [OF x'(3) assms(2,4,3) X] x' show ?thesis by simp
next
  case (K k)
  with assms(1) obtain k' where k': "c = K k'" "new = started_by k" "complete_step k p L = Some (k', p', L')" by auto
  have new: "\<not> is_wait c \<and> \<not> is_spawning c \<and> \<not> is_signalling c" if "c \<in> set new" for c
    using that unfolding k' by (auto simp: started_by_def kinds split: kpc.splits)
  have "wait_inv p' (thr[t := c] @ new)"
    using complete_step_wait [OF k'(3) assms(4,3) K] k'(1) by (intro wait_start new) simp_all
  moreover have "count_if is_recycling (thr[t := c]) = count_if is_recycling thr"
    using count_if_update [OF assms(3), of is_recycling c] K k'(1) by simp
  then have "wg_inv p' (thr[t := c] @ new)"
    using complete_step_wg [OF k'(3)] assms(5) by (simp add: wg_inv_def k'(2))
  ultimately show ?thesis ..
next
  case (R r)
  with assms(1) obtain r' where r': "c = R r'" "new = []" "recycle_step warm i r p L = Some (r', p', L')" by auto
  have "wg_inv p' (thr[t := c])"
    by (rule wg_move [OF assms(5,3)]) (use recycle_step_wg [OF r'(3)] R r' in simp)
  with recycle_step_wait [OF r'(3) assms(2,4,3) R] r' show ?thesis by simp
next
  case (H h)
  with assms(1) obtain h' where h': "c = H h'" "new = []" "shutdown_step h p L = Some (h', p', L')" by auto
  have "wg_inv p' (thr[t := c])"
    by (rule wg_move [OF assms(5,3)]) (use shutdown_step_wg [OF h'(3)] H h' in simp)
  with shutdown_step_wait [OF h'(3) assms(4,3) H] h' show ?thesis by simp
next
  case (Evict rs)
  with assms(1) have "c = EvictDone" "new = []" "p' = p" by auto
  with Evict wait_same [OF assms(4,3), of c] wg_move [OF assms(5,3), of p c] show ?thesis by simp
next
  case EvictDone
  with assms(1) show ?thesis by simp
qed

lemma wait_reap:
  assumes "wait_inv p thr" and "reap idle now p = (rs, p')"
  shows "wait_inv p' thr"
proof -
  from assms(2) have p': "p' = p\<lparr>p_sentries := filter (\<lambda>r. \<not> sentry_idle idle now p r) (p_sentries p)\<rparr>"
    by (simp add: reap_def)
  have "avail p' \<le> avail p" unfolding p' by (rule avail_filter)
  with assms(1) show ?thesis
    by (auto simp: p' wait_inv_def pending_inv_def cond_inv_def queue_inv_def wake_inv_def closed_inv_def)
qed

lemma fire_live:
  assumes "fire g a s = Some s'" and "sys_inv s" and "live_inv s"
  shows "live_inv s'"
proof (cases a)
  case (Run t i)
  with assms show ?thesis
    by (auto simp: live_inv_def sys_inv_def split: if_splits option.splits dest: thread_step_live)
next
  case (Tick now)
  with assms obtain rs p' where s': "reap (set_idle g) now (m_pool s) = (rs, p')" "s' = s\<lparr>m_pool := p', m_thr := m_thr s @ [Evict rs]\<rparr>"
    by (auto split: if_splits prod.splits)
  then have "p_recycleWg p' = p_recycleWg (m_pool s)" by (auto simp: reap_def)
  with s' assms(3) wait_reap [OF _ s'(1)] show ?thesis
    by (auto simp: live_inv_def wg_inv_def intro: wait_start)
qed (use assms in \<open>auto simp: live_inv_def wg_inv_def intro!: wait_start\<close>)

lemma initial_live: "initial s \<Longrightarrow> live_inv s"
  by (auto simp: initial_def live_inv_def wait_inv_def wg_inv_def pending_inv_def cond_inv_def queue_inv_def
      closed_inv_def wake_inv_def started_def newPool_def Let_def)

interpretation waiting: relative_invariant initial "fire g" sys_inv live_inv for g
  by unfold_locales (fact initial_live fire_live)+

end
