(* ===== verification/Pool_Lease.thy ===== *)
theory Pool_Lease
  imports Pool_Wait
begin

text \<open>
  Consequences of ownership for the holders of sentries: two goroutines, two leases, or a
  goroutine and a lease never share one; a leased sentry is running and carries its lease ID; the
  lease table behaves as a finite map, so a lease ID is released at most once.
\<close>

section \<open>Exclusive claims\<close>

abbreviation holds :: "pc \<Rightarrow> ref set" where
  "holds c \<equiv> fst ` set (claims c)"

lemma claim_at_holds: "claim_at (claims c) r = {#} \<longleftrightarrow> r \<notin> holds c"
  by (auto simp: claim_at_def filter_empty_conv image_iff)

lemma claim_at_leases: "claim_at (lease_claims L) r = {#} \<longleftrightarrow> r \<notin> snd ` set L"
  by (auto simp: claim_at_def lease_claims_def filter_empty_conv image_iff)

lemma own_others:
  assumes "own_inv p L thr" and "t < length thr" and "r \<in> holds (thr ! t)"
  shows "ledger (thr[t := EvictDone]) L r = {#}"
proof -
  from assms(1) have "claim_ok p r (ledger thr L r)" by (simp add: own_inv_def)
  moreover have "ledger (thr[t := EvictDone]) L r + claim_at (claims (thr ! t)) r = ledger thr L r"
    using ledger_update [OF assms(2), of EvictDone L r] by simp
  moreover have "claim_at (claims (thr ! t)) r \<noteq> {#}" using assms(3) by (simp add: claim_at_holds)
  ultimately show ?thesis using claim_ok_full [of p r "ledger thr L r"] ledger_thread_le [OF assms(2), of r L]
    by (metis add_cancel_left_left)
qed

lemma own_alone:
  assumes "own_inv p L thr" and "t < length thr" and "r \<in> holds (thr ! t)"
  shows "u < length thr \<Longrightarrow> u \<noteq> t \<Longrightarrow> r \<notin> holds (thr ! u)" and "r \<notin> snd ` set L"
proof -
  have none: "ledger (thr[t := EvictDone]) L r = {#}" by (rule own_others [OF assms])
  show "r \<notin> holds (thr ! u)" if "u < length thr" "u \<noteq> t"
    using ledger_thread_le [of u "thr[t := EvictDone]" r L] that none by (simp add: claim_at_holds)
  show "r \<notin> snd ` set L"
    using ledger_lease_le [of L r "thr[t := EvictDone]"] none by (simp add: claim_at_leases)
qed

lemma own_lease:
  assumes "own_inv p L thr" and "(lid, r) \<in> set L"
  shows "sentry_state p r = Some StateRunning"
proof -
  have "StateRunning \<in># claim_at (lease_claims L) r"
    using assms(2) by (force simp: claim_at_def lease_claims_def)
  then have "StateRunning \<in># ledger thr L r" by (meson ledger_lease_le mset_subset_eqD)
  moreover from assms(1) have "claim_ok p r (ledger thr L r)" by (simp add: own_inv_def)
  ultimately show ?thesis by (auto simp: claim_ok_def)
qed

lemma leases_distinct:
  assumes "own_inv p L thr"
  shows "distinct (map snd L)"
proof -
  have "size (claim_at (lease_claims L) r) \<le> 1" for r
  proof -
    have "claim_ok p r (ledger thr L r)" using assms by (simp add: own_inv_def)
    then have "claim_ok p r (claim_at (lease_claims L) r)" by (rule claim_ok_mono) (rule ledger_lease_le)
    then show ?thesis by (auto simp: claim_ok_def)
  qed
  moreover have "(\<forall>r. size (claim_at (lease_claims L) r) \<le> 1) \<Longrightarrow> distinct (map snd L)" for L
  proof (induction L)
    case (Cons e L)
    from Cons.prems have "\<forall>r. size (claim_at (lease_claims L) r) \<le> 1" by (force split: if_splits)
    moreover from Cons.prems have "claim_at (lease_claims L) (snd e) = {#}" by (force dest: spec [of _ "snd e"])
    ultimately show ?case using Cons.IH by (simp add: claim_at_leases)
  qed simp
  ultimately show ?thesis by blast
qed

section \<open>The lease ID in the sentry\<close>

definition lease_of :: "pool \<Rightarrow> ref \<Rightarrow> string option" where
  "lease_of p r = map_option s_LeaseID (p_heap p r)"

definition lid_inv :: "pool \<Rightarrow> leases \<Rightarrow> pc list \<Rightarrow> bool" where
  "lid_inv p L thr \<longleftrightarrow>
     (\<forall>(lid, r) \<in> set L. lease_of p r = Some lid) \<and>
     (\<forall>r lid. X (XInsert r lid) \<in> set thr \<longrightarrow> lease_of p r = Some lid)"

lemma lease_frame [mem_simps]:
  "lease_of (cond_wait t p) = lease_of p" "lease_of (cond_signal p) = lease_of p"
  "lease_of (cond_broadcast p) = lease_of p" "lease_of (cond_resume t p) = lease_of p"
  "lease_of (bump_id p) = lease_of p" "lease_of (pool_remove r p) = lease_of p"
  "lease_of (p\<lparr>p_pending := n\<rparr>) = lease_of p" "lease_of (p\<lparr>p_sentries := rs\<rparr>) = lease_of p"
  "lease_of (p\<lparr>p_closed := b\<rparr>) = lease_of p" "lease_of (p\<lparr>p_stop := b\<rparr>) = lease_of p"
  "lease_of (p\<lparr>p_recycleWg := n\<rparr>) = lease_of p" "lease_of (p\<lparr>p_TotalExecutions := n\<rparr>) = lease_of p"
  "lease_of (p\<lparr>p_TotalRestoreNs := n\<rparr>) = lease_of p" "lease_of (p\<lparr>p_TotalAcquireNs := n\<rparr>) = lease_of p"
  by (simp_all add: lease_of_def fun_eq_iff pool_remove_def mem_simps)

lemma lease_of_upd:
  "lease_of (upd_sentry r f p) x = (if x = r then map_option (\<lambda>s. s_LeaseID (f s)) (p_heap p r) else lease_of p x)"
  by (simp add: lease_of_def upd_sentry_def option.map_comp comp_def)

lemma lease_upd_same:
  "(\<And>s. s_LeaseID (f s) = s_LeaseID s) \<Longrightarrow> lease_of (upd_sentry r f p) = lease_of p"
  by (simp add: fun_eq_iff lease_of_def upd_sentry_def option.map_comp comp_def)

text \<open>A step changes the lease ID only of sentries its goroutine holds, or of fresh ones.\<close>

lemma spawn_step_lease:
  assumes "spawn_step i ok fails p L = Some (x', p', L')" and "mem_inv p" and "p_heap p r \<noteq> None"
  shows "lease_of p' r = lease_of p r" "L' = L"
  using assms spawn_step_pool(8) [OF assms(1), of r]
  by (auto simp: lease_of_def mem_inv_def spawn_step_def Let_def split: if_splits)

lemma execute_step_lease:
  assumes "execute_step t i x p L = Some (x', p', L')" and "mem_inv p" and "p_heap p r \<noteq> None" and "r \<notin> holds (X x)"
  shows "lease_of p' r = lease_of p r"
proof (cases x)
  case (XStart c)
  with assms show ?thesis
    by (cases rule: acquire_enter_cases [of t "i_now i" p]) (auto simp: mem_simps lease_upd_same mark_running_def)
next
  case (XSpawn c)
  with assms spawn_step_lease show ?thesis by fastforce
next
  case (XSpawned c r)
  with assms show ?thesis
    by (cases rule: acquire_spawned_cases [of r "i_now i" p]) (auto simp: mem_simps lease_upd_same mark_running_def)
next
  case (XWait c)
  with assms show ?thesis
    by (cases rule: acquire_wake_cases [of t "i_now i" p]) (auto simp: mem_simps lease_upd_same mark_running_def split: if_splits)
next
  case (XHave c r)
  with assms show ?thesis by (auto simp: Let_def mem_simps split: if_splits)
qed (use assms in \<open>auto simp: acquire_spawned_def Let_def release_mark_def lease_mark_def lease_of_upd mem_simps\<close>)

lemma recycle_step_lease:
  assumes "recycle_step warm i x p L = Some (x', p', L')" and "mem_inv p" and "p_heap p r \<noteq> None" and "r \<notin> holds (R x)"
  shows "lease_of p' r = lease_of p r"
proof (cases x)
  case (RLoop n)
  with assms spawn_step_lease show ?thesis by (cases n) fastforce+
qed (use assms in \<open>auto simp: drain_mark_def reset_mark_def ready_mark_def refill_add_def lease_of_upd mem_simps split: if_splits\<close>)


definition inserting :: "pc \<Rightarrow> bool" where
  "inserting c = (case c of X (XInsert _ _) \<Rightarrow> True | _ \<Rightarrow> False)"

lemma lid_step:
  assumes own: "own_inv p L thr" and t: "t < length thr" and lid: "lid_inv p L thr"
    and frame: "\<And>r. p_heap p r \<noteq> None \<Longrightarrow> r \<notin> holds (thr ! t) \<Longrightarrow> lease_of p' r = lease_of p r"
    and L: "\<And>l r. (l, r) \<in> set L' \<Longrightarrow> (l, r) \<in> set L \<or> lease_of p' r = Some l"
    and c: "\<And>r l. c = X (XInsert r l) \<Longrightarrow> lease_of p' r = Some l"
    and new: "\<And>d. d \<in> set new \<Longrightarrow> \<not> inserting d"
  shows "lid_inv p' L' (thr[t := c] @ new)"
  unfolding lid_inv_def
proof (intro conjI ballI allI impI; clarify?)
  fix l r assume "(l, r) \<in> set L'"
  with L consider "(l, r) \<in> set L" | "lease_of p' r = Some l" by blast
  then show "lease_of p' r = Some l"
  proof cases
    case 1
    then have "lease_of p r = Some l" "r \<in> snd ` set L" using lid by (force simp: lid_inv_def)+
    moreover from this own_alone(2) [OF own t] have "r \<notin> holds (thr ! t)" by blast
    moreover from \<open>lease_of p r = Some l\<close> have "p_heap p r \<noteq> None" by (auto simp: lease_of_def)
    ultimately show ?thesis using frame by metis
  qed
next
  fix r l assume "X (XInsert r l) \<in> set (thr[t := c] @ new)"
  with new [of "X (XInsert r l)"] have "X (XInsert r l) \<in> set (thr[t := c])" by (auto simp: inserting_def)
  then obtain u where u: "u < length thr" "thr[t := c] ! u = X (XInsert r l)" by (auto simp: in_set_conv_nth)
  show "lease_of p' r = Some l"
  proof (cases "u = t")
    case True
    with u c show ?thesis by simp
  next
    case False
    with u have at: "thr ! u = X (XInsert r l)" by simp
    with u lid have "lease_of p r = Some l" unfolding lid_inv_def by (metis nth_mem)
    moreover have "r \<notin> holds (thr ! t)"
      using own_alone(1) [OF own u(1), of r t] at t False by auto
    moreover from \<open>lease_of p r = Some l\<close> have "p_heap p r \<noteq> None" by (auto simp: lease_of_def)
    ultimately show ?thesis using frame by metis
  qed
qed

lemma execute_step_table:
  "execute_step t i x p L = Some (x', p', L') \<Longrightarrow> L' = L \<or> (\<exists>r l. x = XInsert r l \<and> L' = AList.update l r L \<and> p' = p)"
  by (cases x) (auto simp: spawn_step_def Let_def split: if_splits acquired.splits prod.splits)

lemma execute_step_insert:
  "execute_step t i x p L = Some (XInsert r l, p', L') \<Longrightarrow> x = XLease r \<and> p' = lease_mark r l p"
  by (cases x) (auto simp: spawn_step_def Let_def split: if_splits acquired.splits prod.splits)

lemma recycle_step_table: "recycle_step warm i r p L = Some (r', p', L') \<Longrightarrow> L' = L"
proof (cases r)
  case (RLoop n)
  then show "recycle_step warm i r p L = Some (r', p', L') \<Longrightarrow> ?thesis"
    by (cases n) (auto simp: spawn_step_def Let_def split: if_splits)
qed (auto simp: refill_add_def split: if_splits)

lemma complete_step_table:
  "complete_step k p L = Some (k', p', L') \<Longrightarrow> set L' \<subseteq> set L \<and> lease_of p' = lease_of p"
  by (cases k) (auto simp: mem_simps split: option.splits dest: subsetD [OF set_delete_sub])

lemma shutdown_step_table:
  "shutdown_step h p L = Some (h', p', L') \<Longrightarrow> L' = L \<and> lease_of p' = lease_of p"
  by (cases h) (auto simp: mem_simps pool_close_def split: if_splits)

lemma thread_step_lid:
  assumes "thread_step warm t i (thr ! t) p L = Some (c, p', L', new)" and "pool_inv p L thr" and "t < length thr"
    and "lid_inv p L thr"
  shows "lid_inv p' L' (thr[t := c] @ new)"
proof -
  from assms(2) have own: "own_inv p L thr" and mem: "mem_inv p" by (simp_all add: pool_inv_def)
  note step = lid_step [OF own assms(3,4)]
  show ?thesis
  proof (cases "thr ! t")
    case (X x)
    with assms(1) obtain x' where x': "c = X x'" "new = []" "execute_step t i x p L = Some (x', p', L')" by auto
    have ins: "lease_of p r = Some l" if "x = XInsert r l" for r l
      using assms(4) X that assms(3) unfolding lid_inv_def by (metis nth_mem)
    have mark: "lease_of p' r = Some l" if "x' = XInsert r l" for r l
    proof -
      from that x' execute_step_insert have "x = XLease r" "p' = lease_mark r l p" by blast+
      moreover from this X have "p_heap p r \<noteq> None" using inv_claim [OF assms(2,3), of r] by auto
      ultimately show ?thesis by (auto simp: lease_mark_def lease_of_upd)
    qed
    show ?thesis
    proof (rule step)
      fix l r assume "(l, r) \<in> set L'"
      with execute_step_table [OF x'(3)] ins show "(l, r) \<in> set L \<or> lease_of p' r = Some l"
        by (auto dest: subsetD [OF set_update_sub])
    qed (use execute_step_lease [OF x'(3) mem] X x' mark in auto)
  next
    case (K k)
    with assms(1) obtain k' where "c = K k'" "new = started_by k" "complete_step k p L = Some (k', p', L')" by auto
    with complete_step_table show ?thesis
      by (intro step) (fastforce simp: started_by_def inserting_def split: kpc.splits)+
  next
    case (R r)
    with assms(1) obtain r' where r': "c = R r'" "new = []" "recycle_step warm i r p L = Some (r', p', L')" by auto
    show ?thesis by (rule step) (use recycle_step_lease [OF r'(3) mem] recycle_step_table [OF r'(3)] R r' in auto)
  next
    case (H h)
    with assms(1) obtain h' where "c = H h'" "new = []" "shutdown_step h p L = Some (h', p', L')" by auto
    with shutdown_step_table show ?thesis by (intro step) fastforce+
  next
    case (Evict rs)
    with assms(1,4) show ?thesis by (intro step) (auto simp: lid_inv_def)
  qed (use assms in simp)
qed


section \<open>Reachable states\<close>

definition lease_inv :: "sys \<Rightarrow> bool" where
  "lease_inv s \<longleftrightarrow> lid_inv (m_pool s) (m_leases s) (m_thr s)"

lemma fire_lease: "fire g a s = Some s' \<Longrightarrow> sys_inv s \<Longrightarrow> lease_inv s \<Longrightarrow> lease_inv s'"
proof (cases a)
  case (Run t i)
  assume "fire g a s = Some s'" "sys_inv s" "lease_inv s"
  with Run show ?thesis by (auto simp: lease_inv_def sys_inv_def split: if_splits option.splits intro: thread_step_lid)
qed (auto simp: lease_inv_def lid_inv_def reap_def mem_simps split: if_splits)

lemma initial_lease: "initial s \<Longrightarrow> lease_inv s"
  by (auto simp: initial_def lease_inv_def lid_inv_def)

interpretation leasing: relative_invariant initial "fire g" sys_inv lease_inv for g
  by unfold_locales (fact initial_lease fire_lease)+

end
