(* ===== verification/Pool_Closing.thy ===== *)
theory Pool_Closing
  imports Pool_Lease
begin

text \<open>
  What the shutdown of a pool leaves behind: once it is closed nobody is on the condition
  variable, so every goroutine that still waits has been woken and its next step returns
  \<^verbatim>\<open>ErrPoolClosed\<close>; closing never reverts.
\<close>

definition quiet :: "pool \<Rightarrow> bool" where
  "quiet p \<longleftrightarrow> (p_closed p \<longrightarrow> p_cond p = [])"

definition closing_inv :: "sys \<Rightarrow> bool" where
  "closing_inv s \<longleftrightarrow> quiet (m_pool s)"

lemma quiet_signal: "quiet p \<Longrightarrow> quiet (cond_signal p)"
  by (auto simp: quiet_def cond_signal_def split: list.splits)

lemma quiet_same: "quiet p \<Longrightarrow> p_closed p' = p_closed p \<Longrightarrow> p_cond p' = p_cond p \<Longrightarrow> quiet p'"
  by (simp add: quiet_def)

lemma upd_quiet [simp]: "quiet (upd_sentry r f p) = quiet p" "quiet (pool_remove r p) = quiet p"
  by (simp_all add: quiet_def mem_simps pool_remove_def)

lemma execute_step_closed:
  assumes "execute_step t i x p L = Some (x', p', L')"
  shows "p_closed p' = p_closed p" and "quiet p \<Longrightarrow> quiet p'"
proof -
  have "p_closed p' = p_closed p \<and> (quiet p \<longrightarrow> quiet p')"
  proof (cases x)
    case (XStart c)
    with assms show ?thesis
      by (cases rule: acquire_enter_cases [of t "i_now i" p]) (auto simp: mem_simps quiet_def)
  next
    case (XSpawn c)
    with assms show ?thesis by (auto simp: quiet_def dest: spawn_step_pool)
  next
    case (XSpawned c r)
    with assms show ?thesis
      by (cases rule: acquire_spawned_cases [of r "i_now i" p]) (auto simp: mem_simps quiet_def)
  next
    case (XWait c)
    with assms show ?thesis
      by (cases rule: acquire_wake_cases [of t "i_now i" p])
         (auto simp: mem_simps quiet_def cond_resume_def split: if_splits)
  next
    case (XHave c r)
    with assms show ?thesis by (auto simp: Let_def quiet_def split: if_splits)
  qed (use assms in \<open>auto simp: acquire_spawned_def Let_def release_mark_def lease_mark_def mem_simps
        intro: quiet_signal quiet_same\<close>)
  then show "p_closed p' = p_closed p" "quiet p \<Longrightarrow> quiet p'" by auto
qed

lemma recycle_step_closed:
  assumes "recycle_step warm i r p L = Some (r', p', L')"
  shows "p_closed p' = p_closed p" and "quiet p \<Longrightarrow> quiet p'"
proof -
  have "p_closed p' = p_closed p \<and> (quiet p \<longrightarrow> quiet p')"
  proof (cases r)
    case (RLoop n)
    with assms show ?thesis by (cases n) (auto simp: quiet_def dest: spawn_step_pool)
  next
    case (RAdd n x)
    with assms show ?thesis
      by (auto simp: refill_add_def mem_simps intro!: quiet_signal intro: quiet_same split: if_splits)
  next
    case (RRemove x)
    with assms show ?thesis by (auto simp: pool_remove_def quiet_def)
  qed (use assms in \<open>auto simp: drain_mark_def reset_mark_def ready_mark_def mem_simps intro: quiet_signal quiet_same split: if_splits\<close>)
  then show "p_closed p' = p_closed p" "quiet p \<Longrightarrow> quiet p'" by auto
qed

lemma complete_step_closed: "complete_step k p L = Some (k', p', L') \<Longrightarrow> p_closed p' = p_closed p \<and> quiet p' = quiet p"
  by (cases k) (auto simp: quiet_def split: option.splits)

lemma shutdown_step_closed:
  "shutdown_step h p L = Some (h', p', L') \<Longrightarrow> p_closed p' = (p_closed p \<or> h = HClose) \<and> (quiet p \<longrightarrow> quiet p')"
  by (cases h) (auto simp: quiet_def pool_close_def mem_simps cond_broadcast_def split: if_splits)

lemma thread_step_closed:
  "thread_step warm t i c p L = Some (c', p', L', new) \<Longrightarrow>
     p_closed p' = (p_closed p \<or> c = H HClose) \<and> (quiet p \<longrightarrow> quiet p')"
  by (cases c) (auto dest: execute_step_closed complete_step_closed recycle_step_closed shutdown_step_closed)

lemma fire_quiet: "fire g a s = Some s' \<Longrightarrow> closing_inv s \<Longrightarrow> closing_inv s'"
  by (cases a) (auto simp: closing_inv_def reap_def quiet_def dest: thread_step_closed split: if_splits option.splits)

lemma fire_closed: "fire g a s = Some s' \<Longrightarrow> p_closed (m_pool s) \<Longrightarrow> p_closed (m_pool s')"
  by (cases a) (auto simp: reap_def dest: thread_step_closed split: if_splits option.splits)

lemma initial_quiet: "initial s \<Longrightarrow> closing_inv s"
  by (auto simp: initial_def closing_inv_def quiet_def started_def newPool_def Let_def)

interpretation closing: invariant_system initial "fire g" closing_inv for g
  by unfold_locales (fact initial_quiet fire_quiet)+

lemma waiter_woken:
  assumes "reachable g s" and "p_closed (m_pool s)" and "t < length (m_thr s)" and "m_thr s ! t = X (XWait c)"
  shows "t \<in> set (p_woken (m_pool s))"
proof -
  from closing.holds [OF assms(1)] assms(2) have "p_cond (m_pool s) = []" by (simp add: closing_inv_def quiet_def)
  moreover from waiting.holds_more [OF assms(1)] have "cond_inv (m_pool s) (m_thr s)"
    by (simp add: live_inv_def wait_inv_def)
  ultimately show ?thesis using assms(3,4) by (auto simp: cond_inv_def is_wait_def)
qed

end
