(* ===== verification/Pool_Scenarios.thy ===== *)
theory Pool_Scenarios
  imports Pool_Closing
begin

text \<open>
  Concrete runs of the pool machine, evaluated step by step: a pool of two sentries with stock
  runsc, its calls, completions and shutdown. They show that the hypotheses of the properties
  are met by states the program reaches.
\<close>

definition demo_workload :: "int \<Rightarrow> workload" where
  "demo_workload n = \<lparr>wl_Rootfs = ''/rootfs'', wl_Checkpoint = ''/ckpt'', wl_PoolSize = n, wl_MaxPending = 0,
     wl_PreRestore = True, wl_ResourceClass = ''''\<rparr>"

definition demo_sentry :: "nat \<Rightarrow> sentry" where
  "demo_sentry n = \<lparr>s_ID = sentry_id ''py'' n, s_PID = int n, s_RootDir = ''/w/root'', s_BundleDir = ''/w/bundle'',
     s_State = StateReady, s_Restores = 0, s_Created = Some 0, s_LastReset = Some 0, s_LastUsed = Some 0,
     s_BaseRSSKB = 0, s_IP = '''', s_NetnsPath = '''', s_ResourceClass = '''', s_LeaseID = ''''\<rparr>"

definition demo_sys :: "int \<Rightarrow> sys" where
  "demo_sys n = \<lparr>m_pool = started ''py'' (demo_workload n) demo_sentry, m_leases = [], m_thr = []\<rparr>"

definition stock :: setting where
  "stock = \<lparr>set_warm = False, set_idle = 0\<rparr>"

text \<open>An answer of the outside world: success or not, the lease ID, the next sentry.\<close>

definition answer :: "bool \<Rightarrow> string \<Rightarrow> nat \<Rightarrow> input" where
  "answer ok lid n = \<lparr>i_now = 1, i_ok = ok, i_acq = 1, i_ns = 1, i_lid = lid, i_sentry = demo_sentry n, i_err = ErrMsg ''boom''\<rparr>"

definition go :: "tid \<Rightarrow> action" where
  "go t = Run t (answer True ''l'' 0)"

lemma demo_initial: "0 \<le> n \<Longrightarrow> initial (demo_sys n)"
  unfolding initial_def demo_sys_def
  by (intro exI [of _ "''py''"] exI [of _ "demo_workload n"] exI [of _ demo_sentry])
     (auto simp: started_def newPool_def Let_def spawned_sentry_def demo_sentry_def)

lemma demo_reachable:
  "0 \<le> n \<Longrightarrow> run_actions g as (demo_sys n) = Some s \<Longrightarrow> reachable g s"
  by (rule reach_run [OF reach.init]) (rule demo_initial)

definition ran :: "setting \<Rightarrow> int \<Rightarrow> action list \<Rightarrow> sys" where
  "ran g n as = the (run_actions g as (demo_sys n))"

lemma ran_reachable:
  "0 \<le> n \<Longrightarrow> run_actions g as (demo_sys n) \<noteq> None \<Longrightarrow> reachable g (ran g n as)"
  by (auto simp: ran_def intro: demo_reachable)

lemma ran_snoc:
  "run_actions g (as @ [a]) (demo_sys n) \<noteq> None \<Longrightarrow> fire g a (ran g n as) = Some (ran g n (as @ [a]))"
  unfolding ran_def by (rule run_snoc)

text \<open>Two callers take the two sentries; the first gets the lease \<open>a\<close>, the second \<open>b\<close>.\<close>

definition two_leases :: "action list" where
  "two_leases = [Call '''', Call '''', go 0, go 1, go 0, go 1,
     Run 0 (answer True ''a'' 0), Run 1 (answer True ''b'' 0), go 0, go 1]"

text \<open>Both complete, and both recycles count the missing sentries before either adds one.\<close>

definition two_refills :: "action list" where
  "two_refills = two_leases @ [CallComplete ''a'', CallComplete ''b'', go 2, go 3, go 2, go 3,
     go 4, go 4, go 4, go 4, go 5, go 5, go 5, go 5, go 4, go 5,
     Run 4 (answer True '''' 3), go 4, Run 4 (answer True '''' 4), go 4, go 4, go 4,
     Run 5 (answer True '''' 5), go 5, Run 5 (answer True '''' 6), go 5, go 5, go 5]"

text \<open>One sentry: a second caller waits, the first completes, and the replacement fails to spawn.\<close>

definition lost_refill :: "action list" where
  "lost_refill = [Call '''', go 0, go 0, Run 0 (answer True ''a'' 0), go 0, Call '''', go 1,
     CallComplete ''a'', go 2, go 2, go 3, go 3, go 3, go 3, go 3, Run 3 (answer False '''' 0), go 3, go 3]"

text \<open>A caller waits for the one sentry, which its holder gives back after a refused override.\<close>

definition handed_back :: "action list" where
  "handed_back = [Call ''other'', Call '''', go 0, go 1, Run 0 (answer False '''' 0), go 0]"

text \<open>A caller waits while the pool is shut down.\<close>

definition shut_down :: "action list" where
  "shut_down = [Call '''', go 0, Call '''', go 1, CallShutdown, go 2, go 2, go 2]"

end
