(* ===== verification/Pool_Properties.thy ===== *)
theory Pool_Properties
  imports Pool_Scenarios
begin

text \<open>The correctness properties of one pool, under every interleaving of its goroutines.\<close>



text \<open>
  C2: an active lease. Two leases never share a sentry, and the sentry of a lease is running and
  carries the lease's ID.
\<close>

theorem leases_hold_running_sentries:
  assumes "reachable g s"
  shows "distinct (map snd (m_leases s)) \<and>
    (\<forall>(lid, r) \<in> set (m_leases s). sentry_state (m_pool s) r = Some StateRunning \<and> lease_of (m_pool s) r = Some lid)"
proof -
  from ownership.holds [OF assms] have own: "own_inv (m_pool s) (m_leases s) (m_thr s)"
    by (simp add: sys_inv_def pool_inv_def)
  with leasing.holds_more [OF assms] show ?thesis
    by (auto simp: lease_inv_def lid_inv_def intro: leases_distinct own_lease)
qed

theorem leases_hold_running_sentries_witness:
  "m_leases (ran stock 2 two_leases) = [(''a'', 1), (''b'', 2)] \<and> lease_of (m_pool (ran stock 2 two_leases)) 2 = Some ''b''"
proof -
  have reach: "reachable stock (ran stock 2 two_leases)" by (rule ran_reachable) (simp, code_simp)
  have "m_leases (ran stock 2 two_leases) = [(''a'', 1), (''b'', 2)]" by code_simp
  with leases_hold_running_sentries [OF reach] show ?thesis by simp
qed

text \<open>
  C3: no wake-up is lost. While the pool is open, if a goroutine sleeps on the condition variable
  although a member is ready, then some goroutine is already on its way to that member: either a
  signalled waiter that has not run yet, or one that is about to signal.
\<close>

theorem no_lost_wakeup:
  assumes "reachable g s" and "\<not> p_closed (m_pool s)" and "p_cond (m_pool s) \<noteq> []"
    and "r \<in> set (p_sentries (m_pool s))" and "sentry_state (m_pool s) r = Some StateReady"
  shows "\<exists>t < length (m_thr s).
    (t \<in> set (p_woken (m_pool s)) \<and> is_wait (m_thr s ! t)) \<or> is_signalling (m_thr s ! t)"
proof -
  from waiting.holds_more [OF assms(1)] have inv: "wake_inv (m_pool s) (m_thr s)" "cond_inv (m_pool s) (m_thr s)"
    by (simp_all add: live_inv_def wait_inv_def)
  have "avail (m_pool s) \<noteq> 0" using assms(4,5) by (auto simp: avail_def count_if_zero)
  with inv(1) assms(2,3) consider "p_woken (m_pool s) \<noteq> []" | "count_if is_signalling (m_thr s) \<noteq> 0"
    by (cases "p_woken (m_pool s) = []") (auto simp: wake_inv_def)
  then show ?thesis
  proof cases
    case 1
    then have "hd (p_woken (m_pool s)) \<in> set (p_woken (m_pool s))" by simp
    with inv(2) show ?thesis by (auto simp: cond_inv_def)
  next
    case 2
    then show ?thesis by (auto simp: count_if_zero in_set_conv_nth)
  qed
qed

theorem no_lost_wakeup_witness:
  "\<exists>t < length (m_thr (ran stock 1 (take 6 handed_back))).
    (t \<in> set (p_woken (m_pool (ran stock 1 (take 6 handed_back)))) \<and> is_wait (m_thr (ran stock 1 (take 6 handed_back)) ! t)) \<or>
    is_signalling (m_thr (ran stock 1 (take 6 handed_back)) ! t)"
proof -
  let ?s = "ran stock 1 (take 6 handed_back)"
  have reach: "reachable stock ?s" by (rule ran_reachable) (simp, code_simp)
  have facts: "\<not> p_closed (m_pool ?s)" "p_cond (m_pool ?s) \<noteq> []" "1 \<in> set (p_sentries (m_pool ?s))"
    "sentry_state (m_pool ?s) 1 = Some StateReady" by code_simp+
  show ?thesis by (rule no_lost_wakeup [OF reach facts])
qed

text \<open>
  C4: the pending counter is exact and the queue is bounded. \<^verbatim>\<open>pending\<close> is the number of callers
  that wait or spawn on demand, so it is never negative; those that wait are exactly the goroutines
  on the condition variable or just signalled; and never more of them wait than \<^verbatim>\<open>max_pending\<close>.
\<close>

theorem pending_exact:
  assumes "reachable g s"
  shows "p_pending (m_pool s) = int (count_if is_wait (m_thr s) + count_if is_spawning (m_thr s)) \<and>
    set (p_cond (m_pool s) @ p_woken (m_pool s)) = {t. t < length (m_thr s) \<and> is_wait (m_thr s ! t)} \<and>
    int (count_if is_wait (m_thr s)) \<le> max 0 (max_pending (p_workload (m_pool s)))"
  using waiting.holds_more [OF assms]
  by (simp add: live_inv_def wait_inv_def pending_inv_def cond_inv_def queue_inv_def)

theorem pending_exact_witness:
  "p_pending (m_pool (ran stock 1 lost_refill)) = 1 \<and> count_if is_wait (m_thr (ran stock 1 lost_refill)) = 1"
proof -
  have reach: "reachable stock (ran stock 1 lost_refill)" by (rule ran_reachable) (simp, code_simp)
  have "count_if is_wait (m_thr (ran stock 1 lost_refill)) = 1" "count_if is_spawning (m_thr (ran stock 1 lost_refill)) = 0"
    by code_simp+
  with pending_exact [OF reach] show ?thesis by simp
qed

text \<open>
  C5: shutdown. A closed pool has no members and stays closed, nobody sleeps on its condition
  variable, and a caller that was waiting returns \<^verbatim>\<open>ErrPoolClosed\<close> in its next step.
\<close>

theorem closed_pool_releases_waiters:
  assumes "reachable g s" and "p_closed (m_pool s)" and "t < length (m_thr s)" and "m_thr s ! t = X (XWait c)"
  shows "p_sentries (m_pool s) = [] \<and> p_cond (m_pool s) = [] \<and>
    (\<exists>s'. fire g (Run t i) s = Some s' \<and> m_thr s' ! t = X (XDone (Inl ErrPoolClosed)) \<and> p_closed (m_pool s'))"
proof -
  from waiting.holds_more [OF assms(1)] assms(2) have "p_sentries (m_pool s) = []"
    by (simp add: live_inv_def wait_inv_def closed_inv_def)
  moreover from closing.holds [OF assms(1)] assms(2) have "p_cond (m_pool s) = []"
    by (simp add: closing_inv_def quiet_def)
  moreover have "acquire_wake t (i_now i) (m_pool s) = (AcqClosed, (cond_resume t (m_pool s))\<lparr>p_pending := p_pending (m_pool s) - 1\<rparr>)"
    by (rule acquire_wake_cases [of t "i_now i" "m_pool s"]) (use assms(2) in auto)
  ultimately show ?thesis
    using assms waiter_woken [OF assms(1-4)] by (auto simp: mem_simps)
qed

theorem closed_pool_releases_waiters_witness:
  "\<exists>s'. fire stock (Run 1 (answer True '''' 0)) (ran stock 1 shut_down) = Some s' \<and> m_thr s' ! 1 = X (XDone (Inl ErrPoolClosed))"
proof -
  let ?s = "ran stock 1 shut_down"
  have reach: "reachable stock ?s" by (rule ran_reachable) (simp, code_simp)
  have facts: "p_closed (m_pool ?s)" "1 < length (m_thr ?s)" "m_thr ?s ! 1 = X (XWait '''')" by code_simp+
  show ?thesis using closed_pool_releases_waiters [OF reach facts] by blast
qed

text \<open>
  C6: the wait group. \<^verbatim>\<open>recycleWg\<close> counts the recycles that run, so \<^verbatim>\<open>Pool.Shutdown\<close> gets past
  \<^verbatim>\<open>recycleWg.Wait()\<close> only in a state where no goroutine recycles.
\<close>

theorem shutdown_waits_for_recycles:
  assumes "reachable g s" and "t < length (m_thr s)" and "m_thr s ! t = H HWait" and "fire g (Run t i) s = Some s'"
  shows "\<forall>c \<in> set (m_thr s'). \<not> is_recycling c"
proof -
  from assms have "p_recycleWg (m_pool s) = 0" and s': "m_thr s' = (m_thr s)[t := H HClose]" by (auto split: if_splits)
  with waiting.holds_more [OF assms(1)] have "count_if is_recycling (m_thr s) = 0"
    by (simp add: live_inv_def wg_inv_def)
  then have "\<forall>c \<in> set (m_thr s). \<not> is_recycling c" by (simp add: count_if_zero)
  moreover have "set (m_thr s') \<subseteq> insert (H HClose) (set (m_thr s))" unfolding s' by (rule set_update_subset_insert)
  ultimately show ?thesis by auto
qed

theorem shutdown_waits_for_recycles_witness:
  "\<not> is_recycling (m_thr (ran stock 1 (take 6 shut_down @ [go 2])) ! 0)"
proof -
  have reach: "reachable stock (ran stock 1 (take 6 shut_down))" by (rule ran_reachable) (simp, code_simp)
  have facts: "2 < length (m_thr (ran stock 1 (take 6 shut_down)))" "m_thr (ran stock 1 (take 6 shut_down)) ! 2 = H HWait" by code_simp+
  have "fire stock (go 2) (ran stock 1 (take 6 shut_down)) = Some (ran stock 1 (take 6 shut_down @ [go 2]))"
    by (rule ran_snoc) code_simp
  from shutdown_waits_for_recycles [OF reach facts this [unfolded go_def], folded go_def]
  have none: "\<not> is_recycling c" if "c \<in> set (m_thr (ran stock 1 (take 6 shut_down @ [go 2])))" for c
    using that by blast
  have "0 < length (m_thr (ran stock 1 (take 6 shut_down @ [go 2])))" by code_simp
  then show ?thesis by (intro none nth_mem)
qed

text \<open>
  C7: sentry IDs. Two sentries that ever lived in the pool have different IDs, so \<^verbatim>\<open>Pool.remove\<close>,
  which compares IDs, deletes the sentry it is given and no other.
\<close>

theorem sentry_ids_unique:
  assumes "reachable g s" and "p_heap (m_pool s) r = Some x"
  shows "(\<forall>r' y. p_heap (m_pool s) r' = Some y \<longrightarrow> s_ID y = s_ID x \<longrightarrow> r' = r) \<and>
    p_sentries (pool_remove r (m_pool s)) = remove1 r (p_sentries (m_pool s)) \<and> distinct (p_sentries (m_pool s))"
proof -
  from ownership.holds [OF assms(1)] have mem: "mem_inv (m_pool s)" by (simp add: sys_inv_def pool_inv_def)
  then have "\<forall>r' y. p_heap (m_pool s) r' = Some y \<longrightarrow> s_ID y = s_ID x \<longrightarrow> r' = r"
    using assms(2) unfolding mem_inv_def by (metis sentry_id_inject)
  moreover have "p_sentries (pool_remove r (m_pool s)) = remove1 r (p_sentries (m_pool s))"
    using pool_remove_eq [OF mem] assms(2) by simp
  ultimately show ?thesis using mem by (simp add: mem_inv_def)
qed

theorem sentry_ids_unique_witness:
  "p_sentries (pool_remove 4 (m_pool (ran stock 2 two_refills))) = [3, 5, 6]"
proof -
  let ?s = "ran stock 2 two_refills"
  have reach: "reachable stock ?s" by (rule ran_reachable) (simp, code_simp)
  have "p_heap (m_pool ?s) 4 \<noteq> None" by code_simp
  then obtain x where x: "p_heap (m_pool ?s) 4 = Some x" by auto
  have "p_sentries (m_pool ?s) = [3, 4, 5, 6]" by code_simp
  with sentry_ids_unique [OF reach x] show ?thesis by simp
qed



text \<open>
  C9: concurrent refills overshoot. \<^verbatim>\<open>refill\<close> counts the missing sentries under the lock but adds
  them later, so two recycles that count before either has added leave the pool, once everything
  is at rest, with more members than its configured size: here four for a size of two.
\<close>

theorem refill_overshoots:
  "\<exists>s. reachable stock s \<and> (\<forall>t i. fire stock (Run t i) s = None) \<and>
    wl_PoolSize (p_workload (m_pool s)) = 2 \<and> length (p_sentries (m_pool s)) = 4"
proof (intro exI conjI allI)
  let ?s = "ran stock 2 two_refills"
  show "reachable stock ?s" by (rule ran_reachable) (simp, code_simp)
  have "m_thr ?s = [X (XDone (Inr ''a'')), X (XDone (Inr ''b'')), K (KDone True), K (KDone True), R RDone, R RDone]"
    by code_simp
  then show "fire stock (Run t i) ?s = None" for t i
    by (auto simp: less_Suc_eq numeral_eq_Suc)
  show "wl_PoolSize (p_workload (m_pool ?s)) = 2" "length (p_sentries (m_pool ?s)) = 4" by code_simp+
qed

text \<open>
  C10: a failed replacement strands the waiters. When the only sentry is replaced and the spawn of
  the replacement fails, \<^verbatim>\<open>refill\<close> does not signal; a caller already waiting stays on the condition
  variable of an open, empty pool, and no goroutine can take a step, although a new call would
  spawn on demand.
\<close>

theorem failed_refill_strands_waiter:
  "\<exists>s. reachable stock s \<and> (\<forall>t i. fire stock (Run t i) s = None) \<and> \<not> p_closed (m_pool s) \<and>
    p_sentries (m_pool s) = [] \<and> p_pending (m_pool s) = 1 \<and> (\<exists>t c. t < length (m_thr s) \<and> m_thr s ! t = X (XWait c))"
proof (intro exI conjI allI)
  let ?s = "ran stock 1 lost_refill"
  show "reachable stock ?s" by (rule ran_reachable) (simp, code_simp)
  have thr: "m_thr ?s = [X (XDone (Inr ''a'')), X (XWait ''''), K (KDone True), R RDone]" by code_simp
  have "p_woken (m_pool ?s) = []" by code_simp
  with thr show "fire stock (Run t i) ?s = None" for t i
    by (auto simp: less_Suc_eq numeral_eq_Suc)
  show "\<not> p_closed (m_pool ?s)" "p_sentries (m_pool ?s) = []" "p_pending (m_pool ?s) = 1" by code_simp+
  show "1 < length (m_thr ?s)" "m_thr ?s ! 1 = X (XWait '''')" by (simp_all add: thr)
qed

end
