(* ===== verification/Config_Properties.thy ===== *)
theory Config_Properties
  imports Pool_Memory
begin

text \<open>The properties of the configuration: validation, workloads and the checkpoint allowlist.\<close>

lemma pool_ok_image:
  "pool_ok c p \<longleftrightarrow> 1 \<le> pc_PoolSize p \<and> pc_ResourceClass p \<noteq> [] \<and> pc_ResourceClass p \<in> rc_Name ` set (cfg_ResourceClasses c)"
  by (auto simp: pool_ok_def image_iff eq_commute)

text \<open>
  C11: validation is complete for what the daemon needs. \<^verbatim>\<open>Validate\<close> returns nil exactly for the
  configurations with a runsc path, at least one template, every template with a rootfs, a
  checkpoint and at least one pool, every pool non-empty and of a known resource class, and, in
  CNI mode, a plugin directory and a subnet.
\<close>

theorem Validate_nil_iff:
  "Validate c = None \<longleftrightarrow>
     rn_Path (cfg_Runsc c) \<noteq> '''' \<and> cfg_Templates c \<noteq> [] \<and>
     (\<forall>(name, t) \<in> set (cfg_Templates c). tm_Rootfs t \<noteq> '''' \<and> tm_Checkpoint t \<noteq> '''' \<and> tm_Pools t \<noteq> [] \<and>
        (\<forall>p \<in> set (tm_Pools t). 1 \<le> pc_PoolSize p \<and> pc_ResourceClass p \<noteq> '''' \<and>
           pc_ResourceClass p \<in> rc_Name ` set (cfg_ResourceClasses c))) \<and>
     (nw_Mode (cfg_Network c) = ''cni'' \<longrightarrow> nw_PluginDir (cfg_Network c) \<noteq> '''' \<and> nw_Subnet (cfg_Network c) \<noteq> '''')"
proof -
  have "validate_templates c (cfg_Templates c) = None \<longleftrightarrow>
      (\<forall>(name, t) \<in> set (cfg_Templates c). tm_Rootfs t \<noteq> '''' \<and> tm_Checkpoint t \<noteq> '''' \<and> tm_Pools t \<noteq> [] \<and>
        (\<forall>p \<in> set (tm_Pools t). 1 \<le> pc_PoolSize p \<and> pc_ResourceClass p \<noteq> '''' \<and>
           pc_ResourceClass p \<in> rc_Name ` set (cfg_ResourceClasses c)))"
    by (simp add: validate_templates_None template_ok_def pool_ok_image case_prod_unfold)
  moreover have "Validate c = None \<longleftrightarrow> rn_Path (cfg_Runsc c) \<noteq> [] \<and> cfg_Templates c \<noteq> [] \<and>
      validate_templates c (cfg_Templates c) = None \<and>
      (nw_Mode (cfg_Network c) = ''cni'' \<longrightarrow> nw_PluginDir (cfg_Network c) \<noteq> [] \<and> nw_Subnet (cfg_Network c) \<noteq> [])"
    by (simp add: Validate_def split: option.splits)
  ultimately show ?thesis by (simp only:)
qed

definition demo_config :: config where
  "demo_config = default_config\<lparr>cfg_Templates :=
     [(''py'', \<lparr>tm_Rootfs = ''/img/py'', tm_Checkpoint = ''/ckpt/py'',
        tm_Pools = [\<lparr>pc_ResourceClass = ''small'', pc_PoolSize = 2, pc_MaxPending = 0, pc_PreRestore = True\<rparr>,
                    \<lparr>pc_ResourceClass = ''large'', pc_PoolSize = 1, pc_MaxPending = 7, pc_PreRestore = True\<rparr>]\<rparr>)]\<rparr>"

theorem Validate_nil_iff_witness: "Validate demo_config = None"
  by (rule Validate_nil_iff [THEN iffD2]) code_simp



section \<open>The checkpoint allowlist\<close>

text \<open>The absolute spelling of a path before it is cleaned.\<close>

definition anchored :: "string \<Rightarrow> string \<Rightarrow> string" where
  "anchored d p = (if is_abs p then p else d @ ''/'' @ p)"

lemma is_abs_append: "is_abs d \<Longrightarrow> is_abs (d @ s)"
  by (cases d) (auto simp: is_abs_def has_prefix_def)

lemma is_abs_anchored [simp]: "is_abs d \<Longrightarrow> is_abs (anchored d p)"
  by (simp add: anchored_def is_abs_append)

lemma path_abs_anchored: "is_abs d \<Longrightarrow> path_abs (Inr d) p = Inr (path_clean (anchored d p))"
  by (cases d) (auto simp: path_abs_def anchored_def path_join_def is_abs_def has_prefix_def)

lemma dir_admits_anchored:
  assumes "is_abs d"
  shows "dir_admits (Inr d) (path_clean (anchored d path)) dir \<longleftrightarrow>
    clean_elems (anchored d path) = clean_elems (anchored d dir) \<or>
    clean_elems (anchored d dir) \<noteq> [] \<and> strict_prefix (clean_elems (anchored d dir)) (clean_elems (anchored d path))"
  using assms by (auto simp: dir_admits_def path_abs_anchored clean_prefix_iff path_clean_inject)

text \<open>
  C13: the checkpoint allowlist. With an allowlist and a known working directory, a path is
  admitted exactly when its elements, after every \<^verbatim>\<open>.\<close> and \<^verbatim>\<open>..\<close> is resolved, are those of an allowed
  directory or extend those of an allowed directory other than the root: no \<^verbatim>\<open>..\<close> escapes it, no
  sibling that only shares a byte prefix is admitted, and the entry \<^verbatim>\<open>/\<close> admits nothing but itself.
\<close>

theorem checkpoint_allowlist:
  assumes "is_abs d" and "dc_CheckpointDirs (cfg_Daemon c) \<noteq> []"
  shows "(ValidateCheckpointPath c (Inr d) path = None \<longleftrightarrow>
    (\<exists>dir \<in> set (dc_CheckpointDirs (cfg_Daemon c)).
       clean_elems (anchored d path) = clean_elems (anchored d dir) \<or>
       clean_elems (anchored d dir) \<noteq> [] \<and> strict_prefix (clean_elems (anchored d dir)) (clean_elems (anchored d path)))) \<and>
    ''..'' \<notin> set (clean_elems (anchored d path))"
  using assms by (auto simp: ValidateCheckpointPath_def path_abs_anchored under_some_dir_iff dir_admits_anchored clean_elems_rooted)

theorem checkpoint_allowlist_witness:
  "ValidateCheckpointPath (demo_config\<lparr>cfg_Daemon := (cfg_Daemon demo_config)\<lparr>dc_CheckpointDirs := [''/ckpt'']\<rparr>\<rparr>)
     (Inr ''/home'') ''/ckpt/a/../../etc'' \<noteq> None \<and>
   ValidateCheckpointPath (demo_config\<lparr>cfg_Daemon := (cfg_Daemon demo_config)\<lparr>dc_CheckpointDirs := [''/ckpt'']\<rparr>\<rparr>)
     (Inr ''/home'') ''../ckpt/b'' = None"
proof -
  have "is_abs ''/home''" by simp
  note allow = checkpoint_allowlist [THEN conjunct1, OF this, of "demo_config\<lparr>cfg_Daemon := (cfg_Daemon demo_config)\<lparr>dc_CheckpointDirs := [''/ckpt'']\<rparr>\<rparr>"]
  show ?thesis by (subst (1 2) allow) (simp, simp, code_simp)
qed

end
