(* ===== verification/Json.thy ===== *)
theory Json
  imports Go_Quote "HOL-Library.AList"
begin

text \<open>
  What the repository uses of \<^verbatim>\<open>encoding/json\<close>: JSON values, their compact text, decoding into
  structs and into \<^verbatim>\<open>map[string]any\<close>, and encoding of maps. A document is its parsed value:
  \<open>Doc j\<close> is any text of the value \<open>j\<close>, \<open>Text s\<close> a text that is not JSON. Numbers are integers of
  any size, or fractions kept by their literal; object members are kept in the order of the text.
\<close>

datatype json =
    JNull
  | JBool bool
  | JInt int
  | JFrac string
  | JStr string
  | JArr "json list"
  | JObj "(string \<times> json) list"

datatype content = Text string | Doc json

section \<open>Text\<close>

text \<open>A string literal as \<^verbatim>\<open>Marshal\<close> writes it, with the HTML-sensitive characters escaped.\<close>

definition json_char :: "char \<Rightarrow> string" where
  "json_char c =
     (let n = (of_char c :: nat) in
      if c = CHR 0x22 \<or> c = CHR 0x5C then [CHR 0x5C, c]
      else if n = 8 then [CHR 0x5C, CHR ''b'']
      else if n = 12 then [CHR 0x5C, CHR ''f'']
      else if n = 10 then [CHR 0x5C, CHR ''n'']
      else if n = 13 then [CHR 0x5C, CHR ''r'']
      else if n = 9 then [CHR 0x5C, CHR ''t'']
      else if n < 32 \<or> c \<in> set ''<>&'' then [CHR 0x5C, CHR ''u'', CHR ''0'', CHR ''0''] @ hex_byte n
      else [c])"

definition json_string :: "string \<Rightarrow> string" where
  "json_string s = [CHR 0x22] @ concat (map json_char s) @ [CHR 0x22]"

fun json_text :: "json \<Rightarrow> string" and json_items :: "json list \<Rightarrow> string list"
  and json_members :: "(string \<times> json) list \<Rightarrow> string list" where
  "json_text JNull = ''null''"
| "json_text (JBool b) = (if b then ''true'' else ''false'')"
| "json_text (JInt i) = itoa i"
| "json_text (JFrac s) = s"
| "json_text (JStr s) = json_string s"
| "json_text (JArr xs) = ''['' @ str_join (json_items xs) '','' @ '']''"
| "json_text (JObj ms) = ''{'' @ str_join (json_members ms) '','' @ ''}''"
| "json_items [] = []"
| "json_items (x # xs) = json_text x # json_items xs"
| "json_members [] = []"
| "json_members ((k, x) # ms) = (json_string k @ '':'' @ json_text x) # json_members ms"

text \<open>The bytes of a text; a document is taken to be written compactly, as \<^verbatim>\<open>Marshal\<close> does.\<close>

definition text_of :: "content \<Rightarrow> string" where
  "text_of x = (case x of Text s \<Rightarrow> s | Doc j \<Rightarrow> json_text j)"

text \<open>\<^verbatim>\<open>io.ReadAll(io.LimitReader(r, n))\<close>: a longer text is cut, and a cut document is not JSON.\<close>

definition limit_reader :: "nat \<Rightarrow> content \<Rightarrow> content" where
  "limit_reader n x = (if length (text_of x) \<le> n then x else Text (take n (text_of x)))"

lemma limit_reader_short [simp]: "length (text_of x) \<le> n \<Longrightarrow> limit_reader n x = x"
  by (simp add: limit_reader_def)

section \<open>Decoding into a struct\<close>

text \<open>
  Field names match exactly or, failing that, up to case. The names of fields are ASCII, so of all other
  letters only the Kelvin sign and the long s matter, which fold to k and s.
\<close>

definition to_lower :: "char \<Rightarrow> char" where
  "to_lower c = (let n = (of_char c :: nat) in if 65 \<le> n \<and> n \<le> 90 then char_of (n + 32) else c)"

fun fold_name :: "string \<Rightarrow> string" where
  "fold_name [] = []"
| "fold_name (c # s) =
     (if has_prefix (c # s) [CHR 0xE2, CHR 0x84, CHR 0xAA] then CHR ''k'' # fold_name (drop 2 s)
      else if has_prefix (c # s) [CHR 0xC5, CHR 0xBF] then CHR ''s'' # fold_name (drop 1 s)
      else to_lower c # fold_name s)"

definition fold_eq :: "string \<Rightarrow> string \<Rightarrow> bool" where
  "fold_eq a b = (fold_name a = fold_name b)"

text \<open>A decoder takes the JSON value and the value the field already has.\<close>

type_synonym 'a decoder = "json \<Rightarrow> 'a \<Rightarrow> 'a result"

definition type_error :: "string \<Rightarrow> goerr" where
  "type_error ty = ErrMsg (''json: cannot unmarshal value into Go value of type '' @ ty)"

fun dec_string :: "string decoder" where
  "dec_string (JStr s) old = Inr s"
| "dec_string JNull old = Inr old"
| "dec_string _ old = Inl (type_error ''string'')"

fun dec_bool :: "bool decoder" where
  "dec_bool (JBool b) old = Inr b"
| "dec_bool JNull old = Inr old"
| "dec_bool _ old = Inl (type_error ''bool'')"

fun dec_int :: "int decoder" where
  "dec_int (JInt i) old = (if - (2 ^ 63) \<le> i \<and> i < 2 ^ 63 then Inr i else Inl (type_error ''int''))"
| "dec_int JNull old = Inr old"
| "dec_int _ old = Inl (type_error ''int'')"

text \<open>A pointer field: null makes it nil, a value makes it point to a fresh one.\<close>

definition dec_ptr :: "'a \<Rightarrow> 'a decoder \<Rightarrow> 'a option decoder" where
  "dec_ptr zero d j old =
     (if j = JNull then Inr None
      else (case d j (case old of None \<Rightarrow> zero | Some x \<Rightarrow> x) of Inl e \<Rightarrow> Inl e | Inr x \<Rightarrow> Inr (Some x)))"

text \<open>\<^verbatim>\<open>json.RawMessage\<close>: the text of the value, of null as well.\<close>

definition dec_raw :: "json option decoder" where
  "dec_raw j old = Inr (Some j)"

fun dec_items :: "'a \<Rightarrow> 'a decoder \<Rightarrow> json list \<Rightarrow> 'a list \<Rightarrow> 'a list result" where
  "dec_items zero d [] old = Inr []"
| "dec_items zero d (j # js) old =
     (case d j (case old of [] \<Rightarrow> zero | x # _ \<Rightarrow> x) of
        Inl e \<Rightarrow> Inl e
      | Inr y \<Rightarrow> (case dec_items zero d js (tl old) of Inl e \<Rightarrow> Inl e | Inr ys \<Rightarrow> Inr (y # ys)))"

text \<open>A slice is refilled in place: element \<open>i\<close> starts from the old element \<open>i\<close> if there is one.\<close>

fun dec_slice :: "'a \<Rightarrow> 'a decoder \<Rightarrow> 'a list decoder" where
  "dec_slice zero d (JArr js) old = dec_items zero d js old"
| "dec_slice zero d JNull old = Inr []"
| "dec_slice zero d _ old = Inl (type_error ''slice'')"

fun dec_entries :: "'a \<Rightarrow> 'a decoder \<Rightarrow> (string \<times> json) list \<Rightarrow> (string \<times> 'a) list \<Rightarrow> (string \<times> 'a) list result" where
  "dec_entries zero d [] m = Inr m"
| "dec_entries zero d ((k, j) # ms) m =
     (case d j zero of Inl e \<Rightarrow> Inl e | Inr v \<Rightarrow> dec_entries zero d ms (AList.update k v m))"

fun dec_map :: "'a \<Rightarrow> 'a decoder \<Rightarrow> (string \<times> 'a) list decoder" where
  "dec_map zero d (JObj ms) old = dec_entries zero d ms old"
| "dec_map zero d JNull old = Inr []"
| "dec_map zero d _ old = Inl (type_error ''map'')"

text \<open>A slice or a map that tells nil from empty.\<close>

fun dec_nil_slice :: "'a \<Rightarrow> 'a decoder \<Rightarrow> 'a list option decoder" where
  "dec_nil_slice zero d JNull old = Inr None"
| "dec_nil_slice zero d j old =
     (case dec_slice zero d j (case old of None \<Rightarrow> [] | Some xs \<Rightarrow> xs) of Inl e \<Rightarrow> Inl e | Inr xs \<Rightarrow> Inr (Some xs))"

fun dec_nil_map :: "'a \<Rightarrow> 'a decoder \<Rightarrow> (string \<times> 'a) list option decoder" where
  "dec_nil_map zero d JNull old = Inr None"
| "dec_nil_map zero d j old =
     (case dec_map zero d j (case old of None \<Rightarrow> [] | Some m \<Rightarrow> m) of Inl e \<Rightarrow> Inl e | Inr m \<Rightarrow> Inr (Some m))"

text \<open>A struct: every member goes to the field it names; members that name no field are ignored.\<close>

type_synonym 'r fields = "(string \<times> (json \<Rightarrow> 'r \<Rightarrow> 'r result)) list"

definition find_field :: "'r fields \<Rightarrow> string \<Rightarrow> (json \<Rightarrow> 'r \<Rightarrow> 'r result) option" where
  "find_field fs k =
     (case map_of fs k of
        Some d \<Rightarrow> Some d
      | None \<Rightarrow> map_option snd (find (\<lambda>(f, _). fold_eq f k) fs))"

fun dec_members :: "'r fields \<Rightarrow> (string \<times> json) list \<Rightarrow> 'r \<Rightarrow> 'r result" where
  "dec_members fs [] r = Inr r"
| "dec_members fs ((k, j) # ms) r =
     (case find_field fs k of
        None \<Rightarrow> dec_members fs ms r
      | Some d \<Rightarrow> (case d j r of Inl e \<Rightarrow> Inl e | Inr r' \<Rightarrow> dec_members fs ms r'))"

fun dec_struct :: "'r fields \<Rightarrow> 'r decoder" where
  "dec_struct fs (JObj ms) r = dec_members fs ms r"
| "dec_struct fs JNull r = Inr r"
| "dec_struct fs _ r = Inl (type_error ''struct'')"

definition field :: "string \<Rightarrow> ('r \<Rightarrow> 'a) \<Rightarrow> (('a \<Rightarrow> 'a) \<Rightarrow> 'r \<Rightarrow> 'r) \<Rightarrow> 'a decoder \<Rightarrow> string \<times> (json \<Rightarrow> 'r \<Rightarrow> 'r result)" where
  "field name get put d = (name, \<lambda>j r. case d j (get r) of Inl e \<Rightarrow> Inl e | Inr x \<Rightarrow> Inr (put (\<lambda>_. x) r))"

definition syntax_error :: goerr where
  "syntax_error = ErrMsg ''invalid JSON text''"

definition unmarshal :: "'a decoder \<Rightarrow> content \<Rightarrow> 'a \<Rightarrow> 'a result" where
  "unmarshal d x old = (case x of Text s \<Rightarrow> Inl syntax_error | Doc j \<Rightarrow> d j old)"

section \<open>Decoding into \<^verbatim>\<open>any\<close>\<close>

text \<open>A \<^verbatim>\<open>float64\<close> holds an integer exactly up to 53 significant bits; ties round to even.\<close>

definition round_even :: "nat \<Rightarrow> nat \<Rightarrow> nat" where
  "round_even n u =
     (let q = n div u; r = n mod u in
      if u < 2 * r \<or> (2 * r = u \<and> odd q) then q + 1 else q)"

fun bit_size :: "nat \<Rightarrow> nat" where
  "bit_size n = (if n = 0 then 0 else Suc (bit_size (n div 2)))"

declare bit_size.simps [simp del]

definition f64_nat :: "nat \<Rightarrow> nat" where
  "f64_nat n =
     (if bit_size n \<le> 53 then n
      else let u = 2 ^ (bit_size n - 53) in round_even n u * u)"

definition f64 :: "int \<Rightarrow> int" where
  "f64 i = (if i < 0 then - int (f64_nat (nat (- i))) else int (f64_nat (nat i)))"

fun to_any :: "json \<Rightarrow> json" and any_list :: "json list \<Rightarrow> json list"
  and any_map :: "(string \<times> json) list \<Rightarrow> (string \<times> json) list \<Rightarrow> (string \<times> json) list" where
  "to_any (JInt i) = JInt (f64 i)"
| "to_any (JArr xs) = JArr (any_list xs)"
| "to_any (JObj ms) = JObj (any_map ms [])"
| "to_any JNull = JNull"
| "to_any (JBool b) = JBool b"
| "to_any (JFrac s) = JFrac s"
| "to_any (JStr s) = JStr s"
| "any_list [] = []"
| "any_list (x # xs) = to_any x # any_list xs"
| "any_map [] m = m"
| "any_map ((k, x) # ms) m = any_map ms (AList.update k (to_any x) m)"

text \<open>\<^verbatim>\<open>var m map[string]any\<close>: nothing stands for the nil map that JSON null leaves.\<close>

definition dec_any_map :: "content \<Rightarrow> (string \<times> json) list option result" where
  "dec_any_map x =
     (case x of
        Text s \<Rightarrow> Inl syntax_error
      | Doc (JObj ms) \<Rightarrow> Inr (Some (any_map ms []))
      | Doc JNull \<Rightarrow> Inr None
      | Doc _ \<Rightarrow> Inl (type_error ''map[string]interface {}''))"

end
