(* ===== verification/Runtime.thy ===== *)
theory Runtime
  imports Pool_Memory Json
begin

text \<open>
  What the pools call outside their own memory: the \<^verbatim>\<open>runsc.Runtime\<close> interface of
  \<^verbatim>\<open>internal/runsc/runsc.go\<close>, the bundle functions of the same package, the CNI and cgroup managers
  when they are configured, and the operating system. An implementation is a record of operations
  on a world of any type; the runsc client, the CNI manager and the cgroup manager of the
  repository are one such implementation, and the tests' stub runtime is another.
\<close>

section \<open>The interface\<close>

record container_state =
  cs_ID :: string
  cs_PID :: int
  cs_Status :: string

text \<open>
  \<open>rt_WaitDone root id d\<close> runs \<^verbatim>\<open>Wait\<close> in a goroutine and answers whether it ended within \<open>d\<close>
  nanoseconds; \<open>rt_WaitEnd\<close> is the receive that follows when it did not.
\<close>

record 'w runtime =
  rt_Create :: "string \<Rightarrow> string \<Rightarrow> string \<Rightarrow> ('w, goerr option) state"
  rt_Restore :: "string \<Rightarrow> string \<Rightarrow> string \<Rightarrow> string \<Rightarrow> ('w, goerr option) state"
  rt_Kill :: "string \<Rightarrow> string \<Rightarrow> string \<Rightarrow> ('w, goerr option) state"
  rt_WaitDone :: "string \<Rightarrow> string \<Rightarrow> int \<Rightarrow> ('w, bool) state"
  rt_WaitEnd :: "string \<Rightarrow> string \<Rightarrow> ('w, unit) state"
  rt_Reset :: "string \<Rightarrow> string \<Rightarrow> ('w, goerr option) state"
  rt_Delete :: "string \<Rightarrow> string \<Rightarrow> ('w, goerr option) state"
  rt_State :: "string \<Rightarrow> string \<Rightarrow> ('w, container_state result) state"
  rt_Exec :: "string \<Rightarrow> string \<Rightarrow> string list \<Rightarrow> ('w, string \<times> goerr option) state"
  rt_PrepareBundle :: "string \<Rightarrow> string \<Rightarrow> string \<Rightarrow> ('w, goerr option) state"
  rt_CleanFilestores :: "string \<Rightarrow> ('w, unit) state"
  rt_KillProcess :: "int \<Rightarrow> ('w, unit) state"
  rt_WarmSentry :: bool

record 'w netns =
  nm_CreateNetNS :: "string \<Rightarrow> ('w, (string \<times> string) result) state"
  nm_DeleteNetNS :: "string \<Rightarrow> ('w, unit) state"

record 'w cgroups =
  cm_SentrySlicePath :: "string \<Rightarrow> string \<Rightarrow> ('w, string result) state"
  cm_PlacePID :: "string \<Rightarrow> int \<Rightarrow> ('w, goerr option) state"
  cm_CleanupSentry :: "string \<Rightarrow> string \<Rightarrow> ('w, unit) state"

record 'w services =
  sv_rt :: "'w runtime"
  sv_cni :: "'w netns option"
  sv_cgroup :: "'w cgroups option"
  sv_InjectBundleMounts :: "string \<Rightarrow> string \<Rightarrow> string \<Rightarrow> ('w, goerr option) state"
  sv_InjectNetNS :: "string \<Rightarrow> string \<Rightarrow> ('w, goerr option) state"
  sv_MkdirAll :: "string \<Rightarrow> ('w, goerr option) state"
  sv_RemoveAll :: "string \<Rightarrow> ('w, unit) state"
  sv_Now :: "('w, int) state"
  sv_RSSKB :: "int \<Rightarrow> ('w, int) state"
  sv_FDs :: "int \<Rightarrow> ('w, int) state"
  sv_Rand :: "('w, nat list) state"
  sv_Getwd :: "('w, string result) state"
  sv_Post :: "string \<Rightarrow> int \<Rightarrow> json \<Rightarrow> ('w, content result) state"

section \<open>The manager's state\<close>

text \<open>
  \<^verbatim>\<open>Manager\<close> of \<^verbatim>\<open>internal/pool/pool.go\<close>: its pools by workload name, the leases of all pools, and
  the world. A lease refers to its sentry by pool name and reference; \<open>mg_recycling\<close> are the
  recycle goroutines that \<^verbatim>\<open>Complete\<close> has started and that have not run yet.
\<close>

record lease =
  le_pool :: string
  le_sentry :: ref
  le_created :: int

record 'w mgr =
  mg_pools :: "(string \<times> pool) list"
  mg_leases :: "(string \<times> lease) list"
  mg_recycling :: "(string \<times> ref) list"
  mg_down :: bool
  mg_world :: 'w

text \<open>\<^verbatim>\<open>NewManager\<close>.\<close>

definition NewManager :: "'w \<Rightarrow> 'w mgr" where
  "NewManager w = \<lparr>mg_pools = [], mg_leases = [], mg_recycling = [], mg_down = False, mg_world = w\<rparr>"

type_synonym ('w, 'a) prog = "('w mgr, 'a) state"

text \<open>A call outside, and a critical section of the pool \<open>nm\<close>.\<close>

definition ext :: "('w, 'a) state \<Rightarrow> ('w, 'a) prog" where
  "ext m = State (\<lambda>s. case run_state m (mg_world s) of (a, w) \<Rightarrow> (a, s\<lparr>mg_world := w\<rparr>))"

definition pool_at :: "'w mgr \<Rightarrow> string \<Rightarrow> pool" where
  "pool_at s nm = (case map_of (mg_pools s) nm of Some p \<Rightarrow> p | None \<Rightarrow> undefined)"

definition crit :: "string \<Rightarrow> (pool \<Rightarrow> 'a \<times> pool) \<Rightarrow> ('w, 'a) prog" where
  "crit nm f = State (\<lambda>s. case f (pool_at s nm) of (a, p) \<Rightarrow> (a, s\<lparr>mg_pools := AList.update nm p (mg_pools s)\<rparr>))"

definition upd :: "string \<Rightarrow> (pool \<Rightarrow> pool) \<Rightarrow> ('w, unit) prog" where
  "upd nm f = crit nm (\<lambda>p. ((), f p))"

definition the_pool :: "string \<Rightarrow> ('w, pool) prog" where
  "the_pool nm = gets (\<lambda>s. pool_at s nm)"

definition the_sentry :: "string \<Rightarrow> ref \<Rightarrow> ('w, sentry) prog" where
  "the_sentry nm r = gets (\<lambda>s. the (p_heap (pool_at s nm) r))"

text \<open>\<^verbatim>\<open>if err != nil { h } k\<close>.\<close>

definition if_err :: "goerr option \<Rightarrow> (goerr \<Rightarrow> 'a) \<Rightarrow> 'a \<Rightarrow> 'a" where
  "if_err e h k = (case e of Some x \<Rightarrow> h x | None \<Rightarrow> k)"

lemma if_err_simps [simp]: "if_err None h k = k" "if_err (Some x) h k = h x"
  by (simp_all add: if_err_def)

end
