(* ===== verification/Pool_Ops.thy ===== *)
theory Pool_Ops
  imports Runtime
begin

text \<open>
  The operations of \<^verbatim>\<open>Pool\<close> as one goroutine executes them, every call to the runtime, the network
  and cgroup managers and the operating system in the order of the source
  (\<^verbatim>\<open>internal/pool/pool.go\<close>). Critical sections are those of the memory model.
\<close>

section \<open>Spawning a sentry\<close>

definition sentry_dir :: "config \<Rightarrow> string \<Rightarrow> string" where
  "sentry_dir c i = path_join [dc_Workdir (cfg_Daemon c), i]"

definition root_dir :: "config \<Rightarrow> string \<Rightarrow> string" where
  "root_dir c i = path_join [sentry_dir c i, ''root'']"

definition bundle_dir :: "config \<Rightarrow> string \<Rightarrow> string" where
  "bundle_dir c i = path_join [sentry_dir c i, ''bundle'']"

definition fresh_sentry :: "config \<Rightarrow> workload \<Rightarrow> string \<Rightarrow> sentry" where
  "fresh_sentry c wl i = \<lparr>s_ID = i, s_PID = 0, s_RootDir = root_dir c i, s_BundleDir = bundle_dir c i,
     s_State = StateReady, s_Restores = 0, s_Created = None, s_LastReset = None, s_LastUsed = None,
     s_BaseRSSKB = 0, s_IP = '''', s_NetnsPath = '''', s_ResourceClass = wl_ResourceClass wl, s_LeaseID = ''''\<rparr>"

text \<open>\<^verbatim>\<open>cleanupPartial\<close>: what a spawn that failed partway removes.\<close>

definition cleanupPartial :: "'w services \<Rightarrow> sentry \<Rightarrow> ('w, unit) state" where
  "cleanupPartial V s = do {
     _ \<leftarrow> rt_Kill (sv_rt V) (s_RootDir s) (s_ID s) ''KILL'';
     _ \<leftarrow> rt_Delete (sv_rt V) (s_RootDir s) (s_ID s);
     rt_KillProcess (sv_rt V) (s_PID s);
     sv_RemoveAll V (path_dir (s_RootDir s))
   }"

definition cleanup :: "'w services \<Rightarrow> sentry \<Rightarrow> ('w, unit) state" where
  "cleanup V s = do {
     _ \<leftarrow> rt_Kill (sv_rt V) (s_RootDir s) (s_ID s) ''KILL'';
     _ \<leftarrow> rt_Delete (sv_rt V) (s_RootDir s) (s_ID s);
     rt_KillProcess (sv_rt V) (s_PID s);
     (case sv_cni V of None \<Rightarrow> ret () | Some m \<Rightarrow> nm_DeleteNetNS m (s_ID s));
     (case sv_cgroup V of
        None \<Rightarrow> ret ()
      | Some m \<Rightarrow> if s_ResourceClass s \<noteq> '''' then cm_CleanupSentry m (s_ResourceClass s) (s_ID s) else ret ());
     sv_RemoveAll V (path_dir (s_RootDir s))
   }"

text \<open>The stages of \<^verbatim>\<open>spawn\<close>: the bundle on disk, the network, the container, the bookkeeping.\<close>

definition spawn_bundle :: "config \<Rightarrow> 'w services \<Rightarrow> workload \<Rightarrow> string \<Rightarrow> ('w, goerr option) state" where
  "spawn_bundle c V wl i = do {
     e1 \<leftarrow> sv_MkdirAll V (root_dir c i);
     if_err e1 (\<lambda>e. ret (Some (Wrap ''creating root dir: '' e ''''))) (do {
       e2 \<leftarrow> rt_PrepareBundle (sv_rt V) (bundle_dir c i) (wl_Rootfs wl) (wl_Checkpoint wl);
       if_err e2 (\<lambda>e. ret (Some (Wrap ''preparing bundle: '' e ''''))) (do {
         e3 \<leftarrow> sv_InjectBundleMounts V (bundle_dir c i) (dc_HarnessPath (cfg_Daemon c)) (dc_CacheDir (cfg_Daemon c));
         if_err e3
           (\<lambda>e. do {
              sv_RemoveAll V (sentry_dir c i);
              ret (Some (Wrap ''injecting bundle mounts: '' e ''''))
            })
           (do {
              rt_CleanFilestores (sv_rt V) (wl_Rootfs wl);
              ret None
            })
       })
     })
   }"

definition spawn_net :: "config \<Rightarrow> 'w services \<Rightarrow> sentry \<Rightarrow> ('w, sentry result) state" where
  "spawn_net c V s0 = do {
     net \<leftarrow> (case sv_cni V of
               None \<Rightarrow> ret (Inr s0)
             | Some m \<Rightarrow> do {
                 x \<leftarrow> nm_CreateNetNS m (s_ID s0);
                 (case x of
                    Inl e \<Rightarrow> do {
                      sv_RemoveAll V (sentry_dir c (s_ID s0));
                      ret (Inl (Wrap ''creating network namespace: '' e ''''))
                    }
                  | Inr (ip, path) \<Rightarrow> ret (Inr (s0\<lparr>s_IP := ip, s_NetnsPath := path\<rparr>)))
               });
     (case net of
        Inl e \<Rightarrow> ret (Inl e)
      | Inr s \<Rightarrow>
          if s_NetnsPath s = '''' then ret (Inr s)
          else do {
            e1 \<leftarrow> sv_InjectNetNS V (s_BundleDir s) (s_NetnsPath s);
            if_err e1
              (\<lambda>e. do {
                 cleanupPartial V s;
                 ret (Inl (Wrap ''injecting network namespace: '' e ''''))
               })
              (ret (Inr s))
          })
   }"

definition spawn_boot :: "'w services \<Rightarrow> workload \<Rightarrow> sentry \<Rightarrow> ('w, container_state result) state" where
  "spawn_boot V wl s = do {
     e1 \<leftarrow> (if rt_WarmSentry (sv_rt V) then rt_Create (sv_rt V) (s_RootDir s) (s_BundleDir s) (s_ID s) else ret None);
     if_err e1 (\<lambda>e. do { cleanupPartial V s; ret (Inl (Wrap ''runsc create: '' e '''')) }) (do {
       e2 \<leftarrow> (if wl_PreRestore wl \<or> \<not> rt_WarmSentry (sv_rt V)
              then rt_Restore (sv_rt V) (s_RootDir s) (s_BundleDir s) (wl_Checkpoint wl) (s_ID s)
              else ret None);
       if_err e2 (\<lambda>e. do { cleanupPartial V s; ret (Inl (Wrap ''restore: '' e '''')) }) (do {
         x \<leftarrow> rt_State (sv_rt V) (s_RootDir s) (s_ID s);
         (case x of
            Inl e \<Rightarrow> do { cleanupPartial V s; ret (Inl (Wrap ''reading state: '' e '''')) }
          | Inr cs \<Rightarrow> ret (Inr cs))
       })
     })
   }"

definition spawn_place :: "'w services \<Rightarrow> workload \<Rightarrow> sentry \<Rightarrow> ('w, sentry result) state" where
  "spawn_place V wl s =
     (case sv_cgroup V of
        None \<Rightarrow> ret (Inr s)
      | Some m \<Rightarrow>
          if wl_ResourceClass wl = '''' then ret (Inr s)
          else do {
            x \<leftarrow> cm_SentrySlicePath m (wl_ResourceClass wl) (s_ID s);
            (case x of
               Inl e \<Rightarrow> do { cleanupPartial V s; ret (Inl (Wrap ''creating cgroup for sentry: '' e '''')) }
             | Inr path \<Rightarrow> do {
                 e1 \<leftarrow> cm_PlacePID m path (s_PID s);
                 if_err e1
                   (\<lambda>e. do { cleanupPartial V s; ret (Inl (Wrap ''placing sentry in cgroup: '' e '''')) })
                   (ret (Inr s))
               })
          })"

definition spawn_outside :: "config \<Rightarrow> 'w services \<Rightarrow> workload \<Rightarrow> string \<Rightarrow> ('w, sentry result) state" where
  "spawn_outside c V wl i = do {
     e0 \<leftarrow> spawn_bundle c V wl i;
     if_err e0 (\<lambda>e. ret (Inl e)) (do {
       x1 \<leftarrow> spawn_net c V (fresh_sentry c wl i);
       (case x1 of
          Inl e \<Rightarrow> ret (Inl e)
        | Inr s1 \<Rightarrow> do {
            x2 \<leftarrow> spawn_boot V wl s1;
            (case x2 of
               Inl e \<Rightarrow> ret (Inl e)
             | Inr cs \<Rightarrow> do {
                 now \<leftarrow> sv_Now V;
                 rss \<leftarrow> sv_RSSKB V (cs_PID cs);
                 spawn_place V wl (s1\<lparr>s_PID := cs_PID cs, s_Created := Some now, s_LastReset := Some now,
                   s_LastUsed := Some now, s_BaseRSSKB := rss\<rparr>)
               })
          })
     })
   }"

definition spawn :: "config \<Rightarrow> 'w services \<Rightarrow> string \<Rightarrow> ('w, ref result) prog" where
  "spawn c V nm = do {
     n \<leftarrow> crit nm (\<lambda>p. (Suc (p_nextID p), bump_id p));
     p \<leftarrow> the_pool nm;
     x \<leftarrow> ext (spawn_outside c V (p_workload p) (sentry_id (p_name p) n));
     (case x of
        Inl e \<Rightarrow> ret (Inl e)
      | Inr s \<Rightarrow> do { upd nm (store_sentry n s); ret (Inr n) })
   }"

section \<open>Refill, recycle, release\<close>

definition cleanup_ref :: "'w services \<Rightarrow> string \<Rightarrow> ref \<Rightarrow> ('w, unit) prog" where
  "cleanup_ref V nm r = do { s \<leftarrow> the_sentry nm r; ext (cleanup V s) }"

fun refill_loop :: "config \<Rightarrow> 'w services \<Rightarrow> string \<Rightarrow> nat \<Rightarrow> ('w, unit) prog" where
  "refill_loop c V nm 0 = ret ()"
| "refill_loop c V nm (Suc k) = do {
     x \<leftarrow> spawn c V nm;
     (case x of
        Inl e \<Rightarrow> refill_loop c V nm k
      | Inr r \<Rightarrow> do {
          ok \<leftarrow> crit nm (refill_add r);
          if ok then refill_loop c V nm k else cleanup_ref V nm r
        })
   }"

definition refill :: "config \<Rightarrow> 'w services \<Rightarrow> string \<Rightarrow> ('w, unit) prog" where
  "refill c V nm = do {
     needed \<leftarrow> crit nm (\<lambda>p. (refill_needed p, p));
     refill_loop c V nm (nat needed)
   }"

definition replace_sentry :: "config \<Rightarrow> 'w services \<Rightarrow> string \<Rightarrow> ref \<Rightarrow> ('w, unit) prog" where
  "replace_sentry c V nm r = do {
     upd nm (pool_remove r);
     cleanup_ref V nm r;
     refill c V nm
   }"

definition stop_container :: "'w services \<Rightarrow> sentry \<Rightarrow> ('w, unit) state" where
  "stop_container V s = do {
     _ \<leftarrow> rt_Kill (sv_rt V) (s_RootDir s) (s_ID s) ''TERM'';
     done \<leftarrow> rt_WaitDone (sv_rt V) (s_RootDir s) (s_ID s) (3 * second);
     if done then ret ()
     else do {
       _ \<leftarrow> rt_Kill (sv_rt V) (s_RootDir s) (s_ID s) ''KILL'';
       rt_WaitEnd (sv_rt V) (s_RootDir s) (s_ID s)
     }
   }"

text \<open>The health check reads the process's memory and descriptors at the time of the call.\<close>

definition check_health :: "config \<Rightarrow> 'w services \<Rightarrow> sentry \<Rightarrow> ('w, health_error option) state" where
  "check_health c V s = do {
     now \<leftarrow> sv_Now V;
     rss \<leftarrow> sv_RSSKB V (s_PID s);
     fds \<leftarrow> sv_FDs V (s_PID s);
     ret (HealthCheck s now rss fds (cfg_Limits c))
   }"

definition add_restore_ns :: "int \<Rightarrow> pool \<Rightarrow> pool" where
  "add_restore_ns ns p = p\<lparr>p_TotalRestoreNs := p_TotalRestoreNs p + ns\<rparr>"

definition recycle_warm :: "config \<Rightarrow> 'w services \<Rightarrow> string \<Rightarrow> ref \<Rightarrow> ('w, unit) prog" where
  "recycle_warm c V nm r = do {
     s \<leftarrow> the_sentry nm r;
     e1 \<leftarrow> ext (rt_Reset (sv_rt V) (s_RootDir s) (s_ID s));
     if_err e1 (\<lambda>_. replace_sentry c V nm r) (do {
       now \<leftarrow> ext (sv_Now V);
       upd nm (reset_mark r now);
       s' \<leftarrow> the_sentry nm r;
       h \<leftarrow> ext (check_health c V s');
       (case h of
          Some _ \<Rightarrow> replace_sentry c V nm r
        | None \<Rightarrow> do {
            p \<leftarrow> the_pool nm;
            ext (rt_CleanFilestores (sv_rt V) (wl_Rootfs (p_workload p)));
            t0 \<leftarrow> ext (sv_Now V);
            e2 \<leftarrow> ext (rt_Restore (sv_rt V) (s_RootDir s) (s_BundleDir s) (wl_Checkpoint (p_workload p)) (s_ID s));
            if_err e2 (\<lambda>_. replace_sentry c V nm r) (do {
              t1 \<leftarrow> ext (sv_Now V);
              upd nm (add_restore_ns (t1 - t0));
              upd nm (ready_mark r);
              upd nm cond_signal
            })
          })
     })
   }"

definition recycle :: "config \<Rightarrow> 'w services \<Rightarrow> string \<Rightarrow> ref \<Rightarrow> ('w, unit) prog" where
  "recycle c V nm r = do {
     upd nm (drain_mark r);
     s \<leftarrow> the_sentry nm r;
     ext (stop_container V s);
     if rt_WarmSentry (sv_rt V) then recycle_warm c V nm r else replace_sentry c V nm r
   }"

definition release :: "string \<Rightarrow> ref \<Rightarrow> ('w, unit) prog" where
  "release nm r = do { upd nm (release_mark r); upd nm cond_signal }"

end
