(* ===== verification/Manager.thy ===== *)
theory Manager
  imports Pool_Ops
begin

text \<open>
  \<^verbatim>\<open>Pool.acquire\<close>, \<^verbatim>\<open>Pool.Execute\<close>, \<^verbatim>\<open>Pool.Status\<close> and the operations of \<^verbatim>\<open>Manager\<close>
  (\<^verbatim>\<open>internal/pool/pool.go\<close>), as one goroutine runs them. A call that parks on the condition
  variable answers nothing: its goroutine goes on in the machine of interleavings. Times are in
  nanoseconds; the milliseconds of the answers are microseconds here, before the division by 1000.
\<close>

section \<open>Acquire\<close>

definition acquire :: "config \<Rightarrow> 'w services \<Rightarrow> tid \<Rightarrow> string \<Rightarrow> ('w, ref result option) prog" where
  "acquire c V t nm = do {
     now \<leftarrow> ext (sv_Now V);
     a \<leftarrow> crit nm (acquire_enter t now);
     (case a of
        AcqClosed \<Rightarrow> ret (Some (Inl ErrPoolClosed))
      | AcqGot r \<Rightarrow> ret (Some (Inr r))
      | AcqFull \<Rightarrow> ret (Some (Inl ErrCapacityExhausted))
      | AcqWait \<Rightarrow> ret None
      | AcqFailed \<Rightarrow> ret None
      | AcqSpawn \<Rightarrow> do {
          x \<leftarrow> spawn c V nm;
          now' \<leftarrow> ext (sv_Now V);
          (case x of
             Inl e \<Rightarrow> do {
               _ \<leftarrow> crit nm (acquire_spawned None now');
               ret (Some (Inl (Wrap ''on-demand spawn failed: '' e '''')))
             }
           | Inr r \<Rightarrow> do {
               b \<leftarrow> crit nm (acquire_spawned (Some r) now');
               (case b of
                  AcqGot _ \<Rightarrow> ret (Some (Inr r))
                | _ \<Rightarrow> do { cleanup_ref V nm r; ret (Some (Inl ErrPoolClosed)) })
             })
        })
   }"

section \<open>Leases\<close>

definition generateLeaseID :: "'w services \<Rightarrow> ('w, string) state" where
  "generateLeaseID V = do { b \<leftarrow> sv_Rand V; ret (concat (map hex_byte (take 16 b))) }"

definition registerLease :: "'w services \<Rightarrow> string \<Rightarrow> ref \<Rightarrow> ('w, string) prog" where
  "registerLease V nm r = do {
     lid \<leftarrow> ext (generateLeaseID V);
     upd nm (lease_mark r lid);
     now \<leftarrow> ext (sv_Now V);
     modify (\<lambda>s. s\<lparr>mg_leases := AList.update lid \<lparr>le_pool = nm, le_sentry = r, le_created = now\<rparr> (mg_leases s)\<rparr>);
     ret lid
   }"

section \<open>Execute\<close>

record exec_result =
  er_Workload :: string
  er_SentryID :: string
  er_LeaseID :: string
  er_PID :: int
  er_IP :: string
  er_Checkpoint :: string
  er_AcquireUs :: int
  er_RestoreUs :: int
  er_RestoreNum :: int

definition micros :: "int \<Rightarrow> int" where
  "micros ns = go_quot ns 1000"

definition override_error :: "string \<Rightarrow> goerr" where
  "override_error ckpt = ErrMsg (''checkpoint override not supported with pre_restore=true (sentry is already restored from ''
     @ go_quote ckpt @ '')'')"

text \<open>The checkpoint to use: the workload's, or an override that the configuration admits.\<close>

definition choose_checkpoint :: "config \<Rightarrow> string result \<Rightarrow> workload \<Rightarrow> string \<Rightarrow> string result" where
  "choose_checkpoint c wd wl checkpoint =
     (if checkpoint = '''' then Inr (wl_Checkpoint wl)
      else if wl_PreRestore wl then Inl (override_error (wl_Checkpoint wl))
      else (case ValidateCheckpointPath c wd checkpoint of Some e \<Rightarrow> Inl e | None \<Rightarrow> Inr checkpoint))"

definition pool_restore :: "'w services \<Rightarrow> workload \<Rightarrow> sentry \<Rightarrow> string \<Rightarrow> ('w, int result) state" where
  "pool_restore V wl s ckpt =
     (if wl_PreRestore wl then ret (Inr 0)
      else do {
        rt_CleanFilestores (sv_rt V) (wl_Rootfs wl);
        t0 \<leftarrow> sv_Now V;
        e \<leftarrow> rt_Restore (sv_rt V) (s_RootDir s) (s_BundleDir s) ckpt (s_ID s);
        if_err e (\<lambda>x. ret (Inl (Wrap ''restore failed: '' x ''''))) (do {
          t1 \<leftarrow> sv_Now V;
          ret (Inr (t1 - t0))
        })
      })"

definition count_execution :: "bool \<Rightarrow> int \<Rightarrow> pool \<Rightarrow> pool" where
  "count_execution restored ns p =
     p\<lparr>p_TotalExecutions := p_TotalExecutions p + 1,
       p_TotalRestoreNs := p_TotalRestoreNs p + (if restored then ns else 0)\<rparr>"

definition add_acquire_ns :: "int \<Rightarrow> pool \<Rightarrow> pool" where
  "add_acquire_ns ns p = p\<lparr>p_TotalAcquireNs := p_TotalAcquireNs p + ns\<rparr>"

definition execute_held :: "config \<Rightarrow> 'w services \<Rightarrow> string \<Rightarrow> string \<Rightarrow> ref \<Rightarrow> int \<Rightarrow> ('w, exec_result result) prog" where
  "execute_held c V nm checkpoint r acq = do {
     upd nm (add_acquire_ns acq);
     p \<leftarrow> the_pool nm;
     wd \<leftarrow> ext (sv_Getwd V);
     (case choose_checkpoint c wd (p_workload p) checkpoint of
        Inl e \<Rightarrow> do { release nm r; ret (Inl e) }
      | Inr ckpt \<Rightarrow> do {
          s \<leftarrow> the_sentry nm r;
          x \<leftarrow> ext (pool_restore V (p_workload p) s ckpt);
          (case x of
             Inl e \<Rightarrow> do { release nm r; ret (Inl e) }
           | Inr ns \<Rightarrow> do {
               upd nm (count_execution (\<not> wl_PreRestore (p_workload p)) ns);
               lid \<leftarrow> registerLease V nm r;
               s' \<leftarrow> the_sentry nm r;
               ret (Inr \<lparr>er_Workload = p_name p, er_SentryID = s_ID s', er_LeaseID = lid, er_PID = s_PID s',
                 er_IP = s_IP s', er_Checkpoint = ckpt, er_AcquireUs = micros acq, er_RestoreUs = micros ns,
                 er_RestoreNum = s_Restores s' + 1\<rparr>)
             })
        })
   }"

definition pool_Execute :: "config \<Rightarrow> 'w services \<Rightarrow> tid \<Rightarrow> string \<Rightarrow> string \<Rightarrow> ('w, exec_result result option) prog" where
  "pool_Execute c V t nm checkpoint = do {
     t0 \<leftarrow> ext (sv_Now V);
     a \<leftarrow> acquire c V t nm;
     (case a of
        None \<Rightarrow> ret None
      | Some (Inl e) \<Rightarrow> ret (Some (Inl e))
      | Some (Inr r) \<Rightarrow> do {
          t1 \<leftarrow> ext (sv_Now V);
          x \<leftarrow> execute_held c V nm checkpoint r (t1 - t0);
          ret (Some x)
        })
   }"

text \<open>\<^verbatim>\<open>workloadNames\<close>, and the list as the \<^verbatim>\<open>%v\<close> verb prints it.\<close>

fun string_le :: "string \<Rightarrow> string \<Rightarrow> bool" where
  "string_le [] ys = True"
| "string_le (x # xs) [] = False"
| "string_le (x # xs) (y # ys) =
     ((of_char x :: nat) < of_char y \<or> x = y \<and> string_le xs ys)"

fun insort_string :: "string \<Rightarrow> string list \<Rightarrow> string list" where
  "insort_string x [] = [x]"
| "insort_string x (y # ys) = (if string_le x y then x # y # ys else y # insort_string x ys)"

definition workloadNames :: "'w mgr \<Rightarrow> string list" where
  "workloadNames s = foldr insort_string (map fst (mg_pools s)) []"

definition Execute :: "config \<Rightarrow> 'w services \<Rightarrow> tid \<Rightarrow> string \<Rightarrow> string \<Rightarrow> ('w, exec_result result option) prog" where
  "Execute c V t workload checkpoint = do {
     s \<leftarrow> gets id;
     if map_of (mg_pools s) workload = None then
       ret (Some (Inl (ErrMsg (''unknown workload '' @ go_quote workload @ '' (available: [''
         @ str_join (workloadNames s) '' '' @ ''])''))))
     else pool_Execute c V t workload checkpoint
   }"

section \<open>Complete\<close>

definition add_wg :: "int \<Rightarrow> pool \<Rightarrow> pool" where
  "add_wg d p = p\<lparr>p_recycleWg := p_recycleWg p + d\<rparr>"

definition Complete :: "string \<Rightarrow> ('w, goerr option) prog" where
  "Complete lid = do {
     s \<leftarrow> gets id;
     (case map_of (mg_leases s) lid of
        None \<Rightarrow> ret (Some (ErrMsg (''unknown lease '' @ go_quote lid)))
      | Some l \<Rightarrow> do {
          modify (\<lambda>s. s\<lparr>mg_leases := AList.delete lid (mg_leases s)\<rparr>);
          upd (le_pool l) (add_wg 1);
          modify (\<lambda>s. s\<lparr>mg_recycling := mg_recycling s @ [(le_pool l, le_sentry l)]\<rparr>);
          ret None
        })
   }"

text \<open>The recycle goroutine \<open>(nm, r)\<close>, from its start to the \<^verbatim>\<open>Done\<close> of the wait group.\<close>

definition recycle_goroutine :: "config \<Rightarrow> 'w services \<Rightarrow> string \<Rightarrow> ref \<Rightarrow> ('w, unit) prog" where
  "recycle_goroutine c V nm r = do {
     modify (\<lambda>s. s\<lparr>mg_recycling := remove1 (nm, r) (mg_recycling s)\<rparr>);
     recycle c V nm r;
     upd nm (add_wg (- 1))
   }"

section \<open>Start and Shutdown\<close>

fun start_members :: "config \<Rightarrow> 'w services \<Rightarrow> string \<Rightarrow> int \<Rightarrow> nat \<Rightarrow> ('w, goerr option) prog" where
  "start_members c V nm i 0 = ret None"
| "start_members c V nm i (Suc k) = do {
     x \<leftarrow> spawn c V nm;
     (case x of
        Inl e \<Rightarrow> ret (Some (Wrap (''spawning sentry '' @ itoa i @ '': '') e ''''))
      | Inr r \<Rightarrow> do {
          upd nm (\<lambda>p. p\<lparr>p_sentries := p_sentries p @ [r]\<rparr>);
          start_members c V nm (i + 1) k
        })
   }"

text \<open>
  A pool that fails to start is not entered in \<^verbatim>\<open>m.pools\<close>; here its entry is taken out again, as
  its memory is reached by name.
\<close>

fun start_pools :: "config \<Rightarrow> 'w services \<Rightarrow> (string \<times> workload) list \<Rightarrow> ('w, goerr option) prog" where
  "start_pools c V [] = ret None"
| "start_pools c V ((nm, wl) # ws) = do {
     modify (\<lambda>s. s\<lparr>mg_pools := AList.update nm (newPool nm wl) (mg_pools s)\<rparr>);
     e \<leftarrow> start_members c V nm 0 (nat (wl_PoolSize wl));
     (case e of
        Some x \<Rightarrow> do {
          modify (\<lambda>s. s\<lparr>mg_pools := AList.delete nm (mg_pools s)\<rparr>);
          ret (Some (Wrap (''starting pool '' @ go_quote nm @ '': '') x ''''))
        }
      | None \<Rightarrow> start_pools c V ws)
   }"

definition manager_Start :: "config \<Rightarrow> 'w services \<Rightarrow> ('w, goerr option) prog" where
  "manager_Start c V = start_pools c V (Workloads c)"

fun cleanup_refs :: "'w services \<Rightarrow> string \<Rightarrow> ref list \<Rightarrow> ('w, unit) prog" where
  "cleanup_refs V nm [] = ret ()"
| "cleanup_refs V nm (r # rs) = do { cleanup_ref V nm r; cleanup_refs V nm rs }"

text \<open>
  \<^verbatim>\<open>Pool.Shutdown\<close> once; the recycles it waits for are run first, in the order they were started.
\<close>

fun run_recycles :: "config \<Rightarrow> 'w services \<Rightarrow> (string \<times> ref) list \<Rightarrow> ('w, unit) prog" where
  "run_recycles c V [] = ret ()"
| "run_recycles c V ((nm, r) # rs) = do { recycle_goroutine c V nm r; run_recycles c V rs }"

definition pool_Shutdown :: "config \<Rightarrow> 'w services \<Rightarrow> string \<Rightarrow> ('w, unit) prog" where
  "pool_Shutdown c V nm = do {
     p \<leftarrow> the_pool nm;
     if p_stop p then ret ()
     else do {
       upd nm (\<lambda>p. p\<lparr>p_stop := True\<rparr>);
       s \<leftarrow> gets id;
       run_recycles c V (filter (\<lambda>(n, _). n = nm) (mg_recycling s));
       rs \<leftarrow> crit nm pool_close;
       cleanup_refs V nm rs
     }
   }"

fun shutdown_pools :: "config \<Rightarrow> 'w services \<Rightarrow> string list \<Rightarrow> ('w, unit) prog" where
  "shutdown_pools c V [] = ret ()"
| "shutdown_pools c V (nm # nms) = do { pool_Shutdown c V nm; shutdown_pools c V nms }"

definition manager_Shutdown :: "config \<Rightarrow> 'w services \<Rightarrow> ('w, unit) prog" where
  "manager_Shutdown c V = do {
     s \<leftarrow> gets id;
     if mg_down s then ret ()
     else do {
       modify (\<lambda>s. s\<lparr>mg_down := True, mg_leases := []\<rparr>);
       shutdown_pools c V (map fst (mg_pools s))
     }
   }"

section \<open>The reaper\<close>

text \<open>One tick of the 30-second ticker; the reaper ends when \<^verbatim>\<open>stopCh\<close> is closed.\<close>

definition reaper_tick :: "config \<Rightarrow> 'w services \<Rightarrow> string \<Rightarrow> ('w, unit) prog" where
  "reaper_tick c V nm =
     (if lm_IdleTimeout (cfg_Limits c) \<le> 0 then ret ()
      else do {
        now \<leftarrow> ext (sv_Now V);
        evict \<leftarrow> crit nm (reap (lm_IdleTimeout (cfg_Limits c)) now);
        cleanup_refs V nm evict
      })"

end
