(* ===== verification/Manager_Run.thy ===== *)
theory Manager_Run
  imports Manager
begin

text \<open>
  \<^verbatim>\<open>Manager.Run\<close> with its two ways into the sandbox, and the read-only operations \<^verbatim>\<open>Status\<close> and
  \<^verbatim>\<open>Healthy\<close> (\<^verbatim>\<open>internal/pool/pool.go\<close>). Durations are 64-bit and wrap.
\<close>

section \<open>Parameters and results\<close>

text \<open>A nil slice or map of the source is \<open>None\<close>; it is marshalled as null.\<close>

record run_params =
  rp_Workload :: string
  rp_Script :: string
  rp_Interpreter :: string
  rp_Command :: string
  rp_Deps :: "string list option"
  rp_Event :: "json option"
  rp_Env :: "(string \<times> string) list option"
  rp_Timeout :: int

datatype millis = Micros int | MsNumber json

record run_result =
  rr_Type :: string
  rr_ExitCode :: int
  rr_Stdout :: string
  rr_Stderr :: string
  rr_Elapsed :: millis
  rr_Error :: string
  rr_SentryID :: string
  rr_Acquire :: millis

definition empty_result :: run_result where
  "empty_result = \<lparr>rr_Type = '''', rr_ExitCode = 0, rr_Stdout = '''', rr_Stderr = '''', rr_Elapsed = Micros 0,
     rr_Error = '''', rr_SentryID = '''', rr_Acquire = Micros 0\<rparr>"

fun dec_float :: "millis decoder" where
  "dec_float (JInt i) old = Inr (MsNumber (JInt i))"
| "dec_float (JFrac s) old = Inr (MsNumber (JFrac s))"
| "dec_float JNull old = Inr old"
| "dec_float _ old = Inl (type_error ''float64'')"

definition run_result_fields :: "run_result fields" where
  "run_result_fields =
    [field ''type'' rr_Type rr_Type_update dec_string,
     field ''exit_code'' rr_ExitCode rr_ExitCode_update dec_int,
     field ''stdout'' rr_Stdout rr_Stdout_update dec_string,
     field ''stderr'' rr_Stderr rr_Stderr_update dec_string,
     field ''elapsed_ms'' rr_Elapsed rr_Elapsed_update dec_float,
     field ''error'' rr_Error rr_Error_update dec_string,
     field ''sentry_id'' rr_SentryID rr_SentryID_update dec_string,
     field ''acquire_ms'' rr_Acquire rr_Acquire_update dec_float]"

section \<open>The harness over HTTP\<close>

text \<open>\<^verbatim>\<open>time.Duration(params.Timeout) * time.Second\<close>, 30 seconds when that is not positive.\<close>

definition script_timeout :: "int \<Rightarrow> int" where
  "script_timeout t = (let d = i64 (t * second) in if d \<le> 0 then 30 * second else d)"

definition http_timeout :: "int \<Rightarrow> int" where
  "http_timeout t = i64 (script_timeout t + 5 * second)"

text \<open>The body is a map, so its members come out in the order of their keys.\<close>

definition harness_body :: "run_params \<Rightarrow> json" where
  "harness_body q = JObj
    [(''command'', JStr (rp_Command q)),
     (''deps'', case rp_Deps q of None \<Rightarrow> JNull | Some ds \<Rightarrow> JArr (map JStr ds)),
     (''env'', case rp_Env q of None \<Rightarrow> JNull | Some m \<Rightarrow> JObj (map (\<lambda>(k, v). (k, JStr v)) m)),
     (''event'', case rp_Event q of None \<Rightarrow> JNull | Some j \<Rightarrow> j),
     (''interpreter'', JStr (rp_Interpreter q)),
     (''script'', JStr (rp_Script q)),
     (''timeout'', JInt (rp_Timeout q))]"

definition callHarnessViaExec :: "'w services \<Rightarrow> string \<Rightarrow> string \<Rightarrow> run_params \<Rightarrow> ('w, run_result result) state" where
  "callHarnessViaExec V rootDir i q =
     (if rootDir = '''' \<or> i = '''' then ret (Inl (ErrMsg ''sentry info not available for exec fallback''))
      else do {
        t0 \<leftarrow> sv_Now V;
        x \<leftarrow> rt_Exec (sv_rt V) rootDir i
          (if rp_Command q \<noteq> '''' then [''/bin/sh'', ''-c'', rp_Command q]
           else [if rp_Interpreter q = '''' then ''python3'' else rp_Interpreter q, ''-c'', rp_Script q]);
        t1 \<leftarrow> sv_Now V;
        (case x of
           (out, Some e) \<Rightarrow> ret (Inr (empty_result\<lparr>rr_Type := ''error'', rr_ExitCode := - 1, rr_Stdout := out,
             rr_Error := err_text e, rr_Elapsed := Micros (micros (t1 - t0))\<rparr>))
         | (out, None) \<Rightarrow> ret (Inr (empty_result\<lparr>rr_Type := ''success'', rr_Stdout := out,
             rr_Elapsed := Micros (micros (t1 - t0))\<rparr>)))
      })"

text \<open>\<^verbatim>\<open>12<<20\<close> bytes of the response are read.\<close>

definition response_limit :: nat where
  "response_limit = 12 * 2 ^ 20"

definition callHarness :: "'w services \<Rightarrow> string \<Rightarrow> string \<Rightarrow> string \<Rightarrow> run_params \<Rightarrow> ('w, run_result result) state" where
  "callHarness V ip rootDir i q =
     (if ip = '''' then callHarnessViaExec V rootDir i q
      else do {
        let url = ''http://'' @ ip @ '':8080/run'';
        x \<leftarrow> sv_Post V url (http_timeout (rp_Timeout q)) (harness_body q);
        (case x of
           Inl e \<Rightarrow> ret (Inl (Wrap (''POST '' @ url @ '': '') e ''''))
         | Inr body \<Rightarrow>
             (case unmarshal (dec_struct run_result_fields) (limit_reader response_limit body) empty_result of
                Inl e \<Rightarrow> ret (Inl (Wrap ''parsing harness response: '' e ''''))
              | Inr res \<Rightarrow> ret (Inr res)))
      })"

section \<open>Run\<close>

text \<open>The lookup of the lease for the exec fallback: empty strings when it is already gone.\<close>

definition lease_sentry :: "string \<Rightarrow> ('w, string \<times> string) prog" where
  "lease_sentry lid = do {
     s \<leftarrow> gets id;
     (case map_of (mg_leases s) lid of
        None \<Rightarrow> ret ('''', '''')
      | Some l \<Rightarrow> do { x \<leftarrow> the_sentry (le_pool l) (le_sentry l); ret (s_RootDir x, s_ID x) })
   }"

definition manager_Run :: "config \<Rightarrow> 'w services \<Rightarrow> tid \<Rightarrow> run_params \<Rightarrow> ('w, run_result result option) prog" where
  "manager_Run c V t q = do {
     a \<leftarrow> Execute c V t (rp_Workload q) '''';
     (case a of
        None \<Rightarrow> ret None
      | Some (Inl e) \<Rightarrow> ret (Some (Inl e))
      | Some (Inr er) \<Rightarrow> do {
          info \<leftarrow> lease_sentry (er_LeaseID er);
          x \<leftarrow> ext (callHarness V (er_IP er) (fst info) (snd info) q);
          _ \<leftarrow> Complete (er_LeaseID er);
          (case x of
             Inl e \<Rightarrow> ret (Some (Inl (Wrap ''harness call failed: '' e '''')))
           | Inr res \<Rightarrow> ret (Some (Inr (res\<lparr>rr_SentryID := er_SentryID er, rr_Acquire := Micros (er_AcquireUs er)\<rparr>))))
        })
   }"

section \<open>Status\<close>

text \<open>An average is kept as the two counters it is the quotient of.\<close>

record pool_status =
  st_Workload :: string
  st_PoolSize :: int
  st_MaxPending :: int
  st_Ready :: nat
  st_Running :: nat
  st_Pending :: int
  st_Checkpoint :: string
  st_Rootfs :: string
  st_PreRestore :: bool
  st_TotalExecutions :: int
  st_AvgAcquire :: "int \<times> int"
  st_AvgRestore :: "int \<times> int"
  st_Sentries :: "sentry_info list"

fun infos :: "'w services \<Rightarrow> sentry list \<Rightarrow> ('w, sentry_info list) state" where
  "infos V [] = ret []"
| "infos V (s # ss) = do {
     now \<leftarrow> sv_Now V;
     rss \<leftarrow> sv_RSSKB V (s_PID s);
     fds \<leftarrow> sv_FDs V (s_PID s);
     is \<leftarrow> infos V ss;
     ret (Info s now rss fds # is)
   }"

definition average :: "int \<Rightarrow> int \<Rightarrow> int \<times> int" where
  "average ns n = (if 0 < n then (ns, n) else (0, 1))"

definition status_of :: "pool \<Rightarrow> sentry_info list \<Rightarrow> pool_status" where
  "status_of p is = \<lparr>st_Workload = p_name p, st_PoolSize = wl_PoolSize (p_workload p),
     st_MaxPending = max_pending (p_workload p),
     st_Ready = count_if (\<lambda>i. si_State i = ''ready'') is,
     st_Running = count_if (\<lambda>i. si_State i = ''running'') is,
     st_Pending = p_pending p, st_Checkpoint = wl_Checkpoint (p_workload p),
     st_Rootfs = wl_Rootfs (p_workload p), st_PreRestore = wl_PreRestore (p_workload p),
     st_TotalExecutions = p_TotalExecutions p,
     st_AvgAcquire = average (p_TotalAcquireNs p) (p_TotalExecutions p),
     st_AvgRestore = average (p_TotalRestoreNs p) (p_TotalExecutions p),
     st_Sentries = is\<rparr>"

definition pool_members :: "pool \<Rightarrow> sentry list" where
  "pool_members p = map (\<lambda>r. the (p_heap p r)) (p_sentries p)"

definition pool_Status :: "'w services \<Rightarrow> pool \<Rightarrow> ('w, pool_status) state" where
  "pool_Status V p = do { is \<leftarrow> infos V (pool_members p); ret (status_of p is) }"

definition pool_Healthy :: "pool \<Rightarrow> bool" where
  "pool_Healthy p = list_ex (\<lambda>r. sentry_state p r = Some StateReady) (p_sentries p)"

fun statuses :: "'w services \<Rightarrow> pool list \<Rightarrow> ('w, pool_status list) state" where
  "statuses V [] = ret []"
| "statuses V (p # ps) = do { x \<leftarrow> pool_Status V p; xs \<leftarrow> statuses V ps; ret (x # xs) }"

definition manager_Status :: "'w services \<Rightarrow> ('w, pool_status list \<times> nat) prog" where
  "manager_Status V = do {
     s \<leftarrow> gets id;
     ps \<leftarrow> ext (statuses V (map snd (mg_pools s)));
     ret (ps, lease_count (mg_leases s))
   }"

definition Healthy :: "'w mgr \<Rightarrow> bool" where
  "Healthy s = list_ex (\<lambda>(nm, p). pool_Healthy p) (mg_pools s)"

end
