(* ===== verification/Pool_Refine.thy ===== *)
theory Pool_Refine
  imports Manager_Run Pool_Machine
begin

text \<open>
  The sequential operations refine the machine of interleavings: what one goroutine does to its
  pool when it runs \<^verbatim>\<open>recycle\<close>, \<^verbatim>\<open>refill\<close> or \<^verbatim>\<open>Execute\<close>, whatever the services answer, is a
  sequence of that goroutine's steps in the machine. So every fact about all runs of the machine
  is a fact about the code as written in the operations.
\<close>

section \<open>One goroutine on its own\<close>

definition solo :: "(input \<Rightarrow> 'c \<Rightarrow> pool \<Rightarrow> leases \<Rightarrow> 'c stepped) \<Rightarrow> input \<Rightarrow> 'c \<times> pool \<times> leases \<Rightarrow> ('c \<times> pool \<times> leases) option" where
  "solo f i x = (case x of (c, p, L) \<Rightarrow> f i c p L)"

definition proceeds :: "(input \<Rightarrow> 'c \<Rightarrow> pool \<Rightarrow> leases \<Rightarrow> 'c stepped) \<Rightarrow> 'c \<times> pool \<times> leases \<Rightarrow> 'c \<times> pool \<times> leases \<Rightarrow> bool" where
  "proceeds f x y \<longleftrightarrow> (\<exists>as. run_all (solo f) as x = Some y)"

lemma proceeds_refl [simp]: "proceeds f x x"
  unfolding proceeds_def by (rule exI [of _ "[]"]) simp

lemma proceeds_step: "f i c p L = Some y \<Longrightarrow> proceeds f y z \<Longrightarrow> proceeds f (c, p, L) z"
  unfolding proceeds_def by (elim exE) (rule_tac x = "i # as" in exI, simp add: solo_def)

lemma proceeds_trans: "proceeds f x y \<Longrightarrow> proceeds f y z \<Longrightarrow> proceeds f x z"
  unfolding proceeds_def
  by (elim exE) (rule_tac x = "as @ asa" in exI, simp add: run_all_append)

lemma steps2:
  "f i c p L = Some (ca, pa, La) \<Longrightarrow> f j ca pa La = Some y \<Longrightarrow> proceeds f y z \<Longrightarrow> proceeds f (c, p, L) z"
  by (blast intro: proceeds_step)

lemma steps3:
  "f i c p L = Some (ca, pa, La) \<Longrightarrow> f j ca pa La = Some (cb, pb, Lb) \<Longrightarrow> f k cb pb Lb = Some y \<Longrightarrow>
     proceeds f y z \<Longrightarrow> proceeds f (c, p, L) z"
  by (blast intro: proceeds_step)

definition reply :: "bool \<Rightarrow> input" where
  "reply ok = \<lparr>i_now = 0, i_ok = ok, i_acq = 0, i_ns = 0, i_lid = '''', i_sentry = undefined, i_err = ErrPoolClosed\<rparr>"

lemma reply_ok [simp]: "i_ok (reply ok) = ok"
  by (simp add: reply_def)

section \<open>The manager's state seen from one pool\<close>

lemma run_ext: "run_state (ext m) s = (case run_state m (mg_world s) of (a, w) \<Rightarrow> (a, s\<lparr>mg_world := w\<rparr>))"
  by (simp add: ext_def)

lemma run_crit:
  "run_state (crit nm f) s = (case f (pool_at s nm) of (a, p) \<Rightarrow> (a, s\<lparr>mg_pools := AList.update nm p (mg_pools s)\<rparr>))"
  by (simp add: crit_def)

lemma run_upd: "run_state (upd nm f) s = ((), s\<lparr>mg_pools := AList.update nm (f (pool_at s nm)) (mg_pools s)\<rparr>)"
  by (simp add: upd_def run_crit)

lemma run_the_pool [simp]: "run_state (the_pool nm) s = (pool_at s nm, s)"
  by (simp add: the_pool_def)

lemma run_the_sentry [simp]: "run_state (the_sentry nm r) s = (the (p_heap (pool_at s nm) r), s)"
  by (simp add: the_sentry_def)

lemma pool_at_simps [simp]:
  "pool_at (s\<lparr>mg_world := w\<rparr>) nm = pool_at s nm"
  "pool_at (s\<lparr>mg_leases := l\<rparr>) nm = pool_at s nm"
  "pool_at (s\<lparr>mg_recycling := q\<rparr>) nm = pool_at s nm"
  "pool_at (s\<lparr>mg_pools := AList.update nm p P\<rparr>) nm = p"
  by (simp_all add: pool_at_def update_conv')

lemmas run_prog = run_ext run_crit run_upd

text \<open>An operation that only calls outside leaves every pool alone.\<close>

lemma run_ext_pool: "run_state (ext m) s = (a, s') \<Longrightarrow> pool_at s' nm = pool_at s nm"
  by (auto simp: run_ext split: prod.splits)

lemma cleanup_ref_pool: "run_state (cleanup_ref V nm r) s = (a, s') \<Longrightarrow> pool_at s' nm' = pool_at s nm'"
  by (auto simp: cleanup_ref_def run_ext split: prod.splits)

section \<open>Spawning\<close>

lemma spawn_net_keeps:
  assumes "run_state (spawn_net c V s0) w = (Inr s, w')"
  shows "s_ID s = s_ID s0 \<and> s_State s = s_State s0 \<and> s_LeaseID s = s_LeaseID s0 \<and> s_Restores s = s_Restores s0 \<and>
    s_RootDir s = s_RootDir s0 \<and> s_BundleDir s = s_BundleDir s0 \<and> s_ResourceClass s = s_ResourceClass s0"
  using assms
  by (auto simp: spawn_net_def if_err_def split: option.splits prod.splits sum.splits if_splits)

lemma spawn_place_keeps: "run_state (spawn_place V wl s0) w = (Inr s, w') \<Longrightarrow> s = s0"
  by (auto simp: spawn_place_def if_err_def split: option.splits prod.splits sum.splits if_splits)

lemma spawn_outside_spawned:
  assumes "run_state (spawn_outside c V wl i) w = (Inr s, w')"
  shows "s_ID s = i \<and> s_State s = StateReady \<and> s_LeaseID s = '''' \<and> s_Restores s = 0 \<and>
    s_RootDir s = root_dir c i \<and> s_BundleDir s = bundle_dir c i \<and> s_ResourceClass s = wl_ResourceClass wl"
  using assms
  by (auto simp: spawn_outside_def if_err_def fresh_sentry_def
      dest!: spawn_net_keeps spawn_place_keeps split: option.splits prod.splits sum.splits)

lemma spawn_sim:
  assumes "run_state (spawn c V nm) s = (x, s')"
  shows "\<exists>i. spawn_step i ok fails (pool_at s nm) L =
    Some (case x of Inl e \<Rightarrow> fails | Inr r \<Rightarrow> ok r, pool_at s' nm, L)"
proof -
  let ?p = "pool_at s nm" and ?n = "Suc (p_nextID (pool_at s nm))"
  obtain y w where y: "run_state (spawn_outside c V (p_workload ?p) (sentry_id (p_name ?p) ?n)) (mg_world s) = (y, w)"
    by (cases "run_state (spawn_outside c V (p_workload ?p) (sentry_id (p_name ?p) ?n)) (mg_world s)")
  show ?thesis
  proof (cases y)
    case (Inl e)
    with assms y have "x = Inl e" "pool_at s' nm = bump_id ?p"
      by (auto simp: spawn_def run_prog mem_simps)
    then show ?thesis by (intro exI [of _ "reply False"]) (simp add: spawn_step_def Let_def)
  next
    case (Inr sn)
    with assms y have "x = Inr ?n" "pool_at s' nm = store_sentry ?n sn (bump_id ?p)"
      by (auto simp: spawn_def run_prog mem_simps)
    moreover from y Inr have "spawned_sentry (bump_id ?p) ?n sn"
      by (auto simp: spawned_sentry_def mem_simps dest: spawn_outside_spawned)
    ultimately show ?thesis
      by (intro exI [of _ "reply True\<lparr>i_sentry := sn\<rparr>"]) (simp add: spawn_step_def Let_def mem_simps reply_def)
  qed
qed

section \<open>Refill and recycle\<close>

lemma spawn_proceeds:
  assumes "run_state (spawn c V nm) s = (x, s')"
    and "\<And>i p L. f i a p L = spawn_step i ok fails p L"
  shows "proceeds f (a, pool_at s nm, L) (case x of Inl e \<Rightarrow> fails | Inr r \<Rightarrow> ok r, pool_at s' nm, L)"
  using spawn_sim [OF assms(1), of ok fails L] assms(2) by (metis proceeds_step proceeds_refl)

lemma refill_loop_sim:
  "run_state (refill_loop c V nm k) s = (u, s') \<Longrightarrow>
     proceeds (recycle_step warm) (RLoop k, pool_at s nm, L) (RExit, pool_at s' nm, L)"
proof (induction k arbitrary: s u)
  case 0
  then show ?case by (intro proceeds_step [where i = "reply True"]) auto
next
  case (Suc k)
  obtain x s1 where x: "run_state (spawn c V nm) s = (x, s1)" by (cases "run_state (spawn c V nm) s")
  have step: "proceeds (recycle_step warm) (RLoop (Suc k), pool_at s nm, L)
      (case x of Inl e \<Rightarrow> RLoop k | Inr r \<Rightarrow> RAdd k r, pool_at s1 nm, L)"
    by (rule spawn_proceeds [OF x]) simp
  show ?case
  proof (cases x)
    case (Inl e)
    with Suc.prems x have "run_state (refill_loop c V nm k) s1 = (u, s')" by simp
    from Suc.IH [OF this] step Inl show ?thesis by (auto intro: proceeds_trans)
  next
    case (Inr r)
    obtain ok p2 where add: "refill_add r (pool_at s1 nm) = (ok, p2)" by (cases "refill_add r (pool_at s1 nm)")
    let ?s2 = "s1\<lparr>mg_pools := AList.update nm p2 (mg_pools s1)\<rparr>"
    have rest: "proceeds (recycle_step warm) (RAdd k r, pool_at s1 nm, L) (RExit, pool_at s' nm, L)"
    proof (cases ok)
      case True
      with Suc.prems x Inr add have "run_state (refill_loop c V nm k) ?s2 = (u, s')" by (simp add: run_crit)
      from Suc.IH [OF this] have "proceeds (recycle_step warm) (RLoop k, p2, L) (RExit, pool_at s' nm, L)" by simp
      with add True show ?thesis by (intro proceeds_step [where i = "reply True"]) auto
    next
      case False
      with Suc.prems x Inr add have "run_state (cleanup_ref V nm r) ?s2 = (u, s')" by (simp add: run_crit)
      then have "pool_at s' nm = p2" using cleanup_ref_pool by fastforce
      with add False show ?thesis
        by - (rule steps2 [where i = "reply True" and j = "reply True" and ca = "RCleanNew r" and y = "(RExit, p2, L)"], auto)
    qed
    with step Inr show ?thesis by (auto intro: proceeds_trans)
  qed
qed

lemma replace_sim:
  assumes "run_state (replace_sentry c V nm r) s = (u, s')"
  shows "proceeds (recycle_step warm) (RRemove r, pool_at s nm, L) (RExit, pool_at s' nm, L)"
proof -
  let ?p = "pool_remove r (pool_at s nm)"
  obtain s1 where s1: "run_state (cleanup_ref V nm r) (s\<lparr>mg_pools := AList.update nm ?p (mg_pools s)\<rparr>) = ((), s1)"
    by (cases "run_state (cleanup_ref V nm r) (s\<lparr>mg_pools := AList.update nm ?p (mg_pools s)\<rparr>)") auto
  then have p1: "pool_at s1 nm = ?p" using cleanup_ref_pool by fastforce
  let ?s2 = "s1\<lparr>mg_pools := AList.update nm ?p (mg_pools s1)\<rparr>"
  have "run_state (refill_loop c V nm (nat (refill_needed ?p))) ?s2 = (u, s')"
    using assms s1 p1 by (simp add: replace_sentry_def refill_def run_prog)
  then have "proceeds (recycle_step warm) (RLoop (nat (refill_needed ?p)), ?p, L) (RExit, pool_at s' nm, L)"
    using refill_loop_sim [of c V nm _ ?s2 u s' warm L] by simp
  then show ?thesis
    by - (rule steps3 [where i = "reply True" and j = "reply True" and k = "reply True" and ca = "RClean r" and cb = RRefill], auto)
qed

lemma recycle_warm_sim:
  assumes "run_state (recycle_warm c V nm r) s = (u, s')"
  shows "proceeds (recycle_step True) (RReset r, pool_at s nm, L) (RExit, pool_at s' nm, L)"
proof -
  let ?p = "pool_at s nm" and ?x = "the (p_heap (pool_at s nm) r)" and ?f = "recycle_step True"
  obtain e1 w1 where e1: "run_state (rt_Reset (sv_rt V) (s_RootDir ?x) (s_ID ?x)) (mg_world s) = (e1, w1)"
    by (cases "run_state (rt_Reset (sv_rt V) (s_RootDir ?x) (s_ID ?x)) (mg_world s)")
  show ?thesis
  proof (cases e1)
    case (Some e)
    with assms e1 have "run_state (replace_sentry c V nm r) (s\<lparr>mg_world := w1\<rparr>) = (u, s')"
      by (simp add: recycle_warm_def run_ext)
    from replace_sim [OF this] show ?thesis by (intro proceeds_step [where i = "reply False"]) auto
  next
    case None
    obtain now w2 where now: "run_state (sv_Now V) w1 = (now, w2)" by (cases "run_state (sv_Now V) w1")
    let ?q = "reset_mark r now ?p"
    let ?s2 = "s\<lparr>mg_world := w2, mg_pools := AList.update nm ?q (mg_pools s)\<rparr>"
    obtain h w3 where h: "run_state (check_health c V (the (p_heap ?q r))) w2 = (h, w3)"
      by (cases "run_state (check_health c V (the (p_heap ?q r))) w2")
    let ?s3 = "?s2\<lparr>mg_world := w3\<rparr>"
    have start: "proceeds ?f (RHealth r, ?q, L) z \<Longrightarrow> proceeds ?f (RReset r, ?p, L) z" for z
      by (rule proceeds_step [where i = "reply True\<lparr>i_now := now\<rparr>"]) (auto simp: reply_def)
    show ?thesis
    proof (cases h)
      case (Some e)
      with assms e1 None now h have "run_state (replace_sentry c V nm r) ?s3 = (u, s')"
        by (simp add: recycle_warm_def run_prog)
      from replace_sim [OF this, of True L] show ?thesis
        by (intro start) (auto intro: proceeds_step [where i = "reply False"])
    next
      case ok: None
      obtain w4 where w4: "run_state (rt_CleanFilestores (sv_rt V) (wl_Rootfs (p_workload ?q))) w3 = ((), w4)"
        by (cases "run_state (rt_CleanFilestores (sv_rt V) (wl_Rootfs (p_workload ?q))) w3") auto
      obtain t0 w5 where t0: "run_state (sv_Now V) w4 = (t0, w5)" by (cases "run_state (sv_Now V) w4")
      let ?m = "rt_Restore (sv_rt V) (s_RootDir ?x) (s_BundleDir ?x) (wl_Checkpoint (p_workload ?q)) (s_ID ?x)"
      obtain e2 w6 where e2: "run_state ?m w5 = (e2, w6)" by (cases "run_state ?m w5")
      have start': "proceeds ?f (RRestore r, ?q, L) z \<Longrightarrow> proceeds ?f (RReset r, ?p, L) z" for z
        by (rule start) (auto intro: proceeds_step [where i = "reply True"])
      show ?thesis
      proof (cases e2)
        case (Some e)
        with assms e1 None now h ok w4 t0 e2
        have "run_state (replace_sentry c V nm r) (?s3\<lparr>mg_world := w6\<rparr>) = (u, s')"
          by (simp add: recycle_warm_def run_prog)
        from replace_sim [OF this, of True L] show ?thesis
          by (intro start') (auto intro: proceeds_step [where i = "reply False"])
      next
        case restored: None
        obtain t1 w7 where t1: "run_state (sv_Now V) w6 = (t1, w7)" by (cases "run_state (sv_Now V) w6")
        let ?q2 = "add_restore_ns (t1 - t0) ?q"
        from assms e1 None now h ok w4 t0 e2 restored t1
        have "pool_at s' nm = cond_signal (ready_mark r ?q2)"
          by (auto simp: recycle_warm_def run_prog)
        then show ?thesis
          by - (rule start', rule steps3 [where i = "reply True\<lparr>i_ns := t1 - t0\<rparr>" and j = "reply True" and k = "reply True"
                and ca = "RReady r" and cb = RSignal], auto simp: reply_def add_restore_ns_def)
      qed
    qed
  qed
qed

lemma recycle_sim:
  assumes "run_state (recycle c V nm r) s = (u, s')"
  shows "proceeds (recycle_step (rt_WarmSentry (sv_rt V))) (RStart r, pool_at s nm, L) (RExit, pool_at s' nm, L)"
proof -
  let ?q = "drain_mark r (pool_at s nm)" and ?f = "recycle_step (rt_WarmSentry (sv_rt V))"
  let ?s1 = "s\<lparr>mg_pools := AList.update nm ?q (mg_pools s)\<rparr>"
  obtain w where w: "run_state (stop_container V (the (p_heap ?q r))) (mg_world s) = ((), w)"
    by (cases "run_state (stop_container V (the (p_heap ?q r))) (mg_world s)") auto
  let ?s2 = "?s1\<lparr>mg_world := w\<rparr>"
  have start: "proceeds ?f (if rt_WarmSentry (sv_rt V) then RReset r else RRemove r, ?q, L) z \<Longrightarrow>
      proceeds ?f (RStart r, pool_at s nm, L) z" for z
    by (erule steps2 [where i = "reply True" and j = "reply True" and ca = "RKill r", rotated 2]) auto
  show ?thesis
  proof (cases "rt_WarmSentry (sv_rt V)")
    case True
    with assms w have "run_state (recycle_warm c V nm r) ?s2 = (u, s')" by (simp add: recycle_def run_prog)
    from recycle_warm_sim [OF this, of L] True start show ?thesis by simp
  next
    case False
    with assms w have "run_state (replace_sentry c V nm r) ?s2 = (u, s')" by (simp add: recycle_def run_prog)
    from replace_sim [OF this, of False L] False start show ?thesis by simp
  qed
qed

section \<open>Acquire and Execute\<close>

fun acquired_pc :: "string \<Rightarrow> ref result option \<Rightarrow> xpc" where
  "acquired_pc ck None = XWait ck"
| "acquired_pc ck (Some (Inl e)) = XDone (Inl e)"
| "acquired_pc ck (Some (Inr r)) = XHave ck r"

lemma acquire_spawn_sim:
  assumes "run_state (spawn c V nm) s = (x, s1)" and "pool_at s nm = p"
    and "pool_at s' nm = snd (acquire_spawned (case x of Inl e \<Rightarrow> None | Inr r \<Rightarrow> Some r) now (pool_at s1 nm))"
    and "a = (case x of Inl e \<Rightarrow> Inl (Wrap ''on-demand spawn failed: '' e '''')
      | Inr r \<Rightarrow> (case fst (acquire_spawned (Some r) now (pool_at s1 nm)) of AcqGot r' \<Rightarrow> Inr r | _ \<Rightarrow> Inl ErrPoolClosed))"
  shows "proceeds (execute_step t) (XSpawn ck, p, L) (acquired_pc ck (Some a), pool_at s' nm, L)"
proof -
  have step: "proceeds (execute_step t) (XSpawn ck, p, L) (case x of Inl e \<Rightarrow> XSpawnErr | Inr r \<Rightarrow> XSpawned ck r, pool_at s1 nm, L)"
    using spawn_proceeds [OF assms(1), of "execute_step t" "XSpawn ck" "XSpawned ck" XSpawnErr L] assms(2) by simp
  show ?thesis
  proof (cases x)
    case (Inl e)
    with assms(3,4) have "proceeds (execute_step t) (XSpawnErr, pool_at s1 nm, L) (acquired_pc ck (Some a), pool_at s' nm, L)"
      by - (rule proceeds_step [where i = "reply False\<lparr>i_err := e\<rparr>"], auto simp: acquire_spawned_def Let_def reply_def)
    with step Inl show ?thesis by (auto intro: proceeds_trans)
  next
    case (Inr r)
    have "proceeds (execute_step t) (XSpawned ck r, pool_at s1 nm, L) (acquired_pc ck (Some a), pool_at s' nm, L)"
    proof (cases rule: acquire_spawned_cases [of r now "pool_at s1 nm"])
      case closed
      with assms(3,4) Inr have "a = Inl ErrPoolClosed" "pool_at s' nm = (pool_at s1 nm)\<lparr>p_pending := p_pending (pool_at s1 nm) - 1\<rparr>" by auto
      with closed show ?thesis
        by - (rule steps2 [where i = "reply True" and j = "reply True" and ca = "XCleanup r"], auto simp: acquire_spawned_def)
    next
      case got
      with assms(3,4) Inr have "a = Inr r" by auto
      with got assms(3) Inr show ?thesis
        by - (rule proceeds_step [where i = "reply True\<lparr>i_now := now\<rparr>"], auto simp: reply_def)
    qed
    with step Inr show ?thesis by (auto intro: proceeds_trans)
  qed
qed

lemma acquire_sim:
  assumes "run_state (acquire c V t nm) s = (a, s')"
  shows "proceeds (execute_step t) (XStart ck, pool_at s nm, L) (acquired_pc ck a, pool_at s' nm, L)"
proof -
  obtain now w where now: "run_state (sv_Now V) (mg_world s) = (now, w)" by (cases "run_state (sv_Now V) (mg_world s)")
  let ?p = "pool_at s nm"
  have one: "proceeds (execute_step t) (XStart ck, ?p, L) (acquired_pc ck a, pool_at s' nm, L)"
    if "execute_step t (reply True\<lparr>i_now := now\<rparr>) (XStart ck) ?p L = Some (acquired_pc ck a, pool_at s' nm, L)"
    by (rule proceeds_step [where f = "execute_step t"], rule that, simp)
  show ?thesis
  proof (cases rule: acquire_enter_cases [of t now ?p])
    case closed
    with assms now have "a = Some (Inl ErrPoolClosed)" "pool_at s' nm = ?p" by (auto simp: acquire_def run_prog)
    with closed show ?thesis by (intro one) (simp add: reply_def)
  next
    case (got r)
    with assms now have "a = Some (Inr r)" "pool_at s' nm = upd_sentry r (mark_running now) ?p" by (auto simp: acquire_def run_prog)
    with got show ?thesis by (intro one) (simp add: reply_def)
  next
    case full
    with assms now have "a = Some (Inl ErrCapacityExhausted)" "pool_at s' nm = ?p" by (auto simp: acquire_def run_prog)
    with full show ?thesis by (intro one) (simp add: reply_def)
  next
    case wait
    with assms now have "a = None" "pool_at s' nm = cond_wait t (?p\<lparr>p_pending := p_pending ?p + 1\<rparr>)" by (auto simp: acquire_def run_prog)
    with wait show ?thesis by (intro one) (simp add: reply_def)
  next
    case spawn
    let ?q = "?p\<lparr>p_pending := p_pending ?p + 1\<rparr>"
    let ?s1 = "s\<lparr>mg_world := w, mg_pools := AList.update nm ?q (mg_pools s)\<rparr>"
    obtain x s2 where x: "run_state (Pool_Ops.spawn c V nm) ?s1 = (x, s2)" by (cases "run_state (Pool_Ops.spawn c V nm) ?s1")
    obtain now' w2 where now': "run_state (sv_Now V) (mg_world s2) = (now', w2)" by (cases "run_state (sv_Now V) (mg_world s2)")
    obtain b q3 where b: "acquire_spawned (case x of Inl e \<Rightarrow> None | Inr r \<Rightarrow> Some r) now' (pool_at s2 nm) = (b, q3)"
      by (cases "acquire_spawned (case x of Inl e \<Rightarrow> None | Inr r \<Rightarrow> Some r) now' (pool_at s2 nm)")
    have "pool_at s' nm = q3 \<and> a = Some (case x of Inl e \<Rightarrow> Inl (Wrap ''on-demand spawn failed: '' e '''')
      | Inr r \<Rightarrow> (case b of AcqGot r' \<Rightarrow> Inr r | _ \<Rightarrow> Inl ErrPoolClosed))"
      using assms now spawn(1) x now' b
      by (auto simp: acquire_def run_prog split: sum.splits acquired.splits prod.splits dest: cleanup_ref_pool [where nm' = nm])
    then have "proceeds (execute_step t) (XSpawn ck, ?q, L) (acquired_pc ck a, pool_at s' nm, L)"
      using acquire_spawn_sim [OF x, of ?q s' now' "the a" t ck L] b by (auto split: sum.splits)
    then show ?thesis
      by (rule proceeds_step [where i = "reply True\<lparr>i_now := now\<rparr>", rotated]) (simp add: spawn reply_def)
  qed
qed

lemma release_sim:
  assumes "run_state (release nm r) s = (u, s')"
  shows "proceeds (execute_step t) (XRelease r e, pool_at s nm, L) (XDone (Inl e), pool_at s' nm, L)"
proof -
  from assms have "pool_at s' nm = cond_signal (release_mark r (pool_at s nm))" by (auto simp: release_def run_prog)
  then show ?thesis by - (rule steps2 [where i = "reply True" and j = "reply True" and ca = "XSignal e"], auto)
qed

definition leased_as :: "exec_result result \<Rightarrow> ref \<Rightarrow> leases \<Rightarrow> leases" where
  "leased_as x r L = (case x of Inl e \<Rightarrow> L | Inr er \<Rightarrow> AList.update (er_LeaseID er) r L)"

lemma choose_checkpoint_cases:
  "(\<exists>e. choose_checkpoint c wd wl ck = Inl e \<and> ck \<noteq> '''') \<or>
   (\<exists>k. choose_checkpoint c wd wl ck = Inr k \<and> \<not> (ck \<noteq> '''' \<and> wl_PreRestore wl))"
  by (auto simp: choose_checkpoint_def split: option.splits)

lemma execute_held_sim:
  assumes "run_state (execute_held c V nm ck r acq) s = (x, s')"
  shows "proceeds (execute_step t) (XHave ck r, pool_at s nm, L)
    (XDone (map_sum id er_LeaseID x), pool_at s' nm, leased_as x r L)"
proof -
  let ?p = "add_acquire_ns acq (pool_at s nm)" and ?wl = "p_workload (pool_at s nm)"
  let ?s1 = "s\<lparr>mg_pools := AList.update nm ?p (mg_pools s)\<rparr>"
  have wl: "p_workload ?p = ?wl" by (simp add: add_acquire_ns_def)
  obtain wd w1 where wd: "run_state (sv_Getwd V) (mg_world s) = (wd, w1)" by (cases "run_state (sv_Getwd V) (mg_world s)")
  have failed: "proceeds (execute_step t) (XHave ck r, pool_at s nm, L) (XDone (map_sum id er_LeaseID x), pool_at s' nm, leased_as x r L)"
    if "x = Inl e" and "run_state (release nm r) (?s1\<lparr>mg_world := w\<rparr>) = ((), s')" and "ck \<noteq> '''' \<or> \<not> wl_PreRestore ?wl" for e w
  proof -
    have "proceeds (execute_step t) (XRelease r e, ?p, L) (XDone (Inl e), pool_at s' nm, L)"
      using release_sim [OF that(2), of t e L] by simp
    with that show ?thesis
      by - (rule proceeds_step [where i = "reply False\<lparr>i_acq := acq, i_err := e\<rparr>" and y = "(XRelease r e, ?p, L)"],
        auto simp: reply_def add_acquire_ns_def leased_as_def)
  qed
  from choose_checkpoint_cases [of c wd ?wl ck] show ?thesis
  proof (elim disjE exE conjE)
    fix e assume "choose_checkpoint c wd ?wl ck = Inl e" "ck \<noteq> ''''"
    moreover from this assms wd have "x = Inl e" "run_state (release nm r) (?s1\<lparr>mg_world := w1\<rparr>) = ((), s')"
      by (auto simp: execute_held_def run_prog wl split: prod.splits)
    ultimately show ?thesis using failed by blast
  next
    fix k assume k: "choose_checkpoint c wd ?wl ck = Inr k" and pre: "\<not> (ck \<noteq> '''' \<and> wl_PreRestore ?wl)"
    let ?m = "pool_restore V ?wl (the (p_heap ?p r)) k"
    obtain y w2 where y: "run_state ?m w1 = (y, w2)" by (cases "run_state ?m w1")
    show ?thesis
    proof (cases y)
      case (Inl e)
      with y have "\<not> wl_PreRestore ?wl" by (auto simp: pool_restore_def)
      moreover from Inl y k assms wd have "x = Inl e" "run_state (release nm r) (?s1\<lparr>mg_world := w2\<rparr>) = ((), s')"
        by (auto simp: execute_held_def run_prog wl split: prod.splits)
      ultimately show ?thesis using failed by blast
    next
      case (Inr ns)
      let ?q = "count_execution (\<not> wl_PreRestore ?wl) ns ?p"
      from assms wd k y Inr have "\<exists>er. x = Inr er \<and> pool_at s' nm = lease_mark r (er_LeaseID er) ?q"
        by (auto simp: execute_held_def registerLease_def run_prog wl split: prod.splits)
      then obtain er where er: "x = Inr er" "pool_at s' nm = lease_mark r (er_LeaseID er) ?q" by blast
      show ?thesis
        by (rule steps3 [where i = "reply True\<lparr>i_acq := acq, i_ns := ns\<rparr>" and j = "reply True\<lparr>i_lid := er_LeaseID er\<rparr>"
              and k = "reply True" and ca = "XLease r" and pa = ?q and cb = "XInsert r (er_LeaseID er)"])
           (use pre er in \<open>auto simp: reply_def add_acquire_ns_def count_execution_def leased_as_def Let_def\<close>)
    qed
  qed
qed

lemma pool_Execute_sim:
  assumes "run_state (pool_Execute c V t nm ck) s = (Some x, s')"
  shows "\<exists>r. proceeds (execute_step t) (XStart ck, pool_at s nm, L)
    (XDone (map_sum id er_LeaseID x), pool_at s' nm, leased_as x r L)"
proof -
  obtain t0 w where t0: "run_state (sv_Now V) (mg_world s) = (t0, w)" by (cases "run_state (sv_Now V) (mg_world s)")
  obtain a s1 where a: "run_state (acquire c V t nm) (s\<lparr>mg_world := w\<rparr>) = (a, s1)"
    by (cases "run_state (acquire c V t nm) (s\<lparr>mg_world := w\<rparr>)")
  have acq: "proceeds (execute_step t) (XStart ck, pool_at s nm, L) (acquired_pc ck a, pool_at s1 nm, L)"
    using acquire_sim [OF a] by simp
  from assms t0 a consider e where "a = Some (Inl e)" "x = Inl e" "s' = s1" | r where "a = Some (Inr r)"
    by (cases a; cases "the a") (auto simp: pool_Execute_def run_ext)
  then show ?thesis
  proof cases
    case 1
    with acq show ?thesis by (auto simp: leased_as_def)
  next
    case (2 r)
    obtain t1 w2 where t1: "run_state (sv_Now V) (mg_world s1) = (t1, w2)" by (cases "run_state (sv_Now V) (mg_world s1)")
    have "run_state (execute_held c V nm ck r (t1 - t0)) (s1\<lparr>mg_world := w2\<rparr>) = (x, s')"
      using assms t0 a 2 t1 by (auto simp: pool_Execute_def run_ext split: prod.splits)
    from execute_held_sim [OF this] acq 2 show ?thesis by (auto intro: proceeds_trans)
  qed
qed

end
