(* ===== verification/Start_Refine.thy ===== *)
theory Start_Refine
  imports Pool_Refine Pool_Lease
begin

text \<open>
  \<^verbatim>\<open>Manager.Start\<close> establishes the initial state of the machine of every pool: the frame of the
  operations on one pool, and the members as the loop of \<^verbatim>\<open>Pool.Start\<close> adds them.
\<close>

section \<open>One pool's operations leave the others alone\<close>

lemma pool_at_other [simp]:
  "nm' \<noteq> nm \<Longrightarrow> pool_at (s\<lparr>mg_pools := AList.update nm p (mg_pools s)\<rparr>) nm' = pool_at s nm'"
  "nm' \<noteq> nm \<Longrightarrow> pool_at (s\<lparr>mg_world := w, mg_pools := AList.update nm p (mg_pools s)\<rparr>) nm' = pool_at s nm'"
  by (simp_all add: pool_at_def update_conv')

lemma spawn_frame: "run_state (spawn c V nm) s = (x, s') \<Longrightarrow> nm' \<noteq> nm \<Longrightarrow> pool_at s' nm' = pool_at s nm'"
  by (auto simp: spawn_def run_prog split: prod.splits sum.splits)

lemma start_members_frame:
  "run_state (start_members c V nm i k) s = (x, s') \<Longrightarrow> nm' \<noteq> nm \<Longrightarrow> pool_at s' nm' = pool_at s nm'"
  by (induction k arbitrary: i s) (auto simp: run_upd split: prod.splits sum.splits dest: spawn_frame)

section \<open>The members of a started pool\<close>

definition partial_pool :: "string \<Rightarrow> workload \<Rightarrow> nat \<Rightarrow> (nat \<Rightarrow> sentry) \<Rightarrow> pool" where
  "partial_pool name wl n f = (newPool name wl)\<lparr>p_nextID := n, p_sentries := [1..<Suc n],
     p_heap := (\<lambda>r. if 1 \<le> r \<and> r \<le> n then Some (f r) else None)\<rparr>"

lemma partial_pool_start: "partial_pool name wl 0 f = newPool name wl"
  by (auto simp: partial_pool_def newPool_def fun_eq_iff)

lemma partial_pool_started: "partial_pool name wl (nat (wl_PoolSize wl)) f = started name wl f"
  by (simp add: partial_pool_def started_def Let_def)

definition good_members :: "string \<Rightarrow> nat \<Rightarrow> (nat \<Rightarrow> sentry) \<Rightarrow> bool" where
  "good_members name n f \<longleftrightarrow> (\<forall>r. 1 \<le> r \<longrightarrow> r \<le> n \<longrightarrow> spawned_sentry (newPool name undefined) r (f r))"

lemma spawned_name: "p_name p = p_name q \<Longrightarrow> spawned_sentry p r s = spawned_sentry q r s"
  by (simp add: spawned_sentry_def)

lemma spawn_member:
  assumes "run_state (spawn c V nm) s = (Inr r, s')" and "pool_at s nm = partial_pool name wl n f" and "good_members name n f"
  shows "r = Suc n \<and> (\<exists>g. (pool_at s' nm)\<lparr>p_sentries := p_sentries (pool_at s' nm) @ [r]\<rparr> = partial_pool name wl (Suc n) g \<and>
    good_members name (Suc n) g)"
proof -
  from spawn_sim [OF assms(1), of id "0 :: nat" "[]"] obtain i where
    "spawn_step i id 0 (pool_at s nm) [] = Some (r, pool_at s' nm, [])" by auto
  then have r: "i_ok i \<Longrightarrow> r = Suc n \<and> spawned_sentry (bump_id (pool_at s nm)) (Suc n) (i_sentry i) \<and>
      pool_at s' nm = store_sentry (Suc n) (i_sentry i) (bump_id (pool_at s nm))"
    and zero: "\<not> i_ok i \<Longrightarrow> r = 0"
    using assms(2) by (auto simp: spawn_step_def Let_def mem_simps partial_pool_def split: if_splits)
  have "r = Suc (p_nextID (pool_at s nm))"
    using assms(1) by (auto simp: spawn_def run_prog split: prod.splits sum.splits)
  with zero have "i_ok i" by auto
  with r have r: "r = Suc n" and sp: "spawned_sentry (bump_id (pool_at s nm)) (Suc n) (i_sentry i)"
    and p': "pool_at s' nm = store_sentry (Suc n) (i_sentry i) (bump_id (pool_at s nm))" by auto
  let ?g = "f(Suc n := i_sentry i)"
  have "(pool_at s' nm)\<lparr>p_sentries := p_sentries (pool_at s' nm) @ [r]\<rparr> = partial_pool name wl (Suc n) ?g"
    by (auto simp: p' r assms(2) partial_pool_def store_sentry_def bump_id_def newPool_def fun_eq_iff)
  moreover have "good_members name (Suc n) ?g"
    using assms(3) sp spawned_name [of "bump_id (pool_at s nm)" "newPool name undefined" "Suc n" "i_sentry i"]
    by (auto simp: good_members_def assms(2) partial_pool_def newPool_def bump_id_def le_Suc_eq)
  ultimately show ?thesis using r by blast
qed

lemma start_members_pool:
  assumes "run_state (start_members c V nm i k) s = (None, s')" and "pool_at s nm = partial_pool name wl n f"
    and "good_members name n f"
  shows "\<exists>g. pool_at s' nm = partial_pool name wl (n + k) g \<and> good_members name (n + k) g"
  using assms
proof (induction k arbitrary: i s n f)
  case 0
  then show ?case by auto
next
  case (Suc k)
  from Suc.prems(1) obtain r s1 where sp: "run_state (spawn c V nm) s = (Inr r, s1)"
    and rest: "run_state (start_members c V nm (i + 1) k)
      (s1\<lparr>mg_pools := AList.update nm ((pool_at s1 nm)\<lparr>p_sentries := p_sentries (pool_at s1 nm) @ [r]\<rparr>) (mg_pools s1)\<rparr>) = (None, s')"
    by (auto simp: run_upd split: prod.splits sum.splits)
  from spawn_member [OF sp Suc.prems(2,3)] obtain g where
    "(pool_at s1 nm)\<lparr>p_sentries := p_sentries (pool_at s1 nm) @ [r]\<rparr> = partial_pool name wl (Suc n) g" "good_members name (Suc n) g"
    by blast
  from Suc.IH [OF rest _ this(2)] this(1) show ?case by simp
qed

section \<open>Manager.Start\<close>

lemma start_pools_initial:
  assumes "run_state (start_pools c V ws) s = (None, s')" and "distinct (map fst ws)"
  shows "(\<forall>(nm, wl) \<in> set ws. \<exists>f. pool_at s' nm = started nm wl f \<and> good_members nm (nat (wl_PoolSize wl)) f) \<and>
    (\<forall>nm. nm \<notin> fst ` set ws \<longrightarrow> pool_at s' nm = pool_at s nm)"
  using assms
proof (induction ws arbitrary: s)
  case Nil
  then show ?case by simp
next
  case (Cons w ws)
  obtain nm wl where w: "w = (nm, wl)" by (cases w)
  let ?s0 = "s\<lparr>mg_pools := AList.update nm (newPool nm wl) (mg_pools s)\<rparr>"
  from Cons.prems(1) w obtain s1 where m: "run_state (start_members c V nm 0 (nat (wl_PoolSize wl))) ?s0 = (None, s1)"
    and rest: "run_state (start_pools c V ws) s1 = (None, s')"
    by (auto split: prod.splits option.splits)
  from Cons.prems(2) w have new: "nm \<notin> fst ` set ws" and d: "distinct (map fst ws)" by auto
  have "good_members nm 0 undefined" by (simp add: good_members_def)
  with start_members_pool [OF m, of nm wl 0 undefined] obtain f where
    f: "pool_at s1 nm = started nm wl f" "good_members nm (nat (wl_PoolSize wl)) f"
    by (auto simp: partial_pool_start partial_pool_started)
  have other: "pool_at s1 nm' = pool_at s nm'" if "nm' \<noteq> nm" for nm'
    using start_members_frame [OF m that] that by simp
  from Cons.IH [OF rest d] show ?case using f new other by (auto simp: w)
qed

lemma add_template_distinct: "distinct (map fst r) \<Longrightarrow> distinct (map fst (add_template r nt))"
proof -
  have "distinct (map fst r) \<Longrightarrow> distinct (map fst (foldl (\<lambda>r p. AList.update (f p) (g p) r) r ps))" for f g and r :: "(string \<times> workload) list" and ps :: "pool_config list"
    by (induction ps arbitrary: r) (auto simp: distinct_update)
  then show "distinct (map fst r) \<Longrightarrow> ?thesis" by (simp add: add_template_def)
qed

lemma Workloads_distinct: "distinct (map fst (Workloads c))"
proof -
  have "distinct (map fst r) \<Longrightarrow> distinct (map fst (foldl add_template r ts))" for r ts
    by (induction ts arbitrary: r) (auto intro: add_template_distinct)
  then show ?thesis by (simp add: Workloads_def)
qed

lemma started_initial:
  "good_members nm (nat (wl_PoolSize wl)) f \<Longrightarrow> initial \<lparr>m_pool = started nm wl f, m_leases = [], m_thr = []\<rparr>"
  unfolding initial_def good_members_def
  by (intro exI [of _ nm] exI [of _ wl] exI [of _ f])
     (auto simp: started_def newPool_def Let_def spawned_sentry_def)

end
