(* ===== verification/Demo_Services.thy ===== *)
theory Demo_Services
  imports Manager_Run
begin

text \<open>
  Services and states for examples: a runtime whose calls succeed or fail as told, and a manager
  with one pool of one sentry.
\<close>

section \<open>A runtime for examples\<close>

text \<open>
  Every call succeeds except those named in \<open>bad\<close>; the world counts the calls and is the clock.
\<close>

definition stub_call :: "string list \<Rightarrow> string \<Rightarrow> (nat, goerr option) state" where
  "stub_call bad op = State (\<lambda>n. (if op \<in> set bad then Some (ErrMsg (op @ '' failed'')) else None, Suc n))"

definition stub_const :: "'a \<Rightarrow> (nat, 'a) state" where
  "stub_const a = State (\<lambda>n. (a, Suc n))"

definition stub_runtime :: "bool \<Rightarrow> string list \<Rightarrow> nat runtime" where
  "stub_runtime warm bad = \<lparr>rt_Create = (\<lambda>_ _ _. stub_call bad ''create''), rt_Restore = (\<lambda>_ _ _ _. stub_call bad ''restore''),
     rt_Kill = (\<lambda>_ _ _. stub_call bad ''kill''), rt_WaitDone = (\<lambda>_ _ _. stub_const True), rt_WaitEnd = (\<lambda>_ _. stub_const ()),
     rt_Reset = (\<lambda>_ _. stub_call bad ''reset''), rt_Delete = (\<lambda>_ _. stub_call bad ''delete''),
     rt_State = (\<lambda>_ i. stub_const (if ''state'' \<in> set bad then Inl (ErrMsg ''state failed'')
       else Inr \<lparr>cs_ID = i, cs_PID = 100, cs_Status = ''running''\<rparr>)),
     rt_Exec = (\<lambda>_ _ args. stub_const (str_join args '' '', None)), rt_PrepareBundle = (\<lambda>_ _ _. stub_call bad ''prepare''),
     rt_CleanFilestores = (\<lambda>_. stub_const ()), rt_KillProcess = (\<lambda>_. stub_const ()), rt_WarmSentry = warm\<rparr>"

definition stub :: "bool \<Rightarrow> string list \<Rightarrow> nat services" where
  "stub warm bad = \<lparr>sv_rt = stub_runtime warm bad, sv_cni = None, sv_cgroup = None,
     sv_InjectBundleMounts = (\<lambda>_ _ _. stub_call bad ''mounts''), sv_InjectNetNS = (\<lambda>_ _. stub_call bad ''netns''),
     sv_MkdirAll = (\<lambda>_. stub_call bad ''mkdir''), sv_RemoveAll = (\<lambda>_. stub_const ()),
     sv_Now = State (\<lambda>n. (int n, Suc n)), sv_RSSKB = (\<lambda>_. stub_const 1000), sv_FDs = (\<lambda>_. stub_const 10),
     sv_Rand = State (\<lambda>n. (replicate 16 n, Suc n)), sv_Getwd = stub_const (Inr ''/''),
     sv_Post = (\<lambda>_ _ _. stub_const (Inr (Doc (JObj [(''type'', JStr ''success'')]))))\<rparr>"

definition one_sentry :: "sstate \<Rightarrow> sentry" where
  "one_sentry st = \<lparr>s_ID = ''w-1'', s_PID = 7, s_RootDir = ''/r'', s_BundleDir = ''/b'', s_State = st, s_Restores = 0,
     s_Created = Some 0, s_LastReset = Some 0, s_LastUsed = Some 0, s_BaseRSSKB = 1000, s_IP = '''', s_NetnsPath = '''',
     s_ResourceClass = ''s'', s_LeaseID = ''''\<rparr>"

definition one_workload :: workload where
  "one_workload = \<lparr>wl_Rootfs = ''/f'', wl_Checkpoint = ''/c'', wl_PoolSize = 1, wl_MaxPending = 2, wl_PreRestore = True,
     wl_ResourceClass = ''s''\<rparr>"

definition one_state :: "sstate \<Rightarrow> int \<Rightarrow> nat mgr" where
  "one_state st pending = (NewManager 0)\<lparr>mg_pools := [(''w'', (newPool ''w'' one_workload)\<lparr>p_nextID := 1, p_sentries := [1],
     p_pending := pending, p_heap := (\<lambda>_. None)(1 \<mapsto> one_sentry st)\<rparr>)]\<rparr>"

end
