(* ===== verification/Host.thy ===== *)
theory Host
  imports Manager_Run
begin

text \<open>
  The machine the daemon runs on: a file system, the processes it starts, the clock. Every call is
  an event of a trace; what the outside answers (success or an error, output, numbers) is an
  oracle, an arbitrary function of the trace so far and of the call. File operations change the
  file system when the oracle lets them and the path admits it, and change nothing otherwise.
\<close>

section \<open>State and events\<close>

datatype node = Dir | File content | Link string

datatype fsop =
    MkdirAll string
  | ReadFile string
  | WriteFile string content
  | Symlink string string
  | Remove string
  | RemoveAll string
  | ReadDir string
  | Stat string
  | CreateTemp string string

datatype event =
    Fs fsop
  | Exec "string list" "string list" content
  | SigKill int
  | Clock
  | Race int
  | Proc string int
  | Random
  | Getwd
  | Post string int json
  | Listen string
  | Chmod string nat
  | Chown string int
  | LookupGroup string

record answer =
  an_err :: "goerr option"
  an_out :: content
  an_num :: int
  an_bytes :: "nat list"

type_synonym replies = "event list \<Rightarrow> event \<Rightarrow> answer"

record world =
  w_fs :: "(string \<times> node) list"
  w_trace :: "event list"
  w_nss :: "(string \<times> string) list"
  w_classes :: "(string \<times> resource_class) list"

type_synonym 'a os = "(world, 'a) state"

definition ask :: "replies \<Rightarrow> event \<Rightarrow> answer os" where
  "ask orc ev = State (\<lambda>w. (orc (w_trace w) ev, w\<lparr>w_trace := w_trace w @ [ev]\<rparr>))"

section \<open>Files\<close>

definition node_at :: "world \<Rightarrow> string \<Rightarrow> node option" where
  "node_at w p = map_of (w_fs w) p"

definition set_node :: "string \<Rightarrow> node \<Rightarrow> unit os" where
  "set_node p n = modify (\<lambda>w. w\<lparr>w_fs := AList.update p n (w_fs w)\<rparr>)"

definition below :: "string \<Rightarrow> string \<Rightarrow> bool" where
  "below dir p = has_prefix p (if dir = ''/'' then dir else dir @ ''/'')"

text \<open>The directories that contain \<open>p\<close>, and \<open>p\<close> itself, from the root down.\<close>

definition ancestors :: "string \<Rightarrow> string list" where
  "ancestors p = map (\<lambda>k. (if is_abs p then ''/'' else '''') @ str_join (take k (clean_elems p)) ''/'') [1..<Suc (length (clean_elems p))]"

definition not_exist :: goerr where
  "not_exist = ErrMsg ''no such file or directory''"

definition not_dir :: goerr where
  "not_dir = ErrMsg ''not a directory''"

fun make_dirs :: "string list \<Rightarrow> (string \<times> node) list \<Rightarrow> (string \<times> node) list option" where
  "make_dirs [] fs = Some fs"
| "make_dirs (p # ps) fs =
     (case map_of fs p of
        None \<Rightarrow> make_dirs ps (AList.update p Dir fs)
      | Some (File _) \<Rightarrow> None
      | Some _ \<Rightarrow> make_dirs ps fs)"

definition os_MkdirAll :: "replies \<Rightarrow> string \<Rightarrow> goerr option os" where
  "os_MkdirAll orc p = do {
     a \<leftarrow> ask orc (Fs (MkdirAll p));
     fs \<leftarrow> gets w_fs;
     (case (an_err a, make_dirs (ancestors p) fs) of
        (Some e, _) \<Rightarrow> ret (Some e)
      | (None, None) \<Rightarrow> ret (Some not_dir)
      | (None, Some fs') \<Rightarrow> do { modify (\<lambda>w. w\<lparr>w_fs := fs'\<rparr>); ret None })
   }"

definition os_ReadFile :: "replies \<Rightarrow> string \<Rightarrow> content result os" where
  "os_ReadFile orc p = do {
     a \<leftarrow> ask orc (Fs (ReadFile p));
     w \<leftarrow> gets id;
     (case (an_err a, node_at w p) of
        (Some e, _) \<Rightarrow> ret (Inl e)
      | (None, Some (File x)) \<Rightarrow> ret (Inr x)
      | (None, _) \<Rightarrow> ret (Inl not_exist))
   }"

definition os_WriteFile :: "replies \<Rightarrow> string \<Rightarrow> content \<Rightarrow> goerr option os" where
  "os_WriteFile orc p x = do {
     a \<leftarrow> ask orc (Fs (WriteFile p x));
     w \<leftarrow> gets id;
     (case an_err a of
        Some e \<Rightarrow> ret (Some e)
      | None \<Rightarrow>
          if node_at w (path_dir p) = Some Dir \<and> node_at w p \<noteq> Some Dir then do { set_node p (File x); ret None }
          else ret (Some not_exist))
   }"

definition os_Symlink :: "replies \<Rightarrow> string \<Rightarrow> string \<Rightarrow> goerr option os" where
  "os_Symlink orc target p = do {
     a \<leftarrow> ask orc (Fs (Symlink target p));
     w \<leftarrow> gets id;
     (case an_err a of
        Some e \<Rightarrow> ret (Some e)
      | None \<Rightarrow>
          if node_at w p \<noteq> None then ret (Some (ErrMsg ''file exists''))
          else if node_at w (path_dir p) = Some Dir then do { set_node p (Link target); ret None }
          else ret (Some not_exist))
   }"

text \<open>\<^verbatim>\<open>os.Remove\<close>: a file, a link or an empty directory.\<close>

definition os_Remove :: "replies \<Rightarrow> string \<Rightarrow> goerr option os" where
  "os_Remove orc p = do {
     a \<leftarrow> ask orc (Fs (Remove p));
     w \<leftarrow> gets id;
     (case (an_err a, node_at w p) of
        (Some e, _) \<Rightarrow> ret (Some e)
      | (None, None) \<Rightarrow> ret (Some not_exist)
      | (None, Some n) \<Rightarrow>
          if n = Dir \<and> list_ex (\<lambda>(q, _). below p q) (w_fs w) then ret (Some (ErrMsg ''directory not empty''))
          else do { modify (\<lambda>w. w\<lparr>w_fs := AList.delete p (w_fs w)\<rparr>); ret None })
   }"

definition os_RemoveAll :: "replies \<Rightarrow> string \<Rightarrow> goerr option os" where
  "os_RemoveAll orc p = do {
     a \<leftarrow> ask orc (Fs (RemoveAll p));
     (case an_err a of
        Some e \<Rightarrow> ret (Some e)
      | None \<Rightarrow> do {
          modify (\<lambda>w. w\<lparr>w_fs := filter (\<lambda>(q, _). \<not> (q = p \<or> below p q)) (w_fs w)\<rparr>);
          ret None
        })
   }"

text \<open>The entries of a directory: the name relative to it and whether it is a directory.\<close>

definition child_name :: "string \<Rightarrow> string \<Rightarrow> string" where
  "child_name dir p = drop (length (if dir = ''/'' then dir else dir @ ''/'')) p"

definition entries_of :: "string \<Rightarrow> (string \<times> node) list \<Rightarrow> (string \<times> bool) list" where
  "entries_of dir fs =
     map (\<lambda>(p, n). (child_name dir p, n = Dir))
       (filter (\<lambda>(p, _). below dir p \<and> child_name dir p \<noteq> '''' \<and> CHR ''/'' \<notin> set (child_name dir p)) fs)"

definition os_ReadDir :: "replies \<Rightarrow> string \<Rightarrow> (string \<times> bool) list result os" where
  "os_ReadDir orc p = do {
     a \<leftarrow> ask orc (Fs (ReadDir p));
     w \<leftarrow> gets id;
     (case an_err a of
        Some e \<Rightarrow> ret (Inl e)
      | None \<Rightarrow> if node_at w p = Some Dir then ret (Inr (entries_of p (w_fs w))) else ret (Inl not_exist))
   }"

text \<open>\<^verbatim>\<open>os.Stat\<close>: nothing when the path does not exist, else whether it is a directory and the mode bits.\<close>

definition os_Stat :: "replies \<Rightarrow> string \<Rightarrow> (bool \<times> int) result os" where
  "os_Stat orc p = do {
     a \<leftarrow> ask orc (Fs (Stat p));
     w \<leftarrow> gets id;
     (case (an_err a, node_at w p) of
        (Some e, _) \<Rightarrow> ret (Inl e)
      | (None, None) \<Rightarrow> ret (Inl not_exist)
      | (None, Some n) \<Rightarrow> ret (Inr (n = Dir, an_num a)))
   }"

section \<open>Processes and the clock\<close>

text \<open>A command run to its end: its output, or an error with what it wrote.\<close>

definition os_exec :: "replies \<Rightarrow> string list \<Rightarrow> string list \<Rightarrow> content \<Rightarrow> (content \<times> goerr option) os" where
  "os_exec orc argv env inp = do { a \<leftarrow> ask orc (Exec argv env inp); ret (an_out a, an_err a) }"

definition os_now :: "replies \<Rightarrow> int os" where
  "os_now orc = do { a \<leftarrow> ask orc Clock; ret (an_num a) }"

section \<open>What a program adds to the trace\<close>

definition emits :: "'a os \<Rightarrow> ('a \<Rightarrow> event list \<Rightarrow> bool) \<Rightarrow> bool" where
  "emits m P \<longleftrightarrow> (\<forall>w. \<exists>new. w_trace (snd (run_state m w)) = w_trace w @ new \<and> P (fst (run_state m w)) new)"

named_theorems emit_rules \<open>what the primitive calls add to the trace\<close>

lemma emits_ret [emit_rules]: "emits (ret a) (\<lambda>x new. x = a \<and> new = [])"
  by (simp add: emits_def)

lemma emits_gets [emit_rules]: "emits (gets f) (\<lambda>x new. new = [])"
  by (simp add: emits_def)

lemma emits_bind:
  assumes "emits m P" and "\<And>a. emits (f a) (Q a)"
  shows "emits (m \<bind> f) (\<lambda>b new. \<exists>a n1 n2. new = n1 @ n2 \<and> P a n1 \<and> Q a b n2)"
  unfolding emits_def
proof
  fix w
  obtain a w1 where m: "run_state m w = (a, w1)" by (cases "run_state m w")
  from assms(1) m obtain n1 where "w_trace w1 = w_trace w @ n1" "P a n1"
    unfolding emits_def by (metis fst_conv snd_conv)
  moreover from assms(2) obtain n2 where "w_trace (snd (run_state (f a) w1)) = w_trace w1 @ n2" "Q a (fst (run_state (f a) w1)) n2"
    unfolding emits_def by metis
  ultimately show "\<exists>new. w_trace (snd (run_state (m \<bind> f) w)) = w_trace w @ new \<and>
      (\<exists>a n1 n2. new = n1 @ n2 \<and> P a n1 \<and> Q a (fst (run_state (m \<bind> f) w)) n2)"
    using m by auto
qed

lemma emits_weaken: "emits m P \<Longrightarrow> (\<And>a new. P a new \<Longrightarrow> Q a new) \<Longrightarrow> emits m Q"
  unfolding emits_def by meson

lemma emits_ask [emit_rules]: "emits (ask orc ev) (\<lambda>x new. new = [ev])"
  by (simp add: emits_def ask_def)

lemma emits_modify: "(\<And>w. w_trace (f w) = w_trace w) \<Longrightarrow> emits (modify f) (\<lambda>x new. new = [])"
  by (simp add: emits_def)

end
