(* ===== verification/Api.thy ===== *)
theory Api
  imports Manager_Run Host
begin

text \<open>
  \<^verbatim>\<open>internal/api/server.go\<close>: the control API. One connection carries one request; the handler
  decodes it, calls the manager, and answers with a result or an error and its code. A request
  that parks on a pool's condition variable has no answer yet.
\<close>

section \<open>Requests and responses\<close>

record request =
  rq_Method :: string
  rq_Params :: "json option"

definition request_fields :: "request fields" where
  "request_fields =
    [field ''method'' rq_Method rq_Method_update dec_string,
     field ''params'' rq_Params rq_Params_update dec_raw]"

record execute_params =
  ep_Workload :: string
  ep_Checkpoint :: string

definition execute_fields :: "execute_params fields" where
  "execute_fields =
    [field ''workload'' ep_Workload ep_Workload_update dec_string,
     field ''checkpoint'' ep_Checkpoint ep_Checkpoint_update dec_string]"

definition complete_fields :: "string fields" where
  "complete_fields = [field ''lease_id'' id (\<lambda>f. f) dec_string]"

definition run_fields :: "run_params fields" where
  "run_fields =
    [field ''workload'' rp_Workload rp_Workload_update dec_string,
     field ''script'' rp_Script rp_Script_update dec_string,
     field ''interpreter'' rp_Interpreter rp_Interpreter_update dec_string,
     field ''command'' rp_Command rp_Command_update dec_string,
     field ''deps'' rp_Deps rp_Deps_update (dec_nil_slice '''' dec_string),
     field ''event'' rp_Event rp_Event_update dec_raw,
     field ''env'' rp_Env rp_Env_update (dec_nil_map '''' dec_string),
     field ''timeout'' rp_Timeout rp_Timeout_update dec_int]"

definition empty_run :: run_params where
  "empty_run = \<lparr>rp_Workload = '''', rp_Script = '''', rp_Interpreter = '''', rp_Command = '''', rp_Deps = None,
     rp_Event = None, rp_Env = None, rp_Timeout = 0\<rparr>"

datatype payload =
    RunDone run_result
  | Leased exec_result
  | StatusOf "pool_status list" nat
  | HealthyIs bool
  | Ok

record response =
  re_Result :: "payload option"
  re_Error :: string
  re_Code :: string

definition success :: "payload \<Rightarrow> response" where
  "success p = \<lparr>re_Result = Some p, re_Error = '''', re_Code = ''''\<rparr>"

definition failure :: "string \<Rightarrow> string \<Rightarrow> response" where
  "failure msg code = \<lparr>re_Result = None, re_Error = msg, re_Code = code\<rparr>"

definition bad_request :: "string \<Rightarrow> response" where
  "bad_request msg = failure msg ''bad_request''"

text \<open>\<^verbatim>\<open>if len(raw) > 0 { json.Unmarshal(raw, &params) }\<close>.\<close>

definition decode_params :: "'a fields \<Rightarrow> json option \<Rightarrow> 'a \<Rightarrow> 'a result" where
  "decode_params fs raw zero = (case raw of None \<Rightarrow> Inr zero | Some j \<Rightarrow> dec_struct fs j zero)"

text \<open>The code of an error of the manager: \<open>capacity_exhausted\<close> when it is that error, or wraps it.\<close>

definition error_code :: "string \<Rightarrow> goerr \<Rightarrow> string" where
  "error_code other e = (if errors_is e ErrCapacityExhausted then ''capacity_exhausted'' else other)"

section \<open>Handlers\<close>

definition handle_run :: "config \<Rightarrow> 'w services \<Rightarrow> tid \<Rightarrow> json option \<Rightarrow> ('w, response option) prog" where
  "handle_run c V t raw =
     (case decode_params run_fields raw empty_run of
        Inl e \<Rightarrow> ret (Some (bad_request (''invalid run params: '' @ err_text e)))
      | Inr q \<Rightarrow>
          if rp_Workload q = '''' then ret (Some (bad_request (''run requires '' @ [CHR 0x27] @ ''workload'' @ [CHR 0x27] @ '' param'')))
          else if rp_Script q = '''' \<and> rp_Command q = '''' then
            ret (Some (bad_request (''run requires '' @ [CHR 0x27] @ ''script'' @ [CHR 0x27] @ '' or '' @ [CHR 0x27] @ ''command'' @ [CHR 0x27] @ '' param'')))
          else do {
            x \<leftarrow> manager_Run c V t q;
            ret (case x of
                   None \<Rightarrow> None
                 | Some (Inl e) \<Rightarrow> Some (failure (err_text e) (error_code ''run_failed'' e))
                 | Some (Inr res) \<Rightarrow> Some (success (RunDone res)))
          })"

definition handle_execute :: "config \<Rightarrow> 'w services \<Rightarrow> tid \<Rightarrow> json option \<Rightarrow> ('w, response option) prog" where
  "handle_execute c V t raw =
     (case decode_params execute_fields raw \<lparr>ep_Workload = '''', ep_Checkpoint = ''''\<rparr> of
        Inl e \<Rightarrow> ret (Some (bad_request (''invalid execute params: '' @ err_text e)))
      | Inr q \<Rightarrow>
          if ep_Workload q = '''' then ret (Some (bad_request (''execute requires '' @ [CHR 0x27] @ ''workload'' @ [CHR 0x27] @ '' param'')))
          else do {
            x \<leftarrow> Execute c V t (ep_Workload q) (ep_Checkpoint q);
            ret (case x of
                   None \<Rightarrow> None
                 | Some (Inl e) \<Rightarrow> Some (failure (err_text e) (error_code ''execute_failed'' e))
                 | Some (Inr res) \<Rightarrow> Some (success (Leased res)))
          })"

definition handle_complete :: "json option \<Rightarrow> ('w, response) prog" where
  "handle_complete raw =
     (case decode_params complete_fields raw '''' of
        Inl e \<Rightarrow> ret (bad_request (''invalid complete params: '' @ err_text e))
      | Inr lid \<Rightarrow>
          if lid = '''' then ret (bad_request (''complete requires '' @ [CHR 0x27] @ ''lease_id'' @ [CHR 0x27] @ '' param''))
          else do {
            e \<leftarrow> Complete lid;
            ret (case e of Some x \<Rightarrow> failure (err_text x) ''complete_failed'' | None \<Rightarrow> success Ok)
          })"

definition handle_status :: "'w services \<Rightarrow> ('w, response) prog" where
  "handle_status V = do { x \<leftarrow> manager_Status V; ret (success (StatusOf (fst x) (snd x))) }"

definition handle_health :: "('w, response) prog" where
  "handle_health = do { h \<leftarrow> gets Healthy; ret (success (HealthyIs h)) }"

text \<open>The answer to \<^verbatim>\<open>drain\<close>; the goroutine it starts is the second part of \<open>dispatch\<close>.\<close>

definition handle_drain :: response where
  "handle_drain = success Ok"

text \<open>
  One request: the answer, and whether it starts the drain, which runs \<^verbatim>\<open>Manager.Shutdown\<close> and
  \<^verbatim>\<open>Server.Stop\<close> in a goroutine of its own.
\<close>

definition dispatch :: "config \<Rightarrow> 'w services \<Rightarrow> tid \<Rightarrow> request \<Rightarrow> ('w, response option \<times> bool) prog" where
  "dispatch c V t req =
     (if rq_Method req = ''run'' then do { r \<leftarrow> handle_run c V t (rq_Params req); ret (r, False) }
      else if rq_Method req = ''execute'' then do { r \<leftarrow> handle_execute c V t (rq_Params req); ret (r, False) }
      else if rq_Method req = ''complete'' then do { r \<leftarrow> handle_complete (rq_Params req); ret (Some r, False) }
      else if rq_Method req = ''status'' then do { r \<leftarrow> handle_status V; ret (Some r, False) }
      else if rq_Method req = ''health'' then do { r \<leftarrow> handle_health; ret (Some r, False) }
      else if rq_Method req = ''drain'' then ret (Some handle_drain, True)
      else ret (Some (failure (''unknown method: '' @ rq_Method req) ''unknown_method''), False))"

definition handleConn :: "config \<Rightarrow> 'w services \<Rightarrow> tid \<Rightarrow> content \<Rightarrow> ('w, response option \<times> bool) prog" where
  "handleConn c V t input =
     (case unmarshal (dec_struct request_fields) input \<lparr>rq_Method = '''', rq_Params = None\<rparr> of
        Inl e \<Rightarrow> ret (Some (bad_request (''invalid request: '' @ err_text e)), False)
      | Inr req \<Rightarrow> dispatch c V t req)"

section \<open>Opening the socket\<close>

text \<open>\<^verbatim>\<open>strconv.ParseUint(m, 8, 32)\<close>.\<close>

definition parse_octal :: "string \<Rightarrow> nat option" where
  "parse_octal s =
     (if s \<noteq> [] \<and> list_all (\<lambda>c. c \<in> set ''01234567'') s
      then (let n = foldl (\<lambda>n c. 8 * n + (of_char c - 48)) 0 s in if n < 2 ^ 32 then Some n else None)
      else None)"

definition socket_mode :: "daemon_config option \<Rightarrow> nat" where
  "socket_mode d =
     (case d of
        None \<Rightarrow> 384
      | Some dc \<Rightarrow>
          if dc_SocketMode dc = '''' then 384
          else (case parse_octal (dc_SocketMode dc) of Some n \<Rightarrow> n | None \<Rightarrow> 384))"

text \<open>\<^verbatim>\<open>Serve\<close> up to the accept loop. A failing change of mode or group is only logged.\<close>

definition serve_setup :: "replies \<Rightarrow> daemon_config option \<Rightarrow> string \<Rightarrow> goerr option os" where
  "serve_setup orc d socketPath = do {
     e1 \<leftarrow> os_MkdirAll orc (path_dir socketPath);
     if_err e1 (\<lambda>e. ret (Some (Wrap ''creating socket directory: '' e ''''))) (do {
       _ \<leftarrow> os_Remove orc socketPath;
       a \<leftarrow> ask orc (Listen socketPath);
       if_err (an_err a) (\<lambda>e. ret (Some (Wrap (''listening on '' @ socketPath @ '': '') e ''''))) (do {
         _ \<leftarrow> ask orc (Chmod socketPath (socket_mode d));
         (case d of
            None \<Rightarrow> ret None
          | Some dc \<Rightarrow>
              if dc_SocketGroup dc = '''' then ret None
              else do {
                g \<leftarrow> ask orc (LookupGroup (dc_SocketGroup dc));
                (case an_err g of
                   Some e \<Rightarrow> ret None
                 | None \<Rightarrow> do { _ \<leftarrow> ask orc (Chown socketPath (an_num g)); ret None })
              })
       })
     })
   }"

end
