(* ===== verification/Ops_Properties.thy ===== *)
theory Ops_Properties
  imports Start_Refine Demo_Services Config_Properties Api
begin

text \<open>
  Properties of the operations of pools and manager as the code runs them, for any services: they
  refine the machine of interleavings, a start establishes its initial state, and \<^verbatim>\<open>Run\<close> and
  \<^verbatim>\<open>recycle\<close> keep what they promise.
\<close>

section \<open>Refinement\<close>

text \<open>
  C14: \<^verbatim>\<open>recycle\<close> refines the machine. Whatever the services answer, what \<^verbatim>\<open>Pool.recycle\<close>, with the
  refill it ends in, does to the pool is a run of the recycle goroutine of the machine from its
  start to its exit, and it leaves the leases alone.
\<close>

theorem recycle_refines:
  "case run_state (recycle c V nm r) s of (u, s') \<Rightarrow>
     \<exists>as. run_all (solo (recycle_step (rt_WarmSentry (sv_rt V)))) as (RStart r, pool_at s nm, L) = Some (RExit, pool_at s' nm, L)"
  using recycle_sim [of c V nm r s _ _ L] by (auto simp: proceeds_def split: prod.splits)


text \<open>
  C16: \<^verbatim>\<open>Start\<close> establishes the initial state. When \<^verbatim>\<open>Manager.Start\<close> returns nil, the pool of every
  workload is in an initial state of the machine: exactly its configured number of members, ready,
  with the IDs from 1 on. So the safety and liveness properties of reachable states hold from here.
\<close>

theorem Start_establishes_initial:
  assumes "run_state (manager_Start c V) (NewManager w) = (None, s')" and "(nm, wl) \<in> set (Workloads c)"
  shows "initial \<lparr>m_pool = pool_at s' nm, m_leases = [], m_thr = []\<rparr> \<and> p_workload (pool_at s' nm) = wl \<and>
    length (p_sentries (pool_at s' nm)) = nat (wl_PoolSize wl)"
proof -
  from start_pools_initial [OF assms(1) [unfolded manager_Start_def] Workloads_distinct] assms(2) obtain f where
    "pool_at s' nm = started nm wl f" "good_members nm (nat (wl_PoolSize wl)) f" by fastforce
  with started_initial show ?thesis by (simp add: started_def newPool_def Let_def)
qed

definition stub_started :: "nat mgr" where
  "stub_started = snd (run_state (manager_Start demo_config (stub True [])) (NewManager 0))"

theorem Start_establishes_initial_witness:
  "length (p_sentries (pool_at stub_started ''py/small'')) = 2"
proof -
  have "fst (run_state (manager_Start demo_config (stub True [])) (NewManager 0)) = None" by code_simp
  then have ok: "run_state (manager_Start demo_config (stub True [])) (NewManager 0) = (None, stub_started)"
    by (simp add: stub_started_def prod_eq_iff)
  have "(''py/small'', workload_of (snd (hd (cfg_Templates demo_config))) (hd (tm_Pools (snd (hd (cfg_Templates demo_config))))))
      \<in> set (Workloads demo_config)" by code_simp
  from Start_establishes_initial [OF ok this] show ?thesis by (simp add: workload_of_def demo_config_def)
qed

section \<open>Run and Complete\<close>

lemma registerLease_lease:
  "run_state (registerLease V nm r) s = (lid, s') \<Longrightarrow>
     \<exists>l. map_of (mg_leases s') lid = Some l \<and> le_pool l = nm \<and> le_sentry l = r"
  by (auto simp: registerLease_def run_prog leases.get_put split: prod.splits)

lemma Execute_leases:
  assumes "run_state (Execute c V t nm ck) s = (Some (Inr er), s')"
  shows "\<exists>l. map_of (mg_leases s') (er_LeaseID er) = Some l \<and> le_pool l = nm"
  using assms
  by (auto simp: Execute_def pool_Execute_def execute_held_def run_prog split: prod.splits option.splits sum.splits if_splits
      dest!: registerLease_lease)

text \<open>
  C17: \<^verbatim>\<open>Run\<close> never leaks its lease. Whenever the acquire succeeded, then after \<^verbatim>\<open>Run\<close>, whether the
  harness answered or failed, the lease it took is out of the table and exactly one recycle of its
  sentry, on the pool of the workload, has been started.
\<close>

theorem Run_returns_the_lease:
  assumes "run_state (Execute c V t (rp_Workload q) '''') s = (Some (Inr er), s1)"
  shows "\<exists>x s' l. run_state (manager_Run c V t q) s = (Some x, s') \<and> map_of (mg_leases s1) (er_LeaseID er) = Some l \<and>
    map_of (mg_leases s') (er_LeaseID er) = None \<and> mg_recycling s' = mg_recycling s1 @ [(rp_Workload q, le_sentry l)]"
proof -
  from Execute_leases [OF assms] obtain l where l: "map_of (mg_leases s1) (er_LeaseID er) = Some l" "le_pool l = rp_Workload q" by blast
  let ?x = "the (p_heap (pool_at s1 (le_pool l)) (le_sentry l))"
  obtain y w where y: "run_state (callHarness V (er_IP er) (s_RootDir ?x) (s_ID ?x) q) (mg_world s1) = (y, w)"
    by (cases "run_state (callHarness V (er_IP er) (s_RootDir ?x) (s_ID ?x) q) (mg_world s1)")
  have gone: "map_of (AList.delete (er_LeaseID er) (mg_leases s1)) (er_LeaseID er) = None" by (rule leases.released)
  show ?thesis
    using assms l y gone
    by (cases y) (auto simp: manager_Run_def lease_sentry_def Complete_def run_prog simp del: delete_conv')
qed

definition demo_run :: run_params where
  "demo_run = empty_run\<lparr>rp_Workload := ''w'', rp_Script := ''1''\<rparr>"

lemma demo_execute:
  "case run_state (Execute default_config (stub True []) 0 ''w'' '''') (one_state StateReady 0) of
      (Some (Inr er), s1) \<Rightarrow> mg_recycling s1 = [] | _ \<Rightarrow> False"
  by (simp add: Execute_def pool_Execute_def acquire_def acquire_enter_def execute_held_def registerLease_def run_prog
    one_state_def newPool_def one_workload_def one_sentry_def NewManager_def stub_def stub_runtime_def stub_const_def
    findReadyLocked_def sentry_state_def pool_at_def choose_checkpoint_def pool_restore_def generateLeaseID_def
    mark_running_def upd_sentry_def the_pool_def the_sentry_def add_acquire_ns_def count_execution_def lease_mark_def)

theorem Run_returns_the_lease_witness:
  "\<exists>x s'. run_state (manager_Run default_config (stub True []) 0 demo_run) (one_state StateReady 0) = (Some x, s') \<and>
     length (mg_recycling s') = 1"
proof -
  have w: "rp_Workload demo_run = ''w''" by (simp add: demo_run_def)
  from demo_execute [folded w] obtain er s1 where
    e: "run_state (Execute default_config (stub True []) 0 (rp_Workload demo_run) '''') (one_state StateReady 0) = (Some (Inr er), s1)"
    and n: "mg_recycling s1 = []" by (auto simp: w split: prod.splits option.splits sum.splits)
  from Run_returns_the_lease [OF e] n show ?thesis by fastforce
qed

text \<open>
  C18: a full pool refuses at once. When a pool is open, has members but none ready, and its queue
  is full, an execute request is answered with the code \<^verbatim>\<open>capacity_exhausted\<close>, and no pool, lease or
  recycle changes.
\<close>

theorem full_pool_refuses:
  assumes "map_of (mg_pools s) nm = Some p" and "nm \<noteq> ''''" and "\<not> p_closed p" and "p_sentries p \<noteq> []"
    and "\<forall>r \<in> set (p_sentries p). sentry_state p r \<noteq> Some StateReady" and "max_pending (p_workload p) \<le> p_pending p"
  shows "\<exists>s'. run_state (dispatch c V t \<lparr>rq_Method = ''execute'', rq_Params = Some (JObj [(''workload'', JStr nm)])\<rparr>) s =
      ((Some (failure (err_text ErrCapacityExhausted) ''capacity_exhausted''), False), s') \<and>
    mg_leases s' = mg_leases s \<and> mg_recycling s' = mg_recycling s \<and> map_of (mg_pools s') = map_of (mg_pools s)"
proof -
  have p: "pool_at s nm = p" using assms(1) by (simp add: pool_at_def)
  have full: "acquire_enter t now p = (AcqFull, p)" for now
    by (rule acquire_enter_cases [of t now p]) (use assms in auto)
  have dec: "decode_params execute_fields (Some (JObj [(''workload'', JStr nm)])) \<lparr>ep_Workload = '''', ep_Checkpoint = ''''\<rparr> =
      Inr \<lparr>ep_Workload = nm, ep_Checkpoint = ''''\<rparr>"
    by (simp add: decode_params_def execute_fields_def find_field_def field_def)
  obtain t0 w where t0: "run_state (sv_Now V) (mg_world s) = (t0, w)" by (cases "run_state (sv_Now V) (mg_world s)")
  obtain t1 w' where t1: "run_state (sv_Now V) w = (t1, w')" by (cases "run_state (sv_Now V) w")
  have same: "(map_of (mg_pools s))(nm \<mapsto> p) = map_of (mg_pools s)" using assms(1) by auto
  show ?thesis
    using assms(1,2) t0 t1
    by (simp add: dispatch_def handle_execute_def dec Execute_def pool_Execute_def acquire_def run_prog p full error_code_def
        update_conv' same)
qed

theorem full_pool_refuses_witness:
  "\<exists>s'. run_state (dispatch default_config (stub True []) 9
      \<lparr>rq_Method = ''execute'', rq_Params = Some (JObj [(''workload'', JStr ''w'')])\<rparr>) (one_state StateRunning 2) =
    ((Some (failure (err_text ErrCapacityExhausted) ''capacity_exhausted''), False), s')"
proof -
  let ?p = "(newPool ''w'' one_workload)\<lparr>p_nextID := 1, p_sentries := [1], p_pending := 2,
    p_heap := (\<lambda>_. None)(1 \<mapsto> one_sentry StateRunning)\<rparr>"
  have "map_of (mg_pools (one_state StateRunning 2)) ''w'' = Some ?p" by (simp add: one_state_def)
  from full_pool_refuses [OF this, of default_config "stub True []" 9] show ?thesis
    by (simp add: newPool_def one_workload_def one_sentry_def max_pending_def sentry_state_def) blast
qed

end
