(* ===== verification/Frames.thy ===== *)
theory Frames
  imports Runtime
begin

text \<open>
  Frame conditions of programs in the state monad: \<open>keeps f m\<close> says that \<open>m\<close> does not change the part
  \<open>f\<close> of the state. The rules follow the shape of a program; each theory adds those of its own
  operations to \<open>frame_rules\<close>.
\<close>

definition keeps :: "('s \<Rightarrow> 'b) \<Rightarrow> ('s, 'a) state \<Rightarrow> bool" where
  "keeps f m \<longleftrightarrow> (\<forall>s. f (snd (run_state m s)) = f s)"

named_theorems frame_rules \<open>which operations keep which parts of the world\<close>

lemma keepsD: "keeps f m \<Longrightarrow> run_state m s = (a, s') \<Longrightarrow> f s' = f s"
  unfolding keeps_def by (metis snd_conv)

lemma keeps_ret [frame_rules]: "keeps f (ret a)"
  by (simp add: keeps_def)

lemma keeps_gets [frame_rules]: "keeps f (gets g)"
  by (simp add: keeps_def)

lemma keeps_bind [frame_rules]: "keeps f m \<Longrightarrow> (\<And>a. keeps f (g a)) \<Longrightarrow> keeps f (m \<bind> g)"
  by (auto simp: keeps_def split: prod.splits) (metis snd_conv)+

lemma keeps_if [frame_rules]: "(b \<Longrightarrow> keeps f m) \<Longrightarrow> (\<not> b \<Longrightarrow> keeps f m') \<Longrightarrow> keeps f (if b then m else m')"
  by simp

lemma keeps_option [frame_rules]:
  "keeps f m \<Longrightarrow> (\<And>a. x = Some a \<Longrightarrow> keeps f (g a)) \<Longrightarrow> keeps f (case x of None \<Rightarrow> m | Some a \<Rightarrow> g a)"
  by (cases x) auto

lemma keeps_sum [frame_rules]:
  "(\<And>e. x = Inl e \<Longrightarrow> keeps f (m e)) \<Longrightarrow> (\<And>a. x = Inr a \<Longrightarrow> keeps f (g a)) \<Longrightarrow> keeps f (case x of Inl e \<Rightarrow> m e | Inr a \<Rightarrow> g a)"
  by (cases x) auto

lemma keeps_prod [frame_rules]: "(\<And>a b. x = (a, b) \<Longrightarrow> keeps f (g a b)) \<Longrightarrow> keeps f (case x of (a, b) \<Rightarrow> g a b)"
  by (cases x) auto

lemma keeps_if_err [frame_rules]: "(\<And>x. keeps f (h x)) \<Longrightarrow> keeps f m \<Longrightarrow> keeps f (if_err e h m)"
  by (cases e) auto

lemma keeps_let [frame_rules]: "keeps f (g a) \<Longrightarrow> keeps f (let x = a in g x)"
  by simp

lemma keeps_modify: "(\<And>s. f (g s) = f s) \<Longrightarrow> keeps f (modify g)"
  by (simp add: keeps_def)

section \<open>The manager's state\<close>

lemma keeps_ext [frame_rules]: "(\<And>s w. f (s\<lparr>mg_world := w\<rparr>) = f s) \<Longrightarrow> keeps f (ext m)"
  by (simp add: keeps_def ext_def split: prod.splits)

lemma keeps_crit [frame_rules]: "(\<And>s p. f (s\<lparr>mg_pools := AList.update nm p (mg_pools s)\<rparr>) = f s) \<Longrightarrow> keeps f (crit nm g)"
  by (simp add: keeps_def crit_def split: prod.splits)

lemma keeps_upd [frame_rules]: "(\<And>s p. f (s\<lparr>mg_pools := AList.update nm p (mg_pools s)\<rparr>) = f s) \<Longrightarrow> keeps f (upd nm g)"
  unfolding upd_def by (rule keeps_crit)

lemma keeps_looks [frame_rules]: "keeps f (the_pool nm)" "keeps f (the_sentry nm r)"
  unfolding the_pool_def the_sentry_def by (rule keeps_gets)+

end
