(* ===== verification/Runsc.thy ===== *)
theory Runsc
  imports Host
begin

text \<open>
  \<^verbatim>\<open>internal/runsc/runsc.go\<close>: the client that runs the runsc binary, and the preparation of a
  sentry's bundle. The binary itself is outside; its exit and output are the answers of the host.
  A panic of the source is the error \<open>go_panic\<close>; the daemon does not recover from it. Seeking
  in the temporary files, which are regular files, is taken not to fail.
\<close>

definition go_panic :: "string \<Rightarrow> goerr" where
  "go_panic s = ErrMsg (''panic: '' @ s)"

section \<open>The client\<close>

record client =
  cl_binPath :: string
  cl_extraFlags :: "string list"
  cl_warmSentry :: bool

definition warm_flag :: string where
  "warm_flag = ''--warm-sentry''"

definition NewClient :: "string \<Rightarrow> string list \<Rightarrow> client" where
  "NewClient binPath extraFlags = \<lparr>cl_binPath = binPath, cl_extraFlags = filter (\<lambda>f. f \<noteq> warm_flag) extraFlags,
     cl_warmSentry = (warm_flag \<in> set extraFlags)\<rparr>"

text \<open>The argument vector of \<^verbatim>\<open>run\<close> when no other call interferes.\<close>

definition run_argv :: "client \<Rightarrow> string \<Rightarrow> string list \<Rightarrow> string list" where
  "run_argv c rootDir args = cl_binPath c # cl_extraFlags c @ [''--root='' @ rootDir] @ args"

definition temp_file :: "replies \<Rightarrow> string \<Rightarrow> string result os" where
  "temp_file orc pat = do {
     a \<leftarrow> ask orc (Fs (CreateTemp '''' pat));
     ret (case an_err a of Some e \<Rightarrow> Inl e | None \<Rightarrow> Inr (text_of (an_out a)))
   }"

definition drop_temp :: "replies \<Rightarrow> string \<Rightarrow> unit os" where
  "drop_temp orc p = do { _ \<leftarrow> ask orc (Fs (Remove p)); ret () }"

definition client_run :: "replies \<Rightarrow> client \<Rightarrow> string \<Rightarrow> string list \<Rightarrow> content result os" where
  "client_run orc c rootDir args = do {
     x1 \<leftarrow> temp_file orc ''gvisord-runsc-*'';
     (case x1 of
        Inl e \<Rightarrow> ret (Inl (Wrap ''creating stderr tempfile: '' e ''''))
      | Inr errFile \<Rightarrow> do {
          x2 \<leftarrow> temp_file orc ''gvisord-runsc-out-*'';
          (case x2 of
             Inl e \<Rightarrow> do {
               drop_temp orc errFile;
               ret (Inl (Wrap ''creating stdout tempfile: '' e ''''))
             }
           | Inr outFile \<Rightarrow> do {
               x \<leftarrow> os_exec orc (run_argv c rootDir args) [] (Text '''');
               drop_temp orc outFile;
               drop_temp orc errFile;
               (case x of
                  (out, Some e) \<Rightarrow> ret (Inl (Wrap (''runsc '' @ str_join args '' '' @ '': '') e ([CHR 0x0A] @ text_of out)))
                | (out, None) \<Rightarrow> ret (Inr out))
             })
        })
   }"

definition just_err :: "'a result \<Rightarrow> goerr option" where
  "just_err x = (case x of Inl e \<Rightarrow> Some e | Inr _ \<Rightarrow> None)"

definition warm_args :: "client \<Rightarrow> string list" where
  "warm_args c = (if cl_warmSentry c then [warm_flag] else [])"

definition client_Create :: "replies \<Rightarrow> client \<Rightarrow> string \<Rightarrow> string \<Rightarrow> string \<Rightarrow> goerr option os" where
  "client_Create orc c rootDir bundleDir i = do {
     x \<leftarrow> client_run orc c rootDir (warm_args c @ [''create'', ''--bundle='' @ bundleDir, i]);
     ret (just_err x)
   }"

definition client_Start :: "replies \<Rightarrow> client \<Rightarrow> string \<Rightarrow> string \<Rightarrow> goerr option os" where
  "client_Start orc c rootDir i = do { x \<leftarrow> client_run orc c rootDir [''start'', i]; ret (just_err x) }"

definition client_Restore :: "replies \<Rightarrow> client \<Rightarrow> string \<Rightarrow> string \<Rightarrow> string \<Rightarrow> string \<Rightarrow> goerr option os" where
  "client_Restore orc c rootDir bundleDir checkpointDir i = do {
     x \<leftarrow> client_run orc c rootDir (warm_args c @
       [''restore'', ''--detach'', ''--image-path='' @ checkpointDir, ''--bundle='' @ bundleDir, i]);
     ret (just_err x)
   }"

definition client_Kill :: "replies \<Rightarrow> client \<Rightarrow> string \<Rightarrow> string \<Rightarrow> string \<Rightarrow> goerr option os" where
  "client_Kill orc c rootDir i sig = do { x \<leftarrow> client_run orc c rootDir [''kill'', i, sig]; ret (just_err x) }"

definition wait_fields :: "int fields" where
  "wait_fields = [field ''exitStatus'' id (\<lambda>f. f) dec_int]"

definition client_Wait :: "replies \<Rightarrow> client \<Rightarrow> string \<Rightarrow> string \<Rightarrow> int result os" where
  "client_Wait orc c rootDir i = do {
     x \<leftarrow> client_run orc c rootDir [''wait'', i];
     ret (case x of
            Inl e \<Rightarrow> Inl e
          | Inr out \<Rightarrow>
              (case unmarshal (dec_struct wait_fields) out 0 of
                 Inl e \<Rightarrow> Inl (Wrap ''parsing wait result: '' e '''')
               | Inr n \<Rightarrow> Inr n))
   }"

definition client_Reset :: "replies \<Rightarrow> client \<Rightarrow> string \<Rightarrow> string \<Rightarrow> goerr option os" where
  "client_Reset orc c rootDir i = do { x \<leftarrow> client_run orc c rootDir [''reset'', i]; ret (just_err x) }"

definition client_Exec :: "replies \<Rightarrow> client \<Rightarrow> string \<Rightarrow> string \<Rightarrow> string list \<Rightarrow> (string \<times> goerr option) os" where
  "client_Exec orc c rootDir i args = do {
     x \<leftarrow> client_run orc c rootDir ([''exec'', i] @ args);
     ret (case x of Inl e \<Rightarrow> ('''', Some e) | Inr out \<Rightarrow> (text_of out, None))
   }"

definition client_Delete :: "replies \<Rightarrow> client \<Rightarrow> string \<Rightarrow> string \<Rightarrow> goerr option os" where
  "client_Delete orc c rootDir i = do { x \<leftarrow> client_run orc c rootDir [''delete'', i]; ret (just_err x) }"

definition state_fields :: "container_state fields" where
  "state_fields =
    [field ''id'' cs_ID cs_ID_update dec_string,
     field ''pid'' cs_PID cs_PID_update dec_int,
     field ''status'' cs_Status cs_Status_update dec_string]"

definition client_State :: "replies \<Rightarrow> client \<Rightarrow> string \<Rightarrow> string \<Rightarrow> container_state result os" where
  "client_State orc c rootDir i = do {
     x \<leftarrow> client_run orc c rootDir [''state'', i];
     ret (case x of
            Inl e \<Rightarrow> Inl e
          | Inr out \<Rightarrow>
              (case unmarshal (dec_struct state_fields) out \<lparr>cs_ID = '''', cs_PID = 0, cs_Status = ''''\<rparr> of
                 Inl e \<Rightarrow> Inl (Wrap ''parsing state: '' e '''')
               | Inr st \<Rightarrow> Inr st))
   }"

definition KillProcess :: "replies \<Rightarrow> int \<Rightarrow> unit os" where
  "KillProcess orc pid = (if pid \<le> 0 then ret () else do { _ \<leftarrow> ask orc (SigKill pid); ret () })"

section \<open>Bundles\<close>

definition PrepareBundle :: "replies \<Rightarrow> string \<Rightarrow> string \<Rightarrow> string \<Rightarrow> goerr option os" where
  "PrepareBundle orc bundleDir rootfs checkpointDir = do {
     e1 \<leftarrow> os_MkdirAll orc bundleDir;
     if_err e1 (\<lambda>e. ret (Some e)) (do {
       let link = path_join [bundleDir, ''rootfs''];
       _ \<leftarrow> os_Remove orc link;
       e2 \<leftarrow> os_Symlink orc rootfs link;
       if_err e2 (\<lambda>e. ret (Some (Wrap ''symlinking rootfs: '' e ''''))) (do {
         x \<leftarrow> os_ReadFile orc (path_join [checkpointDir, ''config.json'']);
         (case x of
            Inl e \<Rightarrow> ret (Some (Wrap ''reading checkpoint config.json: '' e ''''))
          | Inr data \<Rightarrow> do {
              e3 \<leftarrow> os_WriteFile orc (path_join [bundleDir, ''config.json'']) data;
              if_err e3 (\<lambda>e. ret (Some (Wrap ''writing bundle config.json: '' e ''''))) (ret None)
            })
       })
     })
   }"

text \<open>\<^verbatim>\<open>MarshalIndent\<close> of a map: the members of every object in the order of their keys.\<close>

fun insert_member :: "string \<times> json \<Rightarrow> (string \<times> json) list \<Rightarrow> (string \<times> json) list" where
  "insert_member x [] = [x]"
| "insert_member x (y # ys) = (if string_le (fst x) (fst y) then x # y # ys else y # insert_member x ys)"

fun sort_json :: "json \<Rightarrow> json" and sort_items :: "json list \<Rightarrow> json list"
  and sort_members :: "(string \<times> json) list \<Rightarrow> (string \<times> json) list" where
  "sort_json (JArr xs) = JArr (sort_items xs)"
| "sort_json (JObj ms) = JObj (sort_members ms)"
| "sort_json JNull = JNull"
| "sort_json (JBool b) = JBool b"
| "sort_json (JInt i) = JInt i"
| "sort_json (JFrac s) = JFrac s"
| "sort_json (JStr s) = JStr s"
| "sort_items [] = []"
| "sort_items (x # xs) = sort_json x # sort_items xs"
| "sort_members [] = []"
| "sort_members ((k, x) # ms) = insert_member (k, sort_json x) (sort_members ms)"

definition bind_mount :: "string \<Rightarrow> string \<Rightarrow> json" where
  "bind_mount dest src = JObj [(''destination'', JStr dest), (''type'', JStr ''bind''), (''source'', JStr src),
     (''options'', JArr [JStr ''rbind'', JStr ''ro''])]"

text \<open>A slice that is nil, because the member is missing or no array, stays nil if nothing is added.\<close>

definition member_slice :: "string \<Rightarrow> (string \<times> json) list \<Rightarrow> json list option" where
  "member_slice k ms = (case map_of ms k of Some (JArr xs) \<Rightarrow> Some xs | _ \<Rightarrow> None)"

definition slice_append :: "json list option \<Rightarrow> json list \<Rightarrow> json list option" where
  "slice_append xs ys = (if ys = [] then xs else Some ((case xs of None \<Rightarrow> [] | Some zs \<Rightarrow> zs) @ ys))"

definition slice_json :: "json list option \<Rightarrow> json" where
  "slice_json xs = (case xs of None \<Rightarrow> JNull | Some zs \<Rightarrow> JArr zs)"

definition extra_mounts :: "string \<Rightarrow> string \<Rightarrow> json list" where
  "extra_mounts harnessPath cacheDir =
     (if harnessPath \<noteq> '''' then [bind_mount ''/harness/gvisord-exec'' harnessPath] else []) @
     (if cacheDir \<noteq> '''' then [bind_mount ''/cache'' cacheDir] else [])"

definition add_mounts :: "string \<Rightarrow> string \<Rightarrow> (string \<times> json) list \<Rightarrow> (string \<times> json) list" where
  "add_mounts harnessPath cacheDir spec =
     AList.update ''mounts'' (slice_json (slice_append (member_slice ''mounts'' spec) (extra_mounts harnessPath cacheDir))) spec"

text \<open>The common frame: read \<^verbatim>\<open>config.json\<close>, change the map, write it back. Assigning to the nil map panics.\<close>

definition edit_config :: "replies \<Rightarrow> string \<Rightarrow> ((string \<times> json) list \<Rightarrow> (string \<times> json) list) \<Rightarrow> goerr option os" where
  "edit_config orc bundleDir f = do {
     let configPath = path_join [bundleDir, ''config.json''];
     x \<leftarrow> os_ReadFile orc configPath;
     (case x of
        Inl e \<Rightarrow> ret (Some (Wrap ''reading bundle config.json: '' e ''''))
      | Inr data \<Rightarrow>
          (case dec_any_map data of
             Inl e \<Rightarrow> ret (Some (Wrap ''parsing bundle config.json: '' e ''''))
           | Inr None \<Rightarrow> ret (Some (go_panic ''assignment to entry in nil map''))
           | Inr (Some spec) \<Rightarrow> os_WriteFile orc configPath (Doc (sort_json (JObj (f spec))))))
   }"

definition InjectBundleMounts :: "replies \<Rightarrow> string \<Rightarrow> string \<Rightarrow> string \<Rightarrow> goerr option os" where
  "InjectBundleMounts orc bundleDir harnessPath cacheDir = edit_config orc bundleDir (add_mounts harnessPath cacheDir)"

definition is_network :: "json \<Rightarrow> bool" where
  "is_network j = (case j of JObj m \<Rightarrow> map_of m ''type'' = Some (JStr ''network'') | _ \<Rightarrow> False)"

fun set_network :: "string \<Rightarrow> json list \<Rightarrow> json list" where
  "set_network path [] = [JObj [(''type'', JStr ''network''), (''path'', JStr path)]]"
| "set_network path (x # xs) =
     (case x of
        JObj m \<Rightarrow> if is_network x then JObj (AList.update ''path'' (JStr path) m) # xs else x # set_network path xs
      | _ \<Rightarrow> x # set_network path xs)"

definition member_map :: "string \<Rightarrow> (string \<times> json) list \<Rightarrow> (string \<times> json) list" where
  "member_map k ms = (case map_of ms k of Some (JObj m) \<Rightarrow> m | _ \<Rightarrow> [])"

definition add_netns :: "string \<Rightarrow> (string \<times> json) list \<Rightarrow> (string \<times> json) list" where
  "add_netns path spec =
     (let linux = member_map ''linux'' spec;
          namespaces = (case member_slice ''namespaces'' linux of None \<Rightarrow> [] | Some xs \<Rightarrow> xs)
      in AList.update ''linux'' (JObj (AList.update ''namespaces'' (JArr (set_network path namespaces)) linux)) spec)"

definition InjectNetNS :: "replies \<Rightarrow> string \<Rightarrow> string \<Rightarrow> goerr option os" where
  "InjectNetNS orc bundleDir netnsPath =
     (if netnsPath = '''' then ret None else edit_config orc bundleDir (add_netns netnsPath))"

fun remove_filestores :: "replies \<Rightarrow> string \<Rightarrow> (string \<times> bool) list \<Rightarrow> unit os" where
  "remove_filestores orc rootfs [] = ret ()"
| "remove_filestores orc rootfs ((name, d) # es) = do {
     (if has_prefix name ''.gvisor'' then do { _ \<leftarrow> os_Remove orc (path_join [rootfs, name]); ret () } else ret ());
     remove_filestores orc rootfs es
   }"

definition CleanFilestores :: "replies \<Rightarrow> string \<Rightarrow> unit os" where
  "CleanFilestores orc rootfs = do {
     x \<leftarrow> os_ReadDir orc rootfs;
     (case x of Inl e \<Rightarrow> ret () | Inr es \<Rightarrow> remove_filestores orc rootfs es)
   }"

section \<open>The client as the pools' runtime\<close>

definition wait_done :: "replies \<Rightarrow> client \<Rightarrow> string \<Rightarrow> string \<Rightarrow> int \<Rightarrow> bool os" where
  "wait_done orc c rootDir i d = do {
     _ \<leftarrow> client_Wait orc c rootDir i;
     a \<leftarrow> ask orc (Race d);
     ret (an_num a \<noteq> 0)
   }"

definition client_runtime :: "replies \<Rightarrow> client \<Rightarrow> world runtime" where
  "client_runtime orc c = \<lparr>rt_Create = client_Create orc c, rt_Restore = client_Restore orc c, rt_Kill = client_Kill orc c,
     rt_WaitDone = wait_done orc c, rt_WaitEnd = (\<lambda>_ _. ret ()), rt_Reset = client_Reset orc c,
     rt_Delete = client_Delete orc c, rt_State = client_State orc c, rt_Exec = client_Exec orc c,
     rt_PrepareBundle = PrepareBundle orc, rt_CleanFilestores = CleanFilestores orc,
     rt_KillProcess = KillProcess orc, rt_WarmSentry = cl_warmSentry c\<rparr>"

end
