(* ===== verification/Cgroup.thy ===== *)
theory Cgroup
  imports Host
begin

text \<open>
  \<^verbatim>\<open>internal/cgroup/cgroup.go\<close>: one slice per resource class, one sub-directory per sentry. The
  manager's map of classes is in the world; the kernel's view of a write is the file's content.
\<close>

record cgroup_mgr =
  gm_basePath :: string
  gm_prefix :: string

definition sanitize_char :: "char \<Rightarrow> char" where
  "sanitize_char c = (if c \<in> set ''/ .'' then CHR ''-'' else c)"

definition sanitize :: "string \<Rightarrow> string" where
  "sanitize i = map sanitize_char i"

definition slicePath :: "cgroup_mgr \<Rightarrow> string \<Rightarrow> string" where
  "slicePath m className = path_join [gm_basePath m, gm_prefix m @ ''-'' @ className @ ''.slice'']"

definition cpu_max_text :: "int \<Rightarrow> string" where
  "cpu_max_text cpuMillis = itoa (i64 (cpuMillis * 100)) @ '' '' @ itoa 100000"

definition memory_max_text :: "int \<Rightarrow> string" where
  "memory_max_text memoryMB = itoa (i64 (i64 (memoryMB * 1024) * 1024))"

definition writeCPUMax :: "replies \<Rightarrow> string \<Rightarrow> int \<Rightarrow> goerr option os" where
  "writeCPUMax orc slice cpuMillis = os_WriteFile orc (path_join [slice, ''cpu.max'']) (Text (cpu_max_text cpuMillis))"

definition writeMemoryMax :: "replies \<Rightarrow> string \<Rightarrow> int \<Rightarrow> goerr option os" where
  "writeMemoryMax orc slice memoryMB = os_WriteFile orc (path_join [slice, ''memory.max'']) (Text (memory_max_text memoryMB))"

fun EnsureSlices :: "replies \<Rightarrow> cgroup_mgr \<Rightarrow> resource_class list \<Rightarrow> goerr option os" where
  "EnsureSlices orc m [] = ret None"
| "EnsureSlices orc m (cls # rest) = do {
     modify (\<lambda>w. w\<lparr>w_classes := AList.update (rc_Name cls) cls (w_classes w)\<rparr>);
     let slice = slicePath m (rc_Name cls);
     e1 \<leftarrow> os_MkdirAll orc slice;
     if_err e1 (\<lambda>e. ret (Some (Wrap (''creating cgroup slice '' @ rc_Name cls @ '': '') e ''''))) (do {
       e2 \<leftarrow> writeCPUMax orc slice (rc_CPUMillis cls);
       if_err e2 (\<lambda>e. ret (Some (Wrap (''setting cpu.max for '' @ rc_Name cls @ '': '') e ''''))) (do {
         e3 \<leftarrow> writeMemoryMax orc slice (rc_MemoryMB cls);
         if_err e3 (\<lambda>e. ret (Some (Wrap (''setting memory.max for '' @ rc_Name cls @ '': '') e '''')))
           (EnsureSlices orc m rest)
       })
     })
   }"

definition sentry_cgroup :: "cgroup_mgr \<Rightarrow> string \<Rightarrow> string \<Rightarrow> string" where
  "sentry_cgroup m className sentryID = path_join [slicePath m className, sanitize sentryID]"

definition SentrySlicePath :: "replies \<Rightarrow> cgroup_mgr \<Rightarrow> string \<Rightarrow> string \<Rightarrow> string result os" where
  "SentrySlicePath orc m className sentryID = do {
     classes \<leftarrow> gets w_classes;
     (case map_of classes className of
        None \<Rightarrow> ret (Inl (ErrMsg (''unknown resource class '' @ go_quote className)))
      | Some cls \<Rightarrow> do {
          let p = sentry_cgroup m (rc_Name cls) sentryID;
          e1 \<leftarrow> os_MkdirAll orc p;
          if_err e1 (\<lambda>e. ret (Inl (Wrap (''creating sentry cgroup '' @ sentryID @ '': '') e ''''))) (ret (Inr p))
        })
   }"

definition PlacePID :: "replies \<Rightarrow> string \<Rightarrow> int \<Rightarrow> goerr option os" where
  "PlacePID orc cgroupPath pid = os_WriteFile orc (path_join [cgroupPath, ''cgroup.procs'']) (Text (itoa pid))"

definition CleanupSentry :: "replies \<Rightarrow> cgroup_mgr \<Rightarrow> string \<Rightarrow> string \<Rightarrow> unit os" where
  "CleanupSentry orc m className sentryID = do { _ \<leftarrow> os_Remove orc (sentry_cgroup m className sentryID); ret () }"

definition GetClass :: "string \<Rightarrow> resource_class option os" where
  "GetClass name = gets (\<lambda>w. map_of (w_classes w) name)"

definition DetectV2 :: "replies \<Rightarrow> cgroup_mgr \<Rightarrow> goerr option os" where
  "DetectV2 orc m = do {
     x \<leftarrow> os_Stat orc (path_join [gm_basePath m, ''cgroup.controllers'']);
     (case x of
        Inl e \<Rightarrow> ret (Some (Wrap (''cgroup v2 not detected at '' @ gm_basePath m @ '': '') e '' (gvisord requires cgroup v2)''))
      | Inr _ \<Rightarrow> ret None)
   }"

fun remove_subs :: "replies \<Rightarrow> string \<Rightarrow> (string \<times> bool) list \<Rightarrow> unit os" where
  "remove_subs orc slice [] = ret ()"
| "remove_subs orc slice ((name, d) # es) = do {
     (if d then do { _ \<leftarrow> os_Remove orc (path_join [slice, name]); ret () } else ret ());
     remove_subs orc slice es
   }"

definition is_stale :: "cgroup_mgr \<Rightarrow> string \<times> bool \<Rightarrow> bool" where
  "is_stale m e \<longleftrightarrow> snd e \<and> has_prefix (fst e) (gm_prefix m @ ''-'') \<and> has_suffix (fst e) ''.slice''"

fun remove_stale :: "replies \<Rightarrow> cgroup_mgr \<Rightarrow> (string \<times> bool) list \<Rightarrow> unit os" where
  "remove_stale orc m [] = ret ()"
| "remove_stale orc m (e # es) = do {
     (if is_stale m e then do {
        let slice = path_join [gm_basePath m, fst e];
        x \<leftarrow> os_ReadDir orc slice;
        remove_subs orc slice (case x of Inl _ \<Rightarrow> [] | Inr subs \<Rightarrow> subs);
        _ \<leftarrow> os_Remove orc slice;
        ret ()
      } else ret ());
     remove_stale orc m es
   }"

definition CleanupStaleSlices :: "replies \<Rightarrow> cgroup_mgr \<Rightarrow> unit os" where
  "CleanupStaleSlices orc m = do {
     x \<leftarrow> os_ReadDir orc (gm_basePath m);
     (case x of Inl e \<Rightarrow> ret () | Inr es \<Rightarrow> remove_stale orc m es)
   }"

definition cgroup_services :: "replies \<Rightarrow> cgroup_mgr \<Rightarrow> world cgroups" where
  "cgroup_services orc m = \<lparr>cm_SentrySlicePath = SentrySlicePath orc m, cm_PlacePID = PlacePID orc,
     cm_CleanupSentry = CleanupSentry orc m\<rparr>"

end
