(* ===== verification/Cni.thy ===== *)
theory Cni
  imports Host
begin

text \<open>
  \<^verbatim>\<open>internal/cni/cni.go\<close>: one network namespace per sentry, configured by the bridge and loopback
  plugins. The manager's map from sentry to address is in the world; the \<^verbatim>\<open>ip\<close> command and the
  plugins are outside. \<open>PATH\<close> is the search path of the daemon's own environment.
\<close>

record cni_config =
  cn_PluginDir :: string
  cn_ConfigDir :: string
  cn_Bridge :: string
  cn_Subnet :: string
  cn_NetnsDir :: string

definition bridge_path :: "cni_config \<Rightarrow> string" where
  "bridge_path m = path_join [cn_ConfigDir m, ''10-gvisord-bridge.conf'']"

definition loopback_path :: "cni_config \<Rightarrow> string" where
  "loopback_path m = path_join [cn_ConfigDir m, ''99-loopback.conf'']"

definition bridge_cfg :: "cni_config \<Rightarrow> json" where
  "bridge_cfg m = JObj
    [(''bridge'', JStr (cn_Bridge m)),
     (''cniVersion'', JStr ''0.3.1''),
     (''ipMasq'', JBool True),
     (''ipam'', JObj
        [(''routes'', JArr [JObj [(''dst'', JStr ''0.0.0.0/0'')]]),
         (''subnet'', JStr (cn_Subnet m)),
         (''type'', JStr ''host-local'')]),
     (''isGateway'', JBool True),
     (''name'', JStr ''gvisord-net''),
     (''type'', JStr ''bridge'')]"

definition loopback_cfg :: json where
  "loopback_cfg = JObj [(''cniVersion'', JStr ''0.3.1''), (''name'', JStr ''lo''), (''type'', JStr ''loopback'')]"

text \<open>Write a configuration file unless \<^verbatim>\<open>os.Stat\<close> says something other than that it does not exist.\<close>

definition ensure_file :: "replies \<Rightarrow> string \<Rightarrow> json \<Rightarrow> string \<Rightarrow> goerr option os" where
  "ensure_file orc path cfg what = do {
     x \<leftarrow> os_Stat orc path;
     if x = Inl not_exist then do {
       e1 \<leftarrow> os_WriteFile orc path (Doc cfg);
       if_err e1 (\<lambda>e. ret (Some (Wrap (''writing '' @ what @ '' config: '') e ''''))) (ret None)
     } else ret None
   }"

definition EnsureConfig :: "replies \<Rightarrow> cni_config \<Rightarrow> goerr option os" where
  "EnsureConfig orc m = do {
     e1 \<leftarrow> os_MkdirAll orc (cn_ConfigDir m);
     if_err e1 (\<lambda>e. ret (Some (Wrap ''creating CNI config dir: '' e ''''))) (do {
       e2 \<leftarrow> ensure_file orc (bridge_path m) (bridge_cfg m) ''bridge'';
       if_err e2 (\<lambda>e. ret (Some e)) (ensure_file orc (loopback_path m) loopback_cfg ''loopback'')
     })
   }"

definition cniEnv :: "cni_config \<Rightarrow> string \<Rightarrow> string \<Rightarrow> string \<Rightarrow> string list" where
  "cniEnv m PATH i command =
    [''CNI_PATH='' @ cn_PluginDir m,
     ''CNI_CONTAINERID='' @ i,
     ''CNI_COMMAND='' @ command,
     ''CNI_NETNS='' @ path_join [cn_NetnsDir m, i],
     ''PATH='' @ PATH]"

definition runCNI :: "replies \<Rightarrow> cni_config \<Rightarrow> string \<Rightarrow> string \<Rightarrow> string list \<Rightarrow> content result os" where
  "runCNI orc m plugin configFile env = do {
     x \<leftarrow> os_ReadFile orc configFile;
     (case x of
        Inl e \<Rightarrow> ret (Inl (Wrap (''reading '' @ configFile @ '': '') e ''''))
      | Inr cfgData \<Rightarrow> do {
          y \<leftarrow> os_exec orc [path_join [cn_PluginDir m, plugin]] env cfgData;
          (case y of
             (out, Some e) \<Rightarrow> ret (Inl (Wrap (plugin @ '': '') e ([CHR 0x0A] @ text_of out)))
           | (out, None) \<Rightarrow> ret (Inr out))
        })
   }"

definition runIP :: "replies \<Rightarrow> string list \<Rightarrow> goerr option os" where
  "runIP orc args = do {
     y \<leftarrow> os_exec orc (''ip'' # args) [] (Text '''');
     ret (case y of
            (out, Some e) \<Rightarrow> Some (Wrap (''ip '' @ str_join args '' '' @ '': '') e ([CHR 0x0A] @ text_of out))
          | (out, None) \<Rightarrow> None)
   }"

definition cleanupNetNS :: "replies \<Rightarrow> cni_config \<Rightarrow> string \<Rightarrow> string \<Rightarrow> unit os" where
  "cleanupNetNS orc m PATH i = do {
     let env = cniEnv m PATH i ''DEL'';
     _ \<leftarrow> runCNI orc m ''loopback'' (loopback_path m) (env @ [''CNI_IFNAME=lo'']);
     _ \<leftarrow> runCNI orc m ''bridge'' (bridge_path m) (env @ [''CNI_IFNAME=eth0'']);
     _ \<leftarrow> runIP orc [''netns'', ''delete'', i];
     ret ()
   }"

text \<open>\<^verbatim>\<open>parseIP\<close>: the first address of the plugin's answer, without its prefix length.\<close>

definition address_fields :: "string fields" where
  "address_fields = [field ''address'' id (\<lambda>f. f) dec_string]"

definition ips_fields :: "string list fields" where
  "ips_fields = [field ''ips'' id (\<lambda>f. f) (dec_slice '''' (dec_struct address_fields))]"

definition strip_prefix_length :: "string \<Rightarrow> string" where
  "strip_prefix_length addr =
     (case index_byte addr (CHR ''/'') of
        None \<Rightarrow> addr
      | Some k \<Rightarrow> if 0 < k then take k addr else addr)"

definition parseIP :: "content \<Rightarrow> string" where
  "parseIP out =
     (case unmarshal (dec_struct ips_fields) out [] of
        Inr (addr # _) \<Rightarrow> strip_prefix_length addr
      | _ \<Rightarrow> '''')"

definition CreateNetNS :: "replies \<Rightarrow> cni_config \<Rightarrow> string \<Rightarrow> string \<Rightarrow> (string \<times> string) result os" where
  "CreateNetNS orc m PATH i = do {
     e1 \<leftarrow> runIP orc [''netns'', ''add'', i];
     if_err e1 (\<lambda>e. ret (Inl (Wrap (''creating netns '' @ i @ '': '') e ''''))) (do {
       let env = cniEnv m PATH i ''ADD'';
       x \<leftarrow> runCNI orc m ''bridge'' (bridge_path m) (env @ [''CNI_IFNAME=eth0'']);
       (case x of
          Inl e \<Rightarrow> do { cleanupNetNS orc m PATH i; ret (Inl (Wrap ''CNI bridge ADD: '' e '''')) }
        | Inr out \<Rightarrow> do {
            let ip = parseIP out;
            y \<leftarrow> runCNI orc m ''loopback'' (loopback_path m) (env @ [''CNI_IFNAME=lo'']);
            (case y of
               Inl e \<Rightarrow> do { cleanupNetNS orc m PATH i; ret (Inl (Wrap ''CNI loopback ADD: '' e '''')) }
             | Inr _ \<Rightarrow> do {
                 modify (\<lambda>w. w\<lparr>w_nss := AList.update i ip (w_nss w)\<rparr>);
                 ret (Inr (ip, path_join [cn_NetnsDir m, i]))
               })
          })
     })
   }"

definition DeleteNetNS :: "replies \<Rightarrow> cni_config \<Rightarrow> string \<Rightarrow> string \<Rightarrow> unit os" where
  "DeleteNetNS orc m PATH i = do {
     cleanupNetNS orc m PATH i;
     modify (\<lambda>w. w\<lparr>w_nss := AList.delete i (w_nss w)\<rparr>)
   }"

definition GetIP :: "string \<Rightarrow> string option os" where
  "GetIP i = gets (\<lambda>w. map_of (w_nss w) i)"

text \<open>Any execute bit of the mode.\<close>

definition executable_mode :: "int \<Rightarrow> bool" where
  "executable_mode mode = (mode mod 2 = 1 \<or> mode div 8 mod 2 = 1 \<or> mode div 64 mod 2 = 1)"

fun validate_plugins :: "replies \<Rightarrow> cni_config \<Rightarrow> string list \<Rightarrow> goerr option os" where
  "validate_plugins orc m [] = ret None"
| "validate_plugins orc m (plugin # ps) = do {
     let path = path_join [cn_PluginDir m, plugin];
     x \<leftarrow> os_Stat orc path;
     (case x of
        Inl e \<Rightarrow> ret (Some (Wrap (''CNI plugin '' @ go_quote plugin @ '' not found at '' @ path @ '': '') e ''''))
      | Inr (d, mode) \<Rightarrow>
          if executable_mode mode then validate_plugins orc m ps
          else ret (Some (ErrMsg (''CNI plugin '' @ go_quote plugin @ '' at '' @ path @ '' is not executable''))))
   }"

definition ValidatePlugins :: "replies \<Rightarrow> cni_config \<Rightarrow> goerr option os" where
  "ValidatePlugins orc m = validate_plugins orc m [''bridge'', ''loopback'']"

definition cni_services :: "replies \<Rightarrow> cni_config \<Rightarrow> string \<Rightarrow> world netns" where
  "cni_services orc m PATH = \<lparr>nm_CreateNetNS = CreateNetNS orc m PATH, nm_DeleteNetNS = DeleteNetNS orc m PATH\<rparr>"

end
