(* ===== verification/Duration.thy ===== *)
theory Duration
  imports Sentry
begin

text \<open>
  \<^verbatim>\<open>time.ParseDuration\<close>, by which \<^verbatim>\<open>internal/config/config.go\<close> reads its durations: a sign and a
  sequence of decimal numbers with units, in nanoseconds. Fractions are computed exactly and cut
  towards zero, as the library does up to the rounding of its floating-point scale. One message
  stands for the four with which the library rejects a text.
\<close>

definition is_num_char :: "char \<Rightarrow> bool" where
  "is_num_char c = (c = CHR ''.'' \<or> is_digit c)"

definition digit_val :: "char \<Rightarrow> nat" where
  "digit_val c = of_char c - 48"

text \<open>\<^verbatim>\<open>leadingInt\<close>: the value of the leading digits, or an overflow, and the rest.\<close>

fun leading_int :: "nat \<Rightarrow> string \<Rightarrow> (nat \<times> string) option" where
  "leading_int x [] = Some (x, [])"
| "leading_int x (c # s) =
     (if \<not> is_digit c then Some (x, c # s)
      else if 2 ^ 63 div 10 < x then None
      else if 2 ^ 63 < 10 * x + digit_val c then None
      else leading_int (10 * x + digit_val c) s)"

text \<open>\<^verbatim>\<open>leadingFraction\<close>: the digits that fit, their scale, and the rest.\<close>

fun leading_fraction :: "nat \<Rightarrow> nat \<Rightarrow> bool \<Rightarrow> string \<Rightarrow> nat \<times> nat \<times> string" where
  "leading_fraction x scale full [] = (x, scale, [])"
| "leading_fraction x scale full (c # s) =
     (if \<not> is_digit c then (x, scale, c # s)
      else if full \<or> (2 ^ 63 - 1) div 10 < x \<or> 2 ^ 63 < 10 * x + digit_val c then leading_fraction x scale True s
      else leading_fraction (10 * x + digit_val c) (10 * scale) False s)"

text \<open>The micro sign has two UTF-8 spellings.\<close>

definition unit_ns :: "string \<Rightarrow> nat option" where
  "unit_ns u = map_of
    [(''ns'', 1), (''us'', 1000), ([CHR 0xC2, CHR 0xB5, CHR ''s''], 1000), ([CHR 0xCE, CHR 0xBC, CHR ''s''], 1000),
     (''ms'', 1000000), (''s'', 1000000000), (''m'', 60000000000), (''h'', 3600000000000)] u"

text \<open>One number and its unit: its value and the rest.\<close>

definition duration_term :: "string \<Rightarrow> (nat \<times> string) option" where
  "duration_term s =
     (case leading_int 0 s of
        None \<Rightarrow> None
      | Some (v, s1) \<Rightarrow>
          let pre = (length s1 \<noteq> length s);
              dot = (s1 \<noteq> [] \<and> hd s1 = CHR ''.'');
              (f, scale, s2) = (if dot then leading_fraction 0 1 False (tl s1) else (0, 1, s1));
              post = (dot \<and> length s2 \<noteq> length (tl s1));
              u = takeWhile (\<lambda>c. \<not> is_num_char c) s2
          in
          if \<not> pre \<and> \<not> post then None
          else if u = [] then None
          else (case unit_ns u of
                  None \<Rightarrow> None
                | Some n \<Rightarrow>
                    if 2 ^ 63 div n < v then None
                    else if 2 ^ 63 < v * n + f * n div scale then None
                    else Some (v * n + f * n div scale, drop (length u) s2)))"

text \<open>The loop over the terms; each one is shorter than what it was read from.\<close>

fun duration_terms :: "nat \<Rightarrow> nat \<Rightarrow> string \<Rightarrow> nat option" where
  "duration_terms fuel d [] = Some d"
| "duration_terms 0 d (c # s) = None"
| "duration_terms (Suc fuel) d (c # s) =
     (if \<not> is_num_char c then None
      else (case duration_term (c # s) of
              None \<Rightarrow> None
            | Some (v, rest) \<Rightarrow> if 2 ^ 63 < d + v then None else duration_terms fuel (d + v) rest))"

definition ParseDuration :: "string \<Rightarrow> int result" where
  "ParseDuration s =
     (let neg = (s \<noteq> [] \<and> hd s = CHR ''-'');
          body = (if s \<noteq> [] \<and> hd s \<in> set ''+-'' then tl s else s);
          bad = ErrMsg (''time: invalid duration '' @ go_quote s)
      in
      if body = ''0'' then Inr 0
      else if body = [] then Inl bad
      else (case duration_terms (length body) 0 body of
              None \<Rightarrow> Inl bad
            | Some d \<Rightarrow> if neg then Inr (- int d) else if 2 ^ 63 - 1 < d then Inl bad else Inr (int d)))"

section \<open>Numbers with one unit\<close>

lemma digit_char_digit: "d < 10 \<Longrightarrow> is_digit (digit_char d) \<and> digit_val (digit_char d) = d"
  using digit_char_value [of d] by (simp add: is_digit_def digit_val_def)

lemma leading_int_digits:
  "\<forall>c \<in> set ds. is_digit c \<Longrightarrow> s = [] \<or> \<not> is_digit (hd s) \<Longrightarrow>
     foldl (\<lambda>n c. 10 * n + (of_char c - 48)) x ds \<le> 2 ^ 63 \<Longrightarrow>
     leading_int x (ds @ s) = Some (foldl (\<lambda>n c. 10 * n + (of_char c - 48)) x ds, s)"
proof (induction ds arbitrary: x)
  case Nil
  then show ?case by (cases s) auto
next
  case (Cons c ds)
  have mono: "y \<le> foldl (\<lambda>n c. 10 * n + (of_char c - 48)) y ds" for y :: nat and ds :: string
  proof (induction ds arbitrary: y)
    case (Cons e es)
    from Cons [of "10 * y + (of_char e - 48)"] show ?case by simp
  qed simp
  have "10 * x + (of_char c - 48) \<le> 2 ^ 63"
    using Cons.prems(3) mono [of "10 * x + (of_char c - 48)" ds] by simp
  moreover from this have "\<not> 2 ^ 63 div 10 < x" by linarith
  ultimately show ?case using Cons by (simp add: digit_val_def)
qed

lemma nat_str_digits: "\<forall>c \<in> set (nat_str n). is_digit c"
proof
  fix c assume "c \<in> set (nat_str n)"
  moreover have "set (nat_str n) \<subseteq> {c. is_digit c}" by (rule nat_str_chars) (simp add: digit_char_digit)
  ultimately show "is_digit c" by auto
qed

lemma unit_chars: "unit_ns u = Some k \<Longrightarrow> u \<noteq> [] \<and> 0 < k \<and> (\<forall>c \<in> set u. \<not> is_num_char c)"
  by (auto simp: unit_ns_def is_num_char_def is_digit_def split: if_splits)

lemma nat_str_value: "foldl (\<lambda>n c. 10 * n + (of_char c - 48)) 0 (nat_str n) = n"
  using str_nat_nat_str [of n] by (simp add: str_nat_def)

lemma duration_term_unit:
  assumes "unit_ns u = Some k" and "n * k \<le> 2 ^ 63"
  shows "duration_term (nat_str n @ u) = Some (n * k, [])"
proof -
  note u = unit_chars [OF assms(1)]
  have "n \<le> n * k" using u by simp
  with assms(2) have n: "n \<le> 2 ^ 63" by linarith
  obtain c v where cv: "u = c # v" using u by (cases u) auto
  have "leading_int 0 (nat_str n @ u) = Some (n, u)"
    using leading_int_digits [of "nat_str n" u 0] nat_str_digits [of n] u n
    by (auto simp: nat_str_value is_num_char_def cv)
  moreover have tw: "takeWhile (\<lambda>c. \<not> is_num_char c) v = v" using u by (simp add: cv takeWhile_eq_all_conv)
  moreover have "\<not> 2 ^ 63 div k < n" using assms(2) u by (simp add: not_less less_eq_div_iff_mult_less_eq)
  moreover have "c \<noteq> CHR ''.''" using u cv by (auto simp: is_num_char_def)
  ultimately show ?thesis using assms u by (simp add: duration_term_def Let_def cv tw)
qed

lemma ParseDuration_unit:
  assumes "unit_ns u = Some k" and "n * k < 2 ^ 63"
  shows "ParseDuration (nat_str n @ u) = Inr (int (n * k))"
    and "ParseDuration (CHR ''-'' # nat_str n @ u) = Inr (- int (n * k))"
proof -
  note u = unit_chars [OF assms(1)]
  obtain c s where cs: "nat_str n @ u = c # s" and c: "is_digit c"
    using nat_str_digits [of n] nat_str_not_Nil [of n] by (cases "nat_str n") auto
  have len: "s \<noteq> []"
    using cs u by (cases "nat_str n") auto
  have sign: "c \<noteq> CHR ''-''" "c \<noteq> CHR ''+''" using c by (auto simp: is_digit_def)
  have "duration_term (c # s) = Some (n * k, [])" using duration_term_unit [OF assms(1), of n] assms(2) cs by simp
  then have terms: "duration_terms (length (c # s)) 0 (c # s) = Some (n * k)"
    using c assms(2) by (simp add: is_num_char_def)
  then show "ParseDuration (nat_str n @ u) = Inr (int (n * k))"
    using sign len assms(2) by (simp add: ParseDuration_def Let_def cs del: duration_terms.simps)
  show "ParseDuration (CHR ''-'' # nat_str n @ u) = Inr (- int (n * k))"
    using terms sign len by (simp add: ParseDuration_def Let_def cs del: duration_terms.simps)
qed

end
