(* ===== verification/Config_Load.thy ===== *)
theory Config_Load
  imports Config Duration Json
begin

text \<open>
  Loading the configuration (\<^verbatim>\<open>internal/config/config.go\<close>): the three \<^verbatim>\<open>UnmarshalJSON\<close> methods, the
  decoding of the whole document over the defaults, and \<^verbatim>\<open>Load\<close>. What reading the file answers is
  an argument.
\<close>

section \<open>The raw records\<close>

record raw_daemon =
  rd_Socket :: "string option"
  rd_SocketMode :: "string option"
  rd_SocketGroup :: "string option"
  rd_PIDFile :: "string option"
  rd_Workdir :: "string option"
  rd_HarnessPath :: "string option"
  rd_CacheDir :: "string option"
  rd_LeaseTimeout :: "string option"
  rd_CheckpointDirs :: "string list option"

definition dec_str_ptr :: "string option decoder" where
  "dec_str_ptr = dec_ptr '''' dec_string"

definition raw_daemon_fields :: "raw_daemon fields" where
  "raw_daemon_fields =
    [field ''socket'' rd_Socket rd_Socket_update dec_str_ptr,
     field ''socket_mode'' rd_SocketMode rd_SocketMode_update dec_str_ptr,
     field ''socket_group'' rd_SocketGroup rd_SocketGroup_update dec_str_ptr,
     field ''pid_file'' rd_PIDFile rd_PIDFile_update dec_str_ptr,
     field ''workdir'' rd_Workdir rd_Workdir_update dec_str_ptr,
     field ''harness_path'' rd_HarnessPath rd_HarnessPath_update dec_str_ptr,
     field ''cache_dir'' rd_CacheDir rd_CacheDir_update dec_str_ptr,
     field ''lease_timeout'' rd_LeaseTimeout rd_LeaseTimeout_update dec_str_ptr,
     field ''checkpoint_dirs'' rd_CheckpointDirs rd_CheckpointDirs_update (dec_nil_slice '''' dec_string)]"

definition the_default :: "'a \<Rightarrow> 'a option \<Rightarrow> 'a" where
  "the_default d x = (case x of None \<Rightarrow> d | Some y \<Rightarrow> y)"

text \<open>The optional duration: absent keeps the old value, a text that does not parse is an error.\<close>

definition opt_duration :: "string \<Rightarrow> string option \<Rightarrow> int \<Rightarrow> int result" where
  "opt_duration what x old =
     (case x of
        None \<Rightarrow> Inr old
      | Some s \<Rightarrow> (case ParseDuration s of Inl e \<Rightarrow> Inl (Wrap (''parsing '' @ what @ '': '') e '''') | Inr d \<Rightarrow> Inr d))"

definition dec_daemon :: "daemon_config decoder" where
  "dec_daemon j d =
     (case dec_struct raw_daemon_fields j
        \<lparr>rd_Socket = None, rd_SocketMode = None, rd_SocketGroup = None, rd_PIDFile = None, rd_Workdir = None,
         rd_HarnessPath = None, rd_CacheDir = None, rd_LeaseTimeout = None, rd_CheckpointDirs = None\<rparr> of
        Inl e \<Rightarrow> Inl e
      | Inr r \<Rightarrow>
          (case opt_duration ''lease_timeout'' (rd_LeaseTimeout r) (dc_LeaseTimeout d) of
             Inl e \<Rightarrow> Inl e
           | Inr dur \<Rightarrow> Inr
               \<lparr>dc_Socket = the_default (dc_Socket d) (rd_Socket r),
                dc_SocketMode = the_default (dc_SocketMode d) (rd_SocketMode r),
                dc_SocketGroup = the_default (dc_SocketGroup d) (rd_SocketGroup r),
                dc_PIDFile = the_default (dc_PIDFile d) (rd_PIDFile r),
                dc_Workdir = the_default (dc_Workdir d) (rd_Workdir r),
                dc_HarnessPath = the_default (dc_HarnessPath d) (rd_HarnessPath r),
                dc_CacheDir = the_default (dc_CacheDir d) (rd_CacheDir r),
                dc_LeaseTimeout = dur,
                dc_CheckpointDirs = the_default (dc_CheckpointDirs d) (rd_CheckpointDirs r)\<rparr>))"

record raw_pool =
  rp0_ResourceClass :: string
  rp0_PoolSize :: int
  rp0_MaxPending :: int
  rp0_PreRestore :: "bool option"

definition raw_pool_fields :: "raw_pool fields" where
  "raw_pool_fields =
    [field ''resource_class'' rp0_ResourceClass rp0_ResourceClass_update dec_string,
     field ''pool_size'' rp0_PoolSize rp0_PoolSize_update dec_int,
     field ''max_pending'' rp0_MaxPending rp0_MaxPending_update dec_int,
     field ''pre_restore'' rp0_PreRestore rp0_PreRestore_update (dec_ptr False dec_bool)]"

text \<open>Every field is overwritten; \<^verbatim>\<open>pre_restore\<close> defaults to true.\<close>

definition dec_pool :: "pool_config decoder" where
  "dec_pool j old =
     (case dec_struct raw_pool_fields j
        \<lparr>rp0_ResourceClass = '''', rp0_PoolSize = 0, rp0_MaxPending = 0, rp0_PreRestore = None\<rparr> of
        Inl e \<Rightarrow> Inl e
      | Inr r \<Rightarrow> Inr \<lparr>pc_ResourceClass = rp0_ResourceClass r, pc_PoolSize = rp0_PoolSize r,
          pc_MaxPending = rp0_MaxPending r, pc_PreRestore = the_default True (rp0_PreRestore r)\<rparr>)"

record raw_limits =
  rl_MaxRestoresPerSentry :: "int option"
  rl_MaxSentryAge :: "string option"
  rl_MaxRSSGrowthKB :: "int option"
  rl_MaxOpenFDs :: "int option"
  rl_IdleTimeout :: "string option"

definition raw_limits_fields :: "raw_limits fields" where
  "raw_limits_fields =
    [field ''max_restores_per_sentry'' rl_MaxRestoresPerSentry rl_MaxRestoresPerSentry_update (dec_ptr 0 dec_int),
     field ''max_sentry_age'' rl_MaxSentryAge rl_MaxSentryAge_update dec_str_ptr,
     field ''max_rss_growth_kb'' rl_MaxRSSGrowthKB rl_MaxRSSGrowthKB_update (dec_ptr 0 dec_int),
     field ''max_open_fds'' rl_MaxOpenFDs rl_MaxOpenFDs_update (dec_ptr 0 dec_int),
     field ''idle_timeout'' rl_IdleTimeout rl_IdleTimeout_update dec_str_ptr]"

definition dec_limits :: "limits decoder" where
  "dec_limits j l =
     (case dec_struct raw_limits_fields j
        \<lparr>rl_MaxRestoresPerSentry = None, rl_MaxSentryAge = None, rl_MaxRSSGrowthKB = None,
         rl_MaxOpenFDs = None, rl_IdleTimeout = None\<rparr> of
        Inl e \<Rightarrow> Inl e
      | Inr r \<Rightarrow>
          (case opt_duration ''max_sentry_age'' (rl_MaxSentryAge r) (lm_MaxSentryAge l) of
             Inl e \<Rightarrow> Inl e
           | Inr age \<Rightarrow>
               (case opt_duration ''idle_timeout'' (rl_IdleTimeout r) (lm_IdleTimeout l) of
                  Inl e \<Rightarrow> Inl e
                | Inr idle \<Rightarrow> Inr
                    \<lparr>lm_MaxRestoresPerSentry = the_default (lm_MaxRestoresPerSentry l) (rl_MaxRestoresPerSentry r),
                     lm_MaxSentryAge = age,
                     lm_MaxRSSGrowthKB = the_default (lm_MaxRSSGrowthKB l) (rl_MaxRSSGrowthKB r),
                     lm_MaxOpenFDs = the_default (lm_MaxOpenFDs l) (rl_MaxOpenFDs r),
                     lm_IdleTimeout = idle\<rparr>)))"

section \<open>The document\<close>

definition runsc_fields :: "runsc_config fields" where
  "runsc_fields =
    [field ''path'' rn_Path rn_Path_update dec_string,
     field ''extra_flags'' rn_ExtraFlags rn_ExtraFlags_update (dec_slice '''' dec_string)]"

definition network_fields :: "network_config fields" where
  "network_fields =
    [field ''mode'' nw_Mode nw_Mode_update dec_string,
     field ''plugin_dir'' nw_PluginDir nw_PluginDir_update dec_string,
     field ''config_dir'' nw_ConfigDir nw_ConfigDir_update dec_string,
     field ''bridge'' nw_Bridge nw_Bridge_update dec_string,
     field ''subnet'' nw_Subnet nw_Subnet_update dec_string]"

definition cgroup_fields :: "cgroup_config fields" where
  "cgroup_fields =
    [field ''base_path'' cg_BasePath cg_BasePath_update dec_string,
     field ''prefix'' cg_Prefix cg_Prefix_update dec_string]"

definition class_fields :: "resource_class fields" where
  "class_fields =
    [field ''name'' rc_Name rc_Name_update dec_string,
     field ''cpu_millis'' rc_CPUMillis rc_CPUMillis_update dec_int,
     field ''memory_mb'' rc_MemoryMB rc_MemoryMB_update dec_int]"

definition zero_class :: resource_class where
  "zero_class = \<lparr>rc_Name = '''', rc_CPUMillis = 0, rc_MemoryMB = 0\<rparr>"

definition zero_pool :: pool_config where
  "zero_pool = \<lparr>pc_ResourceClass = '''', pc_PoolSize = 0, pc_MaxPending = 0, pc_PreRestore = False\<rparr>"

definition template_fields :: "template fields" where
  "template_fields =
    [field ''rootfs'' tm_Rootfs tm_Rootfs_update dec_string,
     field ''checkpoint'' tm_Checkpoint tm_Checkpoint_update dec_string,
     field ''pools'' tm_Pools tm_Pools_update (dec_slice zero_pool dec_pool)]"

definition zero_template :: template where
  "zero_template = \<lparr>tm_Rootfs = '''', tm_Checkpoint = '''', tm_Pools = []\<rparr>"

definition config_fields :: "config fields" where
  "config_fields =
    [field ''daemon'' cfg_Daemon cfg_Daemon_update dec_daemon,
     field ''runsc'' cfg_Runsc cfg_Runsc_update (dec_struct runsc_fields),
     field ''network'' cfg_Network cfg_Network_update (dec_struct network_fields),
     field ''cgroup'' cfg_Cgroup cfg_Cgroup_update (dec_struct cgroup_fields),
     field ''resource_classes'' cfg_ResourceClasses cfg_ResourceClasses_update (dec_slice zero_class (dec_struct class_fields)),
     field ''limits'' cfg_Limits cfg_Limits_update dec_limits,
     field ''templates'' cfg_Templates cfg_Templates_update (dec_map zero_template (dec_struct template_fields))]"

definition Load :: "string \<Rightarrow> content result \<Rightarrow> config result" where
  "Load path file =
     (if path = '''' then Inl (ErrMsg ''config file path is required'')
      else
        (case file of
           Inl e \<Rightarrow> Inl (Wrap (''reading config '' @ path @ '': '') e '''')
         | Inr data \<Rightarrow>
             (case unmarshal (dec_struct config_fields) data default_config of
                Inl e \<Rightarrow> Inl (Wrap (''parsing config '' @ path @ '': '') e '''')
              | Inr c \<Rightarrow> Inr c)))"

end
