(* ===== verification/Daemon.thy ===== *)
theory Daemon
  imports Runsc Cgroup Cni Api Config_Load
begin

text \<open>
  \<^verbatim>\<open>cmd/gvisord/main.go\<close> and \<^verbatim>\<open>cmd/gvisord/client.go\<close>: how the daemon is put together from its
  configuration, and the client of its socket. Logging is left out; the signal loop is the order
  of its last three calls.
\<close>

section \<open>The services of the daemon\<close>

text \<open>The answer carries the text of \<^verbatim>\<open>/proc/<pid>/statm\<close> and, as its number, the page size.\<close>

definition read_rss :: "replies \<Rightarrow> int \<Rightarrow> int os" where
  "read_rss orc pid = do {
     a \<leftarrow> ask orc (Proc ''statm'' pid);
     ret (ReadRSSKB (an_num a) (case an_err a of Some e \<Rightarrow> None | None \<Rightarrow> Some (text_of (an_out a))))
   }"

definition count_fds :: "replies \<Rightarrow> int \<Rightarrow> int os" where
  "count_fds orc pid = do {
     a \<leftarrow> ask orc (Proc ''fd'' pid);
     ret (CountFDs (case an_err a of Some e \<Rightarrow> None | None \<Rightarrow> Some (nat (an_num a))))
   }"

definition random_bytes :: "replies \<Rightarrow> nat list os" where
  "random_bytes orc = do { a \<leftarrow> ask orc Random; ret (an_bytes a) }"

definition os_getwd :: "replies \<Rightarrow> string result os" where
  "os_getwd orc = do {
     a \<leftarrow> ask orc Getwd;
     ret (case an_err a of Some e \<Rightarrow> Inl e | None \<Rightarrow> Inr (text_of (an_out a)))
   }"

definition http_post :: "replies \<Rightarrow> string \<Rightarrow> int \<Rightarrow> json \<Rightarrow> content result os" where
  "http_post orc url timeout body = do {
     a \<leftarrow> ask orc (Post url timeout body);
     ret (case an_err a of Some e \<Rightarrow> Inl e | None \<Rightarrow> Inr (an_out a))
   }"

definition remove_all :: "replies \<Rightarrow> string \<Rightarrow> unit os" where
  "remove_all orc p = do { _ \<leftarrow> os_RemoveAll orc p; ret () }"

text \<open>\<open>PATH\<close> is the daemon's search path, handed to the CNI plugins.\<close>

definition host_services :: "replies \<Rightarrow> string \<Rightarrow> client \<Rightarrow> cni_config option \<Rightarrow> cgroup_mgr option \<Rightarrow> world services" where
  "host_services orc PATH cl net cgr = \<lparr>
     sv_rt = client_runtime orc cl,
     sv_cni = map_option (\<lambda>m. cni_services orc m PATH) net,
     sv_cgroup = map_option (cgroup_services orc) cgr,
     sv_InjectBundleMounts = InjectBundleMounts orc,
     sv_InjectNetNS = InjectNetNS orc,
     sv_MkdirAll = os_MkdirAll orc,
     sv_RemoveAll = remove_all orc,
     sv_Now = os_now orc,
     sv_RSSKB = read_rss orc,
     sv_FDs = count_fds orc,
     sv_Rand = random_bytes orc,
     sv_Getwd = os_getwd orc,
     sv_Post = http_post orc\<rparr>"

section \<open>Starting the daemon\<close>

definition write_pid_file :: "replies \<Rightarrow> config \<Rightarrow> int \<Rightarrow> unit os" where
  "write_pid_file orc c pid =
     (if dc_PIDFile (cfg_Daemon c) = '''' then ret ()
      else do {
        _ \<leftarrow> os_MkdirAll orc (path_dir (dc_PIDFile (cfg_Daemon c)));
        _ \<leftarrow> os_WriteFile orc (dc_PIDFile (cfg_Daemon c)) (Text (itoa pid @ [CHR 0x0A]));
        ret ()
      })"

definition cgroup_manager :: "config \<Rightarrow> cgroup_mgr" where
  "cgroup_manager c = \<lparr>gm_basePath = cg_BasePath (cfg_Cgroup c), gm_prefix = cg_Prefix (cfg_Cgroup c)\<rparr>"

definition init_cgroup :: "replies \<Rightarrow> config \<Rightarrow> cgroup_mgr option os" where
  "init_cgroup orc c =
     (if cfg_ResourceClasses c = [] then ret None
      else do {
        e1 \<leftarrow> DetectV2 orc (cgroup_manager c);
        if_err e1 (\<lambda>_. ret None) (do {
          CleanupStaleSlices orc (cgroup_manager c);
          e2 \<leftarrow> EnsureSlices orc (cgroup_manager c) (cfg_ResourceClasses c);
          if_err e2 (\<lambda>_. ret None) (ret (Some (cgroup_manager c)))
        })
      })"

definition cni_of :: "config \<Rightarrow> cni_config" where
  "cni_of c = \<lparr>cn_PluginDir = nw_PluginDir (cfg_Network c), cn_ConfigDir = nw_ConfigDir (cfg_Network c),
     cn_Bridge = nw_Bridge (cfg_Network c), cn_Subnet = nw_Subnet (cfg_Network c), cn_NetnsDir = ''/var/run/netns''\<rparr>"

definition init_cni :: "replies \<Rightarrow> config \<Rightarrow> cni_config option os" where
  "init_cni orc c =
     (if nw_Mode (cfg_Network c) \<noteq> ''cni'' then ret None
      else do {
        e1 \<leftarrow> ValidatePlugins orc (cni_of c);
        if_err e1 (\<lambda>_. ret None) (do {
          e2 \<leftarrow> EnsureConfig orc (cni_of c);
          if_err e2 (\<lambda>_. ret None) (ret (Some (cni_of c)))
        })
      })"

text \<open>Up to the manager: the configuration and the services, or the exit with status 1.\<close>

definition daemon_setup :: "replies \<Rightarrow> string \<Rightarrow> string \<Rightarrow> int \<Rightarrow> (config \<times> world services) result os" where
  "daemon_setup orc PATH configPath pid = do {
     file \<leftarrow> (if configPath = '''' then ret (Inl not_exist) else os_ReadFile orc configPath);
     (case Load configPath file of
        Inl e \<Rightarrow> ret (Inl e)
      | Inr c \<Rightarrow>
          (case Validate c of
             Some e \<Rightarrow> ret (Inl e)
           | None \<Rightarrow> do {
               write_pid_file orc c pid;
               cgr \<leftarrow> init_cgroup orc c;
               net \<leftarrow> init_cni orc c;
               ret (Inr (c, host_services orc PATH (NewClient (rn_Path (cfg_Runsc c)) (rn_ExtraFlags (cfg_Runsc c))) net cgr))
             }))
   }"

text \<open>The subcommand of the client, if the first argument names one; else the daemon runs.\<close>

definition client_method :: "string list \<Rightarrow> string option" where
  "client_method args =
     (case args of
        _ # m # _ \<Rightarrow> if m \<in> set [''run'', ''execute'', ''complete'', ''status'', ''health'', ''drain''] then Some m else None
      | _ \<Rightarrow> None)"

definition client_socket :: "string \<Rightarrow> string" where
  "client_socket env = (if env \<noteq> '''' then env else ''/run/gvisord/gvisord.sock'')"

section \<open>The client\<close>

datatype client_call =
    Send json
  | Usage string
  | BadParams goerr
  | Panics string

definition request_json :: "string \<Rightarrow> json option \<Rightarrow> json" where
  "request_json m params =
     JObj ((''method'', JStr m) # (case params of None \<Rightarrow> [] | Some p \<Rightarrow> [(''params'', p)]))"

text \<open>What the client sends for a method and its arguments; \<open>text\<close> reads an argument as JSON.\<close>

definition clientMain :: "(string \<Rightarrow> content) \<Rightarrow> string \<Rightarrow> string list \<Rightarrow> client_call" where
  "clientMain text m args =
     (if m = ''run'' then
        (case args of
           wl # js # _ \<Rightarrow>
             (case dec_any_map (text js) of
                Inl e \<Rightarrow> BadParams e
              | Inr None \<Rightarrow> Panics ''assignment to entry in nil map''
              | Inr (Some params) \<Rightarrow>
                  Send (request_json m (Some (sort_json (JObj (AList.update ''workload'' (JStr wl) params))))))
         | _ \<Rightarrow> Usage ''usage: gvisord run <workload> <json_params>'')
      else if m = ''execute'' then
        (case args of
           [] \<Rightarrow> Usage ''usage: gvisord execute <workload> [checkpoint]''
         | [wl] \<Rightarrow> Send (request_json m (Some (JObj [(''workload'', JStr wl)])))
         | wl # ck # _ \<Rightarrow> Send (request_json m (Some (JObj [(''checkpoint'', JStr ck), (''workload'', JStr wl)]))))
      else if m = ''complete'' then
        (case args of
           [] \<Rightarrow> Usage ''usage: gvisord complete <lease_id>''
         | lid # _ \<Rightarrow> Send (request_json m (Some (JObj [(''lease_id'', JStr lid)]))))
      else Send (request_json m None))"

text \<open>What the client does with the answer: it prints the result, or the error and exits with status 1.\<close>

record client_response =
  cr_Result :: "json option"
  cr_Error :: string

definition client_response_fields :: "client_response fields" where
  "client_response_fields =
    [field ''result'' cr_Result cr_Result_update dec_raw,
     field ''error'' cr_Error cr_Error_update dec_string]"

datatype client_outcome = Prints json | FailsWith string

definition client_answer :: "content \<Rightarrow> client_outcome" where
  "client_answer x =
     (case unmarshal (dec_struct client_response_fields) x \<lparr>cr_Result = None, cr_Error = ''''\<rparr> of
        Inl e \<Rightarrow> FailsWith (''error reading response: '' @ err_text e)
      | Inr r \<Rightarrow>
          if cr_Error r \<noteq> '''' then FailsWith (''error: '' @ cr_Error r)
          else Prints (case cr_Result r of None \<Rightarrow> JNull | Some j \<Rightarrow> j))"

section \<open>Stopping the daemon\<close>

text \<open>
  After the signal or the end of \<^verbatim>\<open>Serve\<close>: drain the pools, close the listener, remove the socket,
  and at the return of \<^verbatim>\<open>main\<close> the PID file.
\<close>

definition daemon_end :: "replies \<Rightarrow> config \<Rightarrow> world services \<Rightarrow> (world, unit) prog" where
  "daemon_end orc c V = do {
     manager_Shutdown c V;
     _ \<leftarrow> ext (os_Remove orc (dc_Socket (cfg_Daemon c)));
     if dc_PIDFile (cfg_Daemon c) = '''' then ret ()
     else do { _ \<leftarrow> ext (os_Remove orc (dc_PIDFile (cfg_Daemon c))); ret () }
   }"

section \<open>The whole daemon\<close>

text \<open>
  From the manager's start to the end of \<^verbatim>\<open>main\<close>. \<open>serving\<close> is what the handlers, the lease timers and
  the reapers do to the manager until a signal arrives; when the socket cannot be opened \<^verbatim>\<open>main\<close> goes
  straight to the end. A failing start is \<^verbatim>\<open>os.Exit\<close>: neither \<^verbatim>\<open>Shutdown\<close> nor a deferred call runs.
\<close>

definition daemon_serve :: "replies \<Rightarrow> config \<Rightarrow> world services \<Rightarrow> (world, unit) prog \<Rightarrow> (world, goerr option) prog" where
  "daemon_serve orc c V serving = do {
     e \<leftarrow> manager_Start c V;
     if_err e (\<lambda>e. ret (Some e)) (do {
       e1 \<leftarrow> ext (serve_setup orc (Some (cfg_Daemon c)) (dc_Socket (cfg_Daemon c)));
       if_err e1 (\<lambda>_. ret ()) serving;
       daemon_end orc c V;
       ret None
     })
   }"

definition daemon_main :: "replies \<Rightarrow> string \<Rightarrow> string \<Rightarrow> int \<Rightarrow> (config \<Rightarrow> world services \<Rightarrow> (world, unit) prog)
    \<Rightarrow> goerr option os" where
  "daemon_main orc PATH configPath pid serving = do {
     x \<leftarrow> daemon_setup orc PATH configPath pid;
     (case x of
        Inl e \<Rightarrow> ret (Some e)
      | Inr (c, V) \<Rightarrow>
          State (\<lambda>w. case run_state (daemon_serve orc c V (serving c V)) (NewManager w) of (e, s) \<Rightarrow> (e, mg_world s)))
   }"

end
