(* ===== verification/Host_Frame.thy ===== *)
theory Host_Frame
  imports Frames Daemon
begin

text \<open>
  What the operations on the host leave alone and what they do in any case: \<open>issues m evs\<close> says
  that the events \<open>evs\<close> are among those \<open>m\<close> adds to the trace, in this order, whatever the outside
  answers, and \<open>only ok m\<close> that it adds no others than those \<open>ok\<close> admits.
\<close>

section \<open>Frames\<close>

lemma keeps_ask [frame_rules]: "keeps w_nss (ask orc ev)" "keeps w_fs (ask orc ev)" "keeps w_classes (ask orc ev)"
  by (simp_all add: keeps_def ask_def)

lemma keeps_set_node [frame_rules]: "keeps w_nss (set_node p n)" "keeps w_classes (set_node p n)"
  by (simp_all add: keeps_def set_node_def)

text \<open>Neither the file operations nor the commands touch the address map or the classes.\<close>

lemma keeps_files [frame_rules]:
  "keeps w_nss (os_MkdirAll orc p)" "keeps w_classes (os_MkdirAll orc p)"
  "keeps w_nss (os_ReadFile orc p)" "keeps w_classes (os_ReadFile orc p)"
  "keeps w_nss (os_WriteFile orc p x)" "keeps w_classes (os_WriteFile orc p x)"
  "keeps w_nss (os_Symlink orc t p)" "keeps w_classes (os_Symlink orc t p)"
  "keeps w_nss (os_Remove orc p)" "keeps w_classes (os_Remove orc p)"
  "keeps w_nss (os_RemoveAll orc p)" "keeps w_classes (os_RemoveAll orc p)"
  "keeps w_nss (os_ReadDir orc p)" "keeps w_classes (os_ReadDir orc p)"
  unfolding os_MkdirAll_def os_ReadFile_def os_WriteFile_def os_Symlink_def os_Remove_def os_RemoveAll_def os_ReadDir_def
  by (intro frame_rules keeps_modify; simp split: option.splits node.splits prod.splits; intro conjI impI allI frame_rules keeps_modify; simp)+

lemma keeps_reads [frame_rules]: "keeps w_fs (os_ReadFile orc p)" "keeps w_fs (os_ReadDir orc p)" "keeps w_fs (os_exec orc argv env x)"
    "keeps w_nss (os_exec orc argv env x)" "keeps w_classes (os_exec orc argv env x)"
  unfolding os_ReadFile_def os_ReadDir_def os_exec_def
  by (intro frame_rules; simp split: option.splits node.splits prod.splits; intro conjI impI allI frame_rules)+

text \<open>Running the binary changes no file, address or class of its own.\<close>

lemma keeps_client_run:
  assumes "\<And>ev. keeps f (ask orc ev)" shows "keeps f (client_run orc c root args)"
  unfolding client_run_def temp_file_def drop_temp_def os_exec_def
  by (intro frame_rules assms; simp split: option.splits; intro conjI impI allI frame_rules assms)

lemma keeps_client:
  assumes "\<And>ev. keeps f (ask orc ev)"
  shows "keeps f (client_Create orc c root b i)" "keeps f (client_Restore orc c root b k i)" "keeps f (client_Kill orc c root i sig)"
    "keeps f (client_Delete orc c root i)" "keeps f (client_State orc c root i)" "keeps f (KillProcess orc pid)"
  unfolding client_Create_def client_Restore_def client_Kill_def client_Delete_def client_State_def KillProcess_def
  by (intro frame_rules keeps_client_run assms)+

lemmas keeps_client_parts [frame_rules] = keeps_client [OF keeps_ask(1)] keeps_client [OF keeps_ask(2)] keeps_client [OF keeps_ask(3)]

lemma keeps_bundle [frame_rules]:
  "keeps w_nss (edit_config orc b f)" "keeps w_nss (InjectBundleMounts orc b h k)" "keeps w_nss (InjectNetNS orc b p)"
  "keeps w_nss (PrepareBundle orc b r k)" "keeps w_nss (SentrySlicePath orc m cls i)" "keeps w_nss (PlacePID orc p n)"
  "keeps w_nss (remove_all orc p)" "keeps w_nss (CleanupSentry orc m cls i)"
proof -
  show e: "keeps w_nss (edit_config orc b f)" for f
    unfolding edit_config_def Let_def by (intro frame_rules; simp split: option.splits; intro conjI impI allI frame_rules)
  show "keeps w_nss (InjectBundleMounts orc b h k)" "keeps w_nss (InjectNetNS orc b p)"
    unfolding InjectBundleMounts_def InjectNetNS_def by (intro frame_rules e)+
  show "keeps w_nss (PrepareBundle orc b r k)" "keeps w_nss (SentrySlicePath orc m cls i)" "keeps w_nss (PlacePID orc p n)"
    "keeps w_nss (remove_all orc p)" "keeps w_nss (CleanupSentry orc m cls i)"
    unfolding PrepareBundle_def SentrySlicePath_def PlacePID_def remove_all_def CleanupSentry_def Let_def by (intro frame_rules)+
qed

lemma keeps_filestores [frame_rules]: "keeps w_nss (CleanFilestores orc rootfs)"
proof -
  have "keeps w_nss (remove_filestores orc rootfs es)" for es
    by (induction orc rootfs es rule: remove_filestores.induct) (auto intro!: frame_rules)
  then show ?thesis unfolding CleanFilestores_def by (intro frame_rules)
qed

section \<open>Events that happen in any case\<close>

definition issues :: "'a os \<Rightarrow> event list \<Rightarrow> bool" where
  "issues m evs \<longleftrightarrow> (\<forall>w. \<exists>new. w_trace (snd (run_state m w)) = w_trace w @ new \<and> subseq evs new)"

named_theorems issue_rules \<open>the trace only grows\<close>

lemma issuesD: "issues m evs \<Longrightarrow> run_state m w = (a, w') \<Longrightarrow> \<exists>new. w_trace w' = w_trace w @ new \<and> subseq evs new"
  unfolding issues_def by (metis snd_conv)

lemma issues_ask: "issues (ask orc ev) [ev]"
  by (simp add: issues_def ask_def)

lemma issues_bind:
  assumes "issues m xs" and "\<And>a. issues (g a) ys" shows "issues (m \<bind> g) (xs @ ys)"
  unfolding issues_def
proof
  fix w
  obtain a w1 where m: "run_state m w = (a, w1)" by (cases "run_state m w")
  from issuesD [OF assms(1) m] obtain n1 where n1: "w_trace w1 = w_trace w @ n1" "subseq xs n1" by blast
  obtain b w2 where g: "run_state (g a) w1 = (b, w2)" by (cases "run_state (g a) w1")
  from issuesD [OF assms(2) g] obtain n2 where n2: "w_trace w2 = w_trace w1 @ n2" "subseq ys n2" by blast
  show "\<exists>new. w_trace (snd (run_state (m \<bind> g) w)) = w_trace w @ new \<and> subseq (xs @ ys) new"
    using m g n1 n2 by (auto intro: list_emb_append_mono)
qed

lemma issues_bind_snd: "issues m [] \<Longrightarrow> (\<And>a. issues (g a) ys) \<Longrightarrow> issues (m \<bind> g) ys"
  using issues_bind [of m "[]" g ys] by simp

lemma issues_nil: "issues m xs \<Longrightarrow> issues m []"
  unfolding issues_def by (meson list_emb_Nil)

lemma issues_bind_nil [issue_rules]: "issues m [] \<Longrightarrow> (\<And>a. issues (g a) []) \<Longrightarrow> issues (m \<bind> g) []"
  by (rule issues_bind_snd)

lemma issues_ret [issue_rules]: "issues (ret a) []"
  by (simp add: issues_def)

lemma issues_gets [issue_rules]: "issues (gets f) []"
  by (simp add: issues_def)

lemma issues_modify: "(\<And>w. w_trace (f w) = w_trace w) \<Longrightarrow> issues (modify f) []"
  by (simp add: issues_def)

lemma issues_files_modify [issue_rules]: "issues (modify (\<lambda>w. w\<lparr>w_fs := f w\<rparr>)) []" "issues (modify (\<lambda>w. w\<lparr>w_nss := g w\<rparr>)) []"
    "issues (set_node p n) []"
  unfolding set_node_def by (rule issues_modify; simp)+

lemma issues_if [issue_rules]: "(b \<Longrightarrow> issues m xs) \<Longrightarrow> (\<not> b \<Longrightarrow> issues m' xs) \<Longrightarrow> issues (if b then m else m') xs"
  by simp

lemma issues_option [issue_rules]:
  "issues m xs \<Longrightarrow> (\<And>a. x = Some a \<Longrightarrow> issues (g a) xs) \<Longrightarrow> issues (case x of None \<Rightarrow> m | Some a \<Rightarrow> g a) xs"
  by (cases x) auto

lemma issues_sum [issue_rules]:
  "(\<And>e. x = Inl e \<Longrightarrow> issues (m e) xs) \<Longrightarrow> (\<And>a. x = Inr a \<Longrightarrow> issues (g a) xs) \<Longrightarrow> issues (case x of Inl e \<Rightarrow> m e | Inr a \<Rightarrow> g a) xs"
  by (cases x) auto

lemma issues_prod [issue_rules]: "(\<And>a b. x = (a, b) \<Longrightarrow> issues (g a b) xs) \<Longrightarrow> issues (case x of (a, b) \<Rightarrow> g a b) xs"
  by (cases x) auto

lemma issues_node [issue_rules]:
  "issues m xs \<Longrightarrow> (\<And>x. issues (g x) xs) \<Longrightarrow> (\<And>l. issues (h l) xs) \<Longrightarrow>
     issues (case n of Dir \<Rightarrow> m | File x \<Rightarrow> g x | Link l \<Rightarrow> h l) xs"
  by (cases n) auto

lemma issues_if_err [issue_rules]: "(\<And>x. issues (h x) xs) \<Longrightarrow> issues m xs \<Longrightarrow> issues (if_err e h m) xs"
  by (cases e) auto

lemmas issues_ask_nil [issue_rules] = issues_nil [OF issues_ask]

lemma issues_first: "issues m [ev] \<Longrightarrow> (\<And>a. issues (g a) []) \<Longrightarrow> issues (m \<bind> g) [ev]"
  using issues_bind [of m "[ev]" g "[]"] by simp

lemma issues_files:
  "issues (os_MkdirAll orc p) [Fs (MkdirAll p)]" "issues (os_ReadFile orc p) [Fs (ReadFile p)]"
  "issues (os_WriteFile orc p x) [Fs (WriteFile p x)]" "issues (os_Remove orc p) [Fs (Remove p)]"
  "issues (os_RemoveAll orc p) [Fs (RemoveAll p)]" "issues (os_exec orc argv env inp) [Exec argv env inp]"
  "issues (remove_all orc p) [Fs (RemoveAll p)]"
proof -
  show "issues (os_RemoveAll orc p) [Fs (RemoveAll p)]"
    unfolding os_RemoveAll_def by (rule issues_first [OF issues_ask]) (intro issue_rules)
  then show "issues (remove_all orc p) [Fs (RemoveAll p)]"
    unfolding remove_all_def by (rule issues_first) (intro issue_rules)
  show "issues (os_MkdirAll orc p) [Fs (MkdirAll p)]" "issues (os_ReadFile orc p) [Fs (ReadFile p)]"
    "issues (os_WriteFile orc p x) [Fs (WriteFile p x)]" "issues (os_Remove orc p) [Fs (Remove p)]"
    "issues (os_exec orc argv env inp) [Exec argv env inp]"
    unfolding os_MkdirAll_def os_ReadFile_def os_WriteFile_def os_Remove_def os_exec_def
    by (rule issues_first [OF issues_ask], (intro issue_rules | simp split: option.splits node.splits; intro conjI impI allI)+)+
qed

lemmas issues_files_nil [issue_rules] = issues_files [THEN issues_nil]

lemma issues_client_run [issue_rules]: "issues (client_run orc c root args) []"
  unfolding client_run_def temp_file_def drop_temp_def os_exec_def
  by (intro issue_rules; simp split: option.splits; intro conjI impI allI issue_rules)

lemma issues_client [issue_rules]:
  "issues (client_Kill orc c root i sig) []" "issues (client_Delete orc c root i) []" "issues (KillProcess orc pid) []"
  "issues (CleanupSentry orc m cls i) []" "issues (runCNI orc k pl cf env) []" "issues (runIP orc a) []"
  unfolding client_Kill_def client_Delete_def KillProcess_def CleanupSentry_def runCNI_def runIP_def
  by (intro issue_rules)+

section \<open>Events that never happen\<close>

definition only :: "(event \<Rightarrow> bool) \<Rightarrow> 'a os \<Rightarrow> bool" where
  "only ok m \<longleftrightarrow> (\<forall>w. \<exists>new. w_trace (snd (run_state m w)) = w_trace w @ new \<and> list_all ok new)"

named_theorems only_rules \<open>which events an operation can add to the trace\<close>

lemma onlyD: "only ok m \<Longrightarrow> run_state m w = (a, w') \<Longrightarrow> \<exists>new. w_trace w' = w_trace w @ new \<and> list_all ok new"
  unfolding only_def by (metis snd_conv)

lemma only_ask [only_rules]: "ok ev \<Longrightarrow> only ok (ask orc ev)"
  by (simp add: only_def ask_def)

lemma only_bind [only_rules]:
  assumes "only ok m" and "\<And>a. only ok (g a)" shows "only ok (m \<bind> g)"
  unfolding only_def
proof
  fix w
  obtain a w1 where m: "run_state m w = (a, w1)" by (cases "run_state m w")
  from onlyD [OF assms(1) m] obtain n1 where n1: "w_trace w1 = w_trace w @ n1" "list_all ok n1" by blast
  obtain b w2 where g: "run_state (g a) w1 = (b, w2)" by (cases "run_state (g a) w1")
  from onlyD [OF assms(2) g] obtain n2 where n2: "w_trace w2 = w_trace w1 @ n2" "list_all ok n2" by blast
  show "\<exists>new. w_trace (snd (run_state (m \<bind> g) w)) = w_trace w @ new \<and> list_all ok new"
    using m g n1 n2 by auto
qed

lemma only_ret [only_rules]: "only ok (ret a)"
  by (simp add: only_def)

lemma only_gets [only_rules]: "only ok (gets f)"
  by (simp add: only_def)

lemma only_modify: "(\<And>w. w_trace (f w) = w_trace w) \<Longrightarrow> only ok (modify f)"
  by (simp add: only_def)

lemma only_files_modify [only_rules]: "only ok (modify (\<lambda>w. w\<lparr>w_fs := f w\<rparr>))" "only ok (modify (\<lambda>w. w\<lparr>w_nss := g w\<rparr>))"
    "only ok (modify (\<lambda>w. w\<lparr>w_classes := h w\<rparr>))" "only ok (set_node p n)"
  unfolding set_node_def by (rule only_modify; simp)+

lemma only_if [only_rules]: "(b \<Longrightarrow> only ok m) \<Longrightarrow> (\<not> b \<Longrightarrow> only ok m') \<Longrightarrow> only ok (if b then m else m')"
  by simp

lemma only_option [only_rules]:
  "only ok m \<Longrightarrow> (\<And>a. x = Some a \<Longrightarrow> only ok (g a)) \<Longrightarrow> only ok (case x of None \<Rightarrow> m | Some a \<Rightarrow> g a)"
  by (cases x) auto

lemma only_sum [only_rules]:
  "(\<And>e. x = Inl e \<Longrightarrow> only ok (m e)) \<Longrightarrow> (\<And>a. x = Inr a \<Longrightarrow> only ok (g a)) \<Longrightarrow> only ok (case x of Inl e \<Rightarrow> m e | Inr a \<Rightarrow> g a)"
  by (cases x) auto

lemma only_prod [only_rules]: "(\<And>a b. x = (a, b) \<Longrightarrow> only ok (g a b)) \<Longrightarrow> only ok (case x of (a, b) \<Rightarrow> g a b)"
  by (cases x) auto

lemma only_node [only_rules]:
  "only ok m \<Longrightarrow> (\<And>x. only ok (g x)) \<Longrightarrow> (\<And>l. only ok (h l)) \<Longrightarrow>
     only ok (case n of Dir \<Rightarrow> m | File x \<Rightarrow> g x | Link l \<Rightarrow> h l)"
  by (cases n) auto

lemma only_if_err [only_rules]: "(\<And>x. only ok (h x)) \<Longrightarrow> only ok m \<Longrightarrow> only ok (if_err e h m)"
  by (cases e) auto

lemma only_files [only_rules]:
  "ok (Fs (MkdirAll p)) \<Longrightarrow> only ok (os_MkdirAll orc p)" "ok (Fs (ReadFile p)) \<Longrightarrow> only ok (os_ReadFile orc p)"
  "ok (Fs (WriteFile p x)) \<Longrightarrow> only ok (os_WriteFile orc p x)" "ok (Fs (Remove p)) \<Longrightarrow> only ok (os_Remove orc p)"
  "ok (Fs (RemoveAll p)) \<Longrightarrow> only ok (os_RemoveAll orc p)" "ok (Exec argv env inp) \<Longrightarrow> only ok (os_exec orc argv env inp)"
  "ok (Fs (RemoveAll p)) \<Longrightarrow> only ok (remove_all orc p)" "ok (Fs (ReadDir p)) \<Longrightarrow> only ok (os_ReadDir orc p)"
  unfolding os_MkdirAll_def os_ReadFile_def os_WriteFile_def os_Remove_def os_RemoveAll_def os_exec_def remove_all_def os_ReadDir_def
  by (assumption | intro only_rules | simp split: option.splits node.splits; intro conjI impI allI)+

text \<open>The client starts the binary it was given and nothing else.\<close>

definition runs_only :: "string \<Rightarrow> event \<Rightarrow> bool" where
  "runs_only bin ev = (case ev of Exec argv env x \<Rightarrow> hd argv = bin | _ \<Rightarrow> True)"

lemma runs_only_simps [simp]: "runs_only bin (Exec argv env x) = (hd argv = bin)" "runs_only bin (Fs op)"
    "runs_only bin (SigKill p)"
  by (simp_all add: runs_only_def)

lemma only_client_run [only_rules]: "only (runs_only (cl_binPath c)) (client_run orc c root args)"
  unfolding client_run_def temp_file_def drop_temp_def run_argv_def
  by (intro only_rules; simp split: option.splits; intro conjI impI allI only_rules)

lemma only_client [only_rules]:
  "only (runs_only (cl_binPath c)) (client_Create orc c root b i)" "only (runs_only (cl_binPath c)) (client_Restore orc c root b k i)"
  "only (runs_only (cl_binPath c)) (client_Kill orc c root i sig)" "only (runs_only (cl_binPath c)) (client_Delete orc c root i)"
  "only (runs_only (cl_binPath c)) (client_State orc c root i)" "only (runs_only bin) (KillProcess orc pid)"
  unfolding client_Create_def client_Restore_def client_Kill_def client_Delete_def client_State_def KillProcess_def
  by (intro only_rules; simp)+

end
