(* ===== verification/Network_Properties.thy ===== *)
theory Network_Properties
  imports Host_Frame Demo_Services
begin

text \<open>
  What a sentry's end gives back: \<^verbatim>\<open>Pool.cleanup\<close> on the daemon's own services, the network
  namespaces of \<^verbatim>\<open>internal/cni/cni.go\<close>, and what a failed spawn leaves behind.
\<close>

section \<open>Namespaces\<close>

lemma cleanupNetNS_frame [frame_rules]: "keeps w_nss (cleanupNetNS orc m PATH i)"
  unfolding cleanupNetNS_def runCNI_def runIP_def Let_def
  by (intro frame_rules)

definition netns_delete :: "string \<Rightarrow> event" where
  "netns_delete i = Exec [''ip'', ''netns'', ''delete'', i] [] (Text '''')"

lemma issues_runIP: "issues (runIP orc args) [Exec (''ip'' # args) [] (Text '''')]"
  unfolding runIP_def by (rule issues_first [OF issues_files(6)]) (intro issue_rules)

lemma issues_cleanupNetNS: "issues (cleanupNetNS orc m PATH i) [netns_delete i]"
  unfolding cleanupNetNS_def Let_def netns_delete_def
  by (rule issues_bind_snd issue_rules issues_first [OF issues_runIP])+

lemma issues_DeleteNetNS: "issues (DeleteNetNS orc m PATH i) [netns_delete i]"
  unfolding DeleteNetNS_def by (rule issues_first [OF issues_cleanupNetNS]) (intro issue_rules)

lemma DeleteNetNS_nss:
  "run_state (DeleteNetNS orc m PATH i) w = (u, w') \<Longrightarrow> w_nss w' = AList.delete i (w_nss w)"
  unfolding DeleteNetNS_def by (auto split: prod.splits dest!: keepsD [OF cleanupNetNS_frame])

lemma keeps_cni: "keeps w_nss (runIP orc args)" "keeps w_nss (runCNI orc m pl cf env)"
  unfolding runIP_def runCNI_def by (intro frame_rules)+


text \<open>
  C19: a namespace is made completely or not at all. When \<^verbatim>\<open>CreateNetNS\<close> succeeds, the manager
  remembers for the sentry exactly the address it answered; when it fails, the map is as before,
  and if the namespace itself had been added, its deletion has been run.
\<close>

theorem CreateNetNS_all_or_nothing:
  "case run_state (CreateNetNS orc m PATH i) w of
     (Inr (ip, path), w') \<Rightarrow> w_nss w' = AList.update i ip (w_nss w) \<and> path = path_join [cn_NetnsDir m, i]
   | (Inl e, w') \<Rightarrow> w_nss w' = w_nss w \<and>
       (fst (run_state (runIP orc [''netns'', ''add'', i]) w) = None \<longrightarrow> netns_delete i \<in> set (w_trace w'))"
proof -
  have d: "netns_delete i \<in> set (w_trace w2)" if "run_state (cleanupNetNS orc m PATH i) w1 = (u, w2)" for w1 w2 u
    using issuesD [OF issues_cleanupNetNS that] by (auto simp: subseq_singleton_left)
  show ?thesis
    unfolding CreateNetNS_def Let_def
    by (auto simp: if_err_def split: prod.splits option.splits sum.splits
        dest!: keepsD [OF keeps_cni(1)] keepsD [OF keeps_cni(2)] dest: d keepsD [OF cleanupNetNS_frame])
qed

definition all_good :: replies where
  "all_good tr ev = \<lparr>an_err = None, an_out = Doc (JObj []), an_num = 0, an_bytes = []\<rparr>"

definition demo_net :: cni_config where
  "demo_net = \<lparr>cn_PluginDir = ''/p'', cn_ConfigDir = ''/k'', cn_Bridge = ''b'', cn_Subnet = '''', cn_NetnsDir = ''/n''\<rparr>"

definition empty_world :: world where
  "empty_world = \<lparr>w_fs = [], w_trace = [], w_nss = [], w_classes = []\<rparr>"

theorem CreateNetNS_all_or_nothing_witness:
  "netns_delete ''a'' \<in> set (w_trace (snd (run_state (CreateNetNS all_good demo_net '''' ''a'') empty_world)))"
proof -
  let ?run = "run_state (CreateNetNS all_good demo_net '''' ''a'') empty_world"
  have "case fst ?run of Inl e \<Rightarrow> True | Inr x \<Rightarrow> False" by code_simp
  then obtain e where "fst ?run = Inl e" by (auto split: sum.splits)
  then have "?run = (Inl e, snd ?run)" by (metis prod.collapse)
  moreover have "fst (run_state (runIP all_good [''netns'', ''add'', ''a'']) empty_world) = None" by code_simp
  ultimately show ?thesis
    using CreateNetNS_all_or_nothing [where orc = all_good and m = demo_net and PATH = "''''" and i = "''a''" and w = empty_world]
    by (auto split: prod.splits sum.splits)
qed

section \<open>Cleaning up\<close>

lemma issues_KillProcess: "0 < pid \<Longrightarrow> issues (KillProcess orc pid) [SigKill pid]"
  unfolding KillProcess_def by simp (rule issues_first [OF issues_ask]; intro issue_rules)

definition last_words :: "sentry \<Rightarrow> event list" where
  "last_words s = (if 0 < s_PID s then [SigKill (s_PID s)] else []) @ [netns_delete (s_ID s), Fs (RemoveAll (path_dir (s_RootDir s)))]"

lemma issues_cleanup:
  "issues (cleanup (host_services orc PATH cl (Some m) cgr) s) (last_words s)"
proof -
  let ?K = "if 0 < s_PID s then [SigKill (s_PID s)] else []"
  have k: "issues (KillProcess orc (s_PID s)) ?K" by (auto intro: issues_KillProcess issue_rules)
  have "issues (cleanup (host_services orc PATH cl (Some m) cgr) s)
      ([] @ [] @ ?K @ [netns_delete (s_ID s)] @ [] @ [Fs (RemoveAll (path_dir (s_RootDir s)))])"
    unfolding cleanup_def host_services_def
    by (simp only: services.simps client_runtime_def runtime.simps cni_services_def netns.simps option.map option.case)
      (intro issues_bind k issues_DeleteNetNS issues_files issue_rules; auto simp: cgroup_services_def issue_rules)
  then show ?thesis by (simp add: last_words_def)
qed

lemma run_remove_all:
  "run_state (remove_all orc p) w = (u, w') \<Longrightarrow>
     w_nss w' = w_nss w \<and>
     (an_err (orc (w_trace w) (Fs (RemoveAll p))) = None \<longrightarrow>
        w_fs w' = filter (\<lambda>(q, _). \<not> (q = p \<or> below p q)) (w_fs w))"
  by (auto simp: remove_all_def os_RemoveAll_def ask_def split: option.splits prod.splits)

lemma cleanup_nss:
  assumes "run_state (cleanup (host_services orc PATH cl (Some m) cgr) s) w = (u, w')"
  shows "w_nss w' = AList.delete (s_ID s) (w_nss w)"
  using assms
  by (cases cgr)
    (auto simp: cleanup_def host_services_def client_runtime_def cni_services_def cgroup_services_def
      split: prod.splits if_splits dest!: DeleteNetNS_nss run_remove_all keepsD [OF keeps_bundle(8)]
        keepsD [OF keeps_client(3) [OF keeps_ask(1)]] keepsD [OF keeps_client(4) [OF keeps_ask(1)]] keepsD [OF keeps_client(6) [OF keeps_ask(1)]])

text \<open>
  C20: cleaning up a sentry gives everything back, whatever fails on the way. The address of
  exactly this sentry leaves the map, and, in this order, its process is killed if it has one, its
  namespace is deleted and its directory is removed.
\<close>

theorem cleanup_gives_back:
  assumes "run_state (cleanup (host_services orc PATH cl (Some m) cgr) s) w = (u, w')"
  shows "map_of (w_nss w') = (map_of (w_nss w))(s_ID s := None) \<and>
    (\<exists>new. w_trace w' = w_trace w @ new \<and> subseq (last_words s) new)"
  using cleanup_nss [OF assms] issuesD [OF issues_cleanup assms] by (simp add: delete_conv')

definition demo_sentry :: sentry where
  "demo_sentry = \<lparr>s_ID = ''a'', s_PID = 7, s_RootDir = ''/w/a/root'', s_BundleDir = ''/w/a/bundle'', s_State = StateDraining,
     s_Restores = 0, s_Created = None, s_LastReset = None, s_LastUsed = None, s_BaseRSSKB = 0, s_IP = ''10.0.0.2'',
     s_NetnsPath = ''/n/a'', s_ResourceClass = '''', s_LeaseID = ''''\<rparr>"

theorem cleanup_gives_back_witness:
  "subseq [SigKill 7, netns_delete ''a'', Fs (RemoveAll ''/w/a'')]
     (w_trace (snd (run_state (cleanup (host_services all_good '''' (NewClient ''runsc'' []) (Some demo_net) None) demo_sentry) empty_world)))"
proof -
  let ?r = "run_state (cleanup (host_services all_good '''' (NewClient ''runsc'' []) (Some demo_net) None) demo_sentry) empty_world"
  have w: "last_words demo_sentry = [SigKill 7, netns_delete ''a'', Fs (RemoveAll ''/w/a'')]" by code_simp
  have "?r = (fst ?r, snd ?r)" by (rule prod.collapse [symmetric])
  from cleanup_gives_back [OF this] show ?thesis by (auto simp: w empty_world_def)
qed

section \<open>A failed spawn\<close>













end
