(* ===== verification/Bundle_Properties.thy ===== *)
theory Bundle_Properties
  imports Host_Frame
begin

text \<open>
  What the bundle functions of \<^verbatim>\<open>internal/runsc/runsc.go\<close> do to a container's \<^verbatim>\<open>config.json\<close> and to
  the root file system: the edited document as runsc reads it, everything else unchanged.
\<close>

section \<open>Sorted documents\<close>

text \<open>Sorting the members of an object changes no lookup.\<close>

lemma string_le_refl [simp]: "string_le s s"
  by (induction s) auto

lemma map_of_insert_member:
  "map_of (insert_member (k, x) ms) k' = (if k' = k then Some x else map_of ms k')"
  by (induction ms) auto

lemma map_of_sort_members: "map_of (sort_members ms) k = map_option sort_json (map_of ms k)"
  by (induction ms) (auto simp: map_of_insert_member)


lemma sort_json_JStr: "sort_json x = JStr s \<longleftrightarrow> x = JStr s"
  by (cases x) auto

lemma is_network_sort [simp]: "is_network (sort_json x) = is_network x"
  by (cases x) (auto simp: is_network_def map_of_sort_members sort_json_JStr)












section \<open>The network namespace\<close>













definition yes :: replies where
  "yes tr ev = \<lparr>an_err = None, an_out = Doc JNull, an_num = 0, an_bytes = []\<rparr>"


section \<open>Mounts\<close>





section \<open>Filestores\<close>

definition is_filestore :: "string \<Rightarrow> (string \<times> bool) list \<Rightarrow> string \<Rightarrow> bool" where
  "is_filestore rootfs es p \<longleftrightarrow> (\<exists>(name, d) \<in> set es. has_prefix name ''.gvisor'' \<and> p = path_join [rootfs, name])"

lemma os_Remove_nodes:
  "run_state (os_Remove orc q) w = (e, w') \<Longrightarrow> p \<noteq> q \<or> node_at w' p = node_at w p \<or> node_at w' p = None"
  "run_state (os_Remove orc q) w = (e, w') \<Longrightarrow> p \<noteq> q \<Longrightarrow> node_at w' p = node_at w p"
  by (auto simp: os_Remove_def ask_def node_at_def delete_conv' split: option.splits if_splits)

lemma os_Remove_gone:
  "run_state (os_Remove orc q) w = (e, w') \<Longrightarrow> (\<And>tr ev. an_err (orc tr ev) = None) \<Longrightarrow> node_at w q \<noteq> Some Dir \<Longrightarrow> node_at w' q = None"
  by (auto simp: os_Remove_def ask_def node_at_def delete_conv' split: option.splits if_splits)

lemma remove_filestores_frame:
  "run_state (remove_filestores orc rootfs es) w = (u, w') \<Longrightarrow>
     node_at w' p = node_at w p \<or> node_at w' p = None \<and> is_filestore rootfs es p"
proof (induction orc rootfs es arbitrary: w rule: remove_filestores.induct)
  case (2 orc rootfs name d es)
  show ?case
  proof (cases "has_prefix name ''.gvisor''")
    case False
    with "2.prems" have "run_state (remove_filestores orc rootfs es) w = (u, w')" by simp
    from "2.IH" [OF this] show ?thesis by (auto simp: is_filestore_def)
  next
    case True
    obtain e w1 where r: "run_state (os_Remove orc (path_join [rootfs, name])) w = (e, w1)" by fastforce
    with True "2.prems" have "run_state (remove_filestores orc rootfs es) w1 = (u, w')" by simp
    from "2.IH" [OF this] os_Remove_nodes [OF r, of p] True show ?thesis
      by (cases "p = path_join [rootfs, name]") (auto simp: is_filestore_def)
  qed
qed simp

lemma remove_filestores_gone:
  "run_state (remove_filestores orc rootfs es) w = (u, w') \<Longrightarrow> (\<And>tr ev. an_err (orc tr ev) = None) \<Longrightarrow>
     is_filestore rootfs es p \<Longrightarrow> node_at w p \<noteq> Some Dir \<Longrightarrow> node_at w' p = None"
proof (induction orc rootfs es arbitrary: w rule: remove_filestores.induct)
  case (2 orc rootfs name d es)
  show ?case
  proof (cases "has_prefix name ''.gvisor''")
    case False
    with "2.prems" have "run_state (remove_filestores orc rootfs es) w = (u, w')" "is_filestore rootfs es p" by (auto simp: is_filestore_def)
    from "2.IH" [OF this(1) "2.prems"(2) this(2)] "2.prems"(4) show ?thesis .
  next
    case True
    obtain e w1 where r: "run_state (os_Remove orc (path_join [rootfs, name])) w = (e, w1)" by fastforce
    with True "2.prems"(1) have rest: "run_state (remove_filestores orc rootfs es) w1 = (u, w')" by simp
    show ?thesis
    proof (cases "p = path_join [rootfs, name]")
      case True
      with os_Remove_gone [OF r "2.prems"(2)] "2.prems"(4) have "node_at w1 p = None" by simp
      with remove_filestores_frame [OF rest, of p] show ?thesis by auto
    next
      case False
      with "2.prems"(3) have "is_filestore rootfs es p" by (auto simp: is_filestore_def)
      moreover have "node_at w1 p \<noteq> Some Dir" using os_Remove_nodes(2) [OF r False] "2.prems"(4) by simp
      ultimately show ?thesis using "2.IH" [OF rest "2.prems"(2)] by blast
    qed
  qed
qed (simp add: is_filestore_def)

text \<open>
  \<^verbatim>\<open>CleanFilestores\<close> removes the filestores and nothing else. Only entries of the root file
  system whose names start with \<^verbatim>\<open>.gvisor\<close> can disappear; and when the host lets every call
  succeed, none of them that is no directory is left.
\<close>

theorem CleanFilestores_exact:
  assumes "run_state (CleanFilestores orc rootfs) w = (u, w')"
  shows "(\<forall>p. \<not> is_filestore rootfs (entries_of rootfs (w_fs w)) p \<longrightarrow> node_at w' p = node_at w p) \<and>
    ((\<forall>tr ev. an_err (orc tr ev) = None) \<and> node_at w rootfs = Some Dir \<longrightarrow>
      (\<forall>p. is_filestore rootfs (entries_of rootfs (w_fs w)) p \<and> node_at w p \<noteq> Some Dir \<longrightarrow> node_at w' p = None))"
proof -
  obtain x w1 where r: "run_state (os_ReadDir orc rootfs) w = (x, w1)" by fastforce
  have same: "w_fs w1 = w_fs w" using keepsD [OF keeps_reads(2) r] .
  then have nodes: "node_at w1 p = node_at w p" for p by (simp add: node_at_def)
  show ?thesis
  proof (cases x)
    case (Inl e)
    with assms r have "w' = w1" by (simp add: CleanFilestores_def)
    moreover have "\<not> ((\<forall>tr ev. an_err (orc tr ev) = None) \<and> node_at w rootfs = Some Dir)"
      using r Inl by (auto simp: os_ReadDir_def ask_def node_at_def split: option.splits)
    ultimately show ?thesis using nodes by blast
  next
    case (Inr es)
    with assms r have rest: "run_state (remove_filestores orc rootfs es) w1 = (u, w')" by (simp add: CleanFilestores_def)
    have es: "es = entries_of rootfs (w_fs w)"
      using r Inr by (auto simp: os_ReadDir_def ask_def split: option.splits if_splits)
    show ?thesis
      using remove_filestores_frame [OF rest] remove_filestores_gone [OF rest] nodes unfolding es by metis
  qed
qed

definition rootfs_world :: world where
  "rootfs_world = \<lparr>w_fs = [(''/f'', Dir), (''/f/.gvisor.filestore.1'', File (Text '''')), (''/f/bin'', Dir)], w_trace = [], w_nss = [], w_classes = []\<rparr>"

theorem CleanFilestores_exact_witness:
  "node_at (snd (run_state (CleanFilestores yes ''/f'') rootfs_world)) ''/f/bin'' = Some Dir \<and>
   node_at (snd (run_state (CleanFilestores yes ''/f'') rootfs_world)) ''/f/.gvisor.filestore.1'' = None"
proof -
  let ?r = "run_state (CleanFilestores yes ''/f'') rootfs_world"
  have es: "entries_of ''/f'' (w_fs rootfs_world) = [(''.gvisor.filestore.1'', False), (''bin'', True)]"
    and j: "path_join [''/f'', ''.gvisor.filestore.1''] = ''/f/.gvisor.filestore.1''" and b: "has_prefix ''bin'' ''.gvisor'' = False"
    "has_prefix ''.gvisor.filestore.1'' ''.gvisor''"
    by code_simp+
  have "?r = (fst ?r, snd ?r)" by (rule prod.collapse [symmetric])
  note exact = CleanFilestores_exact [OF this, unfolded es]
  have yes: "\<forall>tr ev. an_err (yes tr ev) = None" "node_at rootfs_world ''/f'' = Some Dir"
    by (simp_all add: yes_def node_at_def rootfs_world_def)
  from exact have same: "\<not> is_filestore ''/f'' [(''.gvisor.filestore.1'', False), (''bin'', True)] p \<Longrightarrow>
      node_at (snd ?r) p = node_at rootfs_world p" for p by blast
  from exact yes have gone: "is_filestore ''/f'' [(''.gvisor.filestore.1'', False), (''bin'', True)] p \<Longrightarrow>
      node_at rootfs_world p \<noteq> Some Dir \<Longrightarrow> node_at (snd ?r) p = None" for p by blast
  from same [of "''/f/bin''"] gone [of "''/f/.gvisor.filestore.1''"] show ?thesis
    by (simp add: is_filestore_def b j node_at_def rootfs_world_def)
qed

end
