(* ===== verification/Cgroup_Properties.thy ===== *)
theory Cgroup_Properties
  imports Host_Frame Pool_Ops Config_Properties
begin

text \<open>
  The names under which a sentry's resources are kept: its cgroup below the slice of its resource
  class (\<^verbatim>\<open>internal/cgroup/cgroup.go\<close>) and its directory below the work directory
  (\<^verbatim>\<open>internal/pool/pool.go\<close>).
\<close>

section \<open>Joined paths\<close>

lemma clean_elems_child:
  assumes "is_abs d" and "good_elem x" and "x \<noteq> ''..''"
  shows "clean_elems (path_join [d, x]) = clean_elems d @ [x]" and "is_abs (path_join [d, x])"
proof -
  have d: "d \<noteq> []" using assms(1) by (auto simp: is_abs_def has_prefix_def)
  then have j: "path_join [d, x] = path_clean (d @ ''/'' @ x)" using assms(2) by (simp add: path_join_def good_elem_def)
  have a: "is_abs (d @ ''/'' @ x)" using assms(1) d by (cases d) (auto simp: is_abs_def has_prefix_def)
  have "split_slash (d @ CHR ''/'' # x) = split_slash d @ [x]"
    using assms(2) by (simp add: split_slash_append split_slash_elem good_elem_def)
  moreover have "clean_push True st x = x # st" for st using assms(2,3) by (simp add: clean_push_def good_elem_def)
  ultimately have "clean_elems (d @ CHR ''/'' # x) = clean_elems d @ [x]"
    using assms(1) a by (simp add: clean_elems_def)
  with a show "clean_elems (path_join [d, x]) = clean_elems d @ [x]" "is_abs (path_join [d, x])"
    by (simp_all add: j clean_elems_clean)
qed

section \<open>Cgroups\<close>

lemma sanitize_good: "i \<noteq> '''' \<Longrightarrow> good_elem (sanitize i) \<and> sanitize i \<noteq> ''..''"
proof -
  have c: "sanitize_char c \<noteq> CHR ''/''" "sanitize_char c \<noteq> CHR ''.''" for c by (auto simp: sanitize_char_def)
  then have "CHR ''/'' \<notin> set (sanitize i)" "CHR ''.'' \<notin> set (sanitize i)" by (auto simp: sanitize_def) metis+
  moreover assume "i \<noteq> ''''"
  ultimately show ?thesis by (auto simp: good_elem_def sanitize_def)
qed

lemma sanitize_append: "sanitize (a @ b) = sanitize a @ sanitize b"
  by (simp add: sanitize_def)

lemma sanitize_Cons: "sanitize (c # s) = sanitize_char c # sanitize s"
  by (simp add: sanitize_def)

lemma sanitize_nat_str [simp]: "sanitize (nat_str n) = nat_str n"
proof -
  have "sanitize_char c = c" if "c \<in> set (nat_str n)" for c
    using that set_nat_str [of n] by (auto simp: sanitize_char_def)
  then show ?thesis by (simp add: sanitize_def map_idI)
qed

text \<open>
  C35: a sentry's cgroup is its own and lies directly in the slice of its class. Whatever bytes the
  ID has, slashes and dots included, the path has exactly one element more than the slice, and two
  sentries of one pool never share it.
\<close>

theorem sentry_cgroup_own_child:
  assumes "is_abs (slicePath m cls)" and "sentryID \<noteq> ''''"
  shows "clean_elems (sentry_cgroup m cls sentryID) = clean_elems (slicePath m cls) @ [sanitize sentryID] \<and>
    (sentry_cgroup m cls (sentry_id nm i) = sentry_cgroup m cls (sentry_id nm j) \<longleftrightarrow> i = j)"
proof -
  have child: "clean_elems (sentry_cgroup m cls x) = clean_elems (slicePath m cls) @ [sanitize x]" if "x \<noteq> ''''" for x
    using clean_elems_child [OF assms(1)] sanitize_good [OF that] by (simp add: sentry_cgroup_def)
  have "sanitize (sentry_id nm i) = sanitize (sentry_id nm j) \<longleftrightarrow> i = j"
    by (simp add: sentry_id_def sanitize_append sanitize_Cons)
  moreover have "sentry_id nm k \<noteq> ''''" for k by (simp add: sentry_id_def)
  ultimately show ?thesis using child assms(2) by (metis last_snoc)
qed

theorem sentry_cgroup_own_child_witness:
  "clean_elems (sentry_cgroup \<lparr>gm_basePath = ''/sys/fs/cgroup'', gm_prefix = ''gvisord''\<rparr> ''small'' ''../../x'') =
     [''sys'', ''fs'', ''cgroup'', ''gvisord-small.slice'', ''------x'']"
proof -
  let ?m = "\<lparr>gm_basePath = ''/sys/fs/cgroup'', gm_prefix = ''gvisord''\<rparr>"
  have a: "is_abs (slicePath ?m ''small'')" by code_simp
  have "clean_elems (slicePath ?m ''small'') = [''sys'', ''fs'', ''cgroup'', ''gvisord-small.slice'']" "sanitize ''../../x'' = ''------x''" by code_simp+
  with sentry_cgroup_own_child [OF a, of "''../../x''"] show ?thesis by simp
qed

section \<open>Colliding names\<close>

definition colliding_config :: config where
  "colliding_config = default_config\<lparr>
     cfg_ResourceClasses := [\<lparr>rc_Name = ''c'', rc_CPUMillis = 500, rc_MemoryMB = 512\<rparr>, \<lparr>rc_Name = ''b-c'', rc_CPUMillis = 500, rc_MemoryMB = 512\<rparr>],
     cfg_Templates := [(''a-b'', \<lparr>tm_Rootfs = ''/i'', tm_Checkpoint = ''/k'',
         tm_Pools = [\<lparr>pc_ResourceClass = ''c'', pc_PoolSize = 1, pc_MaxPending = 0, pc_PreRestore = True\<rparr>]\<rparr>),
       (''a'', \<lparr>tm_Rootfs = ''/i'', tm_Checkpoint = ''/k'',
         tm_Pools = [\<lparr>pc_ResourceClass = ''b-c'', pc_PoolSize = 1, pc_MaxPending = 0, pc_PreRestore = True\<rparr>]\<rparr>)]\<rparr>"

text \<open>
  C36: sentries of different pools can collide. There is a valid configuration with two workloads
  whose sentries get the same IDs, hence the same directory, root and namespace, because the slash
  of the workload's name becomes a dash that the names themselves may contain.
\<close>

theorem sentry_ids_collide:
  "Validate colliding_config = None \<and> map fst (Workloads colliding_config) = [''a-b/c'', ''a/b-c''] \<and>
   sentry_id ''a-b/c'' n = sentry_id ''a/b-c'' n \<and>
   root_dir colliding_config (sentry_id ''a-b/c'' n) = root_dir colliding_config (sentry_id ''a/b-c'' n)"
proof -
  have "Validate colliding_config = None" "map fst (Workloads colliding_config) = [''a-b/c'', ''a/b-c'']"
    "safe_name ''a-b/c'' = safe_name ''a/b-c''" by code_simp+
  then show ?thesis by (simp add: sentry_id_def)
qed

section \<open>Limits\<close>

definition slice_events :: "cgroup_mgr \<Rightarrow> resource_class \<Rightarrow> event list" where
  "slice_events m cls =
     [Fs (MkdirAll (slicePath m (rc_Name cls))),
      Fs (WriteFile (path_join [slicePath m (rc_Name cls), ''cpu.max'']) (Text (cpu_max_text (rc_CPUMillis cls)))),
      Fs (WriteFile (path_join [slicePath m (rc_Name cls), ''memory.max'']) (Text (memory_max_text (rc_MemoryMB cls))))]"

lemma run_MkdirAll_trace: "run_state (os_MkdirAll orc p) w = (e, w') \<Longrightarrow> w_trace w' = w_trace w @ [Fs (MkdirAll p)] \<and> w_classes w' = w_classes w"
  by (auto simp: os_MkdirAll_def ask_def split: option.splits)

lemma run_WriteFile_trace: "run_state (os_WriteFile orc p x) w = (e, w') \<Longrightarrow> w_trace w' = w_trace w @ [Fs (WriteFile p x)] \<and> w_classes w' = w_classes w"
  by (auto simp: os_WriteFile_def ask_def set_node_def split: option.splits if_splits)

lemma EnsureSlices_trace:
  "run_state (EnsureSlices orc m classes) w = (r, w') \<Longrightarrow>
     (\<exists>new. w_trace w' = w_trace w @ new \<and> prefix new (concat (map (slice_events m) classes)) \<and>
        (r = None \<longrightarrow> new = concat (map (slice_events m) classes) \<and>
           w_classes w' = foldl (\<lambda>cs c. AList.update (rc_Name c) c cs) (w_classes w) classes))"
proof (induction orc m classes arbitrary: w rule: EnsureSlices.induct)
  case (2 orc m cls rest)
  let ?w = "w\<lparr>w_classes := AList.update (rc_Name cls) cls (w_classes w)\<rparr>"
  obtain e1 w1 where r1: "run_state (os_MkdirAll orc (slicePath m (rc_Name cls))) ?w = (e1, w1)" by fastforce
  obtain e2 w2 where r2: "run_state (writeCPUMax orc (slicePath m (rc_Name cls)) (rc_CPUMillis cls)) w1 = (e2, w2)" by fastforce
  obtain e3 w3 where r3: "run_state (writeMemoryMax orc (slicePath m (rc_Name cls)) (rc_MemoryMB cls)) w2 = (e3, w3)" by fastforce
  note traces = run_MkdirAll_trace [OF r1] run_WriteFile_trace [OF r2 [unfolded writeCPUMax_def]] run_WriteFile_trace [OF r3 [unfolded writeMemoryMax_def]]
  show ?case
  proof (cases "e1 = None \<and> e2 = None \<and> e3 = None")
    case True
    with "2.prems" r1 r2 r3 have "run_state (EnsureSlices orc m rest) w3 = (r, w')" by (simp add: Let_def)
    from "2.IH" [OF refl this] True traces show ?thesis by (auto simp: slice_events_def)
  next
    case False
    with "2.prems" r1 r2 r3 traces show ?thesis
      by (auto simp: Let_def slice_events_def if_err_def split: option.splits prod.splits)
  qed
qed simp

text \<open>The limits as numbers: a hundredth of a millisecond of CPU per 100 ms for each milli-CPU, and bytes.\<close>

definition limit_events :: "cgroup_mgr \<Rightarrow> resource_class \<Rightarrow> event list" where
  "limit_events m cls =
     [Fs (MkdirAll (slicePath m (rc_Name cls))),
      Fs (WriteFile (path_join [slicePath m (rc_Name cls), ''cpu.max'']) (Text (itoa (100 * rc_CPUMillis cls) @ '' 100000''))),
      Fs (WriteFile (path_join [slicePath m (rc_Name cls), ''memory.max'']) (Text (itoa (2 ^ 20 * rc_MemoryMB cls))))]"

definition small_class :: "resource_class \<Rightarrow> bool" where
  "small_class cls \<longleftrightarrow> 0 \<le> rc_CPUMillis cls \<and> 100 * rc_CPUMillis cls < 2 ^ 63 \<and> 0 \<le> rc_MemoryMB cls \<and> 2 ^ 20 * rc_MemoryMB cls < 2 ^ 63"

lemma slice_events_small: "small_class cls \<Longrightarrow> slice_events m cls = limit_events m cls"
proof -
  assume s: "small_class cls"
  then have "i64 (rc_CPUMillis cls * 100) = 100 * rc_CPUMillis cls" "i64 (rc_MemoryMB cls * 1024) = rc_MemoryMB cls * 1024"
    "i64 (rc_MemoryMB cls * 1024 * 1024) = 2 ^ 20 * rc_MemoryMB cls"
    by (simp_all add: small_class_def i64_def)
  moreover have "itoa 100000 = ''100000''" by (simp add: itoa_def nat_str.simps digit_char_def)
  ultimately show ?thesis by (simp add: slice_events_def limit_events_def cpu_max_text_def memory_max_text_def)
qed

text \<open>
  C37: the limits of the classes reach the kernel. When \<^verbatim>\<open>EnsureSlices\<close> returns nil, it has made the
  slice of every class and written its CPU and memory limits, in the order of the classes, and
  nothing else; when it fails it has done a part of the same; and the sentries of every class of a
  successful call find it.
\<close>

theorem EnsureSlices_writes_limits:
  assumes "run_state (EnsureSlices orc m classes) w = (r, w')" and "list_all small_class classes"
  shows "\<exists>new. w_trace w' = w_trace w @ new \<and> prefix new (concat (map (limit_events m) classes)) \<and>
    (r = None \<longrightarrow> new = concat (map (limit_events m) classes) \<and> (\<forall>cls \<in> set classes. map_of (w_classes w') (rc_Name cls) \<noteq> None))"
proof -
  have known: "map_of (foldl (\<lambda>cs c. AList.update (rc_Name c) c cs) acc cs) k \<noteq> None"
    if "map_of acc k \<noteq> None \<or> k \<in> rc_Name ` set cs" for acc k and cs :: "resource_class list"
    using that
  proof (induction cs arbitrary: acc)
    case (Cons c cs)
    then have "map_of (AList.update (rc_Name c) c acc) k \<noteq> None \<or> k \<in> rc_Name ` set cs" by (auto simp: update_conv')
    from Cons.IH [OF this] show ?case by simp
  qed simp
  have "map (slice_events m) classes = map (limit_events m) classes"
    using assms(2) by (auto simp: list_all_iff slice_events_small)
  with EnsureSlices_trace [OF assms(1)] obtain new where
    "w_trace w' = w_trace w @ new" "prefix new (concat (map (limit_events m) classes))"
    "r = None \<longrightarrow> new = concat (map (limit_events m) classes) \<and>
       w_classes w' = foldl (\<lambda>cs c. AList.update (rc_Name c) c cs) (w_classes w) classes" by auto
  with known [where acc = "w_classes w" and cs = classes] show ?thesis
    by (intro exI [of _ new]) simp
qed

definition demo_slices :: cgroup_mgr where
  "demo_slices = \<lparr>gm_basePath = ''/c'', gm_prefix = ''g''\<rparr>"

definition cgroup_world :: world where
  "cgroup_world = \<lparr>w_fs = [(''/c'', Dir)], w_trace = [], w_nss = [], w_classes = []\<rparr>"

definition open_host :: replies where
  "open_host tr ev = \<lparr>an_err = None, an_out = Text '''', an_num = 0, an_bytes = []\<rparr>"

theorem EnsureSlices_writes_limits_witness:
  "w_trace (snd (run_state (EnsureSlices open_host demo_slices [\<lparr>rc_Name = ''s'', rc_CPUMillis = 500, rc_MemoryMB = 1\<rparr>]) cgroup_world)) =
     [Fs (MkdirAll ''/c/g-s.slice''), Fs (WriteFile ''/c/g-s.slice/cpu.max'' (Text ''50000 100000'')),
      Fs (WriteFile ''/c/g-s.slice/memory.max'' (Text ''1048576''))]"
proof -
  let ?cls = "\<lparr>rc_Name = ''s'', rc_CPUMillis = 500, rc_MemoryMB = 1\<rparr>"
  let ?r = "run_state (EnsureSlices open_host demo_slices [?cls]) cgroup_world"
  have p: "slicePath demo_slices ''s'' = ''/c/g-s.slice''" "path_join [''/c/g-s.slice'', ''cpu.max''] = ''/c/g-s.slice/cpu.max''"
    "path_join [''/c/g-s.slice'', ''memory.max''] = ''/c/g-s.slice/memory.max''" "ancestors ''/c/g-s.slice'' = [''/c'', ''/c/g-s.slice'']"
    "path_dir ''/c/g-s.slice/cpu.max'' = ''/c/g-s.slice''" "path_dir ''/c/g-s.slice/memory.max'' = ''/c/g-s.slice''" by code_simp+
  have "fst ?r = None"
    by (simp add: p os_MkdirAll_def writeCPUMax_def writeMemoryMax_def os_WriteFile_def ask_def set_node_def node_at_def open_host_def
      cgroup_world_def Let_def cpu_max_text_def memory_max_text_def update_conv' del: One_nat_def)
  then have r: "?r = (None, snd ?r)" by (simp add: prod_eq_iff)
  have s: "list_all small_class [?cls]" by (simp add: small_class_def)
  have "limit_events demo_slices ?cls = [Fs (MkdirAll ''/c/g-s.slice''), Fs (WriteFile ''/c/g-s.slice/cpu.max'' (Text ''50000 100000'')),
      Fs (WriteFile ''/c/g-s.slice/memory.max'' (Text ''1048576''))]"
    by (simp add: limit_events_def p itoa_def nat_str.simps digit_char_def)
  with EnsureSlices_writes_limits [OF r s] show ?thesis by (simp add: cgroup_world_def)
qed

end
