(* ===== verification/Runsc_Race.thy ===== *)
theory Runsc_Race
  imports Transition Runsc
begin

text \<open>
  \<^verbatim>\<open>Client.run\<close> builds its argument vector with two appends to \<^verbatim>\<open>c.extraFlags\<close>, a slice all calls
  share. \<^verbatim>\<open>NewClient\<close> allocates it with room for every configured flag but leaves
  \<^verbatim>\<open>--warm-sentry\<close> out, so there may be spare room behind it, and an append then writes into
  the shared array instead of a copy. Calls run concurrently: here each is a thread of three steps. Every
  method of the client passes at least one argument.
\<close>

section \<open>Slices\<close>

text \<open>The shared array seen up to a length, or an array of the call's own.\<close>

datatype args_buf = Shared nat | Own "string list"

fun contents :: "string list \<Rightarrow> args_buf \<Rightarrow> string list" where
  "contents arr (Shared n) = take n arr"
| "contents arr (Own xs) = xs"

text \<open>\<^verbatim>\<open>append\<close>: in place when the capacity suffices, else into a new array.\<close>

fun go_append :: "string list \<Rightarrow> args_buf \<Rightarrow> string list \<Rightarrow> string list \<times> args_buf" where
  "go_append arr (Shared n) xs =
     (if n + length xs \<le> length arr then (take n arr @ xs @ drop (n + length xs) arr, Shared (n + length xs))
      else (arr, Own (take n arr @ xs)))"
| "go_append arr (Own ys) xs = (arr, Own (ys @ xs))"

text \<open>The array of \<^verbatim>\<open>NewClient\<close>: the flags it keeps, then one empty cell for each it left out.\<close>

definition flags_array :: "string list \<Rightarrow> string list" where
  "flags_array extraFlags = filter (\<lambda>f. f \<noteq> warm_flag) extraFlags @ replicate (count_list extraFlags warm_flag) ''''"

section \<open>Concurrent calls\<close>

datatype run_call =
    Begins string "string list"
  | Rooted args_buf string "string list"
  | Built args_buf string "string list"
  | Started "string list" string "string list"

record runs =
  rs_array :: "string list"
  rs_calls :: "run_call list"

datatype run_action = NewCall string "string list" | Move nat

definition call_step :: "client \<Rightarrow> string list \<Rightarrow> run_call \<Rightarrow> (string list \<times> run_call) option" where
  "call_step c arr k =
     (case k of
        Begins root args \<Rightarrow>
          (case go_append arr (Shared (length (cl_extraFlags c))) [''--root='' @ root] of (arr', b) \<Rightarrow> Some (arr', Rooted b root args))
      | Rooted b root args \<Rightarrow> (case go_append arr b args of (arr', b') \<Rightarrow> Some (arr', Built b' root args))
      | Built b root args \<Rightarrow> Some (arr, Started (cl_binPath c # contents arr b) root args)
      | Started argv root args \<Rightarrow> None)"

fun runs_step :: "client \<Rightarrow> run_action \<Rightarrow> runs \<Rightarrow> runs option" where
  "runs_step c (NewCall root args) s = (if args = [] then None else Some (s\<lparr>rs_calls := rs_calls s @ [Begins root args]\<rparr>))"
| "runs_step c (Move t) s =
     (if t < length (rs_calls s) then
        map_option (\<lambda>(arr, k). s\<lparr>rs_array := arr, rs_calls := (rs_calls s)[t := k]\<rparr>) (call_step c (rs_array s) (rs_calls s ! t))
      else None)"

definition fresh_runs :: "string list \<Rightarrow> runs \<Rightarrow> bool" where
  "fresh_runs extraFlags s \<longleftrightarrow> s = \<lparr>rs_array = flags_array extraFlags, rs_calls = []\<rparr>"

section \<open>What every interleaving keeps\<close>

text \<open>
  With at most one spare cell: the flags stay in front, the spare cell holds the root of some call,
  and every call's own part of its vector is its own.
\<close>

fun root_of :: "run_call \<Rightarrow> string" where
  "root_of (Begins r _) = r"
| "root_of (Rooted _ r _) = r"
| "root_of (Built _ r _) = r"
| "root_of (Started _ r _) = r"

definition roots :: "run_call list \<Rightarrow> string set" where
  "roots ks = root_of ` set ks"

definition root_flag :: "string \<Rightarrow> string" where
  "root_flag r = ''--root='' @ r"

fun call_ok :: "client \<Rightarrow> bool \<Rightarrow> string set \<Rightarrow> run_call \<Rightarrow> bool" where
  "call_ok c spare R (Begins root args) = (args \<noteq> [])"
| "call_ok c spare R (Rooted b root args) = (args \<noteq> [] \<and>
     b = (if spare then Shared (Suc (length (cl_extraFlags c))) else Own (cl_extraFlags c @ [root_flag root])))"
| "call_ok c spare R (Built b root args) =
     (\<exists>r \<in> (if spare then R else {root}). b = Own (cl_extraFlags c @ root_flag r # args))"
| "call_ok c spare R (Started argv root args) =
     (\<exists>r \<in> (if spare then R else {root}). argv = cl_binPath c # cl_extraFlags c @ root_flag r # args)"

definition array_ok :: "client \<Rightarrow> bool \<Rightarrow> string set \<Rightarrow> string list \<Rightarrow> run_call list \<Rightarrow> bool" where
  "array_ok c spare R arr ks =
     (if spare then (\<exists>x. arr = cl_extraFlags c @ [x] \<and> ((\<exists>b r a. Rooted b r a \<in> set ks) \<longrightarrow> x \<in> root_flag ` R))
      else arr = cl_extraFlags c)"

definition runs_inv :: "client \<Rightarrow> bool \<Rightarrow> runs \<Rightarrow> bool" where
  "runs_inv c spare s \<longleftrightarrow> array_ok c spare (roots (rs_calls s)) (rs_array s) (rs_calls s) \<and>
     (\<forall>k \<in> set (rs_calls s). call_ok c spare (roots (rs_calls s)) k)"

lemma call_ok_mono: "call_ok c spare R k \<Longrightarrow> R \<subseteq> R' \<Longrightarrow> call_ok c spare R' k"
  by (cases k) (auto split: if_splits)

lemma roots_update: "t < length ks \<Longrightarrow> root_of k = root_of (ks ! t) \<Longrightarrow> roots (ks[t := k]) = roots ks"
  unfolding roots_def by (metis list_update_id map_update set_map)

lemma root_in: "t < length ks \<Longrightarrow> root_of (ks ! t) \<in> roots ks"
  by (simp add: roots_def)

lemma call_step_ok:
  assumes "call_step c arr k = Some (arr', k')" and "array_ok c spare R arr ks" and "call_ok c spare R k"
    and "k \<in> set ks" and "root_of k \<in> R"
  shows "root_of k' = root_of k \<and> call_ok c spare R k' \<and> array_ok c spare R arr' (k' # ks)"
proof (cases k)
  case (Begins root args)
  with assms show ?thesis by (auto simp: call_step_def array_ok_def root_flag_def split: if_splits)
next
  case (Rooted b root args)
  with assms(2,4) obtain x where "spare \<longrightarrow> arr = cl_extraFlags c @ [x] \<and> x \<in> root_flag ` R"
    by (cases spare) (auto simp: array_ok_def)
  with assms Rooted show ?thesis by (cases spare) (auto simp: call_step_def array_ok_def split: if_splits)
next
  case (Built b root args)
  with assms show ?thesis by (auto simp: call_step_def array_ok_def split: if_splits)
next
  case (Started argv root args)
  with assms(1) show ?thesis by (simp add: call_step_def)
qed

lemma array_ok_subset: "array_ok c spare R arr (k # ks) \<Longrightarrow> array_ok c spare R arr (ks[t := k])"
  unfolding array_ok_def using set_update_subset_insert by (fastforce split: if_splits)

lemma runs_step_inv: "runs_step c a s = Some s' \<Longrightarrow> runs_inv c spare s \<Longrightarrow> runs_inv c spare s'"
proof (cases a)
  case (NewCall root args)
  assume st: "runs_step c a s = Some s'" and inv: "runs_inv c spare s"
  with NewCall have s': "s' = s\<lparr>rs_calls := rs_calls s @ [Begins root args]\<rparr>" "args \<noteq> []" by (auto split: if_splits)
  have "roots (rs_calls s) \<subseteq> roots (rs_calls s')" by (auto simp: s' roots_def)
  with inv s' show ?thesis
    by (auto simp: runs_inv_def array_ok_def intro: call_ok_mono split: if_splits)
next
  case (Move t)
  assume st: "runs_step c a s = Some s'" and inv: "runs_inv c spare s"
  with Move obtain arr k where t: "t < length (rs_calls s)" and
    k: "call_step c (rs_array s) (rs_calls s ! t) = Some (arr, k)" and s': "s' = s\<lparr>rs_array := arr, rs_calls := (rs_calls s)[t := k]\<rparr>"
    by (auto split: if_splits)
  from inv t call_step_ok [OF k, of spare "roots (rs_calls s)" "rs_calls s"] root_in [OF t]
  have ok: "root_of k = root_of (rs_calls s ! t)" "call_ok c spare (roots (rs_calls s)) k"
    "array_ok c spare (roots (rs_calls s)) arr (k # rs_calls s)" by (auto simp: runs_inv_def)
  with inv roots_update [OF t ok(1)] array_ok_subset [OF ok(3), of t] show ?thesis
    by (auto simp: runs_inv_def s' dest!: set_update_subset_insert [THEN subsetD])
qed

text \<open>At most one configured flag is \<^verbatim>\<open>--warm-sentry\<close>; the flag decides whether there is a spare cell.\<close>

definition fresh_client :: "string \<Rightarrow> string list \<Rightarrow> runs \<Rightarrow> bool" where
  "fresh_client bin extraFlags s \<longleftrightarrow> count_list extraFlags warm_flag \<le> 1 \<and> fresh_runs extraFlags s"

lemma fresh_inv: "fresh_client bin extraFlags s \<Longrightarrow> runs_inv (NewClient bin extraFlags) (warm_flag \<in> set extraFlags) s"
proof -
  have "count_list extraFlags warm_flag = 0" if "warm_flag \<notin> set extraFlags" using that by simp
  moreover have "count_list extraFlags warm_flag = 1" if "warm_flag \<in> set extraFlags" "count_list extraFlags warm_flag \<le> 1"
    using that by (metis One_nat_def Suc_leI count_list_0_iff le_antisym neq0_conv)
  moreover assume "fresh_client bin extraFlags s"
  ultimately show ?thesis
    by (auto simp: fresh_client_def fresh_runs_def runs_inv_def array_ok_def flags_array_def NewClient_def roots_def)
qed

interpretation runsc_runs: invariant_system "fresh_client bin extraFlags" "runs_step (NewClient bin extraFlags)"
    "runs_inv (NewClient bin extraFlags) (warm_flag \<in> set extraFlags)" for bin extraFlags
  by unfold_locales (fact fresh_inv runs_step_inv)+

section \<open>Properties\<close>

definition runs_after :: "string list \<Rightarrow> run_action list \<Rightarrow> runs" where
  "runs_after extraFlags as = the (run_all (runs_step (NewClient ''runsc'' extraFlags)) as \<lparr>rs_array = flags_array extraFlags, rs_calls = []\<rparr>)"

text \<open>Two calls: each writes its root before the other copies the array.\<close>

definition two_runs :: "run_action list" where
  "two_runs = [NewCall ''/w/a/root'' [''kill'', ''a'', ''KILL''], NewCall ''/w/b/root'' [''state'', ''b''], Move 0, Move 1, Move 0, Move 0]"

lemma runs_reachable:
  assumes "run_all (runs_step (NewClient ''runsc'' fl)) as \<lparr>rs_array = flags_array fl, rs_calls = []\<rparr> \<noteq> None"
    and "count_list fl warm_flag \<le> 1"
  shows "reach (fresh_client ''runsc'' fl) (runs_step (NewClient ''runsc'' fl)) (runs_after fl as)"
proof -
  have "reach (fresh_client ''runsc'' fl) (runs_step (NewClient ''runsc'' fl)) \<lparr>rs_array = flags_array fl, rs_calls = []\<rparr>"
    by (rule reach.init) (use assms(2) in \<open>simp add: fresh_client_def fresh_runs_def\<close>)
  then show ?thesis
    by (rule reach_run) (use assms(1) in \<open>auto simp: runs_after_def\<close>)
qed

text \<open>
  C25: what concurrent calls of the client execute. Whatever the interleaving, with at most one
  \<^verbatim>\<open>--warm-sentry\<close> in the flags, every call runs the configured binary with all kept flags, its
  own arguments, and the root of some call; without \<^verbatim>\<open>--warm-sentry\<close> it is exactly its own argument
  vector.
\<close>

theorem calls_confined:
  assumes "reach (fresh_client bin extraFlags) (runs_step (NewClient bin extraFlags)) s"
    and "Started argv root args \<in> set (rs_calls s)"
  shows "(\<exists>k \<in> set (rs_calls s). argv = run_argv (NewClient bin extraFlags) (root_of k) args) \<and>
    (warm_flag \<notin> set extraFlags \<longrightarrow> argv = run_argv (NewClient bin extraFlags) root args)"
proof -
  from runsc_runs.holds [OF assms(1)] assms(2) have ok: "call_ok (NewClient bin extraFlags) (warm_flag \<in> set extraFlags) (roots (rs_calls s)) (Started argv root args)"
    by (auto simp: runs_inv_def)
  have "root \<in> roots (rs_calls s)" using assms(2) by (force simp: roots_def)
  with ok obtain r where "r \<in> roots (rs_calls s)" "argv = run_argv (NewClient bin extraFlags) r args"
    and "warm_flag \<notin> set extraFlags \<longrightarrow> r = root"
    by (auto simp: run_argv_def root_flag_def split: if_splits)
  then show ?thesis by (auto simp: roots_def)
qed

theorem calls_confined_witness:
  "Started [''runsc'', ''--debug'', ''--root=/w/a/root'', ''kill'', ''a'', ''KILL''] ''/w/a/root'' [''kill'', ''a'', ''KILL'']
     \<in> set (rs_calls (runs_after [''--debug''] two_runs))"
proof -
  let ?s = "runs_after [''--debug''] two_runs"
  have r: "reach (fresh_client ''runsc'' [''--debug'']) (runs_step (NewClient ''runsc'' [''--debug''])) ?s"
    by (rule runs_reachable) code_simp+
  have w: "warm_flag \<notin> set [''--debug'']" by code_simp
  have "case rs_calls ?s ! 0 of Started argv root args \<Rightarrow> root = ''/w/a/root'' \<and> args = [''kill'', ''a'', ''KILL''] | _ \<Rightarrow> False"
    and n: "0 < length (rs_calls ?s)" by code_simp+
  then obtain argv where a: "rs_calls ?s ! 0 = Started argv ''/w/a/root'' [''kill'', ''a'', ''KILL'']" by (auto split: run_call.splits)
  with n have m: "Started argv ''/w/a/root'' [''kill'', ''a'', ''KILL''] \<in> set (rs_calls ?s)" by (metis nth_mem)
  have "argv = [''runsc'', ''--debug'', ''--root=/w/a/root'', ''kill'', ''a'', ''KILL'']"
    using calls_confined [OF r m] w by (simp add: run_argv_def NewClient_def warm_flag_def)
  with m show ?thesis by simp
qed

text \<open>
  C26: with \<^verbatim>\<open>--warm-sentry\<close> the calls interfere. There is a run in which the kill of the container
  \<^verbatim>\<open>a\<close> is executed with the root directory of the container \<^verbatim>\<open>b\<close>, because a concurrent call has
  overwritten the root flag in the shared array.
\<close>

theorem warm_calls_interfere:
  "reach (fresh_client ''runsc'' [warm_flag]) (runs_step (NewClient ''runsc'' [warm_flag])) (runs_after [warm_flag] two_runs) \<and>
   Started [''runsc'', ''--root=/w/b/root'', ''kill'', ''a'', ''KILL''] ''/w/a/root'' [''kill'', ''a'', ''KILL'']
     \<in> set (rs_calls (runs_after [warm_flag] two_runs)) \<and>
   [''runsc'', ''--root=/w/b/root'', ''kill'', ''a'', ''KILL''] \<noteq> run_argv (NewClient ''runsc'' [warm_flag]) ''/w/a/root'' [''kill'', ''a'', ''KILL'']"
proof (intro conjI)
  show "reach (fresh_client ''runsc'' [warm_flag]) (runs_step (NewClient ''runsc'' [warm_flag])) (runs_after [warm_flag] two_runs)"
    by (rule runs_reachable) code_simp+
qed code_simp+

end
