(* ===== verification/Harness.thy ===== *)
theory Harness
  imports Host
begin

text \<open>
  \<^verbatim>\<open>cmd/gvisord-exec/main.go\<close>: the harness inside the sandbox. One request names a script or a
  command; the harness builds an argument vector and an environment, runs the process under a
  deadline, and answers with what it wrote and how it ended. The process itself is outside: what
  it does is an argument. Elapsed times are in microseconds, before the division by 1000.
\<close>

section \<open>Requests and responses\<close>

record exec_request =
  xq_Script :: string
  xq_Interpreter :: string
  xq_Command :: string
  xq_Deps :: "string list option"
  xq_Event :: "json option"
  xq_Env :: "(string \<times> string) list option"
  xq_Timeout :: int

definition empty_request :: exec_request where
  "empty_request = \<lparr>xq_Script = '''', xq_Interpreter = '''', xq_Command = '''', xq_Deps = None, xq_Event = None,
     xq_Env = None, xq_Timeout = 0\<rparr>"

definition exec_request_fields :: "exec_request fields" where
  "exec_request_fields =
    [field ''script'' xq_Script xq_Script_update dec_string,
     field ''interpreter'' xq_Interpreter xq_Interpreter_update dec_string,
     field ''command'' xq_Command xq_Command_update dec_string,
     field ''deps'' xq_Deps xq_Deps_update (dec_nil_slice '''' dec_string),
     field ''event'' xq_Event xq_Event_update dec_raw,
     field ''env'' xq_Env xq_Env_update (dec_nil_map '''' dec_string),
     field ''timeout'' xq_Timeout xq_Timeout_update dec_int]"

record exec_response =
  xs_Type :: string
  xs_ExitCode :: int
  xs_Stdout :: string
  xs_Stderr :: string
  xs_ElapsedUs :: int
  xs_Error :: string

definition error_response :: "string \<Rightarrow> exec_response" where
  "error_response msg = \<lparr>xs_Type = ''error'', xs_ExitCode = 0, xs_Stdout = '''', xs_Stderr = '''', xs_ElapsedUs = 0, xs_Error = msg\<rparr>"

definition failed_response :: "string \<Rightarrow> int \<Rightarrow> exec_response" where
  "failed_response msg us = (error_response msg)\<lparr>xs_ExitCode := - 1, xs_ElapsedUs := us\<rparr>"

text \<open>The response as JSON; \<open>ms\<close> is the encoding of the elapsed milliseconds.\<close>

definition response_json :: "(int \<Rightarrow> json) \<Rightarrow> exec_response \<Rightarrow> json" where
  "response_json ms x = JObj
    ([(''type'', JStr (xs_Type x)), (''exit_code'', JInt (xs_ExitCode x)), (''stdout'', JStr (xs_Stdout x)),
      (''stderr'', JStr (xs_Stderr x)), (''elapsed_ms'', ms (xs_ElapsedUs x))] @
     (if xs_Error x = '''' then [] else [(''error'', JStr (xs_Error x))]))"

section \<open>The command\<close>

definition is_python :: "string \<Rightarrow> bool" where
  "is_python interp = str_contains interp ''python''"

definition is_js :: "string \<Rightarrow> bool" where
  "is_js interp = (str_contains interp ''node'' \<or> str_contains interp ''bun'')"

definition injectEvent :: "string \<Rightarrow> string \<Rightarrow> string" where
  "injectEvent interp event =
     (if is_python interp then ''import json as _json'' @ [CHR 0x0A] @ ''event = _json.loads('' @ go_quote event @ '')''
      else if is_js interp then ''const event = JSON.parse('' @ go_quote event @ '');''
      else ''export EVENT='' @ go_quote event)"

definition interpreterExt :: "string \<Rightarrow> string" where
  "interpreterExt interp =
     (if is_python interp then ''.py''
      else if is_js interp then ''.js''
      else if str_contains interp ''ruby'' then ''.rb''
      else ''.sh'')"

definition interpreter_of :: "exec_request \<Rightarrow> string" where
  "interpreter_of req = (if xq_Interpreter req = '''' then ''python3'' else xq_Interpreter req)"

definition script_text :: "exec_request \<Rightarrow> string" where
  "script_text req =
     (case xq_Event req of
        None \<Rightarrow> xq_Script req
      | Some ev \<Rightarrow> injectEvent (interpreter_of req) (json_text ev) @ [CHR 0x0A] @ xq_Script req)"

text \<open>
  The argument vector and the script file, empty when there is none to remove; the third
  component says whether a deferred removal is registered.
\<close>

definition buildCommand :: "replies \<Rightarrow> exec_request \<Rightarrow> (string list \<times> string \<times> bool) os" where
  "buildCommand orc req =
     (if xq_Command req \<noteq> '''' then ret ([''sh'', ''-c'', xq_Command req], '''', False)
      else do {
        a \<leftarrow> ask orc (Fs (CreateTemp ''/tmp'' (''gvisord-exec-*'' @ interpreterExt (interpreter_of req))));
        (case an_err a of
           Some e \<Rightarrow> ret ([''sh'', ''-c'', ''echo '' @ [CHR 0x27] @ ''failed to create script file'' @ [CHR 0x27] @ '' >&2; exit 1''], '''', False)
         | None \<Rightarrow> do {
             let f = text_of (an_out a);
             b \<leftarrow> ask orc (Fs (WriteFile f (Text (script_text req))));
             (case an_err b of
                Some e \<Rightarrow> ret ([''sh'', ''-c'', ''echo '' @ [CHR 0x27] @ ''failed to write script'' @ [CHR 0x27] @ '' >&2; exit 1''], '''', False)
              | None \<Rightarrow> do {
                  set_node f (File (Text (script_text req)));
                  ret ([interpreter_of req, f], f, True)
                })
           })
      })"

section \<open>The environment\<close>

fun appendOrReplace :: "string list \<Rightarrow> string \<Rightarrow> string \<Rightarrow> string list" where
  "appendOrReplace [] key v = [key @ ''='' @ v]"
| "appendOrReplace (e # env) key v =
     (if has_prefix e (key @ ''='') then (key @ ''='' @ v @ '':'' @ drop (length (key @ ''='')) e) # env
      else e # appendOrReplace env key v)"

fun dep_paths :: "replies \<Rightarrow> string \<Rightarrow> string list \<Rightarrow> string list os" where
  "dep_paths orc cacheBase [] = ret []"
| "dep_paths orc cacheBase (dep # deps) = do {
     let full = cacheBase @ ''/'' @ dep;
     x \<leftarrow> os_Stat orc full;
     rest \<leftarrow> dep_paths orc cacheBase deps;
     ret (case x of Inr (True, _) \<Rightarrow> full # rest | _ \<Rightarrow> rest)
   }"

definition dep_env :: "string list \<Rightarrow> string list \<Rightarrow> string list" where
  "dep_env env paths =
     (if paths = [] then env
      else appendOrReplace (appendOrReplace env ''PYTHONPATH'' (str_join paths '':'')) ''NODE_PATH'' (str_join paths '':''))"

text \<open>\<open>environ\<close> is the environment of the harness; the request's variables follow in any order.\<close>

definition buildEnv :: "replies \<Rightarrow> string list \<Rightarrow> string \<Rightarrow> exec_request \<Rightarrow> string list os" where
  "buildEnv orc environ cacheBase req = do {
     paths \<leftarrow> dep_paths orc cacheBase (case xq_Deps req of None \<Rightarrow> [] | Some ds \<Rightarrow> ds);
     ret (dep_env environ paths @ map (\<lambda>(k, v). k @ ''='' @ v) (case xq_Env req of None \<Rightarrow> [] | Some m \<Rightarrow> m))
   }"

section \<open>The process\<close>

text \<open>
  What a process does: a pipe or the start fails, or it runs: the bytes it writes, how it ends
  (\<open>None\<close> for exit status 0), whether the deadline has passed by then, its ID and the elapsed time.
\<close>

datatype proc_end = ExitedZero | Exited int | WaitFailed string

datatype process =
    StdoutPipeFails string
  | StderrPipeFails string
  | StartFails string int
  | Ran string string proc_end bool int int

definition exec_timeout :: "int \<Rightarrow> int" where
  "exec_timeout t = (let d = i64 (t * second) in if d \<le> 0 then 30 * second else d)"

definition stdout_limit :: nat where
  "stdout_limit = 10 * 2 ^ 20"

definition stderr_limit :: nat where
  "stderr_limit = 2 ^ 20"

text \<open>The response to a process; \<open>d\<close> is the printed timeout.\<close>

definition response_of :: "string \<Rightarrow> process \<Rightarrow> exec_response" where
  "response_of d p =
     (case p of
        StdoutPipeFails e \<Rightarrow> failed_response (''stdout pipe: '' @ e) 0
      | StderrPipeFails e \<Rightarrow> failed_response (''stderr pipe: '' @ e) 0
      | StartFails e us \<Rightarrow> failed_response e us
      | Ran out err en deadline pid us \<Rightarrow>
          let stdout = take stdout_limit out; stderr = take stderr_limit err in
          if deadline then
            \<lparr>xs_Type = ''timeout'', xs_ExitCode = - 1, xs_Stdout = stdout, xs_Stderr = stderr, xs_ElapsedUs = us,
             xs_Error = ''execution exceeded '' @ d @ '' timeout''\<rparr>
          else
            (case en of
               WaitFailed e \<Rightarrow> failed_response e us
             | ExitedZero \<Rightarrow>
                 \<lparr>xs_Type = ''success'', xs_ExitCode = 0, xs_Stdout = stdout, xs_Stderr = stderr, xs_ElapsedUs = us, xs_Error = ''''\<rparr>
             | Exited n \<Rightarrow>
                 \<lparr>xs_Type = (if n = 0 then ''success'' else ''error''), xs_ExitCode = n, xs_Stdout = stdout,
                  xs_Stderr = stderr, xs_ElapsedUs = us, xs_Error = ''''\<rparr>))"

text \<open>
  \<^verbatim>\<open>execute\<close>: \<open>proc\<close> is what a process with this argument vector, environment and timeout does, and
  \<open>show\<close> prints a duration. A process past the deadline is killed with its group.
\<close>

definition remove_script :: "replies \<Rightarrow> string \<Rightarrow> unit os" where
  "remove_script orc f = do { _ \<leftarrow> os_Remove orc f; ret () }"

definition reached_remove :: "process \<Rightarrow> bool" where
  "reached_remove p = (case p of Ran _ _ en deadline _ _ \<Rightarrow> \<not> deadline \<and> (case en of WaitFailed _ \<Rightarrow> False | _ \<Rightarrow> True) | _ \<Rightarrow> False)"

definition execute :: "replies \<Rightarrow> (string list \<Rightarrow> string list \<Rightarrow> int \<Rightarrow> process) \<Rightarrow> (int \<Rightarrow> string) \<Rightarrow> string list \<Rightarrow> string
    \<Rightarrow> exec_request \<Rightarrow> exec_response os" where
  "execute orc proc show environ cacheBase req = do {
     let timeout = exec_timeout (xq_Timeout req);
     cmd \<leftarrow> buildCommand orc req;
     (case cmd of (argv, scriptFile, deferred) \<Rightarrow> do {
        env \<leftarrow> buildEnv orc environ cacheBase req;
        let p = proc argv env timeout;
        (case p of
           Ran _ _ _ True pid _ \<Rightarrow> do { _ \<leftarrow> ask orc (SigKill (- pid)); ret () }
         | _ \<Rightarrow> ret ());
        (if reached_remove p then remove_script orc scriptFile else ret ());
        (if deferred then remove_script orc scriptFile else ret ());
        ret (response_of (show timeout) p)
      })
   }"

section \<open>The handler\<close>

text \<open>\<^verbatim>\<open>10<<20\<close> bytes of the request are read.\<close>

definition request_limit :: nat where
  "request_limit = 10 * 2 ^ 20"

definition handleHealth :: json where
  "handleHealth = JObj [(''status'', JStr ''ok'')]"

text \<open>The status, the response, and whether the harness exits after it: one request only.\<close>

definition handleRun :: "replies \<Rightarrow> (string list \<Rightarrow> string list \<Rightarrow> int \<Rightarrow> process) \<Rightarrow> (int \<Rightarrow> string) \<Rightarrow> string list \<Rightarrow> string
    \<Rightarrow> string \<Rightarrow> content result \<Rightarrow> (nat \<times> exec_response \<times> bool) os" where
  "handleRun orc proc show environ cacheBase method body =
     (if method \<noteq> ''POST'' then ret (405, error_response ''method not allowed'', False)
      else
        (case body of
           Inl e \<Rightarrow> ret (400, error_response (err_text e), False)
         | Inr data \<Rightarrow>
             (case unmarshal (dec_struct exec_request_fields) (limit_reader request_limit data) empty_request of
                Inl e \<Rightarrow> ret (400, error_response (err_text e), False)
              | Inr req \<Rightarrow> do {
                  resp \<leftarrow> execute orc proc show environ cacheBase req;
                  ret (200, resp, True)
                })))"

text \<open>The routes of \<^verbatim>\<open>main\<close>, for paths that are clean; \<open>ms\<close> prints an elapsed time in milliseconds.\<close>

definition serve_request :: "replies \<Rightarrow> (string list \<Rightarrow> string list \<Rightarrow> int \<Rightarrow> process) \<Rightarrow> (int \<Rightarrow> string) \<Rightarrow> (int \<Rightarrow> json) \<Rightarrow> string list
    \<Rightarrow> string \<Rightarrow> string \<Rightarrow> string \<Rightarrow> content result \<Rightarrow> (nat \<times> content \<times> bool) os" where
  "serve_request orc proc show ms environ cacheBase path method body =
     (if path = ''/health'' then ret (200, Doc handleHealth, False)
      else if path = ''/run'' then do {
        r \<leftarrow> handleRun orc proc show environ cacheBase method body;
        (case r of (status, resp, exits) \<Rightarrow> ret (status, Doc (response_json ms resp), exits))
      }
      else ret (404, Text (''404 page not found'' @ [CHR 0x0A]), False))"

text \<open>The settings of the harness, from the variables' values.\<close>

definition envOr :: "string \<Rightarrow> string \<Rightarrow> string" where
  "envOr v fallback = (if v \<noteq> '''' then v else fallback)"

definition listenAddr :: "string \<Rightarrow> string" where
  "listenAddr v = envOr v '':8080''"

definition cacheBase :: "string \<Rightarrow> string" where
  "cacheBase v = envOr v ''/cache''"

end
