(* ===== verification/Harness_Properties.thy ===== *)
theory Harness_Properties
  imports Harness Demo_Services Daemon
begin

text \<open>
  The two ends of the harness protocol: what \<^verbatim>\<open>Manager.callHarness\<close> sends is what the harness
  decodes, what the harness answers is what the manager decodes, and the limits and timeouts on
  both sides.
\<close>

section \<open>The request\<close>

lemma find_field_first: "map_of fs k = Some d \<Longrightarrow> find_field fs k = Some d"
  by (simp add: find_field_def)

lemma dec_strings: "dec_items '''' dec_string (map JStr ss) [] = Inr ss"
  by (induction ss) auto

lemma dec_string_entries:
  "distinct (map fst (acc @ m)) \<Longrightarrow> dec_entries '''' dec_string (map (\<lambda>(k, v). (k, JStr v)) m) acc = Inr (acc @ m)"
proof (induction m arbitrary: acc)
  case (Cons kv m)
  obtain k v where kv: "kv = (k, v)" by (cases kv)
  from Cons.prems kv have "k \<notin> fst ` set acc" by auto
  then have "AList.update k v acc = acc @ [(k, v)]" by (induction acc) auto
  with Cons kv show ?case by auto
qed simp

definition sent_request :: "run_params \<Rightarrow> exec_request" where
  "sent_request q = \<lparr>xq_Script = rp_Script q, xq_Interpreter = rp_Interpreter q, xq_Command = rp_Command q, xq_Deps = rp_Deps q,
     xq_Event = Some (case rp_Event q of None \<Rightarrow> JNull | Some j \<Rightarrow> j), xq_Env = rp_Env q, xq_Timeout = rp_Timeout q\<rparr>"

definition sendable :: "run_params \<Rightarrow> bool" where
  "sendable q \<longleftrightarrow> - (2 ^ 63) \<le> rp_Timeout q \<and> rp_Timeout q < 2 ^ 63 \<and>
     (case rp_Env q of None \<Rightarrow> True | Some m \<Rightarrow> distinct (map fst m))"

lemma decode_request:
  "sendable q \<Longrightarrow> unmarshal (dec_struct exec_request_fields) (Doc (harness_body q)) empty_request = Inr (sent_request q)"
  by (auto simp: unmarshal_def harness_body_def exec_request_fields_def find_field_def field_def empty_request_def dec_raw_def
      sent_request_def sendable_def dec_strings dec_string_entries [of "[]", simplified] split: option.splits)

text \<open>
  C28: the request survives the wire, but for one member. The harness decodes the body of
  \<^verbatim>\<open>callHarness\<close> to the same script, interpreter, command, dependencies, environment and timeout; an
  absent event arrives as the JSON value null, and then the script is not run as sent: the harness
  puts its event statement, with the value null, in front of it.
\<close>

theorem request_roundtrip:
  assumes "sendable q"
  shows "unmarshal (dec_struct exec_request_fields) (Doc (harness_body q)) empty_request = Inr (sent_request q) \<and>
    (rp_Event q = None \<longrightarrow>
      script_text (sent_request q) = injectEvent (interpreter_of (sent_request q)) ''null'' @ [CHR 0x0A] @ rp_Script q \<and>
      script_text (sent_request q) \<noteq> rp_Script q)"
  by (simp add: decode_request [OF assms] script_text_def sent_request_def)

definition demo_params :: run_params where
  "demo_params = empty_run\<lparr>rp_Script := ''puts 1'', rp_Interpreter := ''ruby'', rp_Env := Some [(''A'', ''b'')]\<rparr>"

text \<open>For an interpreter that is neither python nor javascript the statement is a shell command.\<close>

theorem request_roundtrip_witness:
  "unmarshal (dec_struct exec_request_fields) (Doc (harness_body demo_params)) empty_request = Inr (sent_request demo_params) \<and>
   script_text (sent_request demo_params) = ''export EVENT='' @ [CHR 0x22] @ ''null'' @ [CHR 0x22, CHR 0x0A] @ ''puts 1''"
proof -
  have "injectEvent ''ruby'' ''null'' = ''export EVENT='' @ [CHR 0x22] @ ''null'' @ [CHR 0x22]" by code_simp
  moreover have "interpreter_of (sent_request demo_params) = ''ruby''"
    by (simp add: sent_request_def interpreter_of_def demo_params_def empty_run_def)
  moreover have "sendable demo_params" "rp_Event demo_params = None" "rp_Script demo_params = ''puts 1''"
    by (simp_all add: sendable_def demo_params_def empty_run_def)
  ultimately show ?thesis using request_roundtrip [of demo_params] by simp
qed

section \<open>The response\<close>











lemma length_str_join: "x \<in> set xs \<Longrightarrow> length x \<le> length (str_join xs sep)"
  by (induction xs sep rule: str_join.induct) auto

lemma json_members_map: "json_members ms = map (\<lambda>(k, x). json_string k @ '':'' @ json_text x) ms"
  by (induction ms) auto

lemma member_text: "(k, j) \<in> set ms \<Longrightarrow> length (json_text j) \<le> length (json_text (JObj ms))"
proof -
  assume "(k, j) \<in> set ms"
  then have "json_string k @ '':'' @ json_text j \<in> set (json_members ms)" by (force simp: json_members_map)
  from length_str_join [OF this, of "'',''"] show ?thesis by simp
qed

lemma escaped_text: "length (json_text (JStr (replicate n (CHR ''<'')))) = 6 * n + 2"
proof -
  have "length (json_char (CHR ''<'')) = 6" by code_simp
  then have "length (concat (map json_char (replicate n (CHR ''<'')))) = 6 * n" by (induction n) auto
  then show ?thesis by (simp add: json_string_def)
qed

text \<open>
  C31: output within the harness's limit can be unreadable for the manager. Two MiB of \<^verbatim>\<open><\<close> are a
  fifth of what the harness collects, but escaped in JSON they exceed the 12 MiB that
  \<^verbatim>\<open>callHarness\<close> reads, and the successful run is reported as a parse error.
\<close>

theorem escaped_output_unreadable:
  assumes "run_state (sv_Post V (''http://'' @ ip @ '':8080/run'') (http_timeout (rp_Timeout q)) (harness_body q)) w =
      (Inr (Doc (response_json ms x)), w')"
    and "ip \<noteq> ''''" and "xs_Stdout x = replicate n (CHR ''<'')" and "2 ^ 21 \<le> n"
  shows "run_state (callHarness V ip root i q) w = (Inl (Wrap ''parsing harness response: '' syntax_error ''''), w')"
proof -
  have "(''stdout'', JStr (xs_Stdout x)) \<in> set ([(''type'', JStr (xs_Type x)), (''exit_code'', JInt (xs_ExitCode x)), (''stdout'', JStr (xs_Stdout x)),
      (''stderr'', JStr (xs_Stderr x)), (''elapsed_ms'', ms (xs_ElapsedUs x))] @
     (if xs_Error x = '''' then [] else [(''error'', JStr (xs_Error x))]))" by simp
  from member_text [OF this] have "6 * n + 2 \<le> length (json_text (response_json ms x))"
    unfolding response_json_def assms(3) escaped_text .
  with assms(4) have "\<not> length (json_text (response_json ms x)) \<le> response_limit" by (simp add: response_limit_def)
  with assms(1,2) show ?thesis by (simp add: callHarness_def limit_reader_def text_of_def unmarshal_def)
qed

theorem escaped_output_unreadable_witness:
  "fst (run_state (callHarness ((stub True [])\<lparr>sv_Post := (\<lambda>_ _ _. ret (Inr (Doc (response_json (\<lambda>us. JInt us)
        \<lparr>xs_Type = ''success'', xs_ExitCode = 0, xs_Stdout = replicate (2 ^ 21) (CHR ''<''), xs_Stderr = '''', xs_ElapsedUs = 0, xs_Error = ''''\<rparr>))))\<rparr>)
      ''10.0.0.2'' '''' '''' demo_params) 0) = Inl (Wrap ''parsing harness response: '' syntax_error '''')"
  by (subst escaped_output_unreadable [where ms = "\<lambda>us. JInt us" and n = "2 ^ 21" and w' = 0 and
        x = "\<lparr>xs_Type = ''success'', xs_ExitCode = 0, xs_Stdout = replicate (2 ^ 21) (CHR ''<''), xs_Stderr = '''', xs_ElapsedUs = 0, xs_Error = ''''\<rparr>"])
    simp_all

section \<open>How an execution ends\<close>

definition delivered :: "process \<Rightarrow> string \<times> string" where
  "delivered p = (case p of Ran out err _ _ _ _ \<Rightarrow> (take stdout_limit out, take stderr_limit err) | _ \<Rightarrow> ('''', ''''))"

text \<open>
  The answer tells how the process ended. It is a success exactly when the process ran, met its
  deadline and exited with status 0, a timeout exactly when the deadline passed, and an error with
  the exit status of the process or -1 otherwise; the output is what the process wrote, up to the
  limits, and is lost only when waiting for the process failed.
\<close>

theorem response_tells_the_end:
  "(xs_Type (response_of d p) = ''success'' \<longleftrightarrow> (\<exists>out err pid us. p = Ran out err ExitedZero False pid us \<or> p = Ran out err (Exited 0) False pid us)) \<and>
   (xs_Type (response_of d p) = ''timeout'' \<longleftrightarrow> (\<exists>out err en pid us. p = Ran out err en True pid us)) \<and>
   (xs_Type (response_of d p) = ''success'' \<longrightarrow> xs_ExitCode (response_of d p) = 0) \<and>
   (\<forall>out err n pid us. p = Ran out err (Exited n) False pid us \<longrightarrow> xs_ExitCode (response_of d p) = n) \<and>
   (xs_Stdout (response_of d p), xs_Stderr (response_of d p)) =
     (if \<exists>out err e pid us. p = Ran out err (WaitFailed e) False pid us then ('''', '''') else delivered p) \<and>
   length (xs_Stdout (response_of d p)) \<le> stdout_limit \<and> length (xs_Stderr (response_of d p)) \<le> stderr_limit"
  by (cases p; cases "case p of Ran _ _ en _ _ _ \<Rightarrow> en | _ \<Rightarrow> ExitedZero")
    (auto simp: response_of_def failed_response_def error_response_def delivered_def Let_def)

theorem response_tells_the_end_witness:
  "xs_ExitCode (response_of ''30s'' (Ran ''a'' '''' (Exited 3) False 9 100)) = 3"
  using response_tells_the_end [of "''30s''" "Ran ''a'' '''' (Exited 3) False 9 100"] by simp

section \<open>Timeouts\<close>

text \<open>
  The manager waits longer than the harness. For every timeout in seconds that a request can
  carry, the deadline of the process is positive; as long as the nanoseconds plus the five seconds
  of reserve fit in 64 bits, the manager uses the same deadline and waits exactly five seconds
  longer; beyond that the multiplication wraps around.
\<close>

theorem http_timeout_exceeds_script:
  "0 < exec_timeout t \<and> script_timeout t = exec_timeout t \<and>
   (0 < t \<and> t * second + 5 * second < 2 ^ 63 \<longrightarrow> exec_timeout t = t * second \<and> http_timeout t = t * second + 5 * second) \<and>
   (- (2 ^ 63) \<le> t * second \<and> t \<le> 0 \<longrightarrow> exec_timeout t = 30 * second \<and> http_timeout t = 35 * second) \<and>
   http_timeout 9223372036 < 0"
proof -
  have i: "i64 x = x" if "- (2 ^ 63) \<le> x" "x < 2 ^ 63" for x using that by (simp add: i64_def)
  have "exec_timeout t = t * second \<and> http_timeout t = t * second + 5 * second" if "0 < t" "t * second + 5 * second < 2 ^ 63"
  proof -
    from that have "i64 (t * second) = t * second" "i64 (t * second + 5 * second) = t * second + 5 * second" "0 < t * second"
      by (auto simp: second_def intro!: i)
    then show ?thesis by (simp add: exec_timeout_def script_timeout_def http_timeout_def)
  qed
  moreover have "exec_timeout t = 30 * second \<and> http_timeout t = 35 * second" if "- (2 ^ 63) \<le> t * second" "t \<le> 0"
  proof -
    from that have "i64 (t * second) \<le> 0" by (subst i) (auto simp: second_def)
    then show ?thesis by (simp add: exec_timeout_def script_timeout_def http_timeout_def second_def i64_def)
  qed
  moreover have "0 < exec_timeout t" "script_timeout t = exec_timeout t"
    by (auto simp: exec_timeout_def script_timeout_def Let_def second_def)
  moreover have "http_timeout 9223372036 < 0" by code_simp
  ultimately show ?thesis by blast
qed

theorem http_timeout_exceeds_script_witness:
  "exec_timeout 60 = 60 * second \<and> http_timeout 60 = 65 * second"
  using http_timeout_exceeds_script [of 60] by (simp add: second_def)

section \<open>The environment\<close>







definition entries :: "string list \<Rightarrow> string \<Rightarrow> string list" where
  "entries env k = filter (\<lambda>e. has_prefix e (k @ ''='')) env"



lemma entries_replace:
  "appendOrReplace env k v = (if entries env k = [] then env @ [k @ ''='' @ v] else
     (let pre = takeWhile (\<lambda>e. \<not> has_prefix e (k @ ''='')) env; e = hd (dropWhile (\<lambda>e. \<not> has_prefix e (k @ ''='')) env) in
       pre @ (k @ ''='' @ v @ '':'' @ drop (length (k @ ''='')) e) # tl (dropWhile (\<lambda>e. \<not> has_prefix e (k @ ''='')) env)))"
  by (induction env) (auto simp: entries_def Let_def)












section \<open>Without an address\<close>

text \<open>
  A sentry without an address is called by \<^verbatim>\<open>runsc exec\<close>: the event, the environment, the dependencies and
  the timeout of the request have no effect, and nothing of stderr comes back.
\<close>

lemma fallback_ignores:
  "callHarness V '''' root i (q\<lparr>rp_Event := ev, rp_Env := env, rp_Deps := deps, rp_Timeout := n\<rparr>) = callHarness V '''' root i q"
  by (simp add: callHarness_def callHarnessViaExec_def)

lemma fallback_stderr: "run_state (callHarness V '''' root i q) w = (Inr res, w') \<Longrightarrow> rr_Stderr res = ''''"
  by (auto simp: callHarness_def callHarnessViaExec_def empty_result_def split: if_splits prod.splits option.splits)

end
