(* ===== verification/Api_Server.thy ===== *)
theory Api_Server
  imports Api Transition
begin

text \<open>
  The goroutines of \<^verbatim>\<open>internal/api/server.go\<close> and their interleavings: \<^verbatim>\<open>Serve\<close> after it has opened
  the socket, one handler for each connection, the goroutine of a drain request, and the calls of
  \<^verbatim>\<open>Stop\<close>, of which \<^verbatim>\<open>sync.Once\<close> lets one through while the others wait for it. What a handler does to
  the pools, and \<^verbatim>\<open>Manager.Shutdown\<close>, are one step each here.
\<close>

section \<open>The machine\<close>

text \<open>
  The points of \<^verbatim>\<open>Serve\<close>: before \<^verbatim>\<open>s.listener\<close> is set, in \<^verbatim>\<open>Accept\<close>, with a connection but before
  \<^verbatim>\<open>wg.Add\<close>, with an error before the \<^verbatim>\<open>select\<close>; of a handler: before and after its request is
  dispatched; of the drain goroutine; and of \<^verbatim>\<open>Stop\<close>: before \<^verbatim>\<open>Do\<close>, before each of its three statements.
\<close>

datatype task =
    ServeOpens | Accepting | Accepted | AcceptFailed | ServeReturned
  | Handling | Answering | HandlerDone
  | Drains
  | StopEnters | StopCloses | StopHangsUp | StopWaits | StopReturned

datatype once = Fresh | Busy | Done

text \<open>\<^verbatim>\<open>drainCh\<close> closed or not, the listener (nil, open, closed), \<^verbatim>\<open>wg\<close>, \<^verbatim>\<open>stopOnce\<close>.\<close>

record api =
  ap_drained :: bool
  ap_listener :: "bool option"
  ap_wg :: nat
  ap_once :: once
  ap_tasks :: "task list"

text \<open>\<^verbatim>\<open>New\<close>, with the goroutine of \<^verbatim>\<open>Serve\<close> started by \<^verbatim>\<open>main\<close>.\<close>

definition newServer :: api where
  "newServer = \<lparr>ap_drained = False, ap_listener = None, ap_wg = 0, ap_once = Fresh, ap_tasks = [ServeOpens]\<rparr>"

text \<open>
  A step of one goroutine: its next point, the server, the goroutines it starts. The input \<open>b\<close> is
  whether the socket could be opened, whether \<^verbatim>\<open>Accept\<close> has a connection, whether the request is \<^verbatim>\<open>drain\<close>.
\<close>

fun task_step :: "bool \<Rightarrow> task \<Rightarrow> api \<Rightarrow> (task \<times> api \<times> task list) option" where
  "task_step b ServeOpens s = Some (if b then (Accepting, s\<lparr>ap_listener := Some True\<rparr>, []) else (ServeReturned, s, []))"
| "task_step b Accepting s =
     (if \<not> b then Some (AcceptFailed, s, []) else if ap_listener s = Some True then Some (Accepted, s, []) else None)"
| "task_step b Accepted s = Some (Accepting, s\<lparr>ap_wg := ap_wg s + 1\<rparr>, [Handling])"
| "task_step b AcceptFailed s = Some (if ap_drained s then ServeReturned else Accepting, s, [])"
| "task_step b Handling s = Some (Answering, s, if b then [Drains] else [])"
| "task_step b Answering s = Some (HandlerDone, s\<lparr>ap_wg := ap_wg s - 1\<rparr>, [])"
| "task_step b Drains s = Some (StopEnters, s, [])"
| "task_step b StopEnters s =
     (case ap_once s of Fresh \<Rightarrow> Some (StopCloses, s\<lparr>ap_once := Busy\<rparr>, []) | Busy \<Rightarrow> None | Done \<Rightarrow> Some (StopReturned, s, []))"
| "task_step b StopCloses s = Some (StopHangsUp, s\<lparr>ap_drained := True\<rparr>, [])"
| "task_step b StopHangsUp s = Some (StopWaits, s\<lparr>ap_listener := map_option (\<lambda>_. False) (ap_listener s)\<rparr>, [])"
| "task_step b StopWaits s = (if ap_wg s = 0 then Some (StopReturned, s\<lparr>ap_once := Done\<rparr>, []) else None)"
| "task_step b _ s = None"

text \<open>\<^verbatim>\<open>main\<close> calls \<^verbatim>\<open>Stop\<close> once; any goroutine may.\<close>

datatype api_action = CallStop | Go nat bool

fun api_step :: "api_action \<Rightarrow> api \<Rightarrow> api option" where
  "api_step CallStop s = Some (s\<lparr>ap_tasks := ap_tasks s @ [StopEnters]\<rparr>)"
| "api_step (Go t b) s =
     (if t < length (ap_tasks s) then
        map_option (\<lambda>(k, s', new). s'\<lparr>ap_tasks := (ap_tasks s)[t := k] @ new\<rparr>) (task_step b (ap_tasks s ! t) s)
      else None)"

section \<open>Counting goroutines\<close>

fun is_serve :: "task \<Rightarrow> bool" where
  "is_serve ServeOpens = True"
| "is_serve Accepting = True"
| "is_serve Accepted = True"
| "is_serve AcceptFailed = True"
| "is_serve ServeReturned = True"
| "is_serve _ = False"

fun is_handler :: "task \<Rightarrow> bool" where
  "is_handler Handling = True"
| "is_handler Answering = True"
| "is_handler _ = False"

fun in_stop :: "task \<Rightarrow> bool" where
  "in_stop StopCloses = True"
| "in_stop StopHangsUp = True"
| "in_stop StopWaits = True"
| "in_stop _ = False"

abbreviation counts :: "(task \<Rightarrow> bool) \<Rightarrow> api \<Rightarrow> nat" where
  "counts P s \<equiv> count_if P (ap_tasks s)"

definition api_inv :: "api \<Rightarrow> bool" where
  "api_inv s \<longleftrightarrow>
     counts is_serve s = 1 \<and> ap_wg s = counts is_handler s \<and>
     counts in_stop s = of_bool (ap_once s = Busy) \<and>
     (0 < counts (\<lambda>k. k = StopReturned) s \<longrightarrow> ap_once s = Done) \<and>
     (0 < counts (\<lambda>k. k \<in> {StopHangsUp, StopWaits}) s \<longrightarrow> ap_drained s) \<and>
     (ap_once s = Done \<longrightarrow> ap_drained s \<and>
        (ap_listener s \<noteq> Some True \<longrightarrow> counts is_handler s + counts (\<lambda>k. k = Accepted) s \<le> 1))"

lemma go_counts:
  assumes "api_step (Go t b) s = Some s'"
  obtains k u new where "task_step b (ap_tasks s ! t) s = Some (k, u, new)" and "s' = u\<lparr>ap_tasks := (ap_tasks s)[t := k] @ new\<rparr>"
    and "\<And>P. counts P s' + of_bool (P (ap_tasks s ! t)) = counts P s + of_bool (P k) + count_if P new"
    and "\<And>P. P (ap_tasks s ! t) \<Longrightarrow> 0 < counts P s"
proof -
  from assms obtain k u new where st: "task_step b (ap_tasks s ! t) s = Some (k, u, new)"
    and s': "s' = u\<lparr>ap_tasks := (ap_tasks s)[t := k] @ new\<rparr>" and t: "t < length (ap_tasks s)"
    by (auto split: if_splits)
  have "counts P s' + of_bool (P (ap_tasks s ! t)) = counts P s + of_bool (P k) + count_if P new" for P
    using count_if_update [OF t, of P k] by (simp add: s' of_bool_def)
  moreover have "0 < counts P s" if "P (ap_tasks s ! t)" for P
    using that t by (rule count_if_pos [rotated])
  ultimately show ?thesis using that st s' by blast
qed

lemma go_keeps:
  assumes "api_step (Go t b) s = Some s'" and inv: "api_inv s"
  shows "api_inv s'"
proof -
  obtain k u new where st: "task_step b (ap_tasks s ! t) s = Some (k, u, new)"
    and s': "s' = u\<lparr>ap_tasks := (ap_tasks s)[t := k] @ new\<rparr>"
    and c: "\<And>P. counts P s' + of_bool (P (ap_tasks s ! t)) = counts P s + of_bool (P k) + count_if P new"
    and at: "\<And>P. P (ap_tasks s ! t) \<Longrightarrow> 0 < counts P s"
    using go_counts [OF assms(1)] by blast
  have step: "counts P s' = counts P s + of_bool (P k) + count_if P new - of_bool (P (ap_tasks s ! t))" for P
    using c [of P] by simp
  have same [simp]: "ap_drained s' = ap_drained u" "ap_listener s' = ap_listener u" "ap_wg s' = ap_wg u" "ap_once s' = ap_once u"
    by (simp_all add: s')
  have i: "counts is_serve s = 1" "ap_wg s = counts is_handler s" "counts in_stop s = of_bool (ap_once s = Busy)"
    "0 < counts (\<lambda>k. k = StopReturned) s \<Longrightarrow> ap_once s = Done"
    "0 < counts (\<lambda>k. k \<in> {StopHangsUp, StopWaits}) s \<Longrightarrow> ap_drained s"
    "ap_once s = Done \<Longrightarrow> ap_drained s"
    "ap_once s = Done \<Longrightarrow> ap_listener s \<noteq> Some True \<Longrightarrow> counts is_handler s + counts (\<lambda>k. k = Accepted) s \<le> 1"
    using inv by (auto simp: api_inv_def)
  have "counts is_serve s' = 1"
    using st i(1) at [of is_serve] by (cases "ap_tasks s ! t") (auto simp: step split: if_splits once.splits)
  moreover have "ap_wg s' = counts is_handler s'"
    using st i(2) at [of is_handler] by (cases "ap_tasks s ! t") (auto simp: step split: if_splits once.splits)
  moreover have "counts in_stop s' = of_bool (ap_once s' = Busy)"
    using st i(3) at [of in_stop] by (cases "ap_tasks s ! t") (auto simp: step split: if_splits once.splits)
  moreover have "ap_once s' = Done" if "0 < counts (\<lambda>k. k = StopReturned) s'"
    using st i(3,4) at [of in_stop] that by (cases "ap_tasks s ! t") (auto simp: step split: if_splits once.splits)
  moreover have "ap_drained s'" if "0 < counts (\<lambda>k. k \<in> {StopHangsUp, StopWaits}) s'"
    using st i(5) at [of "\<lambda>k. k \<in> {StopHangsUp, StopWaits}"] that
    by (cases "ap_tasks s ! t") (auto simp: step split: if_splits once.splits)
  moreover have "ap_drained s'" if "ap_once s' = Done"
    using st i(5,6) at [of "\<lambda>k. k \<in> {StopHangsUp, StopWaits}"] that
    by (cases "ap_tasks s ! t") (auto split: if_splits once.splits)
  moreover have "counts is_handler s' + counts (\<lambda>k. k = Accepted) s' \<le> 1" if "ap_once s' = Done" "ap_listener s' \<noteq> Some True"
  proof (cases "ap_tasks s ! t")
    case StopWaits
    have "counts (\<lambda>k. k = Accepted) s \<le> counts is_serve s" by (rule count_if_mono) simp
    with StopWaits st i(1,2) show ?thesis by (auto simp: step split: if_splits)
  qed (use st i(3,7) at [of in_stop] at [of "\<lambda>k. k = Accepted"] that in \<open>auto simp: step split: if_splits once.splits\<close>)
  ultimately show ?thesis unfolding api_inv_def by blast
qed

lemma api_step_inv: "api_step a s = Some s' \<Longrightarrow> api_inv s \<Longrightarrow> api_inv s'"
proof (cases a)
  case CallStop
  assume "api_step a s = Some s'" "api_inv s"
  with CallStop show ?thesis by (auto simp: api_inv_def)
next
  case (Go t b)
  assume "api_step a s = Some s'" "api_inv s"
  with Go show ?thesis using go_keeps by simp
qed

lemma newServer_inv: "s = newServer \<Longrightarrow> api_inv s"
  by (simp add: newServer_def api_inv_def)

interpretation serving: invariant_system "\<lambda>s. s = newServer" api_step api_inv
  by unfold_locales (fact newServer_inv api_step_inv)+

section \<open>Stopping\<close>

text \<open>
  C33: what \<^verbatim>\<open>Stop\<close> waits for. In every interleaving \<^verbatim>\<open>wg\<close> counts the connections being handled and
  at most one call of \<^verbatim>\<open>Stop\<close> is inside. Once a call has returned, the server is draining, and
  when it had a listener to close, at most one connection is still handled or about to be: one
  that \<^verbatim>\<open>Accept\<close> had delivered and \<^verbatim>\<open>wg\<close> did not count yet. The bound is reached.
\<close>

theorem Stop_leaves_one_handler:
  assumes "reach (\<lambda>s. s = newServer) api_step s"
  shows "ap_wg s = counts is_handler s \<and> counts in_stop s \<le> 1 \<and>
    (StopReturned \<in> set (ap_tasks s) \<longrightarrow> ap_drained s \<and>
      (ap_listener s = Some False \<longrightarrow> counts is_handler s + counts (\<lambda>k. k = Accepted) s \<le> 1))"
proof -
  have inv: "api_inv s" using assms by (rule serving.holds)
  moreover have "0 < counts (\<lambda>k. k = StopReturned) s" if "StopReturned \<in> set (ap_tasks s)"
    using that by (auto simp: count_if_def filter_empty_conv)
  ultimately show ?thesis by (auto simp: api_inv_def)
qed

text \<open>The connection that slips through: accepted, then the whole of \<^verbatim>\<open>Stop\<close>, then its handler.\<close>

definition late_handler :: "api_action list" where
  "late_handler = [Go 0 True, Go 0 True, CallStop, Go 1 True, Go 1 True, Go 1 True, Go 1 True, Go 0 True]"

definition late_state :: api where
  "late_state = \<lparr>ap_drained = True, ap_listener = Some False, ap_wg = 1, ap_once = Done, ap_tasks = [Accepting, StopReturned, Handling]\<rparr>"

lemma late_run: "run_all api_step late_handler newServer = Some late_state"
  by code_simp

lemma late_reach: "reach (\<lambda>s. s = newServer) api_step late_state"
  by (rule reach_run [OF reach.init late_run]) simp

theorem Stop_leaves_one_handler_witness:
  "StopReturned \<in> set (ap_tasks late_state) \<and> Handling \<in> set (ap_tasks late_state) \<and> ap_wg late_state = 1 \<and>
   counts is_handler late_state = 1 \<and> ap_drained late_state"
  using Stop_leaves_one_handler [OF late_reach] by (simp add: late_state_def)

end
