(* ===== verification/Load_Properties.thy ===== *)
theory Load_Properties
  imports Config_Load
begin

text \<open>
  What \<^verbatim>\<open>Load\<close> of \<^verbatim>\<open>internal/config/config.go\<close> makes of a document that leaves things out: it decodes
  into a configuration that already holds the defaults.
\<close>

section \<open>Members that are not there\<close>

text \<open>Some member goes to the field \<open>f\<close>; names are compared without regard to case.\<close>

definition mentions :: "string \<Rightarrow> (string \<times> json) list \<Rightarrow> bool" where
  "mentions f ms = list_ex (\<lambda>(k, _). fold_eq f k) ms"

lemma mentions_filter: "mentions f ms \<longleftrightarrow> filter (\<lambda>(k, _). fold_eq f k) ms \<noteq> []"
  by (auto simp: mentions_def list_ex_iff filter_empty_conv)

lemma find_field_Some: "find_field fs k = Some d \<Longrightarrow> \<exists>f. (f, d) \<in> set fs \<and> fold_eq f k"
proof (cases "map_of fs k")
  case None
  assume "find_field fs k = Some d"
  with None obtain i where "i < length fs" "snd (fs ! i) = d" "fold_eq (fst (fs ! i)) k"
    by (auto simp: find_field_def find_Some_iff)
  then show ?thesis by (metis nth_mem prod.collapse)
qed (auto simp: find_field_def fold_eq_def dest: map_of_SomeD)

lemma dec_members_append:
  "dec_members fs (ms @ ns) r = (case dec_members fs ms r of Inl e \<Rightarrow> Inl e | Inr r' \<Rightarrow> dec_members fs ns r')"
  by (induction fs ms r rule: dec_members.induct) (auto split: option.splits sum.splits)

text \<open>The field \<open>p\<close> is named \<open>n\<close>, or decoding it does not change the part \<open>g\<close> of the struct.\<close>

definition field_ok :: "string \<Rightarrow> ('r \<Rightarrow> 'a) \<Rightarrow> string \<times> (json \<Rightarrow> 'r \<Rightarrow> 'r result) \<Rightarrow> bool" where
  "field_ok n g p \<longleftrightarrow> fst p = n \<or> (\<forall>j r r'. snd p j r = Inr r' \<longrightarrow> g r' = g r)"

lemma field_okI: "n' = n \<or> (\<forall>x r. g (put (\<lambda>_. x) r) = g r) \<Longrightarrow> field_ok n g (field n' get put dec)"
  by (auto simp: field_ok_def field_def split: sum.splits)

text \<open>A part of a struct stays as it is when the only field that changes it is not mentioned.\<close>

lemma dec_members_keep:
  assumes "list_all (field_ok n g) fs" and "dec_members fs ms r = Inr r'" and "\<not> mentions n ms"
  shows "g r' = g r"
  using assms(2,3)
proof (induction ms arbitrary: r)
  case (Cons m ms)
  obtain k j where m: "m = (k, j)" by fastforce
  with Cons.prems(2) have k: "\<not> fold_eq n k" "\<not> mentions n ms" by (auto simp: mentions_def)
  show ?case
  proof (cases "find_field fs k")
    case None
    with Cons m k(2) show ?thesis by simp
  next
    case (Some d)
    with find_field_Some obtain f where f: "(f, d) \<in> set fs" "fold_eq f k" by blast
    with k(1) assms(1) have keep: "d j r = Inr r1 \<Longrightarrow> g r1 = g r" for r1
      by (auto simp: list_all_iff field_ok_def)
    from Some Cons.prems(1) m obtain r1 where r1: "d j r = Inr r1" "dec_members fs ms r1 = Inr r'"
      by (auto split: sum.splits)
    from Cons.IH [OF r1(2) k(2)] keep [OF r1(1)] show ?thesis by simp
  qed
qed simp

section \<open>Sections\<close>

lemma Load_Doc: "Load path (Inr (Doc (JObj ms))) = Inr c \<Longrightarrow> dec_members config_fields ms default_config = Inr c"
  by (auto simp: Load_def unmarshal_def split: if_splits sum.splits)

lemma config_ok:
  "list_all (field_ok ''daemon'' cfg_Daemon) config_fields" "list_all (field_ok ''runsc'' cfg_Runsc) config_fields"
  "list_all (field_ok ''network'' cfg_Network) config_fields" "list_all (field_ok ''cgroup'' cfg_Cgroup) config_fields"
  "list_all (field_ok ''resource_classes'' cfg_ResourceClasses) config_fields"
  "list_all (field_ok ''limits'' cfg_Limits) config_fields" "list_all (field_ok ''templates'' cfg_Templates) config_fields"
  unfolding config_fields_def list.pred_inject by (intro conjI TrueI field_okI; simp)+

lemma class_ok:
  "list_all (field_ok ''name'' rc_Name) class_fields" "list_all (field_ok ''cpu_millis'' rc_CPUMillis) class_fields"
  "list_all (field_ok ''memory_mb'' rc_MemoryMB) class_fields"
  unfolding class_fields_def list.pred_inject by (intro conjI TrueI field_okI; simp)+

lemmas config_keep = config_ok [THEN dec_members_keep]
lemmas class_keep = class_ok [THEN dec_members_keep]

section \<open>Resource classes\<close>

text \<open>What the element \<open>i\<close> of a slice is decoded into.\<close>

definition old_item :: "'a \<Rightarrow> 'a list \<Rightarrow> nat \<Rightarrow> 'a" where
  "old_item zero old i = (if i < length old then old ! i else zero)"

lemma dec_items_nth:
  "dec_items zero d js old = Inr ys \<Longrightarrow>
     length ys = length js \<and> (\<forall>i < length js. d (js ! i) (old_item zero old i) = Inr (ys ! i))"
proof (induction zero d js old arbitrary: ys rule: dec_items.induct)
  case (2 zero d j js old)
  then obtain y zs where y: "d j (case old of [] \<Rightarrow> zero | x # _ \<Rightarrow> x) = Inr y"
    and zs: "dec_items zero d js (tl old) = Inr zs" "ys = y # zs" by (auto split: sum.splits)
  have "old_item zero old 0 = (case old of [] \<Rightarrow> zero | x # _ \<Rightarrow> x)"
    and "old_item zero old (Suc i) = old_item zero (tl old) i" for i
    by (cases old; auto simp: old_item_def)+
  with 2(1) [OF y zs(1)] y zs(2) show ?case by (auto simp: nth_Cons split: nat.splits)
qed simp

lemma classes_decoded:
  assumes "dec_members config_fields ms r = Inr c"
    and "filter (\<lambda>(k, _). fold_eq ''resource_classes'' k) ms = [(''resource_classes'', j)]"
  shows "dec_slice zero_class (dec_struct class_fields) j (cfg_ResourceClasses r) = Inr (cfg_ResourceClasses c)"
proof -
  from assms(2) obtain pre post where ms: "ms = pre @ (''resource_classes'', j) # post"
    and no: "\<not> mentions ''resource_classes'' pre" "\<not> mentions ''resource_classes'' post"
    by (fastforce simp: filter_eq_Cons_iff mentions_filter filter_empty_conv eq_commute [of "[]"])
  from assms(1) obtain r1 r2 where r1: "dec_members config_fields pre r = Inr r1"
    and mid: "dec_members config_fields [(''resource_classes'', j)] r1 = Inr r2" and r2: "dec_members config_fields post r2 = Inr c"
    unfolding ms by (auto simp: dec_members_append split: sum.splits option.splits)
  have "find_field config_fields ''resource_classes'' =
      Some (snd (field ''resource_classes'' cfg_ResourceClasses cfg_ResourceClasses_update (dec_slice zero_class (dec_struct class_fields))))"
    by (simp add: find_field_def config_fields_def field_def)
  with mid have "dec_slice zero_class (dec_struct class_fields) j (cfg_ResourceClasses r1) = Inr (cfg_ResourceClasses r2)"
    by (auto simp: field_def split: sum.splits)
  with config_keep(5) [OF r1 no(1)] config_keep(5) [OF r2 no(2)] show ?thesis by simp
qed

text \<open>
  C32: what a configuration file leaves out. When \<^verbatim>\<open>Load\<close> succeeds, every section the document does
  not mention is the default. The resource classes of the document replace the default ones, but
  each class is decoded into the default class at its position: a limit it does not give is the
  limit of small, medium or large, and only from the fourth class on zero.
\<close>

theorem Load_completes:
  assumes "Load path (Inr (Doc (JObj ms))) = Inr c"
  shows "(\<not> mentions ''daemon'' ms \<longrightarrow> cfg_Daemon c = cfg_Daemon default_config) \<and>
    (\<not> mentions ''runsc'' ms \<longrightarrow> cfg_Runsc c = cfg_Runsc default_config) \<and>
    (\<not> mentions ''network'' ms \<longrightarrow> cfg_Network c = cfg_Network default_config) \<and>
    (\<not> mentions ''cgroup'' ms \<longrightarrow> cfg_Cgroup c = cfg_Cgroup default_config) \<and>
    (\<not> mentions ''resource_classes'' ms \<longrightarrow> cfg_ResourceClasses c = cfg_ResourceClasses default_config) \<and>
    (\<not> mentions ''limits'' ms \<longrightarrow> cfg_Limits c = cfg_Limits default_config) \<and>
    (\<not> mentions ''templates'' ms \<longrightarrow> cfg_Templates c = cfg_Templates default_config) \<and>
    (\<forall>js. filter (\<lambda>(k, _). fold_eq ''resource_classes'' k) ms = [(''resource_classes'', JArr js)] \<longrightarrow>
       length (cfg_ResourceClasses c) = length js \<and>
       (\<forall>i < length js. \<forall>cls. js ! i = JObj cls \<longrightarrow>
          (\<not> mentions ''cpu_millis'' cls \<longrightarrow>
             rc_CPUMillis (cfg_ResourceClasses c ! i) = (if i < 3 then [500, 1000, 2000] ! i else 0)) \<and>
          (\<not> mentions ''memory_mb'' cls \<longrightarrow>
             rc_MemoryMB (cfg_ResourceClasses c ! i) = (if i < 3 then [512, 1024, 4096] ! i else 0))))"
proof -
  note dec = Load_Doc [OF assms]
  have "length (cfg_ResourceClasses c) = length js \<and>
      (\<forall>i < length js. \<forall>cls. js ! i = JObj cls \<longrightarrow>
         (\<not> mentions ''cpu_millis'' cls \<longrightarrow> rc_CPUMillis (cfg_ResourceClasses c ! i) = (if i < 3 then [500, 1000, 2000] ! i else 0)) \<and>
         (\<not> mentions ''memory_mb'' cls \<longrightarrow> rc_MemoryMB (cfg_ResourceClasses c ! i) = (if i < 3 then [512, 1024, 4096] ! i else 0)))"
    if "filter (\<lambda>(k, _). fold_eq ''resource_classes'' k) ms = [(''resource_classes'', JArr js)]" for js
  proof -
    have items: "dec_items zero_class (dec_struct class_fields) js (cfg_ResourceClasses default_config) = Inr (cfg_ResourceClasses c)"
      using classes_decoded [OF dec that] by simp
    have old: "rc_CPUMillis (old_item zero_class (cfg_ResourceClasses default_config) i) = (if i < 3 then [500, 1000, 2000] ! i else 0)"
      "rc_MemoryMB (old_item zero_class (cfg_ResourceClasses default_config) i) = (if i < 3 then [512, 1024, 4096] ! i else 0)" for i
      by (auto simp: old_item_def default_config_def zero_class_def less_Suc_eq numeral_3_eq_3 nth_Cons split: nat.splits)
    show ?thesis
      using dec_items_nth [OF items] class_keep(2,3) by (auto simp: old [symmetric])
  qed
  with config_keep [OF dec] show ?thesis by blast
qed

definition tiny_class :: json where
  "tiny_class = JObj [(''name'', JStr ''tiny'')]"

definition tiny_config :: config where
  "tiny_config = default_config\<lparr>cfg_ResourceClasses := [\<lparr>rc_Name = ''tiny'', rc_CPUMillis = 500, rc_MemoryMB = 512\<rparr>]\<rparr>"

lemma tiny_loads: "Load ''f'' (Inr (Doc (JObj [(''resource_classes'', JArr [tiny_class])]))) = Inr tiny_config"
  by code_simp

theorem Load_completes_witness:
  "rc_CPUMillis (cfg_ResourceClasses tiny_config ! 0) = 500 \<and> rc_MemoryMB (cfg_ResourceClasses tiny_config ! 0) = 512 \<and>
   cfg_Limits tiny_config = DefaultLimits"
  using Load_completes [OF tiny_loads]
  by (simp add: mentions_def fold_eq_def to_lower_def has_prefix_def tiny_class_def default_config_def)

end
