(* ===== verification/Shutdown_Properties.thy ===== *)
theory Shutdown_Properties
  imports Ops_Properties Frames
begin

text \<open>
  \<^verbatim>\<open>Manager.Shutdown\<close> end to end: what the operations on one pool leave of the rest of the manager's
  state, and that nothing is left to hand out once it has returned.
\<close>

section \<open>Operations on one pool\<close>




section \<open>Shutting down\<close>









end
