(* ===== verification/Recycle_Properties.thy ===== *)
theory Recycle_Properties
  imports Ops_Properties Pool_Owner
begin

text \<open>
  What a recycle makes of its sentry: with a warm sentry it comes back healthy and counted, or it
  is replaced; a replaced sentry never comes back.
\<close>

section \<open>Replacement\<close>

text \<open>The reference has been given out and is no member.\<close>

definition retired :: "ref \<Rightarrow> pool \<Rightarrow> bool" where
  "retired r p \<longleftrightarrow> r \<le> p_nextID p \<and> r \<notin> set (p_sentries p)"

lemma cond_signal_same [simp]: "p_nextID (cond_signal p) = p_nextID p" "p_sentries (cond_signal p) = p_sentries p"
    "p_heap (cond_signal p) = p_heap p"
  by (simp_all add: cond_signal_def split: list.splits)

lemma upd_sentry_same [simp]: "p_nextID (upd_sentry r f p) = p_nextID p" "p_sentries (upd_sentry r f p) = p_sentries p"
  by (simp_all add: upd_sentry_def)

lemma retired_upd [simp]: "retired r (upd_sentry r' f p) = retired r p" "retired r (cond_signal p) = retired r p"
  by (simp_all add: retired_def)




section \<open>Recycling\<close>






end
