(* ===== verification/Output_Pipes.thy ===== *)
theory Output_Pipes
  imports Harness
begin

text \<open>
  The harness reads the two pipes of its process one after the other: \<^verbatim>\<open>io.ReadAll\<close> on stdout, then
  on stderr, then \<^verbatim>\<open>cmd.Wait\<close>. A pipe holds a bounded number of bytes and a writer of a full pipe
  sleeps. The process writes a given sequence of bytes to its two streams and exits; it and the
  harness take turns in any order. The deadline, which kills the process, is outside of this machine:
  a state without a next step is one that only the deadline ends.
\<close>

section \<open>The machine\<close>









section \<open>Every run ends\<close>





section \<open>What a run keeps\<close>












end
