(* ===== verification/Lease_Timers.thy ===== *)
theory Lease_Timers
  imports Pool_Properties
begin

text \<open>
  The timers of leases: \<^verbatim>\<open>registerLease\<close> starts one before it enters the lease in the table,
  \<^verbatim>\<open>Complete\<close> and \<^verbatim>\<open>Manager.Shutdown\<close> stop it, and when it fires it calls \<^verbatim>\<open>Complete\<close>
  (\<^verbatim>\<open>internal/pool/pool.go\<close>). A layer over the machine of interleavings: the armed timers by lease ID.
\<close>

section \<open>The machine with timers\<close>

text \<open>
  \<open>td_used\<close> are the lease IDs drawn so far, \<open>td_early\<close> those whose timer fired when the table had no
  such lease yet.
\<close>

record timed =
  td_sys :: sys
  td_timers :: "string list"
  td_used :: "string list"
  td_early :: "string list"

text \<open>\<^verbatim>\<open>l.timer.Stop()\<close> for every lease of the table.\<close>

definition stop_all :: "leases \<Rightarrow> string list \<Rightarrow> string list" where
  "stop_all L ts = filter (\<lambda>lid. lid \<notin> fst ` set L) ts"

text \<open>
  What a step of a goroutine does to the timers: \<^verbatim>\<open>registerLease\<close> draws the ID and arms the timer
  between marking the sentry and entering the lease; \<^verbatim>\<open>Complete\<close> stops the timer of the lease it finds.
  The 16 random bytes of an ID are taken to be new each time.
\<close>

definition timers_run :: "input \<Rightarrow> pc \<Rightarrow> timed \<Rightarrow> timed option" where
  "timers_run i c t =
     (case c of
        X (XLease r) \<Rightarrow>
          if i_lid i \<in> set (td_used t) then None
          else Some (t\<lparr>td_timers := i_lid i # td_timers t, td_used := i_lid i # td_used t\<rparr>)
      | K (KStart lid) \<Rightarrow>
          if map_of (m_leases (td_sys t)) lid = None then Some t else Some (t\<lparr>td_timers := removeAll lid (td_timers t)\<rparr>)
      | _ \<Rightarrow> Some t)"

definition timers_act :: "action \<Rightarrow> timed \<Rightarrow> timed option" where
  "timers_act a t =
     (case a of
        Run u i \<Rightarrow> if u < length (m_thr (td_sys t)) then timers_run i (m_thr (td_sys t) ! u) t else None
      | ClearLeases \<Rightarrow> Some (t\<lparr>td_timers := stop_all (m_leases (td_sys t)) (td_timers t)\<rparr>)
      | _ \<Rightarrow> Some t)"

datatype timed_action = Act action | Expire string

fun timed_step :: "setting \<Rightarrow> timed_action \<Rightarrow> timed \<Rightarrow> timed option" where
  "timed_step g (Act a) t =
     (case (fire g a (td_sys t), timers_act a t) of
        (Some s, Some t') \<Rightarrow> Some (t'\<lparr>td_sys := s\<rparr>)
      | _ \<Rightarrow> None)"
| "timed_step g (Expire lid) t =
     (if lid \<in> set (td_timers t) then
        map_option (\<lambda>s. t\<lparr>td_sys := s, td_timers := removeAll lid (td_timers t),
             td_early := (if map_of (m_leases (td_sys t)) lid = None then lid # td_early t else td_early t)\<rparr>)
          (fire g (CallComplete lid) (td_sys t))
      else None)"

definition timed_initial :: "timed \<Rightarrow> bool" where
  "timed_initial t \<longleftrightarrow> initial (td_sys t) \<and> td_timers t = [] \<and> td_used t = [] \<and> td_early t = []"

text \<open>Without its timers a run is a run of the machine, so all its invariants hold.\<close>

interpretation timers: simulated initial "fire g" timed_initial "timed_step g" td_sys for g
proof
  show "initial (td_sys t)" if "timed_initial t" for t
    using that by (simp add: timed_initial_def)
  show "td_sys t' = td_sys t \<or> (\<exists>a. fire g a (td_sys t) = Some (td_sys t'))" if "timed_step g b t = Some t'" for b t t'
  proof (cases b)
    case (Expire lid)
    with that have "fire g (CallComplete lid) (td_sys t) = Some (td_sys t')" by (auto split: if_splits)
    then show ?thesis by blast
  qed (use that in \<open>auto split: option.splits\<close>)
qed

lemma leased_sentry:
  assumes "reach timed_initial (timed_step g) t" and "map_of (m_leases (td_sys t)) lid = Some r"
  shows "sentry_state (m_pool (td_sys t)) r = Some StateRunning \<and> lease_of (m_pool (td_sys t)) r = Some lid"
proof -
  have sys: "reachable g (td_sys t)" using assms(1) by (rule timers.reach_abs)
  from ownership.holds [OF sys] have "own_inv (m_pool (td_sys t)) (m_leases (td_sys t)) (m_thr (td_sys t))"
    by (simp add: sys_inv_def pool_inv_def)
  with leasing.holds_more [OF sys] map_of_SomeD [OF assms(2)] show ?thesis
    by (auto simp: lease_inv_def lid_inv_def intro: own_lease)
qed

section \<open>Which steps touch the lease table\<close>

fun enters :: "string \<Rightarrow> pc \<Rightarrow> bool" where
  "enters lid (X (XInsert r lid')) = (lid' = lid)"
| "enters lid _ = False"

fun completes :: "string \<Rightarrow> pc \<Rightarrow> bool" where
  "completes lid (K (KStart lid')) = (lid' = lid)"
| "completes lid _ = False"

lemma thread_step_leases:
  assumes "thread_step w t i c p L = Some (c', p', L', new)"
  obtains (draw) r where "c = X (XLease r)" "c' = X (XInsert r (i_lid i))" "L' = L" "new = []"
  | (enter) r lid where "c = X (XInsert r lid)" "L' = AList.update lid r L" "\<And>x. \<not> enters x c' \<and> \<not> completes x c'" "new = []"
  | (complete) lid where "c = K (KStart lid)" "L' = AList.delete lid L \<or> map_of L lid = None \<and> L' = L"
      "\<And>x. \<not> enters x c' \<and> \<not> completes x c'" "\<And>x d. d \<in> set new \<Longrightarrow> \<not> enters x d \<and> \<not> completes x d"
  | (other) "L' = L" "\<And>x. \<not> enters x c \<and> \<not> enters x c' \<and> \<not> completes x c \<and> \<not> completes x c'"
      "\<And>x d. d \<in> set new \<Longrightarrow> \<not> enters x d \<and> \<not> completes x d" "\<And>r. c \<noteq> X (XLease r)"
proof (cases c)
  case (X x)
  show thesis
  proof (cases x)
    case (XLease r)
    with X assms draw show thesis by simp
  next
    case (XInsert r lid)
    with X assms show thesis by (intro enter [of r lid]) auto
  qed (use X assms other in \<open>auto simp: spawn_step_def Let_def split: prod.splits acquired.splits if_splits\<close>)
next
  case (K k)
  with assms complete other show thesis
    by (cases k) (auto simp: started_by_def split: option.splits)
next
  case (R r)
  show thesis
  proof (cases r)
    case (RLoop n)
    with R assms other show thesis by (cases n) (auto simp: spawn_step_def Let_def split: if_splits)
  qed (use R assms other in \<open>auto simp: spawn_step_def Let_def split: prod.splits if_splits bool.splits\<close>)
next
  case (H h)
  with assms other show thesis by (cases h) (auto split: prod.splits if_splits)
qed (use assms other in auto)

section \<open>Every lease has its timer\<close>

text \<open>One lease ID: held in the table, about to be entered, being completed, armed, fired early, drawn.\<close>

definition timer_ok :: "leases \<Rightarrow> pc list \<Rightarrow> timed \<Rightarrow> string \<Rightarrow> bool" where
  "timer_ok L thr t lid \<longleftrightarrow>
     (map_of L lid \<noteq> None \<longrightarrow> lid \<in> set (td_timers t) \<or> lid \<in> set (td_early t) \<or> 0 < count_if (completes lid) thr) \<and>
     (lid \<in> set (td_timers t) \<longrightarrow> map_of L lid \<noteq> None \<or> 0 < count_if (enters lid) thr) \<and>
     (0 < count_if (enters lid) thr \<longrightarrow> count_if (enters lid) thr = 1 \<and> map_of L lid = None \<and>
        (lid \<in> set (td_timers t) \<or> lid \<in> set (td_early t))) \<and>
     (map_of L lid \<noteq> None \<or> 0 < count_if (enters lid) thr \<or> lid \<in> set (td_timers t) \<or> lid \<in> set (td_early t)
        \<longrightarrow> lid \<in> set (td_used t))"

definition timer_inv :: "timed \<Rightarrow> bool" where
  "timer_inv t \<longleftrightarrow> (\<forall>lid. timer_ok (m_leases (td_sys t)) (m_thr (td_sys t)) t lid)"

lemma count_none: "(\<And>d. d \<in> set new \<Longrightarrow> \<not> P d) \<Longrightarrow> count_if P new = 0"
  by (simp add: count_if_zero)

lemma run_timers:
  assumes step: "thread_step w u i (thr ! u) p L = Some (c', p', L', new)" and u: "u < length thr"
    and L: "m_leases (td_sys t) = L" and tm: "timers_run i (thr ! u) t = Some t'" and ok: "timer_ok L thr t lid"
  shows "timer_ok L' (thr[u := c'] @ new) t' lid"
proof -
  let ?n = "count_if (enters lid)" and ?m = "count_if (completes lid)"
  have n: "?n (thr[u := c'] @ new) + (if enters lid (thr ! u) then 1 else 0) = ?n thr + (if enters lid c' then 1 else 0) + ?n new"
    and m: "?m (thr[u := c'] @ new) + (if completes lid (thr ! u) then 1 else 0) = ?m thr + (if completes lid c' then 1 else 0) + ?m new"
    using count_if_update [OF u, of "enters lid" c'] count_if_update [OF u, of "completes lid" c'] by simp_all
  have pos: "enters lid (thr ! u) \<Longrightarrow> 0 < ?n thr" using u by (rule count_if_pos)
  from step show ?thesis
  proof (cases rule: thread_step_leases)
    case (draw r)
    with tm have new_id: "i_lid i \<notin> set (td_used t)"
      and t': "t' = t\<lparr>td_timers := i_lid i # td_timers t, td_used := i_lid i # td_used t\<rparr>"
      by (auto simp: timers_run_def split: if_splits)
    from draw n m have "?n (thr[u := c'] @ new) = (if i_lid i = lid then 1 else 0) + ?n thr" "?m (thr[u := c'] @ new) = ?m thr"
      by simp_all
    with ok new_id draw(3) show ?thesis unfolding timer_ok_def t' by (cases "i_lid i = lid") simp_all
  next
    case (enter r l)
    with tm have t': "t' = t" by (simp add: timers_run_def)
    from enter n m have "?n (thr[u := c'] @ new) + (if l = lid then 1 else 0) = ?n thr" "?m (thr[u := c'] @ new) = ?m thr"
      by simp_all
    with ok pos enter show ?thesis unfolding timer_ok_def t' by (cases "l = lid") (auto simp: update_conv')
  next
    case (complete l)
    then have "?n new = 0" "?m new = 0" by (auto intro!: count_none)
    with complete n m have n': "?n (thr[u := c'] @ new) = ?n thr" and m': "?m (thr[u := c'] @ new) + (if l = lid then 1 else 0) = ?m thr"
      by simp_all
    show ?thesis
    proof (cases "map_of L l")
      case None
      with complete tm L have "t' = t" "L' = L" by (auto simp: timers_run_def map_of_eq_None_iff)
      with ok n' m' None show ?thesis by (cases "l = lid") (simp_all add: timer_ok_def)
    next
      case (Some r)
      with complete tm L have t': "t' = t\<lparr>td_timers := removeAll l (td_timers t)\<rparr>" "L' = AList.delete l L"
        by (auto simp: timers_run_def)
      with ok n' m' Some show ?thesis unfolding timer_ok_def t' by (cases "l = lid") (simp_all add: delete_conv')
    qed
  next
    case other
    then have "?n new = 0" "?m new = 0" by (auto intro!: count_none)
    moreover from other tm L have "t' = t" by (auto simp: timers_run_def split: pc.splits xpc.splits kpc.splits)
    ultimately show ?thesis using other n m ok by (auto simp: timer_ok_def)
  qed
qed

lemma timer_ok_frame:
  "timer_ok L thr t lid \<Longrightarrow> td_timers t' = td_timers t \<Longrightarrow> td_used t' = td_used t \<Longrightarrow> td_early t' = td_early t \<Longrightarrow>
     (\<And>c. c \<in> set new \<Longrightarrow> \<not> enters lid c) \<Longrightarrow> timer_ok L (thr @ new) t' lid"
  by (auto simp: timer_ok_def count_none)

lemma timed_keeps:
  assumes "timed_step g b t = Some t'" and "timer_inv t"
  shows "timer_inv t'"
proof (cases b)
  case (Expire lid)
  with assms(1) have lid: "lid \<in> set (td_timers t)"
    and t': "t' = t\<lparr>td_sys := (td_sys t)\<lparr>m_thr := m_thr (td_sys t) @ [K (KStart lid)]\<rparr>, td_timers := removeAll lid (td_timers t),
      td_early := (if map_of (m_leases (td_sys t)) lid = None then lid # td_early t else td_early t)\<rparr>"
    by (auto split: if_splits)
  have "timer_ok (m_leases (td_sys t')) (m_thr (td_sys t')) t' l" for l
  proof -
    from assms(2) have "timer_ok (m_leases (td_sys t)) (m_thr (td_sys t)) t l" by (simp add: timer_inv_def)
    with lid show ?thesis unfolding t' timer_ok_def by (cases "l = lid") auto
  qed
  then show ?thesis by (simp add: timer_inv_def)
next
  case (Act a)
  with assms(1) obtain s t1 where s: "fire g a (td_sys t) = Some s" and t1: "timers_act a t = Some t1"
    and t': "t' = t1\<lparr>td_sys := s\<rparr>" by (auto split: option.splits)
  have "timer_ok (m_leases s) (m_thr s) t' lid" for lid
  proof -
    have ok: "timer_ok (m_leases (td_sys t)) (m_thr (td_sys t)) t lid" using assms(2) by (simp add: timer_inv_def)
    show ?thesis
    proof (cases a)
      case (Run u i)
      with s t1 obtain c p L new where u: "u < length (m_thr (td_sys t))"
        and st: "thread_step (set_warm g) u i (m_thr (td_sys t) ! u) (m_pool (td_sys t)) (m_leases (td_sys t)) = Some (c, p, L, new)"
        and s': "m_leases s = L" "m_thr s = (m_thr (td_sys t))[u := c] @ new"
        and tm: "timers_run i (m_thr (td_sys t) ! u) t = Some t1"
        by (auto simp: timers_act_def split: if_splits option.splits)
      from run_timers [OF st u refl tm ok] show ?thesis unfolding s' t' by (simp add: timer_ok_def)
    next
      case ClearLeases
      with s t1 have "m_leases s = []" "m_thr s = m_thr (td_sys t)"
        and "t1 = t\<lparr>td_timers := stop_all (m_leases (td_sys t)) (td_timers t)\<rparr>" by (auto simp: timers_act_def)
      with ok show ?thesis unfolding t' by (auto simp: timer_ok_def stop_all_def map_of_eq_None_iff)
    next
      case (Tick now)
      with s t1 ok show ?thesis unfolding t'
        by (auto simp: timers_act_def split: if_splits prod.splits intro!: timer_ok_frame)
    qed (use s t1 ok in \<open>auto simp: t' timers_act_def intro!: timer_ok_frame\<close>)
  qed
  then show ?thesis by (simp add: timer_inv_def t')
qed

lemma timed_start: "timed_initial t \<Longrightarrow> timer_inv t"
  by (auto simp: timed_initial_def initial_def timer_inv_def timer_ok_def)

interpretation timing: invariant_system timed_initial "timed_step g" timer_inv for g
  by unfold_locales (fact timed_start timed_keeps)+

section \<open>Properties\<close>

text \<open>
  C24: no lease is forgotten. In every reachable state, the sentry of a lease in the table is running
  under this lease, and there is an armed timer for it, or a \<^verbatim>\<open>Complete\<close> of it is about to run, or its
  timer fired before \<^verbatim>\<open>registerLease\<close> had entered it, which \<^verbatim>\<open>Complete\<close> answered with an unknown lease. An
  armed timer belongs to a lease of the table or to one about to be entered: completing a lease and
  shutting the manager down stop it.
\<close>

theorem timers_cover_leases:
  assumes "reach timed_initial (timed_step g) t"
  shows "(\<forall>r. map_of (m_leases (td_sys t)) lid = Some r \<longrightarrow>
      sentry_state (m_pool (td_sys t)) r = Some StateRunning \<and> lease_of (m_pool (td_sys t)) r = Some lid \<and>
      (lid \<in> set (td_timers t) \<or> K (KStart lid) \<in> set (m_thr (td_sys t)) \<or> lid \<in> set (td_early t))) \<and>
    (lid \<in> set (td_timers t) \<longrightarrow>
      map_of (m_leases (td_sys t)) lid \<noteq> None \<or> (\<exists>r. X (XInsert r lid) \<in> set (m_thr (td_sys t))))"
proof -
  have comp: "completes lid c \<longleftrightarrow> c = K (KStart lid)" and ent: "enters lid c \<longleftrightarrow> (\<exists>r. c = X (XInsert r lid))" for c
    by (cases "(lid, c)" rule: completes.cases; simp) (cases "(lid, c)" rule: enters.cases; simp)
  from assms have "timer_inv t" by (rule timing.holds)
  then have "timer_ok (m_leases (td_sys t)) (m_thr (td_sys t)) t lid" by (simp add: timer_inv_def)
  with leased_sentry [OF assms] show ?thesis by (auto simp: timer_ok_def comp ent count_if_def filter_empty_conv)
qed

text \<open>A lease whose timer fires between its start and the insertion is never completed by the daemon itself.\<close>

definition early_timer :: "timed_action list" where
  "early_timer = [Act (Call ''''), Act (go 0), Act (go 0), Act (go 0), Expire ''l'', Act (go 1), Act (go 0)]"

definition timed_demo :: timed where
  "timed_demo = \<lparr>td_sys = demo_sys 1, td_timers = [], td_used = [], td_early = []\<rparr>"

definition early_state :: timed where
  "early_state = the (run_all (timed_step stock) early_timer timed_demo)"

lemma early_lease_leaks:
  "reach timed_initial (timed_step stock) early_state \<and> map_of (m_leases (td_sys early_state)) ''l'' = Some 1 \<and>
   td_timers early_state = [] \<and> m_thr (td_sys early_state) = [X (XDone (Inr ''l'')), K (KDone False)]"
proof -
  have run: "run_all (timed_step stock) early_timer timed_demo \<noteq> None" by code_simp
  have "timed_initial timed_demo" by (simp add: timed_initial_def timed_demo_def demo_initial)
  with run have "reach timed_initial (timed_step stock) early_state"
    by (auto simp: early_state_def intro: reach_run reach.init)
  moreover have "map_of (m_leases (td_sys early_state)) ''l'' = Some 1" "td_timers early_state = []"
    "m_thr (td_sys early_state) = [X (XDone (Inr ''l'')), K (KDone False)]" by code_simp+
  ultimately show ?thesis by blast
qed

theorem timers_cover_leases_witness:
  "map_of (m_leases (td_sys early_state)) ''l'' = Some 1 \<and> lease_of (m_pool (td_sys early_state)) 1 = Some ''l'' \<and>
   ''l'' \<in> set (td_early early_state)"
  using timers_cover_leases [of stock early_state "''l''"] early_lease_leaks by auto

end
