(* ===== verification/Api_Wire.thy ===== *)
theory Api_Wire
  imports Daemon Ops_Properties
begin

text \<open>
  The responses of the API as JSON (the tags of \<^verbatim>\<open>Response\<close> in \<^verbatim>\<open>internal/api/server.go\<close> and of the
  result types in \<^verbatim>\<open>internal/pool\<close>), and a call of the command-line client end to end: the request it
  sends, the handler of the daemon, the answer it prints. A quotient that the code computes with
  \<^verbatim>\<open>float64\<close> and writes as a JSON number is \<open>quot a b\<close> for an arbitrary \<open>quot\<close>.
\<close>

section \<open>Results as JSON\<close>












section \<open>A call of the client\<close>






section \<open>Errors have a text\<close>








section \<open>Calls end to end\<close>













end
