(* ===== verification/Daemon_Properties.thy ===== *)
theory Daemon_Properties
  imports Daemon Ops_Properties
begin

text \<open>
  How \<^verbatim>\<open>main\<close> of \<^verbatim>\<open>cmd/gvisord/main.go\<close> ends: on a configuration it refuses, on a pool that does not
  start, and after it has served.
\<close>

text \<open>What \<^verbatim>\<open>config.Load\<close> reads, and the configuration \<^verbatim>\<open>main\<close> goes on with.\<close>

definition read_config :: "replies \<Rightarrow> string \<Rightarrow> content result os" where
  "read_config orc configPath = (if configPath = '''' then ret (Inl not_exist) else os_ReadFile orc configPath)"

definition accepted :: "string \<Rightarrow> content result \<Rightarrow> config result" where
  "accepted configPath doc =
     (case Load configPath doc of
        Inl e \<Rightarrow> Inl e
      | Inr c \<Rightarrow> (case Validate c of Some e \<Rightarrow> Inl e | None \<Rightarrow> Inr c))"

lemma read_config_trace:
  "run_state (read_config orc path) w = (x, w') \<Longrightarrow>
     w' = w\<lparr>w_trace := w_trace w @ (if path = '''' then [] else [Fs (ReadFile path)])\<rparr>"
  by (auto simp: read_config_def os_ReadFile_def ask_def split: option.splits node.splits if_splits)

lemma daemon_setup_accepted:
  assumes "run_state (read_config orc path) w = (x, w1)"
  shows "accepted path x = Inl e \<Longrightarrow> run_state (daemon_setup orc PATH path pid) w = (Inl e, w1)"
    and "accepted path x = Inr c \<Longrightarrow> \<exists>V w2. run_state (daemon_setup orc PATH path pid) w = (Inr (c, V), w2)"
  using assms
  by (auto simp: daemon_setup_def read_config_def accepted_def split: sum.splits option.splits prod.splits)

section \<open>The calls at the end\<close>

text \<open>The last calls of \<open>m\<close> are \<open>evs\<close>.\<close>

definition ends_with :: "event list \<Rightarrow> (world, 'a) prog \<Rightarrow> bool" where
  "ends_with evs m \<longleftrightarrow> (\<forall>s. suffix evs (w_trace (mg_world (snd (run_state m s)))))"

lemma ends_with_bind: "(\<And>a. ends_with evs (f a)) \<Longrightarrow> ends_with evs (m \<bind> f)"
  by (auto simp: ends_with_def split: prod.splits)

lemma remove_trace: "run_state (os_Remove orc p) w = (e, w') \<Longrightarrow> w_trace w' = w_trace w @ [Fs (Remove p)]"
  by (auto simp: os_Remove_def ask_def split: option.splits if_splits)

definition last_calls :: "config \<Rightarrow> event list" where
  "last_calls c = Fs (Remove (dc_Socket (cfg_Daemon c))) #
     (if dc_PIDFile (cfg_Daemon c) = '''' then [] else [Fs (Remove (dc_PIDFile (cfg_Daemon c)))])"

lemma daemon_end_last: "ends_with (last_calls c) (daemon_end orc c V)"
  unfolding daemon_end_def
  by (rule ends_with_bind)
    (auto simp: ends_with_def last_calls_def run_ext suffix_def split: prod.splits dest!: remove_trace)

section \<open>A start that fails\<close>

definition failed_start :: "(string \<times> workload) list \<Rightarrow> goerr \<Rightarrow> bool" where
  "failed_start ws e \<longleftrightarrow> (\<exists>nm x. nm \<in> fst ` set ws \<and> e = Wrap (''starting pool '' @ go_quote nm @ '': '') x '''')"

lemma failed_start_Cons: "failed_start ws e \<Longrightarrow> failed_start (w # ws) e"
  unfolding failed_start_def by auto

lemma failed_start_now: "failed_start ((nm, wl) # ws) (Wrap (''starting pool '' @ go_quote nm @ '': '') x '''')"
  unfolding failed_start_def by (rule exI [of _ nm], rule exI [of _ x]) simp

lemma start_pools_error: "run_state (start_pools c V ws) s = (Some e, s') \<Longrightarrow> failed_start ws e"
proof (induction ws arbitrary: s)
  case (Cons nw ws)
  obtain nm wl where nw: "nw = (nm, wl)" by (cases nw)
  let ?s = "s\<lparr>mg_pools := AList.update nm (newPool nm wl) (mg_pools s)\<rparr>"
  obtain a s1 where a: "run_state (start_members c V nm 0 (nat (wl_PoolSize wl))) ?s = (a, s1)"
    by (cases "run_state (start_members c V nm 0 (nat (wl_PoolSize wl))) ?s")
  show ?case
  proof (cases a)
    case None
    with a Cons.prems nw have "run_state (start_pools c V ws) s1 = (Some e, s')" by simp
    from failed_start_Cons [OF Cons.IH [OF this]] show ?thesis .
  next
    case (Some x)
    with a Cons.prems nw have "e = Wrap (''starting pool '' @ go_quote nm @ '': '') x ''''" by simp
    with nw show ?thesis by (simp only: failed_start_now)
  qed
qed simp

lemma daemon_serve_result:
  assumes "run_state (daemon_serve orc c V m) s = (r, s')"
  shows "case r of None \<Rightarrow> suffix (last_calls c) (w_trace (mg_world s')) | Some e \<Rightarrow> failed_start (Workloads c) e"
proof -
  obtain a s1 where a: "run_state (manager_Start c V) s = (a, s1)" by (cases "run_state (manager_Start c V) s")
  show ?thesis
  proof (cases a)
    case None
    obtain e2 s2 where e2: "run_state (ext (serve_setup orc (Some (cfg_Daemon c)) (dc_Socket (cfg_Daemon c)))) s1 = (e2, s2)"
      by (cases "run_state (ext (serve_setup orc (Some (cfg_Daemon c)) (dc_Socket (cfg_Daemon c)))) s1")
    obtain u s3 where "run_state (if_err e2 (\<lambda>_. ret ()) m) s2 = (u, s3)" by (cases "run_state (if_err e2 (\<lambda>_. ret ()) m) s2")
    with assms a None e2 have "r = None" "s' = snd (run_state (daemon_end orc c V) s3)"
      by (auto simp: daemon_serve_def split: prod.splits)
    with daemon_end_last [of c orc V] show ?thesis by (simp add: ends_with_def)
  next
    case (Some e)
    with assms a have "r = Some e" by (simp add: daemon_serve_def)
    with a Some start_pools_error show ?thesis by (auto simp: manager_Start_def)
  qed
qed

text \<open>
  C29: How \<^verbatim>\<open>main\<close> ends. A configuration that cannot be read, decoded or validated stops it with that
  error when the read of the file (no call at all for an empty path) is all it has done: no PID file, cgroup,
  bridge or sandbox has been touched. With a valid configuration the only error is that of a configured
  workload whose pool did not start, and otherwise, whatever the handlers and goroutines did while it
  served and also when the socket could not be opened, its last calls are the removal of the socket
  and of the PID file if one is configured.
\<close>

theorem daemon_main_exit:
  "case (run_state (read_config orc path) w, run_state (daemon_main orc PATH path pid serving) w) of ((doc, w1), (r, w')) \<Rightarrow>
     (case accepted path doc of
        Inl e \<Rightarrow> r = Some e \<and> w' = w\<lparr>w_trace := w_trace w @ (if path = '''' then [] else [Fs (ReadFile path)])\<rparr>
      | Inr c \<Rightarrow>
          (case r of
             None \<Rightarrow> suffix (last_calls c) (w_trace w')
           | Some e \<Rightarrow> failed_start (Workloads c) e))"
proof -
  obtain doc w1 where f: "run_state (read_config orc path) w = (doc, w1)" by (cases "run_state (read_config orc path) w")
  show ?thesis
  proof (cases "accepted path doc")
    case (Inl e)
    with daemon_setup_accepted(1) [OF f] read_config_trace [OF f] f show ?thesis by (simp add: daemon_main_def)
  next
    case (Inr c)
    from daemon_setup_accepted(2) [OF f Inr] obtain V w2 where
      "run_state (daemon_setup orc PATH path pid) w = (Inr (c, V), w2)" by blast
    moreover obtain r s where r: "run_state (daemon_serve orc c V (serving c V)) (NewManager w2) = (r, s)"
      by (cases "run_state (daemon_serve orc c V (serving c V)) (NewManager w2)")
    ultimately show ?thesis using f Inr daemon_serve_result [OF r] by (simp add: daemon_main_def)
  qed
qed

end
