(* ===== verification/Command.thy ===== *)
theory Command
  imports Daemon
begin

text \<open>
  The command line of \<^verbatim>\<open>gvisord\<close> (\<^verbatim>\<open>main\<close> of \<^verbatim>\<open>cmd/gvisord/main.go\<close>): the subcommands of the client, else the
  two flags of the daemon as \<^verbatim>\<open>flag.Parse\<close> reads them.
\<close>

section \<open>Flags\<close>

record daemon_flags =
  fl_config :: string
  fl_logLevel :: string

text \<open>What \<^verbatim>\<open>flag.Parse\<close> comes to: the flags, or the exit with status 0 after a request for help and 2 after an error.\<close>

datatype parsed = Flags daemon_flags | Exits nat

definition default_flags :: daemon_flags where
  "default_flags = \<lparr>fl_config = '''', fl_logLevel = ''info''\<rparr>"

definition set_flag :: "string \<Rightarrow> string \<Rightarrow> daemon_flags \<Rightarrow> daemon_flags option" where
  "set_flag name v f =
     (if name = ''config'' then Some (f\<lparr>fl_config := v\<rparr>)
      else if name = ''log-level'' then Some (f\<lparr>fl_logLevel := v\<rparr>)
      else None)"

text \<open>The name of a flag and what follows an equals sign; a sign at the front is a syntax error before.\<close>

definition split_flag :: "string \<Rightarrow> string \<times> string option" where
  "split_flag s = (case index_byte s (CHR ''='') of None \<Rightarrow> (s, None) | Some i \<Rightarrow> (take i s, Some (drop (i + 1) s)))"

text \<open>The argument without one or two minus signs; \<^verbatim>\<open>--\<close> alone has ended the flags before.\<close>

definition flag_text :: "string \<Rightarrow> string" where
  "flag_text a = (if has_prefix a ''--'' then drop 2 a else drop 1 a)"

fun parse_flags :: "string list \<Rightarrow> daemon_flags \<Rightarrow> parsed" where
  "parse_flags [] f = Flags f"
| "parse_flags (a # as) f =
     (if length a < 2 \<or> \<not> has_prefix a ''-'' \<or> a = ''--'' then Flags f
      else if flag_text a = '''' \<or> hd (flag_text a) \<in> {CHR ''-'', CHR ''=''} then Exits 2
      else
        (case split_flag (flag_text a) of
           (name, v) \<Rightarrow>
             if set_flag name '''' f = None then Exits (if name \<in> {''help'', ''h''} then 0 else 2)
             else
               (case v of
                  Some x \<Rightarrow> parse_flags as (the (set_flag name x f))
                | None \<Rightarrow> (case as of [] \<Rightarrow> Exits 2 | x # as' \<Rightarrow> parse_flags as' (the (set_flag name x f))))))"

datatype level = LevelDebug | LevelInfo | LevelWarn | LevelError

definition log_level :: "string \<Rightarrow> level" where
  "log_level s =
     (if s = ''debug'' then LevelDebug else if s = ''warn'' then LevelWarn else if s = ''error'' then LevelError else LevelInfo)"

section \<open>What to run\<close>

text \<open>The client with its method, socket and arguments; the daemon with its configuration and level; or an exit.\<close>

datatype command =
    AsClient string string "string list"
  | AsDaemon string level
  | AsExit nat

text \<open>\<open>args\<close> are all arguments, the name of the program first; \<open>env\<close> is \<^verbatim>\<open>GVISORD_SOCKET\<close>.\<close>

definition command_of :: "string \<Rightarrow> string list \<Rightarrow> command" where
  "command_of env args =
     (case client_method args of
        Some m \<Rightarrow> AsClient m (client_socket env) (drop 2 args)
      | None \<Rightarrow>
          (case parse_flags (drop 1 args) default_flags of
             Exits n \<Rightarrow> AsExit n
           | Flags f \<Rightarrow> AsDaemon (fl_config f) (log_level (fl_logLevel f))))"

section \<open>Facts\<close>

lemma flag_chars: "CHR ''='' \<notin> set ''config''" "CHR ''='' \<notin> set ''log-level''"
  by simp_all

lemma config_flag:
  "command_of env [p, ''-config'', path] = AsDaemon path LevelInfo"
  "command_of env [p, ''--config='' @ path] = AsDaemon path LevelInfo"
  using index_byte_append [OF flag_chars(1), of path]
  by (simp_all add: command_of_def client_method_def split_flag_def flag_text_def has_prefix_def set_flag_def default_flags_def log_level_def)

text \<open>A word that is no subcommand starts the daemon without a configuration.\<close>

lemma unknown_word:
  assumes "client_method (p # m # args) = None" and "\<not> has_prefix m ''-''"
  shows "command_of env (p # m # args) = AsDaemon '''' LevelInfo"
  using assms by (simp add: command_of_def default_flags_def log_level_def)

end
