(* ===== verification/Harness_Life.thy ===== *)
theory Harness_Life
  imports Harness Transition
begin

text \<open>
  The life of the harness's process: \<^verbatim>\<open>main\<close> of \<^verbatim>\<open>cmd/gvisord-exec/main.go\<close>, its signal goroutine, the
  connections of its server and the goroutines that \<^verbatim>\<open>handleRun\<close> starts to end the process. A connection
  carries one request; what \<^verbatim>\<open>execute\<close> does to the machine is in \<open>Harness\<close>, and is one step here. Sleeps and
  deadlines have no length: the steps after them may come at any time.
\<close>

section \<open>The machine\<close>

text \<open>\<^verbatim>\<open>main\<close>: before the listener is open, in the accept loop of \<^verbatim>\<open>ListenAndServe\<close>.\<close>

datatype main_point = Opens | Serves

text \<open>
  The signal goroutine: at \<^verbatim>\<open><-ctx.Done()\<close>; in \<^verbatim>\<open>Shutdown\<close>, which marks the server, then closes the
  listener, then waits until no connection is active or two seconds are over; after it.
\<close>

datatype grace_point = AwaitsSignal | ClosesListener | AwaitsIdle | ShutdownReturned

text \<open>
  A connection: before and in \<^verbatim>\<open>execute\<close>, then with the rest of its response to be sent, and closed, each
  with whether it executed its request.
\<close>

datatype conn = Reads | Executes | Flushes bool | Closed bool

record life =
  lf_signalled :: bool
  lf_shutting :: bool
  lf_listener :: "bool option"
  lf_main :: main_point
  lf_grace :: grace_point
  lf_conns :: "conn list"
  lf_sleepers :: nat
  lf_exit :: "nat option"

definition harness_start :: life where
  "harness_start = \<lparr>lf_signalled = False, lf_shutting = False, lf_listener = None, lf_main = Opens, lf_grace = AwaitsSignal,
     lf_conns = [], lf_sleepers = 0, lf_exit = None\<rparr>"

text \<open>
  \<^verbatim>\<open>ListenAndServe\<close> with the exit of \<^verbatim>\<open>main\<close> after it. The input is whether the listener could be opened, and
  whether \<^verbatim>\<open>Accept\<close> has a connection or fails; on a closed listener it fails. It answers
  \<^verbatim>\<open>http.ErrServerClosed\<close> once the server is shutting down.
\<close>

fun main_step :: "bool \<Rightarrow> main_point \<Rightarrow> life \<Rightarrow> life option" where
  "main_step b Opens h =
     (if lf_shutting h then Some (h\<lparr>lf_exit := Some 0\<rparr>)
      else if b then Some (h\<lparr>lf_main := Serves, lf_listener := Some True\<rparr>)
      else Some (h\<lparr>lf_exit := Some 1\<rparr>))"
| "main_step b Serves h =
     (if \<not> b then Some (h\<lparr>lf_exit := Some (if lf_shutting h then 0 else 1)\<rparr>)
      else if lf_listener h = Some True then Some (h\<lparr>lf_conns := lf_conns h @ [Reads]\<rparr>)
      else None)"

definition idle :: "conn \<Rightarrow> bool" where
  "idle c = (case c of Closed _ \<Rightarrow> True | _ \<Rightarrow> False)"

fun grace_step :: "bool \<Rightarrow> grace_point \<Rightarrow> life \<Rightarrow> life option" where
  "grace_step b AwaitsSignal h =
     (if lf_signalled h then Some (h\<lparr>lf_shutting := True, lf_grace := ClosesListener\<rparr>) else None)"
| "grace_step b ClosesListener h =
     Some (h\<lparr>lf_listener := map_option (\<lambda>_. False) (lf_listener h), lf_grace := AwaitsIdle\<rparr>)"
| "grace_step b AwaitsIdle h =
     (if b \<or> list_all idle (lf_conns h) then Some (h\<lparr>lf_grace := ShutdownReturned\<rparr>) else None)"
| "grace_step b ShutdownReturned h = None"

text \<open>
  The handler of a connection. The input is whether it gets as far as \<^verbatim>\<open>execute\<close>, as the last component of
  \<open>handleRun\<close> says; after an executed request it starts the goroutine that ends the process.
\<close>

fun conn_step :: "bool \<Rightarrow> conn \<Rightarrow> (conn \<times> nat) option" where
  "conn_step b Reads = Some (if b then Executes else Flushes False, 0)"
| "conn_step b Executes = Some (Flushes True, 1)"
| "conn_step b (Flushes did) = Some (Closed did, 0)"
| "conn_step b (Closed did) = None"

lemma executes_iff_ok:
  "case run_state (handleRun orc proc show environ cache method body) w of ((status, resp, exits), w') \<Rightarrow> exits \<longleftrightarrow> status = 200"
  by (auto simp: handleRun_def split: sum.splits prod.splits)

datatype life_action = Signal | Main bool | Grace bool | Handle nat bool | Awake

text \<open>A process that has exited does nothing any more.\<close>

definition life_step :: "life_action \<Rightarrow> life \<Rightarrow> life option" where
  "life_step a h =
     (if lf_exit h \<noteq> None then None
      else (case a of
        Signal \<Rightarrow> Some (h\<lparr>lf_signalled := True\<rparr>)
      | Main b \<Rightarrow> main_step b (lf_main h) h
      | Grace b \<Rightarrow> grace_step b (lf_grace h) h
      | Handle n b \<Rightarrow>
          if n < length (lf_conns h) then
            map_option (\<lambda>(c, k). h\<lparr>lf_conns := (lf_conns h)[n := c], lf_sleepers := lf_sleepers h + k\<rparr>)
              (conn_step b (lf_conns h ! n))
          else None
      | Awake \<Rightarrow> if 0 < lf_sleepers h then Some (h\<lparr>lf_exit := Some 0\<rparr>) else None))"

section \<open>The invariant\<close>

fun answered :: "conn \<Rightarrow> bool" where
  "answered (Flushes did) = did"
| "answered (Closed did) = did"
| "answered _ = False"

definition life_inv :: "life \<Rightarrow> bool" where
  "life_inv h \<longleftrightarrow>
     (lf_shutting h \<longrightarrow> lf_signalled h) \<and> (lf_grace h = AwaitsSignal \<longleftrightarrow> \<not> lf_shutting h) \<and>
     (lf_listener h = Some False \<longrightarrow> lf_shutting h) \<and>
     (lf_main h = Opens \<longleftrightarrow> lf_listener h = None) \<and>
     (lf_grace h \<in> {AwaitsIdle, ShutdownReturned} \<longrightarrow> lf_listener h \<noteq> Some True) \<and>
     lf_sleepers h = count_if answered (lf_conns h) \<and>
     (\<forall>n. lf_exit h = Some n \<longrightarrow> n = 0 \<and> (lf_shutting h \<or> 0 < lf_sleepers h) \<or> n = 1 \<and> \<not> lf_shutting h)"

lemma conn_step_answered:
  "conn_step b c = Some (c', k) \<Longrightarrow> (answered c \<longrightarrow> answered c') \<and> k = (if answered c' \<and> \<not> answered c then 1 else 0)"
  by (cases c) (auto split: if_splits)

lemma main_step_keeps: "main_step b (lf_main h) h = Some h' \<Longrightarrow> life_inv h \<Longrightarrow> lf_exit h = None \<Longrightarrow> life_inv h'"
  by (cases "lf_main h") (auto simp: life_inv_def split: if_splits)

lemma grace_step_keeps: "grace_step b (lf_grace h) h = Some h' \<Longrightarrow> life_inv h \<Longrightarrow> lf_exit h = None \<Longrightarrow> life_inv h'"
  by (cases "lf_grace h") (auto simp: life_inv_def split: if_splits)

lemma handle_keeps:
  assumes "n < length (lf_conns h)" and "conn_step b (lf_conns h ! n) = Some (c, k)" and "life_inv h" and "lf_exit h = None"
  shows "life_inv (h\<lparr>lf_conns := (lf_conns h)[n := c], lf_sleepers := lf_sleepers h + k\<rparr>)"
proof -
  from conn_step_answered [OF assms(2)] count_if_update [OF assms(1), of answered c]
  have "count_if answered ((lf_conns h)[n := c]) = count_if answered (lf_conns h) + k"
    by (simp split: if_splits)
  with assms(3,4) show ?thesis by (simp add: life_inv_def)
qed

lemma life_step_live:
  assumes "lf_exit h = None"
  shows "life_step Signal h = Some (h\<lparr>lf_signalled := True\<rparr>)" "life_step (Main b) h = main_step b (lf_main h) h"
    "life_step (Grace b) h = grace_step b (lf_grace h) h"
    "life_step Awake h = (if 0 < lf_sleepers h then Some (h\<lparr>lf_exit := Some 0\<rparr>) else None)"
  using assms by (simp_all add: life_step_def)

lemma life_keeps:
  assumes "life_step a h = Some h'" and inv: "life_inv h"
  shows "life_inv h'"
proof -
  from assms(1) have live: "lf_exit h = None" by (metis life_step_def option.distinct(1))
  note step = life_step_live [OF live]
  show ?thesis
  proof (cases a)
    case Signal
    with assms(1) have "h' = h\<lparr>lf_signalled := True\<rparr>" by (simp add: step)
    with inv live show ?thesis by (simp add: life_inv_def)
  next
    case (Main b)
    with assms(1) have "main_step b (lf_main h) h = Some h'" by (simp add: step)
    then show ?thesis using inv live by (rule main_step_keeps)
  next
    case (Grace b)
    with assms(1) have "grace_step b (lf_grace h) h = Some h'" by (simp add: step)
    then show ?thesis using inv live by (rule grace_step_keeps)
  next
    case (Handle n b)
    with assms(1) live obtain c k where "n < length (lf_conns h)" "conn_step b (lf_conns h ! n) = Some (c, k)"
      "h' = h\<lparr>lf_conns := (lf_conns h)[n := c], lf_sleepers := lf_sleepers h + k\<rparr>"
      by (cases "n < length (lf_conns h)") (auto simp: life_step_def)
    with handle_keeps inv live show ?thesis by blast
  next
    case Awake
    with assms(1) have "h' = h\<lparr>lf_exit := Some 0\<rparr>" "0 < lf_sleepers h" by (simp_all add: step split: if_splits)
    with inv live show ?thesis by (simp add: life_inv_def)
  qed
qed

lemma life_start: "h = harness_start \<Longrightarrow> life_inv h"
  by (simp add: harness_start_def life_inv_def)

interpretation harness_life: invariant_system "\<lambda>h. h = harness_start" life_step life_inv
  by unfold_locales (fact life_start life_keeps)+

section \<open>Single use, and no grace\<close>

text \<open>
  C23: The harness serves one run and does not wait for it. Its process exits with status 0 only after a
  signal or an executed request, with status 1 only when the listener failed and no shutdown had begun. From
  the first executed request on the goroutine that ends the process is there, so it is not used twice.
  But when a signal has made \<^verbatim>\<open>Shutdown\<close> close the listener, \<^verbatim>\<open>main\<close> returns in its next step, whatever
  requests are being executed and although the two seconds of \<^verbatim>\<open>Shutdown\<close> are not over.
\<close>

theorem harness_lives_for_one_run:
  assumes "reach (\<lambda>h. h = harness_start) life_step h"
  shows "(\<forall>n. lf_exit h = Some n \<longrightarrow>
        n = 0 \<and> (lf_signalled h \<or> (\<exists>c \<in> set (lf_conns h). answered c)) \<or> n = 1 \<and> \<not> lf_shutting h) \<and>
    (lf_exit h = None \<and> (\<exists>c \<in> set (lf_conns h). answered c) \<longrightarrow> life_step Awake h = Some (h\<lparr>lf_exit := Some 0\<rparr>)) \<and>
    (lf_exit h = None \<and> lf_listener h = Some False \<longrightarrow>
        life_step (Main True) h = None \<and> life_step (Main False) h = Some (h\<lparr>lf_exit := Some 0\<rparr>))"
proof -
  from assms have "life_inv h" by (rule harness_life.holds)
  moreover have "0 < count_if answered cs \<longleftrightarrow> (\<exists>c \<in> set cs. answered c)" for cs
    by (auto simp: count_if_def filter_empty_conv)
  ultimately show ?thesis
    by (cases "lf_main h") (auto simp: life_inv_def life_step_def)
qed

text \<open>A signal while a request is executed.\<close>

definition signalled_run :: life where
  "signalled_run = the (run_all life_step [Main True, Main True, Handle 0 True, Signal, Grace False, Grace False] harness_start)"

theorem harness_lives_for_one_run_witness:
  "lf_conns signalled_run = [Executes] \<and> lf_grace signalled_run = AwaitsIdle \<and>
     life_step (Main False) signalled_run = Some (signalled_run\<lparr>lf_exit := Some 0\<rparr>)"
proof -
  have "run_all life_step [Main True, Main True, Handle 0 True, Signal, Grace False, Grace False] harness_start \<noteq> None" by code_simp
  then have "run_all life_step [Main True, Main True, Handle 0 True, Signal, Grace False, Grace False] harness_start = Some signalled_run"
    unfolding signalled_run_def by (rule option.collapse [symmetric])
  with reach.init [of "\<lambda>h. h = harness_start" harness_start] have "reach (\<lambda>h. h = harness_start) life_step signalled_run"
    by (rule reach_run) simp
  from harness_lives_for_one_run [OF this]
  have "lf_exit signalled_run = None \<and> lf_listener signalled_run = Some False \<longrightarrow>
      life_step (Main False) signalled_run = Some (signalled_run\<lparr>lf_exit := Some 0\<rparr>)" by blast
  moreover have "lf_exit signalled_run = None" "lf_listener signalled_run = Some False" "lf_conns signalled_run = [Executes]"
    "lf_grace signalled_run = AwaitsIdle" by code_simp+
  ultimately show ?thesis by blast
qed

end
