(* ===== verification/Spec2Isabelle.thy ===== *)
theory Spec2Isabelle
  imports Pool_Properties Config_Properties Ops_Properties Network_Properties Bundle_Properties Cgroup_Properties
    Runsc_Race Harness_Properties Api_Server Load_Properties Shutdown_Properties Recycle_Properties Output_Pipes
    Lease_Timers Api_Wire Daemon_Properties Command Harness_Life
begin

text \<open>
  A verification library for gvisord, a daemon that keeps pools of pre-started gVisor sandboxes
  (sentries) and lends them to clients for one execution each.

  \<^bold>\<open>The program.\<close> \<^verbatim>\<open>cmd/gvisord\<close> reads a configuration (\<^verbatim>\<open>internal/config\<close>) and builds the
  services: a client of the runsc binary and the preparation of bundles (\<^verbatim>\<open>internal/runsc\<close>), network
  namespaces by CNI plugins (\<^verbatim>\<open>internal/cni\<close>) and cgroup slices (\<^verbatim>\<open>internal/cgroup\<close>). The manager of
  \<^verbatim>\<open>internal/pool\<close> keeps one pool per workload and a table of leases; \<^verbatim>\<open>internal/api\<close> answers its
  requests on a socket, and \<^verbatim>\<open>cmd/gvisord-exec\<close> is the harness that runs scripts inside a sandbox.
  A sentry goes from ready to running (\<^verbatim>\<open>acquire\<close>), is held by a lease, becomes draining when the
  lease is completed, and is recycled: reset and restored, or replaced by a new one.

  \<^bold>\<open>Theories.\<close>
  \<^item> \<open>Go_Prelude\<close>, \<open>Go_Path\<close>, \<open>Go_Quote\<close>, \<open>Json\<close>, \<open>Duration\<close>: what the code uses of Go's library: errors
    and wrapping, 64-bit arithmetic, \<^verbatim>\<open>path/filepath\<close>, \<^verbatim>\<open>strconv.Quote\<close>, \<^verbatim>\<open>encoding/json\<close>,
    \<^verbatim>\<open>time.ParseDuration\<close>. \<open>Frames\<close>: what a program in the state monad leaves alone.
  \<^item> \<open>Config\<close>, \<open>Config_Load\<close>, \<open>Config_Properties\<close>, \<open>Load_Properties\<close>: \<^verbatim>\<open>config.go\<close> (C11 to C13, C32).
  \<^item> \<open>Sentry\<close>: \<^verbatim>\<open>sentry.go\<close>, \<^verbatim>\<open>sentry_linux.go\<close>. \<open>Pool_Memory\<close>: the struct \<^verbatim>\<open>Pool\<close> and each critical
    section of \<^verbatim>\<open>pool.go\<close> as a function on it. \<open>Lease_Table\<close>: the contract of the lease map.
  \<^item> \<open>Transition\<close>, \<open>Pool_Machine\<close>: the goroutines of a pool as program points and their
    interleavings; \<open>Pool_Owner\<close>, \<open>Pool_Wait\<close>, \<open>Pool_Lease\<close>, \<open>Pool_Closing\<close> hold the invariants,
    \<open>Pool_Scenarios\<close> concrete runs, \<open>Pool_Properties\<close> the theorems (C1 to C10). \<open>Lease_Timers\<close> adds the
    timers of leases (C24).
  \<^item> \<open>Runtime\<close>, \<open>Pool_Ops\<close>, \<open>Manager\<close>, \<open>Manager_Run\<close>: the same operations, and those of \<^verbatim>\<open>Manager\<close>, with
    all their calls in the order of the source, for any runtime, network and cgroup manager.
    \<open>Pool_Refine\<close>, \<open>Start_Refine\<close>: they refine the machine. \<open>Ops_Properties\<close>,
    \<open>Recycle_Properties\<close>, \<open>Shutdown_Properties\<close>: C14 to C18, C39, C38; \<open>Demo_Services\<close>: examples.
  \<^item> \<open>Host\<close>, \<open>Host_Frame\<close>: the machine underneath, a file system and a trace of calls whose answers
    are an oracle; \<open>Runsc\<close>, \<open>Cgroup\<close>, \<open>Cni\<close>, \<open>Api\<close>, \<open>Harness\<close>, \<open>Daemon\<close>: the files \<^verbatim>\<open>runsc.go\<close>,
    \<^verbatim>\<open>cgroup.go\<close>, \<^verbatim>\<open>cni.go\<close>, \<^verbatim>\<open>server.go\<close>, \<^verbatim>\<open>gvisord-exec/main.go\<close>, \<^verbatim>\<open>gvisord/main.go\<close> with
    \<^verbatim>\<open>client.go\<close>. \<open>Daemon\<close> gives the services of \<open>Runtime\<close> their implementations.
  \<^item> \<open>Network_Properties\<close>, \<open>Bundle_Properties\<close>, \<open>Cgroup_Properties\<close>, \<open>Harness_Properties\<close>: C19 to C22,
    C28, C30, C31 and C34 to C37. \<open>Runsc_Race\<close>: concurrent calls of the client (C25, C26).
    \<open>Api_Server\<close>: the goroutines of the API server (C33). \<open>Output_Pipes\<close>: the harness and the pipes
    of its process (C40); \<open>Harness_Life\<close>: the life of the harness's own process (C23).
  \<^item> \<open>Api_Wire\<close>: the responses as JSON, and a call of the command-line client from its arguments to its
    output (C27). \<open>Command\<close>: subcommands and flags. \<open>Daemon_Properties\<close>: how \<^verbatim>\<open>main\<close> ends (C29).

  \<^bold>\<open>State.\<close> A pool is the record \<open>pool\<close>: its members are references into a heap of sentries, since
  several goroutines keep pointers to one; the condition variable is a queue of sleeping and a
  list of woken goroutines; atomic counters and the wait group are numbers. The state of the
  manager, \<open>mgr\<close>, has the pools by workload, the leases, the recycles that have been started, and
  the world. Operations are values of the state monad; errors are values of \<open>goerr\<close>; a caller that
  has to wait has no result yet (\<open>None\<close>).

  \<^bold>\<open>What is shown.\<close> Under every interleaving: exclusive use of sentries, agreement of leases and
  sentries, no lost wake-up, exact counters, a clean close and unique identities, and two runs in
  which refilling misbehaves (C1 to C10); a lease has its timer unless it fired too early (C24).
  Validation, workloads, the checkpoint allowlist and what a configuration file leaves out are
  characterised (C11 to C13, C32). The operations refine the machine, start it, return what they took
  and refuse when full (C14 to C18); network namespaces and bundles are changed as documented, with a
  leak on one error path (C19 to C22); concurrent client calls are independent only without
  \<^verbatim>\<open>--warm-sentry\<close> (C25, C26); what the command line prints is what the manager answered (C27); the
  protocol between manager and harness is a round trip up to its limits (C28, C30, C31, C34), and the
  harness ends after one run, or in the middle of it at a signal (C23); \<^verbatim>\<open>main\<close> touches nothing on a bad
  configuration and cleans up at its end (C29); \<^verbatim>\<open>Stop\<close> waits for all handlers but one (C33); cgroups and
  names (C35 to C37), shutdown, recycling and the reading of output (C38 to C40).

  \<^bold>\<open>Bounds.\<close> Durations are 64-bit and wrap (\<open>i64\<close>) where a multiplication or an addition can
  exceed them; the other numbers of the code stay far below their width. No definition uses fuel: loops are recursion over lists, and
  \<open>refill_loop\<close> recurses on the number of missing sentries the code computes before the loop.

  \<^bold>\<open>Idealisations.\<close> A JSON document is its value; its length and text, where a limit on reading is at
  stake, are those of the compact encoding with Go's escaping. \<^verbatim>\<open>io.LimitReader\<close> cuts that text. A
  panic is an error value. Seeking in a regular file does not fail. The clock, the random lease
  IDs, exits and outputs of processes, and the contents of \<^verbatim>\<open>/proc\<close> are answers of the outside.
  Averages keep their exact quotient. The entries of a directory come in the order of the file system.
  The working directory is asked once for each execution, also without an override. Timers, sleeps and
  deadlines have no length in the machines. A connection carries one request, and lease IDs are new
  each time where the timers are counted. \<open>daemon_end\<close> is for clients that do send their requests:
  \<^verbatim>\<open>Stop\<close> waits for every open connection.

  \<^bold>\<open>Not modelled.\<close> Logging and the indentation of the client's output; the bytes on the sockets and of
  HTTP below requests and responses; the signals of the daemon's \<^verbatim>\<open>main\<close>, except that they end its waiting;
  \<^verbatim>\<open>NewManagerForTest\<close> and \<^verbatim>\<open>RegisterPool\<close>, which only tests call. The runsc binary, the CNI plugins and
  the \<^verbatim>\<open>ip\<close> command are outside of the repository: they are arguments.
\<close>

end
